(* ===== verification/Prelude.thy ===== *)
theory Prelude
  imports Main "HOL-Library.Word"
begin

text \<open>
  Shared vocabulary of the development: the machine types of the receiver, bounded queues
  (\<open>push\<close> followed by \<open>while len > cap { pop }\<close>, which the program uses for events, samples,
  histories, journals and the console ring), big-endian fields, saturating arithmetic, and two
  interfaces: a bounded log and a state machine with an invariant.
\<close>

section \<open>Machine types and named collections\<close>

named_theorems queue_simps "bounded queues"
named_theorems be_simps "big-endian fields"

type_synonym byte = "8 word"
type_synonym u16 = "16 word"
type_synonym u32 = "32 word"
type_synonym u64 = "64 word"

text \<open>
  \<open>std::time::Instant\<close> and \<open>Duration\<close> are counts of nanoseconds.  An instant is measured
  from an arbitrary origin; \<open>a.duration_since(b)\<close> saturates at zero, as \<open>nat\<close> subtraction does.
\<close>

type_synonym instant = nat
type_synonym duration = nat

definition from_secs :: "nat \<Rightarrow> duration" where
  "from_secs s = s * 1000000000"

definition from_millis :: "nat \<Rightarrow> duration" where
  "from_millis ms = ms * 1000000"

text \<open>\<open>Result\<close> is a sum with the error on the left.\<close>

definition is_ok :: "'e + 'a \<Rightarrow> bool" where
  "is_ok r = (case r of Inl _ \<Rightarrow> False | Inr _ \<Rightarrow> True)"

lemma is_ok_simps [simp]: "is_ok (Inr x)" "\<not> is_ok (Inl e)"
  by (simp_all add: is_ok_def)

lemma is_ok_iff: "is_ok r \<longleftrightarrow> (\<exists>x. r = Inr x)"
  by (cases r) simp_all

text \<open>Unsigned 64-bit saturating arithmetic over \<open>nat\<close> values below \<open>2 ^ 64\<close>.\<close>

definition u64_max :: nat where
  "u64_max = 2 ^ 64 - 1"

definition saturating_add_u64 :: "nat \<Rightarrow> nat \<Rightarrow> nat" where
  "saturating_add_u64 a b = min (a + b) u64_max"

definition u32_max :: nat where
  "u32_max = 2 ^ 32 - 1"

definition saturating_add_u32 :: "nat \<Rightarrow> nat \<Rightarrow> nat" where
  "saturating_add_u32 a b = min (a + b) u32_max"

lemma saturating_add_u64_le: "saturating_add_u64 a b \<le> a + b"
  by (simp add: saturating_add_u64_def)

section \<open>Bounded queues\<close>

text \<open>\<open>while queue.len() > cap { queue.pop_front(); }\<close>\<close>

fun pop_front_over :: "nat \<Rightarrow> 'a list \<Rightarrow> 'a list" where
  "pop_front_over cap [] = []"
| "pop_front_over cap (x # xs) = (if length (x # xs) > cap then pop_front_over cap xs else x # xs)"

lemma pop_front_over_drop [queue_simps]: "pop_front_over cap xs = drop (length xs - cap) xs"
proof (induction xs)
  case (Cons x xs)
  then show ?case by (cases "length xs < cap") (auto simp: Suc_diff_le)
qed simp

lemma length_pop_front_over: "length (pop_front_over cap xs) = min cap (length xs)"
  by (simp add: pop_front_over_drop min_def)

lemma pop_front_over_id: "length xs \<le> cap \<Longrightarrow> pop_front_over cap xs = xs"
  by (simp add: pop_front_over_drop)

lemma pop_front_over_suffix: "\<exists>ys. xs = ys @ pop_front_over cap xs"
  by (rule exI [of _ "take (length xs - cap) xs"]) (simp add: pop_front_over_drop)

lemma set_pop_front_over: "set (pop_front_over cap xs) \<subseteq> set xs"
  by (simp add: pop_front_over_drop set_drop_subset)

text \<open>\<open>queue.push_back(x); while queue.len() > cap { queue.pop_front(); }\<close>\<close>

definition push_bounded :: "nat \<Rightarrow> 'a \<Rightarrow> 'a list \<Rightarrow> 'a list" where
  "push_bounded cap x xs = pop_front_over cap (xs @ [x])"

text \<open>\<open>queue.push_front(x); while queue.len() > cap { queue.pop_back(); }\<close>\<close>

definition push_front_bounded :: "nat \<Rightarrow> 'a \<Rightarrow> 'a list \<Rightarrow> 'a list" where
  "push_front_bounded cap x xs = rev (pop_front_over cap (rev (x # xs)))"

text \<open>\<open>while queue.front().is_some_and(p) { queue.pop_front(); }\<close> is \<open>dropWhile p\<close>.\<close>

lemma length_push_bounded: "length (push_bounded cap x xs) = min cap (Suc (length xs))"
  by (simp add: push_bounded_def length_pop_front_over)

lemma push_bounded_fits: "length xs < cap \<Longrightarrow> push_bounded cap x xs = xs @ [x]"
  by (simp add: push_bounded_def pop_front_over_id)

lemma drop_over_drop:
  "d \<le> length xs - cap \<Longrightarrow> drop (length (drop d xs) - cap) (drop d xs) = drop (length xs - cap) xs"
  by (auto intro!: arg_cong [where f = "\<lambda>n. drop n xs"])

section \<open>Interface: a bounded log\<close>

text \<open>
  Every ring of the program is one of these: the provider promises that recording an entry
  appends it and evicts from the old end down to the capacity.
\<close>

locale bounded_log =
  fixes record_entry :: "'a \<Rightarrow> 's \<Rightarrow> 's"
    and entries :: "'s \<Rightarrow> 'a list"
    and cap :: nat
  assumes record_entries: "entries (record_entry x s) = pop_front_over cap (entries s @ [x])"
begin

lemma bounded: "length (entries (record_entry x s)) \<le> cap"
  by (simp add: record_entries length_pop_front_over)

lemma newest_kept: "0 < cap \<Longrightarrow> last (entries (record_entry x s)) = x"
  by (simp add: record_entries pop_front_over_drop)

lemma no_eviction_below_cap:
  "length (entries s) < cap \<Longrightarrow> entries (record_entry x s) = entries s @ [x]"
  by (simp add: record_entries pop_front_over_id)

text \<open>After any sequence of recordings the log is the newest \<open>cap\<close> entries, in order.\<close>

lemma run_entries:
  "length (entries s) \<le> cap \<Longrightarrow>
   entries (fold record_entry xs s) = drop (length (entries s @ xs) - cap) (entries s @ xs)"
proof (induction xs arbitrary: s)
  case (Cons x xs)
  let ?s = "record_entry x s"
  let ?d = "Suc (length (entries s)) - cap"
  have e: "entries ?s = drop ?d (entries s @ [x])"
    by (simp add: record_entries pop_front_over_drop)
  have "entries (fold record_entry xs ?s) =
      drop (length (entries ?s @ xs) - cap) (entries ?s @ xs)"
    by (rule Cons.IH) (rule bounded)
  also have "entries ?s @ xs = drop ?d (entries s @ x # xs)"
    using Cons.prems by (cases cap) (simp_all add: e)
  also have "drop (length (drop ?d (entries s @ x # xs)) - cap) (drop ?d (entries s @ x # xs)) =
      drop (length (entries s @ x # xs) - cap) (entries s @ x # xs)"
    by (rule drop_over_drop) simp
  finally show ?case
    by simp
qed simp

lemma run_bounded: "length (entries s) \<le> cap \<Longrightarrow> length (entries (fold record_entry xs s)) \<le> cap"
  by (simp add: run_entries)

end

section \<open>Interface: a state machine with an invariant\<close>

text \<open>\<open>admissible\<close> says what is relied on of an event (a drawn index is in range, a clock does not run
  backwards, ...).\<close>

locale invariant_machine =
  fixes step :: "'e \<Rightarrow> 's \<Rightarrow> 's"
    and inv :: "'s \<Rightarrow> bool"
    and admissible :: "'e \<Rightarrow> bool"
  assumes step_inv: "inv s \<Longrightarrow> admissible e \<Longrightarrow> inv (step e s)"
begin

lemma run_inv: "inv s \<Longrightarrow> list_all admissible es \<Longrightarrow> inv (fold step es s)"
  by (induction es arbitrary: s) (simp_all add: step_inv)

lemma run_step_inv: "inv s \<Longrightarrow> list_all admissible es \<Longrightarrow> admissible e \<Longrightarrow> inv (step e (fold step es s))"
  by (intro step_inv run_inv)

end

text \<open>A machine whose every step is a sequence of steps of a smaller one.\<close>

locale refined_machine = invariant_machine +
  fixes view :: "'s \<Rightarrow> 'a"
    and small :: "'a \<Rightarrow> 'a \<Rightarrow> bool"
  assumes simulates: "inv s \<Longrightarrow> admissible e \<Longrightarrow> small\<^sup>*\<^sup>* (view s) (view (step e s))"
begin

lemma run_simulates: "inv s \<Longrightarrow> list_all admissible es \<Longrightarrow> small\<^sup>*\<^sup>* (view s) (view (fold step es s))"
proof (induction es arbitrary: s)
  case (Cons e es)
  then have "small\<^sup>*\<^sup>* (view (step e s)) (view (fold step es (step e s)))"
    by (simp add: step_inv)
  then show ?case
    using Cons.prems simulates by (auto intro: rtranclp_trans)
qed simp

end

section \<open>Big-endian fields\<close>

definition be_nat :: "byte list \<Rightarrow> nat" where
  "be_nat bs = foldl (\<lambda>acc b. acc * 256 + unat b) 0 bs"

definition u16_from_be_bytes :: "byte list \<Rightarrow> u16" where
  "u16_from_be_bytes bs = word_of_nat (be_nat bs)"

definition u32_from_be_bytes :: "byte list \<Rightarrow> u32" where
  "u32_from_be_bytes bs = word_of_nat (be_nat bs)"

definition u64_from_be_bytes :: "byte list \<Rightarrow> u64" where
  "u64_from_be_bytes bs = word_of_nat (be_nat bs)"

fun nat_to_be_bytes :: "nat \<Rightarrow> nat \<Rightarrow> byte list" where
  "nat_to_be_bytes 0 n = []"
| "nat_to_be_bytes (Suc k) n = nat_to_be_bytes k (n div 256) @ [word_of_nat (n mod 256)]"

definition u16_to_be_bytes :: "u16 \<Rightarrow> byte list" where
  "u16_to_be_bytes w = nat_to_be_bytes 2 (unat w)"

definition u32_to_be_bytes :: "u32 \<Rightarrow> byte list" where
  "u32_to_be_bytes w = nat_to_be_bytes 4 (unat w)"

definition u64_to_be_bytes :: "u64 \<Rightarrow> byte list" where
  "u64_to_be_bytes w = nat_to_be_bytes 8 (unat w)"

lemma be_nat_snoc [be_simps]: "be_nat (bs @ [b]) = be_nat bs * 256 + unat b"
  by (simp add: be_nat_def)

lemma length_nat_to_be_bytes [simp]: "length (nat_to_be_bytes k n) = k"
  by (induction k n rule: nat_to_be_bytes.induct) simp_all

lemma be_nat_to_be_bytes: "n < 256 ^ k \<Longrightarrow> be_nat (nat_to_be_bytes k n) = n"
proof (induction k n rule: nat_to_be_bytes.induct)
  case (1 n)
  then show ?case by (simp add: be_nat_def)
next
  case (2 k n)
  from "2.prems" have "n div 256 < 256 ^ k"
    by (simp add: less_mult_imp_div_less mult.commute)
  then show ?case by (simp add: "2.IH" be_nat_snoc unat_of_nat)
qed

lemma be_lengths [simp]:
  "length (u16_to_be_bytes a) = 2" "length (u32_to_be_bytes b) = 4" "length (u64_to_be_bytes c) = 8"
  by (simp_all add: u16_to_be_bytes_def u32_to_be_bytes_def u64_to_be_bytes_def)

lemma unat_below: "unat (w :: 'a::len word) < 2 ^ LENGTH('a)"
  by (rule unsigned_less)

lemma be_roundtrips [simp]:
  "u16_from_be_bytes (u16_to_be_bytes a) = a"
  "u32_from_be_bytes (u32_to_be_bytes b) = b"
  "u64_from_be_bytes (u64_to_be_bytes c) = c"
  using unat_below [of a] unat_below [of b] unat_below [of c]
  by (simp_all add: u16_from_be_bytes_def u16_to_be_bytes_def u32_from_be_bytes_def
      u32_to_be_bytes_def u64_from_be_bytes_def u64_to_be_bytes_def be_nat_to_be_bytes)

text \<open>\<open>packet[off..off + n]\<close>, for an offset range inside the packet.\<close>

definition slice_of :: "nat \<Rightarrow> nat \<Rightarrow> 'a list \<Rightarrow> 'a list" where
  "slice_of off n xs = take n (drop off xs)"

lemma length_slice_of: "off + n \<le> length xs \<Longrightarrow> length (slice_of off n xs) = n"
  by (simp add: slice_of_def)

lemma slice_of_append [simp]: "length xs = off \<Longrightarrow> length ys = n \<Longrightarrow> slice_of off n (xs @ ys @ zs) = ys"
  by (simp add: slice_of_def)

section \<open>Interface: a message format\<close>

text \<open>
  A writer and a reader of messages on a byte stream agree when the reader takes a written message off the
  front and takes nothing from a message that is cut short.
\<close>

locale message_format =
  fixes encode :: "'m \<Rightarrow> byte list"
    and decode :: "byte list \<Rightarrow> 'm list"
    and legal :: "'m \<Rightarrow> bool"
  assumes read_front: "legal p \<Longrightarrow> decode (encode p @ bs) = p # decode bs"
    and read_cut: "legal p \<Longrightarrow> k < length (encode p) \<Longrightarrow> decode (take k (encode p)) = []"
    and read_end: "decode [] = []"
begin

lemma read_written: "list_all legal ps \<Longrightarrow> decode (concat (map encode ps) @ bs) = ps @ decode bs"
  by (induction ps) (simp_all add: read_front)

lemma read_all: "list_all legal ps \<Longrightarrow> decode (concat (map encode ps)) = ps"
  using read_written [of ps "[]"] by (simp add: read_end)

lemma read_all_cut:
  "list_all legal ps \<Longrightarrow> legal p \<Longrightarrow> k < length (encode p) \<Longrightarrow> decode (concat (map encode ps) @ take k (encode p)) = ps"
  by (simp add: read_written read_cut)

end

section \<open>Position and removal\<close>

text \<open>\<open>iter().position(p)\<close>: the index of the first match.\<close>

fun position :: "('a \<Rightarrow> bool) \<Rightarrow> 'a list \<Rightarrow> nat option" where
  "position p [] = None"
| "position p (x # xs) = (if p x then Some 0 else map_option Suc (position p xs))"

text \<open>\<open>vec.remove(i)\<close> for an index inside the vector.\<close>

definition remove_at :: "nat \<Rightarrow> 'a list \<Rightarrow> 'a list" where
  "remove_at i xs = take i xs @ drop (Suc i) xs"

lemma position_None: "position p xs = None \<longleftrightarrow> (\<forall>x \<in> set xs. \<not> p x)"
  by (induction xs) auto

lemma position_Some:
  "position p xs = Some i \<Longrightarrow> i < length xs \<and> p (xs ! i) \<and> (\<forall>j<i. \<not> p (xs ! j))"
proof (induction xs arbitrary: i)
  case (Cons x xs)
  then show ?case by (cases i) (auto simp: less_Suc_eq_0_disj split: if_splits)
qed simp

lemma position_append_last: "\<forall>x \<in> set xs. \<not> p x \<Longrightarrow> position p (xs @ [y]) = (if p y then Some (length xs) else None)"
  by (induction xs) auto

lemma length_remove_at: "i < length xs \<Longrightarrow> length (remove_at i xs) = length xs - 1"
  by (simp add: remove_at_def)

lemma set_remove_at: "set (remove_at i xs) \<subseteq> set xs"
  by (auto simp: remove_at_def dest: in_set_takeD in_set_dropD)

lemma map_remove_at: "map f (remove_at i xs) = remove_at i (map f xs)"
  by (simp add: remove_at_def take_map drop_map)

lemma distinct_remove_at: "distinct xs \<Longrightarrow> distinct (remove_at i xs)"
proof -
  assume "distinct xs"
  then have "distinct (take i xs @ drop i xs)"
    by simp
  moreover have "drop (Suc i) xs = drop 1 (drop i xs)"
    by simp
  ultimately show ?thesis
    unfolding remove_at_def by (metis distinct_append distinct_drop disjoint_iff in_set_dropD)
qed

lemma distinct_map_remove_at: "distinct (map f xs) \<Longrightarrow> distinct (map f (remove_at i xs))"
  by (simp add: map_remove_at distinct_remove_at)

end
