(* ===== verification/Rust_Std.thy ===== *)
theory Rust_Std
  imports Prelude
begin

text \<open>
  The parts of Rust's string library that the receiver uses.  A \<open>String\<close> is its UTF-8 byte
  sequence, held as \<open>string\<close> (a \<open>char\<close> is one byte), so \<open>len()\<close> is \<open>length\<close>, and operations
  that speak of Unicode characters (\<open>chars()\<close>, \<open>trim()\<close>) decode the bytes they need.
\<close>

section \<open>ASCII\<close>

definition code_of :: "char \<Rightarrow> nat" where
  "code_of c = of_char c"

definition is_ascii_digit :: "char \<Rightarrow> bool" where
  "is_ascii_digit c \<longleftrightarrow> 48 \<le> code_of c \<and> code_of c \<le> 57"

definition is_ascii_uppercase :: "char \<Rightarrow> bool" where
  "is_ascii_uppercase c \<longleftrightarrow> 65 \<le> code_of c \<and> code_of c \<le> 90"

definition is_ascii_lowercase :: "char \<Rightarrow> bool" where
  "is_ascii_lowercase c \<longleftrightarrow> 97 \<le> code_of c \<and> code_of c \<le> 122"

definition is_ascii_alphabetic :: "char \<Rightarrow> bool" where
  "is_ascii_alphabetic c \<longleftrightarrow> is_ascii_uppercase c \<or> is_ascii_lowercase c"

definition is_ascii_alphanumeric :: "char \<Rightarrow> bool" where
  "is_ascii_alphanumeric c \<longleftrightarrow> is_ascii_alphabetic c \<or> is_ascii_digit c"

definition ascii_upper :: "char \<Rightarrow> char" where
  "ascii_upper c = (if is_ascii_lowercase c then char_of (code_of c - 32) else c)"

definition ascii_lower :: "char \<Rightarrow> char" where
  "ascii_lower c = (if is_ascii_uppercase c then char_of (code_of c + 32) else c)"

definition to_ascii_uppercase :: "string \<Rightarrow> string" where
  "to_ascii_uppercase s = map ascii_upper s"

definition to_ascii_lowercase :: "string \<Rightarrow> string" where
  "to_ascii_lowercase s = map ascii_lower s"

definition eq_ignore_ascii_case :: "string \<Rightarrow> string \<Rightarrow> bool" where
  "eq_ignore_ascii_case a b \<longleftrightarrow> to_ascii_lowercase a = to_ascii_lowercase b"

lemmas ascii_defs = is_ascii_digit_def is_ascii_uppercase_def is_ascii_lowercase_def
  is_ascii_alphabetic_def is_ascii_alphanumeric_def code_of_def

lemma code_of_less: "code_of c < 256"
  by (simp add: code_of_def)

lemma code_of_char_of: "n < 256 \<Longrightarrow> code_of (char_of n) = n"
  by (simp add: code_of_def)

lemma code_of_inj: "code_of a = code_of b \<longleftrightarrow> a = b"
  by (simp add: code_of_def)

lemma code_of_upper: "code_of (ascii_upper c) = (if is_ascii_lowercase c then code_of c - 32 else code_of c)"
  using code_of_less [of c] by (simp add: ascii_upper_def code_of_char_of)

lemma code_of_lower: "code_of (ascii_lower c) = (if is_ascii_uppercase c then code_of c + 32 else code_of c)"
  by (auto simp: ascii_lower_def code_of_char_of is_ascii_uppercase_def)

lemma ascii_lower_upper [simp]: "ascii_lower (ascii_upper c) = ascii_lower c"
  by (auto simp: code_of_inj [symmetric] code_of_lower code_of_upper is_ascii_lowercase_def
      is_ascii_uppercase_def)

lemma ascii_upper_upper [simp]: "ascii_upper (ascii_upper c) = ascii_upper c"
  by (auto simp: code_of_inj [symmetric] code_of_upper is_ascii_lowercase_def)

lemma alphanumeric_upper [simp]: "is_ascii_alphanumeric (ascii_upper c) = is_ascii_alphanumeric c"
  by (auto simp: is_ascii_alphanumeric_def is_ascii_alphabetic_def is_ascii_lowercase_def
      is_ascii_uppercase_def is_ascii_digit_def code_of_upper)

lemma length_ascii_case [simp]:
  "length (to_ascii_uppercase s) = length s" "length (to_ascii_lowercase s) = length s"
  by (simp_all add: to_ascii_uppercase_def to_ascii_lowercase_def)

lemma to_ascii_uppercase_idem [simp]: "to_ascii_uppercase (to_ascii_uppercase s) = to_ascii_uppercase s"
  by (simp add: to_ascii_uppercase_def)

lemma eq_ignore_upper_left [simp]: "eq_ignore_ascii_case (to_ascii_uppercase a) b = eq_ignore_ascii_case a b"
  by (simp add: eq_ignore_ascii_case_def to_ascii_uppercase_def to_ascii_lowercase_def comp_def)

lemma eq_ignore_refl [simp]: "eq_ignore_ascii_case a a"
  by (simp add: eq_ignore_ascii_case_def)

lemma eq_ignore_sym: "eq_ignore_ascii_case a b = eq_ignore_ascii_case b a"
  by (auto simp: eq_ignore_ascii_case_def)

section \<open>UTF-8 characters\<close>

text \<open>A continuation byte is \<open>0b10xxxxxx\<close>; a character is a leading byte and its continuations.\<close>

definition is_cont :: "char \<Rightarrow> bool" where
  "is_cont c \<longleftrightarrow> 128 \<le> code_of c \<and> code_of c < 192"

text \<open>\<open>s.chars()\<close>, each character as its bytes.\<close>

function chars_of :: "string \<Rightarrow> string list" where
  "chars_of [] = []"
| "chars_of (c # cs) = (c # takeWhile is_cont cs) # chars_of (dropWhile is_cont cs)"
  by pat_completeness auto
termination
  by (relation "measure length") (auto simp: le_imp_less_Suc length_dropWhile_le)

text \<open>\<open>s.chars().take(n).collect()\<close>\<close>

definition take_chars :: "nat \<Rightarrow> string \<Rightarrow> string" where
  "take_chars n s = concat (take n (chars_of s))"

lemma concat_chars_of [simp]: "concat (chars_of s) = s"
  by (induction s rule: chars_of.induct) simp_all

lemma chars_of_nonempty: "g \<in> set (chars_of s) \<Longrightarrow> g \<noteq> []"
  by (induction s rule: chars_of.induct) auto

lemma length_chars_of_le: "length (chars_of s) \<le> length s"
proof (induction s rule: chars_of.induct)
  case (2 c cs)
  then show ?case
    using length_dropWhile_le [of is_cont cs] by simp
qed simp

lemma take_chars_all: "length (chars_of s) \<le> n \<Longrightarrow> take_chars n s = s"
  by (simp add: take_chars_def)

lemma take_chars_prefix: "\<exists>t. s = take_chars n s @ t"
proof -
  have "concat (take n (chars_of s) @ drop n (chars_of s)) = s"
    by simp
  then show ?thesis
    unfolding concat_append take_chars_def by metis
qed

section \<open>Searching and splitting\<close>

fun starts_with :: "string \<Rightarrow> string \<Rightarrow> bool" where
  "starts_with s [] = True"
| "starts_with [] (p # ps) = False"
| "starts_with (c # cs) (p # ps) = (c = p \<and> starts_with cs ps)"

definition strip_prefix :: "string \<Rightarrow> string \<Rightarrow> string option" where
  "strip_prefix p s = (if starts_with s p then Some (drop (length p) s) else None)"

lemma starts_with_iff: "starts_with s p \<longleftrightarrow> (\<exists>t. s = p @ t)"
  by (induction s p rule: starts_with.induct) auto

lemma strip_prefix_Some: "strip_prefix p s = Some t \<longleftrightarrow> s = p @ t"
  by (auto simp: strip_prefix_def starts_with_iff)

fun str_contains :: "string \<Rightarrow> string \<Rightarrow> bool" where
  "str_contains p [] = (p = [])"
| "str_contains p (c # cs) = (starts_with (c # cs) p \<or> str_contains p cs)"

text \<open>\<open>s.split(c)\<close>: always at least one piece.\<close>

fun split_on :: "char \<Rightarrow> string \<Rightarrow> string list" where
  "split_on d [] = [[]]"
| "split_on d (c # cs) =
     (if c = d then [] # split_on d cs
      else (case split_on d cs of [] \<Rightarrow> [[c]] | p # ps \<Rightarrow> (c # p) # ps))"

lemma split_on_nonempty [simp]: "split_on d s \<noteq> []"
  by (cases s) (auto split: list.splits)

lemma split_on_no_sep: "d \<notin> set s \<Longrightarrow> split_on d s = [s]"
  by (induction s) auto

lemma split_on_append: "d \<notin> set s \<Longrightarrow> split_on d (s @ d # t) = s # split_on d t"
  by (induction s) auto

lemma split_on_pieces: "p \<in> set (split_on d s) \<Longrightarrow> d \<notin> set p"
proof (induction s arbitrary: p)
  case (Cons c cs)
  then show ?case
    by (cases "split_on d cs") (fastforce split: if_splits)+
qed simp

text \<open>\<open>s.split_once(c)\<close>\<close>

fun split_once :: "char \<Rightarrow> string \<Rightarrow> (string \<times> string) option" where
  "split_once d [] = None"
| "split_once d (c # cs) =
     (if c = d then Some ([], cs) else map_option (\<lambda>(a, b). (c # a, b)) (split_once d cs))"

lemma split_once_Some: "split_once d s = Some (a, b) \<longleftrightarrow> s = a @ d # b \<and> d \<notin> set a"
proof (induction s arbitrary: a)
  case (Cons c cs)
  then show ?case by (cases a) auto
qed simp

lemma split_once_None: "split_once d s = None \<longleftrightarrow> d \<notin> set s"
  by (induction s) auto

section \<open>Unicode white space\<close>

text \<open>
  The byte length of the \<open>White_Space\<close> character a string starts with, 0 if it starts with
  another one: U+0009..U+000D, U+0020, U+0085, U+00A0, U+1680, U+2000..U+200A, U+2028, U+2029,
  U+202F, U+205F, U+3000.
\<close>

definition ws_len :: "nat list \<Rightarrow> nat" where
  "ws_len bs =
     (case bs of [] \<Rightarrow> 0
      | a # r \<Rightarrow>
        if 9 \<le> a \<and> a \<le> 13 \<or> a = 32 then 1
        else (case r of [] \<Rightarrow> 0
          | b # r' \<Rightarrow>
            if a = 194 \<and> (b = 133 \<or> b = 160) then 2
            else (case r' of [] \<Rightarrow> 0
              | c # _ \<Rightarrow>
                if a = 225 \<and> b = 154 \<and> c = 128
                   \<or> a = 226 \<and> b = 128 \<and> (128 \<le> c \<and> c \<le> 138 \<or> c = 168 \<or> c = 169 \<or> c = 175)
                   \<or> a = 226 \<and> b = 129 \<and> c = 159
                   \<or> a = 227 \<and> b = 128 \<and> c = 128
                then 3 else 0)))"

definition starts_ws :: "string \<Rightarrow> bool" where
  "starts_ws g \<longleftrightarrow> ws_len (map code_of g) > 0"

text \<open>\<open>s.trim()\<close>, \<open>s.trim_end()\<close> and \<open>s.split_whitespace()\<close>, on the characters of the string.\<close>

definition trim_start :: "string \<Rightarrow> string" where
  "trim_start s = concat (dropWhile starts_ws (chars_of s))"

definition trim_end :: "string \<Rightarrow> string" where
  "trim_end s = concat (rev (dropWhile starts_ws (rev (chars_of s))))"

definition trim :: "string \<Rightarrow> string" where
  "trim s = trim_end (trim_start s)"

fun split_tokens :: "string list \<Rightarrow> string \<Rightarrow> string list" where
  "split_tokens [] acc = (if acc = [] then [] else [acc])"
| "split_tokens (g # gs) acc =
     (if starts_ws g then (if acc = [] then split_tokens gs [] else acc # split_tokens gs [])
      else split_tokens gs (acc @ g))"

definition split_whitespace :: "string \<Rightarrow> string list" where
  "split_whitespace s = split_tokens (chars_of s) []"

text \<open>\<open>s.lines()\<close>: pieces between newlines without a trailing carriage return; a final empty
  piece is not a line.\<close>

definition strip_cr :: "string \<Rightarrow> string" where
  "strip_cr l = (if l \<noteq> [] \<and> last l = CHR 0x0D then butlast l else l)"

definition str_lines :: "string \<Rightarrow> string list" where
  "str_lines s =
     (let ps = split_on (CHR 0x0A) s
      in map strip_cr (butlast ps) @ (if last ps = [] then [] else [last ps]))"

section \<open>Text and bytes\<close>

text \<open>\<open>str::from_utf8\<close>: the well-formed byte sequences, shortest forms only, no surrogates, nothing above U+10FFFF.  A
  leading byte says how many bytes follow and in which range the first of them is.\<close>

definition utf8_lead :: "nat \<Rightarrow> (nat \<times> nat \<times> nat) option" where
  "utf8_lead n =
     (if n < 0x80 then Some (0, 0x80, 0xBF)
      else if n < 0xC2 then None
      else if n \<le> 0xDF then Some (1, 0x80, 0xBF)
      else if n \<le> 0xEF then Some (2, if n = 0xE0 then 0xA0 else 0x80, if n = 0xED then 0x9F else 0xBF)
      else if n \<le> 0xF4 then Some (3, if n = 0xF0 then 0x90 else 0x80, if n = 0xF4 then 0x8F else 0xBF)
      else None)"

fun utf8_from :: "nat \<Rightarrow> nat \<Rightarrow> nat \<Rightarrow> string \<Rightarrow> bool" where
  "utf8_from n lo hi [] = (n = 0)"
| "utf8_from 0 lo hi (c # cs) = (case utf8_lead (code_of c) of None \<Rightarrow> False | Some (n, lo, hi) \<Rightarrow> utf8_from n lo hi cs)"
| "utf8_from (Suc n) lo hi (c # cs) = (lo \<le> code_of c \<and> code_of c \<le> hi \<and> utf8_from n 0x80 0xBF cs)"

definition valid_utf8 :: "string \<Rightarrow> bool" where
  "valid_utf8 s = utf8_from 0 0x80 0xBF s"

lemma ascii_utf8: "\<forall>c \<in> set s. code_of c < 0x80 \<Longrightarrow> valid_utf8 s"
proof -
  have "\<forall>c \<in> set s. code_of c < 0x80 \<Longrightarrow> utf8_from 0 lo hi s" for lo hi
    by (induction s arbitrary: lo hi) (simp_all add: utf8_lead_def)
  then show "\<forall>c \<in> set s. code_of c < 0x80 \<Longrightarrow> valid_utf8 s"
    by (simp add: valid_utf8_def)
qed

lemma utf8_from_append: "utf8_from n lo hi s \<Longrightarrow> valid_utf8 t \<Longrightarrow> utf8_from n lo hi (s @ t)"
proof (induction n lo hi s rule: utf8_from.induct)
  case (1 n lo hi)
  then show ?case
    by (cases t) (simp_all add: valid_utf8_def)
qed (auto split: option.splits)

lemma valid_utf8_append: "valid_utf8 s \<Longrightarrow> valid_utf8 t \<Longrightarrow> valid_utf8 (s @ t)"
  using utf8_from_append by (simp add: valid_utf8_def)

text \<open>\<open>read_line\<close> of what a connection sends: the bytes through the first newline, or all of them if it ends before one;
  an error when they are no text.\<close>

definition read_line :: "string \<Rightarrow> string option" where
  "read_line bs =
     (let l = takeWhile (\<lambda>c. c \<noteq> CHR 0x0A) bs; line = (if l = bs then l else l @ [CHR 0x0A])
      in if valid_utf8 line then Some line else None)"

lemma read_whole_line:
  assumes "valid_utf8 v" and "CHR 0x0A \<notin> set v"
  shows "read_line (v @ [CHR 0x0A]) = Some (v @ [CHR 0x0A])"
proof -
  have "takeWhile (\<lambda>c. c \<noteq> CHR 0x0A) (v @ [CHR 0x0A]) = v"
    using assms(2) by (induction v) auto
  moreover have "valid_utf8 (v @ [CHR 0x0A])"
    using assms(1) by (rule valid_utf8_append) (rule ascii_utf8, simp add: code_of_def)
  ultimately show ?thesis
    by (simp add: read_line_def)
qed

section \<open>Decimal numbers\<close>

definition digit_char :: "nat \<Rightarrow> char" where
  "digit_char d = char_of (48 + d)"

text \<open>\<open>n.to_string()\<close>\<close>

fun nat_to_string :: "nat \<Rightarrow> string" where
  "nat_to_string n = (if n < 10 then [digit_char n] else nat_to_string (n div 10) @ [digit_char (n mod 10)])"

declare nat_to_string.simps [simp del]

definition int_to_string :: "int \<Rightarrow> string" where
  "int_to_string i = (if i < 0 then ''-'' @ nat_to_string (nat (- i)) else nat_to_string (nat i))"

definition digits_value :: "string \<Rightarrow> nat" where
  "digits_value ds = foldl (\<lambda>acc c. acc * 10 + (code_of c - 48)) 0 ds"

text \<open>\<open>s.parse::<uN>()\<close> for an unsigned type with maximum \<open>m\<close>: an optional \<open>+\<close>, at least one
  digit, nothing else, no overflow.\<close>

definition parse_uint :: "nat \<Rightarrow> string \<Rightarrow> nat option" where
  "parse_uint m s =
     (let ds = (case s of [] \<Rightarrow> [] | c # cs \<Rightarrow> if c = CHR ''+'' then cs else s)
      in if ds \<noteq> [] \<and> (\<forall>c \<in> set ds. is_ascii_digit c) \<and> digits_value ds \<le> m
         then Some (digits_value ds) else None)"

lemma digit_char_code: "d < 10 \<Longrightarrow> code_of (digit_char d) = 48 + d"
  by (simp add: digit_char_def code_of_char_of)

lemma digits_value_snoc: "digits_value (ds @ [c]) = digits_value ds * 10 + (code_of c - 48)"
  by (simp add: digits_value_def)

lemma nat_to_string_digits: "c \<in> set (nat_to_string n) \<Longrightarrow> is_ascii_digit c"
proof (induction n rule: nat_to_string.induct)
  case (1 n)
  then show ?case
    by (subst (asm) (2) nat_to_string.simps)
       (auto simp: is_ascii_digit_def digit_char_code split: if_splits)
qed

lemma nat_to_string_nonempty [simp]: "nat_to_string n \<noteq> []"
  by (subst nat_to_string.simps) simp

lemma digits_value_to_string: "digits_value (nat_to_string n) = n"
proof (induction n rule: nat_to_string.induct)
  case (1 n)
  show ?case
  proof (cases "n < 10")
    case True
    then show ?thesis
      by (subst nat_to_string.simps) (simp add: digits_value_def digit_char_code)
  next
    case False
    then show ?thesis
      using 1 by (subst nat_to_string.simps) (simp add: digits_value_snoc digit_char_code)
  qed
qed

lemma parse_uint_to_string: "n \<le> m \<Longrightarrow> parse_uint m (nat_to_string n) = Some n"
proof -
  assume "n \<le> m"
  obtain c cs where s: "nat_to_string n = c # cs"
    by (cases "nat_to_string n") auto
  have "is_ascii_digit c"
    by (rule nat_to_string_digits [of _ n]) (simp add: s)
  then have "c \<noteq> CHR ''+''"
    by (auto simp: ascii_defs)
  with \<open>n \<le> m\<close> show ?thesis
    using nat_to_string_digits [of _ n] digits_value_to_string [of n] by (auto simp: parse_uint_def s)
qed

lemma parse_uint_bound: "parse_uint m s = Some n \<Longrightarrow> n \<le> m"
  by (auto simp: parse_uint_def Let_def split: if_splits)

end
