(* ===== verification/Config_Limits.thy ===== *)
theory Config_Limits
  imports Rust_Std
begin

text \<open>
  The compiled defaults and protocol limits of \<open>src/config.rs\<close> (its \<open>server\<close>, \<open>pairing\<close>,
  \<open>packet\<close>, \<open>transport\<close>, \<open>playback\<close>, \<open>discovery\<close>, \<open>telemetry\<close>, \<open>display\<close> and \<open>dashboard\<close>
  modules), under their names.  Integers are \<open>nat\<close>; the collection \<open>limits\<close> unfolds them.
\<close>

named_theorems limits "the constants of config.rs"

definition bytes_of :: "string \<Rightarrow> byte list" where
  "bytes_of s = map (\<lambda>c. word_of_nat (code_of c)) s"

lemma length_bytes_of [simp]: "length (bytes_of s) = length s"
  by (simp add: bytes_of_def)

definition DEVICE_CONFIG_VERSION :: nat where [limits]: "DEVICE_CONFIG_VERSION = 1"

section \<open>server\<close>

definition DEFAULT_HTTP_PORT :: nat where [limits]: "DEFAULT_HTTP_PORT = 8080"
definition DEFAULT_ADMIN_PORT :: nat where [limits]: "DEFAULT_ADMIN_PORT = 9090"
definition DEFAULT_WEBTRANSPORT_PORT :: nat where [limits]: "DEFAULT_WEBTRANSPORT_PORT = 4433"
definition DEFAULT_BOARD_PORT :: nat where [limits]: "DEFAULT_BOARD_PORT = 4434"
definition DEFAULT_UDP_BUFFER_SIZE_MB :: nat where [limits]: "DEFAULT_UDP_BUFFER_SIZE_MB = 8"
definition DEFAULT_IDLE_TIMEOUT_SEC :: nat where [limits]: "DEFAULT_IDLE_TIMEOUT_SEC = 30"
definition DEFAULT_SENDER_LIVENESS_TIMEOUT_SEC :: nat where
  [limits]: "DEFAULT_SENDER_LIVENESS_TIMEOUT_SEC = 90"
definition DEFAULT_CERTS_DIR :: string where [limits]: "DEFAULT_CERTS_DIR = ''/certs''"
definition DEFAULT_PAIRING_PUBLIC_KEY_FILE :: string where
  [limits]: "DEFAULT_PAIRING_PUBLIC_KEY_FILE = ''/pairing/public.pem''"
definition DEFAULT_DRM_PLANE_ID :: string where [limits]: "DEFAULT_DRM_PLANE_ID = ''33''"

section \<open>pairing\<close>

definition PAIRING_CODE_LENGTH :: nat where [limits]: "PAIRING_CODE_LENGTH = 4"
definition PAIRING_CODE_ALPHABET :: string where
  [limits]: "PAIRING_CODE_ALPHABET = ''ABCDEFGHIJKLMNOPQRSTUVWXYZ0123456789''"
definition PAIRING_CODE_TTL_SEC :: nat where [limits]: "PAIRING_CODE_TTL_SEC = 60 * 60"
definition PAIRING_ATTEMPT_WINDOW_SEC :: nat where [limits]: "PAIRING_ATTEMPT_WINDOW_SEC = 60"
definition PAIRING_ATTEMPT_LIMIT :: nat where [limits]: "PAIRING_ATTEMPT_LIMIT = 5"
definition PAIRING_TOKEN_ISSUED_AT_SKEW_SEC :: nat where [limits]: "PAIRING_TOKEN_ISSUED_AT_SKEW_SEC = 30"
definition PAIRING_TOKEN_MAX_LIFETIME_SEC :: nat where [limits]: "PAIRING_TOKEN_MAX_LIFETIME_SEC = 60"
definition PAIRING_REPLAY_CACHE_LIMIT :: nat where [limits]: "PAIRING_REPLAY_CACHE_LIMIT = 1024"

section \<open>packet\<close>

definition CODEC_ALIGNMENT :: nat where [limits]: "CODEC_ALIGNMENT = 16"
definition H264_VISIBLE_MAX_HEIGHT :: nat where [limits]: "H264_VISIBLE_MAX_HEIGHT = 1080"
definition CODEC_TAG_BYTES :: nat where [limits]: "CODEC_TAG_BYTES = 4"
definition SEQUENCE_BYTES :: nat where [limits]: "SEQUENCE_BYTES = 4"
definition CHUNK_INDEX_BYTES :: nat where [limits]: "CHUNK_INDEX_BYTES = 2"
definition CHUNK_COUNT_BYTES :: nat where [limits]: "CHUNK_COUNT_BYTES = 2"
definition DIMENSION_BYTES :: nat where [limits]: "DIMENSION_BYTES = 2"
definition TAG_OFFSET :: nat where [limits]: "TAG_OFFSET = 0"
definition SEQUENCE_OFFSET :: nat where [limits]: "SEQUENCE_OFFSET = TAG_OFFSET + CODEC_TAG_BYTES"
definition CHUNK_INDEX_OFFSET :: nat where [limits]: "CHUNK_INDEX_OFFSET = SEQUENCE_OFFSET + SEQUENCE_BYTES"
definition CHUNK_COUNT_OFFSET :: nat where
  [limits]: "CHUNK_COUNT_OFFSET = CHUNK_INDEX_OFFSET + CHUNK_INDEX_BYTES"
definition WIDTH_OFFSET :: nat where [limits]: "WIDTH_OFFSET = CHUNK_COUNT_OFFSET + CHUNK_COUNT_BYTES"
definition HEIGHT_OFFSET :: nat where [limits]: "HEIGHT_OFFSET = WIDTH_OFFSET + DIMENSION_BYTES"
definition CAPTURE_TIME_BYTES :: nat where [limits]: "CAPTURE_TIME_BYTES = 8"
definition ENCODE_DURATION_BYTES :: nat where [limits]: "ENCODE_DURATION_BYTES = 4"
definition SEND_START_TIME_BYTES :: nat where [limits]: "SEND_START_TIME_BYTES = 8"
definition CAPTURE_TIME_OFFSET :: nat where [limits]: "CAPTURE_TIME_OFFSET = HEIGHT_OFFSET + DIMENSION_BYTES"
definition ENCODE_DURATION_OFFSET :: nat where
  [limits]: "ENCODE_DURATION_OFFSET = CAPTURE_TIME_OFFSET + CAPTURE_TIME_BYTES"
definition SEND_START_TIME_OFFSET :: nat where
  [limits]: "SEND_START_TIME_OFFSET = ENCODE_DURATION_OFFSET + ENCODE_DURATION_BYTES"
definition LEGACY_PACKET_HEADER_BYTES :: nat where
  [limits]: "LEGACY_PACKET_HEADER_BYTES = HEIGHT_OFFSET + DIMENSION_BYTES"
definition TIMED_V1_PACKET_HEADER_BYTES :: nat where
  [limits]: "TIMED_V1_PACKET_HEADER_BYTES = ENCODE_DURATION_OFFSET + ENCODE_DURATION_BYTES"
definition PACKET_HEADER_BYTES :: nat where
  [limits]: "PACKET_HEADER_BYTES = SEND_START_TIME_OFFSET + SEND_START_TIME_BYTES"
definition H264_TAG :: "byte list" where "H264_TAG = bytes_of ''H264''"
definition H265_TAG :: "byte list" where "H265_TAG = bytes_of ''H265''"
definition TIMED_H264_TAG :: "byte list" where "TIMED_H264_TAG = bytes_of ''H24T''"
definition TIMED_H265_TAG :: "byte list" where "TIMED_H265_TAG = bytes_of ''H26T''"
definition SYNC_TIMED_H264_TAG :: "byte list" where "SYNC_TIMED_H264_TAG = bytes_of ''H24S''"
definition SYNC_TIMED_H265_TAG :: "byte list" where "SYNC_TIMED_H265_TAG = bytes_of ''H26S''"
definition LEGACY_H264_TAG :: "byte list" where "LEGACY_H264_TAG = bytes_of ''VIDC''"
definition LEGACY_H265_TAG :: "byte list" where "LEGACY_H265_TAG = bytes_of ''HEVC''"
definition STOP_TAG :: "byte list" where "STOP_TAG = bytes_of ''STOP''"
definition CHUNK_BYTES :: nat where [limits]: "CHUNK_BYTES = 1350"
definition MAX_ACCESS_UNIT_BYTES :: nat where [limits]: "MAX_ACCESS_UNIT_BYTES = 8 * 1024 * 1024"
definition MAX_IN_FLIGHT_ACCESS_UNITS :: nat where [limits]: "MAX_IN_FLIGHT_ACCESS_UNITS = 32"
definition ACCESS_UNIT_ASSEMBLY_TTL_MS :: nat where [limits]: "ACCESS_UNIT_ASSEMBLY_TTL_MS = 50"
definition ACCESS_UNIT_ASSEMBLY_TTL :: duration where
  [limits]: "ACCESS_UNIT_ASSEMBLY_TTL = from_millis ACCESS_UNIT_ASSEMBLY_TTL_MS"
definition MAX_UNI_STREAM_MESSAGE_BYTES :: nat where
  [limits]: "MAX_UNI_STREAM_MESSAGE_BYTES = MAX_ACCESS_UNIT_BYTES + PACKET_HEADER_BYTES"
definition MAX_CONTROL_MESSAGE_BYTES :: nat where [limits]: "MAX_CONTROL_MESSAGE_BYTES = 64 * 1024"
definition H264_MAX_WIDTH :: nat where [limits]: "H264_MAX_WIDTH = 1920"
definition H264_MAX_HEIGHT :: nat where
  [limits]: "H264_MAX_HEIGHT =
    (H264_VISIBLE_MAX_HEIGHT + CODEC_ALIGNMENT - 1) div CODEC_ALIGNMENT * CODEC_ALIGNMENT"
definition H265_MAX_WIDTH :: nat where [limits]: "H265_MAX_WIDTH = 3840"
definition H265_MAX_HEIGHT :: nat where [limits]: "H265_MAX_HEIGHT = 2160"

lemma tag_lengths [simp]:
  "length H264_TAG = 4" "length H265_TAG = 4" "length TIMED_H264_TAG = 4"
  "length TIMED_H265_TAG = 4" "length SYNC_TIMED_H264_TAG = 4" "length SYNC_TIMED_H265_TAG = 4"
  "length LEGACY_H264_TAG = 4" "length LEGACY_H265_TAG = 4" "length STOP_TAG = 4"
  by (simp_all add: H264_TAG_def H265_TAG_def TIMED_H264_TAG_def TIMED_H265_TAG_def
      SYNC_TIMED_H264_TAG_def SYNC_TIMED_H265_TAG_def LEGACY_H264_TAG_def LEGACY_H265_TAG_def
      STOP_TAG_def)

lemmas tag_defs = H264_TAG_def H265_TAG_def TIMED_H264_TAG_def TIMED_H265_TAG_def
  SYNC_TIMED_H264_TAG_def SYNC_TIMED_H265_TAG_def LEGACY_H264_TAG_def LEGACY_H265_TAG_def
  STOP_TAG_def bytes_of_def

text \<open>The header sizes the chained offsets amount to, and the aligned H.264 height.\<close>

lemma header_sizes:
  "LEGACY_PACKET_HEADER_BYTES = 16" "TIMED_V1_PACKET_HEADER_BYTES = 28" "PACKET_HEADER_BYTES = 36"
  "H264_MAX_HEIGHT = 1088"
  by (simp_all add: limits)

section \<open>transport, playback, discovery, telemetry, display, dashboard\<close>

definition FRAME_CHANNEL_CAPACITY :: nat where [limits]: "FRAME_CHANNEL_CAPACITY = 2"
definition CONTROL_CHANNEL_CAPACITY :: nat where [limits]: "CONTROL_CHANNEL_CAPACITY = 32"
definition LENGTH_PREFIX_BYTES :: nat where [limits]: "LENGTH_PREFIX_BYTES = 4"
definition DATAGRAM_BUFFER_BYTES :: nat where [limits]: "DATAGRAM_BUFFER_BYTES = 64 * 1024"
definition DATAGRAM_ERROR_RETRY_SEC :: nat where [limits]: "DATAGRAM_ERROR_RETRY_SEC = 60 * 60"
definition DEFAULT_DISPLAY_CONNECTOR_ID :: string where [limits]: "DEFAULT_DISPLAY_CONNECTOR_ID = ''54''"
definition RAW_PIPELINE_BLOCK_SIZE :: nat where [limits]: "RAW_PIPELINE_BLOCK_SIZE = 64 * 1024"
definition RAW_PIPELINE_FRAMERATE :: string where [limits]: "RAW_PIPELINE_FRAMERATE = ''1/1''"
definition RAW_QUEUE_CAPACITY :: nat where [limits]: "RAW_QUEUE_CAPACITY = 2"
definition ENCODED_QUEUE_CAPACITY :: nat where [limits]: "ENCODED_QUEUE_CAPACITY = 1"
definition ENCODED_CONFIG_INTERVAL :: int where [limits]: "ENCODED_CONFIG_INTERVAL = -1"
definition VALIDITY_REFRESH_BUFFER_SEC :: nat where [limits]: "VALIDITY_REFRESH_BUFFER_SEC = 24 * 60 * 60"
definition TOKEN_VERSION :: nat where [limits]: "TOKEN_VERSION = 1"
definition TOKEN_PREFIX :: string where [limits]: "TOKEN_PREFIX = ''v1''"
definition TOKEN_ALGORITHM :: string where [limits]: "TOKEN_ALGORITHM = ''PS256''"
definition TOKEN_TYPE :: string where [limits]: "TOKEN_TYPE = ''CAST-CONNECTION''"
definition TOKEN_PURPOSE :: string where [limits]: "TOKEN_PURPOSE = ''webtransport-connect''"
definition REGISTRATION_INITIAL_RETRY_SEC :: nat where [limits]: "REGISTRATION_INITIAL_RETRY_SEC = 2"
definition REGISTRATION_NO_IP_RETRY_SEC :: nat where [limits]: "REGISTRATION_NO_IP_RETRY_SEC = 5"
definition REGISTRATION_SUCCESS_RETRY_SEC :: nat where [limits]: "REGISTRATION_SUCCESS_RETRY_SEC = 45"
definition REGISTRATION_MAX_RETRY_SEC :: nat where [limits]: "REGISTRATION_MAX_RETRY_SEC = 60"
definition DEFAULT_CODEC :: string where [limits]: "DEFAULT_CODEC = ''hevc''"
definition DEFAULT_ASPECT_MODE :: string where [limits]: "DEFAULT_ASPECT_MODE = ''preserve''"
definition DEFAULT_ACTIVE_FPS :: nat where [limits]: "DEFAULT_ACTIVE_FPS = 30"
definition DEFAULT_ACTIVE_RESOLUTION :: string where [limits]: "DEFAULT_ACTIVE_RESOLUTION = ''1920x1080''"
definition DEFAULT_ACTIVE_LATENCY_MODE :: string where [limits]: "DEFAULT_ACTIVE_LATENCY_MODE = ''ULL''"
definition DEFAULT_IDLE_RESOLUTION :: string where [limits]: "DEFAULT_IDLE_RESOLUTION = ''0x0''"
definition DEFAULT_IDLE_FPS :: nat where [limits]: "DEFAULT_IDLE_FPS = 0"
definition DEFAULT_MAX_WIDTH :: nat where [limits]: "DEFAULT_MAX_WIDTH = 1920"
definition DEFAULT_MAX_HEIGHT :: nat where [limits]: "DEFAULT_MAX_HEIGHT = 1080"
definition DEFAULT_MAX_FPS :: nat where [limits]: "DEFAULT_MAX_FPS = 60"
definition DRM_CARD_SCAN_LIMIT :: nat where [limits]: "DRM_CARD_SCAN_LIMIT = 4"
definition DRM_CONNECT_ATTEMPTS :: nat where [limits]: "DRM_CONNECT_ATTEMPTS = 10"
definition DRM_CONNECT_RETRY_MS :: nat where [limits]: "DRM_CONNECT_RETRY_MS = 100"
definition MAX_UI_BYTES :: nat where [limits]: "MAX_UI_BYTES = 2 * 1024 * 1024"
definition DEFAULT_MODE :: string where [limits]: "DEFAULT_MODE = ''raw''"

end
