(* ===== verification/Rust_Float.thy ===== *)
theory Rust_Float
  imports Complex_Main Prelude
begin

text \<open>
  IEEE 754 arithmetic as Rust's \<open>f64\<close> and \<open>f32\<close> compute it: a finite number is a sign and a
  rational magnitude, every operation rounds the exact result to nearest, ties to even, at the
  format's precision and exponent range.  NaN payloads are not kept.  Values read from the network
  come from their bit patterns (\<open>f64_from_bits\<close>, \<open>f32_from_bits\<close>).
\<close>

section \<open>Values and comparisons\<close>

datatype fp = NaN | Infinity bool | Finite bool rat

type_synonym f64 = fp
type_synonym f32 = fp

fun fp_val :: "fp \<Rightarrow> rat" where
  "fp_val (Finite s m) = (if s then - m else m)"
| "fp_val _ = 0"

fun is_finite :: "fp \<Rightarrow> bool" where
  "is_finite (Finite s m) = True"
| "is_finite _ = False"

fun fp_lt :: "fp \<Rightarrow> fp \<Rightarrow> bool" where
  "fp_lt NaN b = False"
| "fp_lt a NaN = False"
| "fp_lt (Infinity s) (Infinity t) = (s \<and> \<not> t)"
| "fp_lt (Infinity s) (Finite t n) = s"
| "fp_lt (Finite s m) (Infinity t) = (\<not> t)"
| "fp_lt (Finite s m) (Finite t n) = (fp_val (Finite s m) < fp_val (Finite t n))"

fun fp_eq :: "fp \<Rightarrow> fp \<Rightarrow> bool" where
  "fp_eq (Infinity s) (Infinity t) = (s = t)"
| "fp_eq (Finite s m) (Finite t n) = (fp_val (Finite s m) = fp_val (Finite t n))"
| "fp_eq a b = False"

definition fp_le :: "fp \<Rightarrow> fp \<Rightarrow> bool" where
  "fp_le a b \<longleftrightarrow> fp_lt a b \<or> fp_eq a b"

text \<open>\<open>PartialEq\<close> on \<open>Option<f64>\<close>.\<close>

fun opt_eq :: "fp option \<Rightarrow> fp option \<Rightarrow> bool" where
  "opt_eq None None = True"
| "opt_eq (Some a) (Some b) = fp_eq a b"
| "opt_eq a b = False"

lemma fp_eq_refl: "a \<noteq> NaN \<Longrightarrow> fp_eq a a"
  by (cases a) simp_all

lemma fp_eq_finite_refl: "is_finite a \<Longrightarrow> fp_eq a a"
  by (cases a) simp_all

lemma opt_eq_finite_refl: "(\<And>v. a = Some v \<Longrightarrow> is_finite v) \<Longrightarrow> opt_eq a a"
  by (cases a) (auto intro: fp_eq_finite_refl)

lemma fp_le_val: "is_finite a \<Longrightarrow> is_finite b \<Longrightarrow> fp_le a b \<longleftrightarrow> fp_val a \<le> fp_val b"
  by (cases a; cases b) (auto simp: fp_le_def)

lemma fp_lt_val: "is_finite a \<Longrightarrow> is_finite b \<Longrightarrow> fp_lt a b \<longleftrightarrow> fp_val a < fp_val b"
  by (cases a; cases b) auto

text \<open>\<open>(lo..=hi).contains(&x)\<close>\<close>

definition in_range :: "fp \<Rightarrow> fp \<Rightarrow> fp \<Rightarrow> bool" where
  "in_range lo hi x \<longleftrightarrow> fp_le lo x \<and> fp_le x hi"

lemma in_range_val:
  assumes "is_finite lo" "is_finite hi" "is_finite x"
  shows "in_range lo hi x \<longleftrightarrow> fp_val lo \<le> fp_val x \<and> fp_val x \<le> fp_val hi"
  using assms by (simp add: in_range_def fp_le_val)

section \<open>Bit patterns\<close>

definition decode_bits :: "nat \<Rightarrow> nat \<Rightarrow> int \<Rightarrow> fp" where
  "decode_bits ebits fbits n =
     (let s = n div 2 ^ (ebits + fbits) mod 2 = 1;
          e = n div 2 ^ fbits mod 2 ^ ebits;
          f = n mod 2 ^ fbits;
          bias = 2 ^ (ebits - 1) - 1
      in if e = 2 ^ ebits - 1 then (if f = 0 then Infinity s else NaN)
         else if e = 0 then Finite s (of_int f * 2 powi (1 - bias - int fbits))
         else Finite s (of_int (2 ^ fbits + f) * 2 powi (e - bias - int fbits)))"

definition f64_from_bits :: "u64 \<Rightarrow> f64" where
  "f64_from_bits w = decode_bits 11 52 (uint w)"

definition f32_from_bits :: "u32 \<Rightarrow> f32" where
  "f32_from_bits w = decode_bits 8 23 (uint w)"

section \<open>Rounding\<close>

function bit_length :: "int \<Rightarrow> int" where
  "bit_length n = (if n \<le> 0 then 0 else 1 + bit_length (n div 2))"
  by pat_completeness auto
termination
  by (relation "measure nat") auto

declare bit_length.simps [simp del]

text \<open>\<open>floor (log2 x)\<close> of a positive rational.\<close>

definition floor_log2 :: "rat \<Rightarrow> int" where
  "floor_log2 x =
     (let (a, b) = quotient_of x; k = bit_length a - bit_length b
      in if 2 powi k \<le> x then k else k - 1)"

definition round_half_even :: "rat \<Rightarrow> int" where
  "round_half_even x =
     (let f = \<lfloor>x\<rfloor>; d = x - of_int f
      in if d < 1 / 2 then f else if d > 1 / 2 then f + 1 else if even f then f else f + 1)"

text \<open>Round a magnitude to precision \<open>p\<close>, least exponent \<open>emin\<close>, overflow from \<open>2 ^ emax\<close>.\<close>

definition round_to :: "int \<Rightarrow> int \<Rightarrow> int \<Rightarrow> bool \<Rightarrow> rat \<Rightarrow> fp" where
  "round_to p emin emax s x =
     (if x = 0 then Finite s 0
      else let e = max (floor_log2 x - (p - 1)) emin;
               y = of_int (round_half_even (x / 2 powi e)) * 2 powi e
           in if y \<ge> 2 powi emax then Infinity s else Finite s y)"

definition f64_round :: "bool \<Rightarrow> rat \<Rightarrow> f64" where
  "f64_round s x = round_to 53 (-1074) 1024 s x"

definition f32_round :: "bool \<Rightarrow> rat \<Rightarrow> f32" where
  "f32_round s x = round_to 24 (-149) 128 s x"

text \<open>A signed rational, rounded.\<close>

definition f64_of_rat :: "rat \<Rightarrow> f64" where
  "f64_of_rat x = f64_round (x < 0) \<bar>x\<bar>"

definition f32_of_rat :: "rat \<Rightarrow> f32" where
  "f32_of_rat x = f32_round (x < 0) \<bar>x\<bar>"

text \<open>\<open>n as f64\<close> for an integer; \<open>f64::from(f32)\<close> is exact and is the identity on values.\<close>

definition f64_of_nat :: "nat \<Rightarrow> f64" where
  "f64_of_nat n = f64_of_rat (of_nat n)"

section \<open>Arithmetic\<close>

fun fp_neg :: "fp \<Rightarrow> fp" where
  "fp_neg NaN = NaN"
| "fp_neg (Infinity s) = Infinity (\<not> s)"
| "fp_neg (Finite s m) = Finite (\<not> s) m"

fun fp_abs :: "fp \<Rightarrow> fp" where
  "fp_abs NaN = NaN"
| "fp_abs (Infinity s) = Infinity False"
| "fp_abs (Finite s m) = Finite False m"

fun f64_add :: "f64 \<Rightarrow> f64 \<Rightarrow> f64" where
  "f64_add NaN b = NaN"
| "f64_add a NaN = NaN"
| "f64_add (Infinity s) (Infinity t) = (if s = t then Infinity s else NaN)"
| "f64_add (Infinity s) (Finite t n) = Infinity s"
| "f64_add (Finite s m) (Infinity t) = Infinity t"
| "f64_add (Finite s m) (Finite t n) =
     (let x = fp_val (Finite s m) + fp_val (Finite t n)
      in if x = 0 then Finite (s \<and> t) 0 else f64_of_rat x)"

definition f64_sub :: "f64 \<Rightarrow> f64 \<Rightarrow> f64" where
  "f64_sub a b = f64_add a (fp_neg b)"

fun f64_mul :: "f64 \<Rightarrow> f64 \<Rightarrow> f64" where
  "f64_mul NaN b = NaN"
| "f64_mul a NaN = NaN"
| "f64_mul (Infinity s) (Infinity t) = Infinity (s \<noteq> t)"
| "f64_mul (Infinity s) (Finite t n) = (if n = 0 then NaN else Infinity (s \<noteq> t))"
| "f64_mul (Finite s m) (Infinity t) = (if m = 0 then NaN else Infinity (s \<noteq> t))"
| "f64_mul (Finite s m) (Finite t n) = f64_round (s \<noteq> t) (m * n)"

fun f64_div :: "f64 \<Rightarrow> f64 \<Rightarrow> f64" where
  "f64_div NaN b = NaN"
| "f64_div a NaN = NaN"
| "f64_div (Infinity s) (Infinity t) = NaN"
| "f64_div (Infinity s) (Finite t n) = Infinity (s \<noteq> t)"
| "f64_div (Finite s m) (Infinity t) = Finite (s \<noteq> t) 0"
| "f64_div (Finite s m) (Finite t n) =
     (if n = 0 then (if m = 0 then NaN else Infinity (s \<noteq> t)) else f64_round (s \<noteq> t) (m / n))"

text \<open>\<open>a.max(b)\<close>: the other operand when one is NaN.\<close>

definition fp_max :: "fp \<Rightarrow> fp \<Rightarrow> fp" where
  "fp_max a b = (if a = NaN then b else if b = NaN then a else if fp_lt a b then b else a)"

lemma fp_max_ge_right: "b \<noteq> NaN \<Longrightarrow> fp_le b (fp_max a b)"
  by (cases a; cases b) (auto simp: fp_max_def fp_le_def)

text \<open>\<open>f64::total_cmp\<close> as an order: -NaN is not produced, +NaN is last.\<close>

fun total_le :: "f64 \<Rightarrow> f64 \<Rightarrow> bool" where
  "total_le a NaN = True"
| "total_le NaN b = False"
| "total_le (Finite s m) (Finite t n) =
     (if m = 0 \<and> n = 0 then s \<or> \<not> t else fp_le (Finite s m) (Finite t n))"
| "total_le a b = fp_le a b"

text \<open>\<open>x.round()\<close>, half away from zero, then \<open>as usize\<close> (negative to 0), for finite \<open>x\<close>.\<close>

fun f64_round_to_nat :: "f64 \<Rightarrow> nat" where
  "f64_round_to_nat (Finite s m) = (if s then 0 else nat \<lfloor>m + 1 / 2\<rfloor>)"
| "f64_round_to_nat (Infinity s) = (if s then 0 else u64_max)"
| "f64_round_to_nat NaN = 0"

text \<open>\<open>Duration::as_secs_f64\<close>: whole seconds plus nanoseconds over \<open>10 ^ 9\<close>.\<close>

definition as_secs_f64 :: "duration \<Rightarrow> f64" where
  "as_secs_f64 d =
     f64_add (f64_of_nat (d div 1000000000))
             (f64_div (f64_of_nat (d mod 1000000000)) (f64_of_nat 1000000000))"

lemmas f64_eval = as_secs_f64_def f64_of_nat_def f64_of_rat_def f64_round_def round_to_def floor_log2_def
  round_half_even_def bit_length.simps

lemma as_secs_f64_0 [simp]: "as_secs_f64 0 = Finite False 0"
  by (simp add: f64_eval Let_def)

text \<open>\<open>Duration::as_secs_f32() * 1000.0\<close>; every operand is finite and not negative.\<close>

definition as_secs_f32 :: "duration \<Rightarrow> f32" where
  "as_secs_f32 d =
     f32_of_rat (fp_val (f32_of_rat (of_nat (d div 1000000000)))
       + fp_val (f32_of_rat (fp_val (f32_of_rat (of_nat (d mod 1000000000))) / 1000000000)))"

definition as_millis_f32 :: "duration \<Rightarrow> f32" where
  "as_millis_f32 d = f32_of_rat (fp_val (as_secs_f32 d) * 1000)"

text \<open>\<open>clock::monotonic_epoch_ms\<close>: the epoch time at start plus the elapsed monotonic time.\<close>

definition monotonic_epoch_ms :: "f64 \<Rightarrow> duration \<Rightarrow> f64" where
  "monotonic_epoch_ms origin_epoch_ms elapsed =
     f64_add origin_epoch_ms (f64_mul (as_secs_f64 elapsed) (f64_of_nat 1000))"

end
