(* ===== verification/Reassembly.thy ===== *)
theory Reassembly
  imports Config_Limits Rust_Float
begin

text \<open>
  \<open>src/v4l2_decoder.rs\<close>: bounded reassembly of access units from chunk packets.  The statics of
  the module (\<open>LAST_COMPLETED_SEQ\<close>, the counters, \<open>ASSEMBLIES\<close>) are one record; each call of
  \<open>process_udp_chunk\<close> takes the current instant and the epoch clock as arguments.  The assembly
  mutex is held from the retain to the end of the call; calls are modelled one at a time.
\<close>

section \<open>State\<close>

definition MAX_CHUNKS :: nat where
  [limits]: "MAX_CHUNKS = (MAX_ACCESS_UNIT_BYTES + CHUNK_BYTES - 1) div CHUNK_BYTES"

definition MAX_IN_FLIGHT :: nat where
  [limits]: "MAX_IN_FLIGHT = MAX_IN_FLIGHT_ACCESS_UNITS"

definition ASSEMBLY_TTL :: duration where
  [limits]: "ASSEMBLY_TTL = ACCESS_UNIT_ASSEMBLY_TTL"

definition MAX_PIPELINE_DURATION_MS :: f32 where
  "MAX_PIPELINE_DURATION_MS = Finite False 30000"

record video_frame =
  vf_seq :: u32
  vf_width :: u32
  vf_height :: u32
  vf_codec :: string
  vf_access_unit :: "byte list"
  vf_first_packet_at :: instant
  vf_capture_time_ms :: "f64 option"
  vf_encode_duration_ms :: "f32 option"
  vf_send_start_time_ms :: "f64 option"
  vf_receiver_complete_time_ms :: "f64 option"

record assembly =
  as_seq :: u32
  as_total_chunks :: u16
  as_width :: u16
  as_height :: u16
  as_codec :: string
  as_chunks :: "byte list option list"
  as_received :: nat
  as_first_packet_at :: instant
  as_capture_time_ms :: "f64 option"
  as_encode_duration_ms :: "f32 option"
  as_send_start_time_ms :: "f64 option"

record reassembly =
  last_completed_seq :: u32
  stats_chunks :: u64
  stats_completed :: u64
  stats_dropped_timeout :: u64
  stats_dropped_evicted :: u64
  stats_ignored_packets :: u64
  assemblies :: "assembly list"

record reassembly_stats =
  in_flight :: nat
  dropped_access_units :: u64
  ignored_packets :: u64

definition initial_reassembly :: reassembly where
  "initial_reassembly = \<lparr>last_completed_seq = 0, stats_chunks = 0, stats_completed = 0,
     stats_dropped_timeout = 0, stats_dropped_evicted = 0, stats_ignored_packets = 0,
     assemblies = []\<rparr>"

definition read_reassembly_stats :: "reassembly \<Rightarrow> reassembly_stats" where
  "read_reassembly_stats s = \<lparr>in_flight = length (assemblies s),
     dropped_access_units = stats_dropped_timeout s + stats_dropped_evicted s,
     ignored_packets = stats_ignored_packets s\<rparr>"

definition ignore_packet :: "reassembly \<Rightarrow> video_frame option \<times> reassembly" where
  "ignore_packet s = (None, s\<lparr>stats_ignored_packets := stats_ignored_packets s + 1\<rparr>)"

definition reset_decoder_pipeline :: "reassembly \<Rightarrow> reassembly" where
  "reset_decoder_pipeline s = s\<lparr>last_completed_seq := 0, assemblies := []\<rparr>"

definition stop_frame :: "instant \<Rightarrow> video_frame" where
  "stop_frame now = \<lparr>vf_seq = 0, vf_width = 0, vf_height = 0, vf_codec = ''stop'',
     vf_access_unit = [], vf_first_packet_at = now, vf_capture_time_ms = None,
     vf_encode_duration_ms = None, vf_send_start_time_ms = None,
     vf_receiver_complete_time_ms = None\<rparr>"

section \<open>The packet header\<close>

definition is_timed_v1 :: "byte list \<Rightarrow> bool" where
  "is_timed_v1 tag \<longleftrightarrow> tag = TIMED_H264_TAG \<or> tag = TIMED_H265_TAG"

definition is_synchronized :: "byte list \<Rightarrow> bool" where
  "is_synchronized tag \<longleftrightarrow> tag = SYNC_TIMED_H264_TAG \<or> tag = SYNC_TIMED_H265_TAG"

definition codec_of_tag :: "byte list \<Rightarrow> string option" where
  "codec_of_tag tag =
     (if tag = H265_TAG \<or> tag = LEGACY_H265_TAG \<or> tag = TIMED_H265_TAG \<or> tag = SYNC_TIMED_H265_TAG
      then Some ''hevc''
      else if tag = H264_TAG \<or> tag = LEGACY_H264_TAG \<or> tag = TIMED_H264_TAG \<or> tag = SYNC_TIMED_H264_TAG
      then Some ''h264''
      else None)"

record timing =
  tm_header_len :: nat
  tm_capture :: "f64 option"
  tm_encode :: "f32 option"
  tm_send_start :: "f64 option"

definition valid_timing :: "f64 \<Rightarrow> f32 \<Rightarrow> bool" where
  "valid_timing capture encode \<longleftrightarrow>
     is_finite capture \<and> fp_lt (Finite False 0) capture \<and> is_finite encode
     \<and> in_range (Finite False 0) MAX_PIPELINE_DURATION_MS encode"

text \<open>The timing block of a packet; \<open>None\<close> where the code ignores the packet.\<close>

definition read_timing :: "byte list \<Rightarrow> timing option" where
  "read_timing packet =
     (let tag = take CODEC_TAG_BYTES packet; synchronized = is_synchronized tag
      in if is_timed_v1 tag \<or> synchronized then
           (let header_len = (if synchronized then PACKET_HEADER_BYTES else TIMED_V1_PACKET_HEADER_BYTES)
            in if length packet \<le> header_len then None
               else let capture = f64_from_bits (u64_from_be_bytes
                          (slice_of CAPTURE_TIME_OFFSET CAPTURE_TIME_BYTES packet));
                        encode = f32_from_bits (u32_from_be_bytes
                          (slice_of ENCODE_DURATION_OFFSET ENCODE_DURATION_BYTES packet));
                        send = (if synchronized then Some (f64_from_bits (u64_from_be_bytes
                          (slice_of SEND_START_TIME_OFFSET SEND_START_TIME_BYTES packet))) else None)
                    in if \<not> valid_timing capture encode
                          \<or> (case send of None \<Rightarrow> False
                             | Some v \<Rightarrow> \<not> is_finite v \<or> fp_le v (Finite False 0))
                       then None
                       else Some \<lparr>tm_header_len = header_len, tm_capture = Some capture,
                              tm_encode = Some encode, tm_send_start = send\<rparr>)
         else Some \<lparr>tm_header_len = LEGACY_PACKET_HEADER_BYTES, tm_capture = None,
                tm_encode = None, tm_send_start = None\<rparr>)"

text \<open>The fields of an accepted packet.\<close>

record chunk =
  ck_seq :: u32
  ck_index :: u16
  ck_total :: u16
  ck_width :: u16
  ck_height :: u16
  ck_codec :: string
  ck_timing :: timing
  ck_payload :: "byte list"

definition parse_seq :: "byte list \<Rightarrow> u32" where
  "parse_seq packet = u32_from_be_bytes (slice_of SEQUENCE_OFFSET SEQUENCE_BYTES packet)"

definition max_dimensions :: "string \<Rightarrow> nat \<times> nat" where
  "max_dimensions codec =
     (if codec = ''h264'' then (H264_MAX_WIDTH, H264_MAX_HEIGHT) else (H265_MAX_WIDTH, H265_MAX_HEIGHT))"

text \<open>Everything the code reads and checks after the sequence number and before it takes the
  assembly lock; \<open>None\<close> where it ignores the packet.\<close>

definition parse_chunk :: "string \<Rightarrow> byte list \<Rightarrow> chunk option" where
  "parse_chunk codec packet =
     (let index = u16_from_be_bytes (slice_of CHUNK_INDEX_OFFSET CHUNK_INDEX_BYTES packet);
          total = u16_from_be_bytes (slice_of CHUNK_COUNT_OFFSET CHUNK_COUNT_BYTES packet);
          width = u16_from_be_bytes (slice_of WIDTH_OFFSET DIMENSION_BYTES packet);
          height = u16_from_be_bytes (slice_of HEIGHT_OFFSET DIMENSION_BYTES packet)
      in case read_timing packet of None \<Rightarrow> None
         | Some t \<Rightarrow>
           if total = 0 \<or> unat total > MAX_CHUNKS \<or> index \<ge> total \<or> width = 0 \<or> height = 0 then None
           else if unat width > fst (max_dimensions codec) \<or> unat height > snd (max_dimensions codec)
           then None
           else let payload = drop (tm_header_len t) packet
                in if length payload > MAX_ACCESS_UNIT_BYTES then None
                   else Some \<lparr>ck_seq = parse_seq packet, ck_index = index, ck_total = total,
                          ck_width = width, ck_height = height, ck_codec = codec, ck_timing = t,
                          ck_payload = payload\<rparr>)"

section \<open>Assembling\<close>

definition entry_mismatch :: "assembly \<Rightarrow> chunk \<Rightarrow> bool" where
  "entry_mismatch e c \<longleftrightarrow>
     as_total_chunks e \<noteq> ck_total c \<or> as_width e \<noteq> ck_width c \<or> as_height e \<noteq> ck_height c
     \<or> as_codec e \<noteq> ck_codec c \<or> \<not> opt_eq (as_capture_time_ms e) (tm_capture (ck_timing c))
     \<or> \<not> opt_eq (as_encode_duration_ms e) (tm_encode (ck_timing c))
     \<or> \<not> opt_eq (as_send_start_time_ms e) (tm_send_start (ck_timing c))"

definition new_assembly :: "instant \<Rightarrow> chunk \<Rightarrow> assembly" where
  "new_assembly now c = \<lparr>as_seq = ck_seq c, as_total_chunks = ck_total c, as_width = ck_width c,
     as_height = ck_height c, as_codec = ck_codec c,
     as_chunks = (replicate (unat (ck_total c)) None)[unat (ck_index c) := Some (ck_payload c)],
     as_received = 1, as_first_packet_at = now, as_capture_time_ms = tm_capture (ck_timing c),
     as_encode_duration_ms = tm_encode (ck_timing c),
     as_send_start_time_ms = tm_send_start (ck_timing c)\<rparr>"

definition chunk_len :: "byte list option \<Rightarrow> nat" where
  "chunk_len c = (case c of None \<Rightarrow> 0 | Some bs \<Rightarrow> length bs)"

definition frame_of :: "assembly \<Rightarrow> f64 \<Rightarrow> byte list \<Rightarrow> video_frame" where
  "frame_of a clock_ms au = \<lparr>vf_seq = as_seq a, vf_width = ucast (as_width a),
     vf_height = ucast (as_height a), vf_codec = as_codec a, vf_access_unit = au,
     vf_first_packet_at = as_first_packet_at a, vf_capture_time_ms = as_capture_time_ms a,
     vf_encode_duration_ms = as_encode_duration_ms a, vf_send_start_time_ms = as_send_start_time_ms a,
     vf_receiver_complete_time_ms = map_option (\<lambda>_. clock_ms) (as_send_start_time_ms a)\<rparr>"

text \<open>\<open>for chunk in chunks { access_unit.extend_from_slice(chunk.as_deref()?) }\<close>\<close>

definition join_chunks :: "byte list option list \<Rightarrow> byte list option" where
  "join_chunks cs = (if None \<in> set cs then None else Some (concat (map the cs)))"

text \<open>From the search for a completed entry to the end of the function.\<close>

definition complete :: "f64 \<Rightarrow> u32 \<Rightarrow> reassembly \<Rightarrow> video_frame option \<times> reassembly" where
  "complete clock_ms sq s =
     (case position (\<lambda>e. as_seq e = sq \<and> as_received e = unat (as_total_chunks e)) (assemblies s) of
        None \<Rightarrow> (None, s)
      | Some i \<Rightarrow>
        let fin = assemblies s ! i;
            s = s\<lparr>last_completed_seq := as_seq fin,
                  assemblies := filter (\<lambda>e. as_seq e > as_seq fin) (remove_at i (assemblies s))\<rparr>;
            actual_len = sum_list (map chunk_len (as_chunks fin))
        in if actual_len = 0 \<or> actual_len > MAX_ACCESS_UNIT_BYTES then ignore_packet s
           else (case join_chunks (as_chunks fin) of None \<Rightarrow> (None, s)
                 | Some au \<Rightarrow> (Some (frame_of fin clock_ms au),
                               s\<lparr>stats_completed := stats_completed s + 1\<rparr>)))"

text \<open>Storing a chunk in its entry, or in a new one (evicting the oldest when full).\<close>

definition retain_fresh :: "instant \<Rightarrow> u32 \<Rightarrow> reassembly \<Rightarrow> reassembly" where
  "retain_fresh now last_seq s =
     (let kept = filter (\<lambda>e. now - as_first_packet_at e \<le> ASSEMBLY_TTL \<and> as_seq e > last_seq) (assemblies s)
      in s\<lparr>assemblies := kept,
           stats_dropped_timeout := stats_dropped_timeout s
             + of_nat (length (assemblies s) - length kept)\<rparr>)"

definition store_in_entry :: "nat \<Rightarrow> chunk \<Rightarrow> reassembly \<Rightarrow> reassembly" where
  "store_in_entry i c s =
     (let e = assemblies s ! i
      in case as_chunks e ! unat (ck_index c) of
           None \<Rightarrow> s\<lparr>assemblies := (assemblies s)[i := e\<lparr>
                       as_chunks := (as_chunks e)[unat (ck_index c) := Some (ck_payload c)],
                       as_received := as_received e + 1\<rparr>]\<rparr>
         | Some _ \<Rightarrow> s\<lparr>stats_ignored_packets := stats_ignored_packets s + 1\<rparr>)"

definition store_new :: "instant \<Rightarrow> chunk \<Rightarrow> reassembly \<Rightarrow> reassembly" where
  "store_new now c s =
     (let s = (if length (assemblies s) = MAX_IN_FLIGHT
               then s\<lparr>assemblies := remove_at 0 (assemblies s),
                      stats_dropped_evicted := stats_dropped_evicted s + 1\<rparr>
               else s)
      in s\<lparr>assemblies := assemblies s @ [new_assembly now c]\<rparr>)"

definition accept_chunk ::
  "instant \<Rightarrow> f64 \<Rightarrow> u32 \<Rightarrow> chunk \<Rightarrow> reassembly \<Rightarrow> video_frame option \<times> reassembly" where
  "accept_chunk now clock_ms last_seq c s =
     (let s = retain_fresh now last_seq s
      in case position (\<lambda>e. as_seq e = ck_seq c) (assemblies s) of
           Some i \<Rightarrow> if entry_mismatch (assemblies s ! i) c then ignore_packet s
                     else complete clock_ms (ck_seq c) (store_in_entry i c s)
         | None \<Rightarrow> complete clock_ms (ck_seq c) (store_new now c s))"

text \<open>A sequence number at or below the last completed one: the code either restarts the pipeline
  or drops the packet.\<close>

definition is_behind :: "u32 \<Rightarrow> u32 \<Rightarrow> bool" where
  "is_behind sq last_seq \<longleftrightarrow> sq \<le> last_seq \<and> last_seq > 0"

definition is_restart :: "u32 \<Rightarrow> u32 \<Rightarrow> bool" where
  "is_restart sq last_seq \<longleftrightarrow> sq \<le> 5 \<or> sq < last_seq"

definition process_udp_chunk ::
  "instant \<Rightarrow> f64 \<Rightarrow> byte list \<Rightarrow> reassembly \<Rightarrow> video_frame option \<times> reassembly" where
  "process_udp_chunk now clock_ms packet s =
     (if length packet \<ge> length STOP_TAG \<and> take (length STOP_TAG) packet = STOP_TAG
      then (Some (stop_frame now), reset_decoder_pipeline s)
      else if length packet \<le> LEGACY_PACKET_HEADER_BYTES then ignore_packet s
      else
        let s = s\<lparr>stats_chunks := stats_chunks s + 1\<rparr>
        in case codec_of_tag (take CODEC_TAG_BYTES packet) of None \<Rightarrow> ignore_packet s
           | Some codec \<Rightarrow>
             let sq = parse_seq packet; last_seq = last_completed_seq s
             in if is_behind sq last_seq \<and> \<not> is_restart sq last_seq then ignore_packet s
                else
                  let s = (if is_behind sq last_seq then reset_decoder_pipeline s else s)
                  in case parse_chunk codec packet of None \<Rightarrow> ignore_packet s
                     | Some c \<Rightarrow> accept_chunk now clock_ms last_seq c s)"

text \<open>The module as a machine: packets with their arrival clocks.\<close>

definition reassembly_step :: "instant \<times> f64 \<times> byte list \<Rightarrow> reassembly \<Rightarrow> reassembly" where
  "reassembly_step p s = (case p of (now, clock_ms, packet) \<Rightarrow> snd (process_udp_chunk now clock_ms packet s))"

end
