(* ===== verification/Reassembly_Invariant.thy ===== *)
theory Reassembly_Invariant
  imports Reassembly
begin

text \<open>
  The well-formedness of the reassembly state, that every packet keeps it, and what it gives:
  indices always in range, at most \<open>MAX_IN_FLIGHT\<close> partial access units, and bounds on every
  frame handed to the decoder.
\<close>

section \<open>Well-formed chunks, entries and states\<close>

definition known_codec :: "string \<Rightarrow> bool" where
  "known_codec c \<longleftrightarrow> c = ''hevc'' \<or> c = ''h264''"

definition dimensions_ok :: "string \<Rightarrow> nat \<Rightarrow> nat \<Rightarrow> bool" where
  "dimensions_ok codec w h \<longleftrightarrow>
     0 < w \<and> w \<le> fst (max_dimensions codec) \<and> 0 < h \<and> h \<le> snd (max_dimensions codec)"

definition payload_ok :: "byte list \<Rightarrow> bool" where
  "payload_ok bs \<longleftrightarrow> bs \<noteq> [] \<and> length bs \<le> MAX_ACCESS_UNIT_BYTES"

definition chunk_ok :: "chunk \<Rightarrow> bool" where
  "chunk_ok c \<longleftrightarrow>
     unat (ck_index c) < unat (ck_total c) \<and> unat (ck_total c) \<le> MAX_CHUNKS
     \<and> known_codec (ck_codec c) \<and> dimensions_ok (ck_codec c) (unat (ck_width c)) (unat (ck_height c))
     \<and> payload_ok (ck_payload c)"

definition present :: "byte list option list \<Rightarrow> nat" where
  "present cs = length (filter (\<lambda>c. c \<noteq> None) cs)"

definition entry_shape :: "assembly \<Rightarrow> bool" where
  "entry_shape e \<longleftrightarrow>
     length (as_chunks e) = unat (as_total_chunks e) \<and> 0 < unat (as_total_chunks e)
     \<and> unat (as_total_chunks e) \<le> MAX_CHUNKS \<and> as_received e = present (as_chunks e)
     \<and> known_codec (as_codec e)
     \<and> dimensions_ok (as_codec e) (unat (as_width e)) (unat (as_height e))
     \<and> (\<forall>bs. Some bs \<in> set (as_chunks e) \<longrightarrow> payload_ok bs)"

definition entry_open :: "assembly \<Rightarrow> bool" where
  "entry_open e \<longleftrightarrow> as_received e < unat (as_total_chunks e)"

definition above_completed :: "u32 \<Rightarrow> u32 \<Rightarrow> bool" where
  "above_completed last_seq sq \<longleftrightarrow> last_seq = 0 \<or> last_seq < sq"

definition reassembly_ok :: "reassembly \<Rightarrow> bool" where
  "reassembly_ok s \<longleftrightarrow>
     distinct (map as_seq (assemblies s)) \<and> length (assemblies s) \<le> MAX_IN_FLIGHT
     \<and> (\<forall>e \<in> set (assemblies s). entry_shape e \<and> entry_open e
          \<and> above_completed (last_completed_seq s) (as_seq e))"

text \<open>Between storing a chunk and looking for a completed entry, only the entry of that chunk may
  be complete.\<close>

definition storing_ok :: "u32 \<Rightarrow> reassembly \<Rightarrow> bool" where
  "storing_ok sq s \<longleftrightarrow>
     distinct (map as_seq (assemblies s)) \<and> length (assemblies s) \<le> MAX_IN_FLIGHT
     \<and> (\<forall>e \<in> set (assemblies s). entry_shape e \<and> (as_seq e = sq \<or> entry_open e)
          \<and> above_completed (last_completed_seq s) (as_seq e))"

lemmas wf_defs = chunk_ok_def entry_shape_def entry_open_def above_completed_def payload_ok_def

lemma initial_ok: "reassembly_ok initial_reassembly"
  by (simp add: reassembly_ok_def initial_reassembly_def)

lemma reset_ok: "reassembly_ok (reset_decoder_pipeline s)"
  by (simp add: reassembly_ok_def reset_decoder_pipeline_def)

lemma reassembly_ok_counters [simp]:
  "reassembly_ok (s\<lparr>stats_chunks := a\<rparr>) = reassembly_ok s"
  "reassembly_ok (s\<lparr>stats_completed := a\<rparr>) = reassembly_ok s"
  "reassembly_ok (s\<lparr>stats_dropped_timeout := a\<rparr>) = reassembly_ok s"
  "reassembly_ok (s\<lparr>stats_dropped_evicted := a\<rparr>) = reassembly_ok s"
  "reassembly_ok (s\<lparr>stats_ignored_packets := a\<rparr>) = reassembly_ok s"
  by (simp_all add: reassembly_ok_def)

lemma ignore_packet_simps [simp]:
  "fst (ignore_packet s) = None"
  "reassembly_ok (snd (ignore_packet s)) = reassembly_ok s"
  "assemblies (snd (ignore_packet s)) = assemblies s"
  "last_completed_seq (snd (ignore_packet s)) = last_completed_seq s"
  by (simp_all add: ignore_packet_def)

section \<open>Counting received chunks\<close>

lemma present_le: "present cs \<le> length cs"
  by (simp add: present_def)

lemma present_update:
  "i < length cs \<Longrightarrow> cs ! i = None \<Longrightarrow> present (cs[i := Some bs]) = present cs + 1"
proof (induction cs arbitrary: i)
  case (Cons c cs)
  then show ?case by (cases i) (auto simp: present_def)
qed simp

lemma present_replicate_None [simp]: "present (replicate n None) = 0"
  by (simp add: present_def)

lemma present_Cons: "present (c # cs) = (if c = None then present cs else Suc (present cs))"
  by (simp add: present_def)

lemma present_all: "present cs = length cs \<longleftrightarrow> None \<notin> set cs"
proof (induction cs)
  case (Cons c cs)
  then show ?case
    using present_le [of cs] by (auto simp: present_Cons)
qed (simp add: present_def)

lemma sum_chunk_len: "None \<notin> set cs \<Longrightarrow> sum_list (map chunk_len cs) = length (concat (map the cs))"
  by (induction cs) (auto simp: chunk_len_def split: option.splits)

section \<open>Parsing\<close>

lemma read_timing_len:
  "read_timing p = Some t \<Longrightarrow> LEGACY_PACKET_HEADER_BYTES < length p \<Longrightarrow> tm_header_len t < length p"
  by (auto simp: read_timing_def Let_def split: if_splits)

lemma codec_of_tag_known: "codec_of_tag tag = Some c \<Longrightarrow> known_codec c"
  by (auto simp: codec_of_tag_def known_codec_def split: if_splits)

lemma parse_chunk_ok:
  assumes "parse_chunk codec p = Some c" and "LEGACY_PACKET_HEADER_BYTES < length p" and "known_codec codec"
  shows "chunk_ok c" and "ck_seq c = parse_seq p"
proof -
  have nz: "(w :: u16) \<noteq> 0 \<Longrightarrow> 0 < unat w" for w
    by (simp add: unat_gt_0)
  show "chunk_ok c"
    using assms read_timing_len [of p]
    by (auto simp: parse_chunk_def Let_def wf_defs dimensions_ok_def nz not_le word_less_nat_alt
        split: option.splits if_splits)
  show "ck_seq c = parse_seq p"
    using assms(1) by (auto simp: parse_chunk_def Let_def split: option.splits if_splits)
qed

section \<open>Storing and completing\<close>

lemma retain_fresh_ok: "reassembly_ok s \<Longrightarrow> reassembly_ok (retain_fresh now l s)"
  by (auto simp: reassembly_ok_def retain_fresh_def Let_def distinct_map_filter
      intro: le_trans [OF length_filter_le])

lemma retain_fresh_simps [simp]:
  "last_completed_seq (retain_fresh now l s) = last_completed_seq s"
  "assemblies (retain_fresh now l s) =
     filter (\<lambda>e. now - as_first_packet_at e \<le> ASSEMBLY_TTL \<and> as_seq e > l) (assemblies s)"
  by (simp_all add: retain_fresh_def Let_def)

lemma reassembly_ok_storing: "reassembly_ok s \<Longrightarrow> storing_ok sq s"
  by (simp add: reassembly_ok_def storing_ok_def)

lemma new_assembly_shape: "chunk_ok c \<Longrightarrow> entry_shape (new_assembly now c)"
  by (auto simp: wf_defs new_assembly_def present_update dest: set_update_subset_insert [THEN subsetD])

lemma store_new_ok:
  assumes "reassembly_ok s" "chunk_ok c" "\<forall>e \<in> set (assemblies s). as_seq e \<noteq> ck_seq c"
    "above_completed (last_completed_seq s) (ck_seq c)"
  shows "storing_ok (ck_seq c) (store_new now c s)"
proof -
  have seq: "as_seq (new_assembly now c) = ck_seq c"
    by (simp add: new_assembly_def)
  have "0 < MAX_IN_FLIGHT"
    by (simp add: limits)
  then show ?thesis
    using assms new_assembly_shape [OF assms(2), of now] set_remove_at [of 0 "assemblies s"]
    by (auto simp: storing_ok_def reassembly_ok_def store_new_def Let_def seq length_remove_at
        distinct_map_remove_at)
qed

lemma position_seq:
  assumes "position (\<lambda>e. as_seq e = sq) xs = Some i"
  shows "i < length xs" "as_seq (xs ! i) = sq"
  using position_Some [OF assms] by simp_all

lemma store_in_entry_ok:
  assumes ok: "reassembly_ok s" and c: "chunk_ok c"
    and pos: "position (\<lambda>e. as_seq e = ck_seq c) (assemblies s) = Some i"
    and match: "\<not> entry_mismatch (assemblies s ! i) c"
  shows "storing_ok (ck_seq c) (store_in_entry i c s)"
proof -
  let ?e = "assemblies s ! i" and ?k = "unat (ck_index c)"
  note i = position_seq [OF pos]
  have e: "entry_shape ?e" "above_completed (last_completed_seq s) (as_seq ?e)"
    using ok nth_mem [OF i(1)] unfolding reassembly_ok_def by blast+
  have k: "?k < length (as_chunks ?e)"
    using e c match by (auto simp: wf_defs entry_mismatch_def)
  show ?thesis
  proof (cases "as_chunks ?e ! ?k")
    case None
    let ?e' = "?e\<lparr>as_chunks := (as_chunks ?e)[?k := Some (ck_payload c)], as_received := as_received ?e + 1\<rparr>"
    have "entry_shape ?e'"
      using e c k None
      by (auto simp: wf_defs present_update dest!: set_update_subset_insert [THEN subsetD])
    moreover have "map as_seq ((assemblies s)[i := ?e']) = map as_seq (assemblies s)"
      using i(1) by (intro nth_equalityI) (auto simp: nth_list_update)
    moreover have "\<forall>x \<in> set ((assemblies s)[i := ?e']). x = ?e' \<or> x \<in> set (assemblies s)"
      using set_update_subset_insert by fast
    moreover have "above_completed (last_completed_seq s) (ck_seq c)"
      using e(2) i(2) by simp
    ultimately show ?thesis
      using ok i None
      by (fastforce simp: storing_ok_def reassembly_ok_def store_in_entry_def Let_def)
  next
    case (Some bs)
    then have "store_in_entry i c s = s\<lparr>stats_ignored_packets := stats_ignored_packets s + 1\<rparr>"
      by (simp add: store_in_entry_def Let_def)
    then show ?thesis
      using ok by (simp add: reassembly_ok_storing)
  qed
qed

lemma complete_found_ok:
  assumes ok: "storing_ok sq s"
    and i: "i < length (assemblies s)"
    and e: "e = assemblies s ! i" "as_seq e = sq"
  shows "reassembly_ok (s\<lparr>last_completed_seq := as_seq e,
            assemblies := filter (\<lambda>x. as_seq x > as_seq e) (remove_at i (assemblies s))\<rparr>)"
proof -
  have "distinct (map as_seq (filter (\<lambda>x. as_seq x > as_seq e) (remove_at i (assemblies s))))"
    using ok by (simp add: storing_ok_def distinct_map_remove_at distinct_map_filter)
  moreover have "length (filter (\<lambda>x. as_seq x > as_seq e) (remove_at i (assemblies s))) \<le> MAX_IN_FLIGHT"
    using ok i le_trans [OF length_filter_le, of "remove_at i (assemblies s)"]
    by (force simp: storing_ok_def length_remove_at)
  ultimately show ?thesis
    using ok e
    by (auto simp: reassembly_ok_def storing_ok_def above_completed_def
        dest!: subsetD [OF set_remove_at])
qed

text \<open>What every delivered frame satisfies.\<close>

definition frame_ok :: "video_frame \<Rightarrow> bool" where
  "frame_ok f \<longleftrightarrow>
     known_codec (vf_codec f) \<and> dimensions_ok (vf_codec f) (unat (vf_width f)) (unat (vf_height f))
     \<and> 0 < length (vf_access_unit f) \<and> length (vf_access_unit f) \<le> MAX_ACCESS_UNIT_BYTES"

lemma unat_ucast_up: "unat (ucast (w :: u16) :: u32) = unat w"
  by (simp add: unsigned_ucast_eq take_bit_nat_eq_self_iff) (use unat_below [of w] in simp)?

lemma complete_ok:
  assumes ok: "storing_ok sq s" and r: "complete clock sq s = (f, s')"
  shows "reassembly_ok s'" and "\<And>v. f = Some v \<Longrightarrow> frame_ok v"
proof -
  let ?p = "\<lambda>e. as_seq e = sq \<and> as_received e = unat (as_total_chunks e)"
  show "reassembly_ok s'"
  proof (cases "position ?p (assemblies s)")
    case None
    have "entry_open e" if "e \<in> set (assemblies s)" for e
    proof -
      have "\<not> ?p e" "entry_shape e" "as_seq e = sq \<or> entry_open e"
        using None that ok by (auto simp: position_None storing_ok_def)
      moreover have "as_received e \<le> unat (as_total_chunks e)"
        using \<open>entry_shape e\<close> present_le [of "as_chunks e"] by (simp add: entry_shape_def)
      ultimately show ?thesis
        by (auto simp: entry_open_def)
    qed
    then have "reassembly_ok s"
      using ok by (simp add: storing_ok_def reassembly_ok_def)
    then show ?thesis
      using r None by (simp add: complete_def)
  next
    case (Some i)
    note pos = position_Some [OF Some]
    show ?thesis
      using r Some complete_found_ok [OF ok, of i "assemblies s ! i"] pos
      by (auto simp: complete_def Let_def ignore_packet_def split: if_splits option.splits)
  qed
  show "frame_ok v" if fv: "f = Some v" for v
  proof -
    obtain i where i: "position ?p (assemblies s) = Some i"
      using r fv by (cases "position ?p (assemblies s)") (simp_all add: complete_def)
    let ?e = "assemblies s ! i"
    have "i < length (assemblies s)" "?p ?e"
      using position_Some [OF i] by auto
    then have shape: "entry_shape ?e"
      using ok by (auto simp: storing_ok_def)
    have len: "sum_list (map chunk_len (as_chunks ?e)) \<noteq> 0"
      "sum_list (map chunk_len (as_chunks ?e)) \<le> MAX_ACCESS_UNIT_BYTES"
      and v: "v = frame_of ?e clock (concat (map the (as_chunks ?e)))" "None \<notin> set (as_chunks ?e)"
      using r i fv
      by (auto simp: complete_def Let_def ignore_packet_def join_chunks_def split: if_splits option.splits)
    show ?thesis
      using shape len(2) len(1) [unfolded sum_chunk_len [OF v(2)]] v sum_chunk_len [OF v(2)]
      by (auto simp: frame_ok_def frame_of_def entry_shape_def unat_ucast_up)
  qed
qed

lemma accept_chunk_ok:
  assumes "reassembly_ok s" "chunk_ok c" "above_completed (last_completed_seq s) (ck_seq c)"
    and r: "accept_chunk now clock l c s = (f, s')"
  shows "reassembly_ok s'" and "\<And>v. f = Some v \<Longrightarrow> frame_ok v"
proof -
  let ?s = "retain_fresh now l s"
  have ok: "reassembly_ok ?s"
    using assms(1) by (rule retain_fresh_ok)
  have "reassembly_ok s' \<and> (\<forall>v. f = Some v \<longrightarrow> frame_ok v)"
  proof (cases "position (\<lambda>e. as_seq e = ck_seq c) (assemblies ?s)")
    case None
    have "complete clock (ck_seq c) (store_new now c ?s) = (f, s')"
      using r None by (simp add: accept_chunk_def Let_def)
    moreover have "storing_ok (ck_seq c) (store_new now c ?s)"
      using ok assms(2,3) None by (intro store_new_ok) (auto simp: position_None)
    ultimately show ?thesis
      using complete_ok by blast
  next
    case (Some i)
    show ?thesis
    proof (cases "entry_mismatch (assemblies ?s ! i) c")
      case True
      then have "(f, s') = ignore_packet ?s"
        using r Some by (simp add: accept_chunk_def Let_def del: retain_fresh_simps)
      then show ?thesis
        using ok by (simp add: ignore_packet_def)
    next
      case False
      then have "complete clock (ck_seq c) (store_in_entry i c ?s) = (f, s')"
        using r Some by (simp add: accept_chunk_def Let_def del: retain_fresh_simps)
      then show ?thesis
        using store_in_entry_ok [OF ok assms(2) Some False] complete_ok by blast
    qed
  qed
  then show "reassembly_ok s'" and "\<And>v. f = Some v \<Longrightarrow> frame_ok v"
    by auto
qed

section \<open>Every packet\<close>

lemma not_behind_above: "\<not> is_behind sq l \<Longrightarrow> above_completed l sq"
  by (auto simp: is_behind_def above_completed_def not_le word_gt_0)

lemma process_ok:
  assumes ok: "reassembly_ok s" and r: "process_udp_chunk now clock p s = (f, s')"
  shows "reassembly_ok s' \<and> (\<forall>v. f = Some v \<longrightarrow> frame_ok v \<or> v = stop_frame now)"
proof -
  let ?stop = "length p \<ge> length STOP_TAG \<and> take (length STOP_TAG) p = STOP_TAG"
  let ?s1 = "s\<lparr>stats_chunks := stats_chunks s + 1\<rparr>"
  let ?l = "last_completed_seq s" and ?sq = "parse_seq p"
  let ?s2 = "if is_behind ?sq ?l then reset_decoder_pipeline ?s1 else ?s1"
  have s1: "reassembly_ok ?s1" and s2: "reassembly_ok ?s2"
    using ok reset_ok by auto
  consider "?stop" | "\<not> ?stop" "length p \<le> LEGACY_PACKET_HEADER_BYTES"
    | "\<not> ?stop" "LEGACY_PACKET_HEADER_BYTES < length p" "codec_of_tag (take CODEC_TAG_BYTES p) = None"
    | codec where "\<not> ?stop" "LEGACY_PACKET_HEADER_BYTES < length p" "codec_of_tag (take CODEC_TAG_BYTES p) = Some codec"
    by (metis not_le option.exhaust)
  then show ?thesis
  proof cases
    case 1
    then show ?thesis using r reset_ok by (auto simp: process_udp_chunk_def)
  next
    case 2
    then show ?thesis using r ok by (auto simp: process_udp_chunk_def ignore_packet_def)
  next
    case 3
    then show ?thesis using r ok by (auto simp: process_udp_chunk_def Let_def ignore_packet_def)
  next
    case (4 codec)
    have known: "known_codec codec"
      using 4(3) by (rule codec_of_tag_known)
    have r': "(if is_behind ?sq ?l \<and> \<not> is_restart ?sq ?l then ignore_packet ?s1
        else case parse_chunk codec p of None \<Rightarrow> ignore_packet ?s2
          | Some c \<Rightarrow> accept_chunk now clock ?l c ?s2) = (f, s')"
      using r 4 by (simp add: process_udp_chunk_def Let_def cong: option.case_cong if_cong split: if_splits)
    have above: "above_completed (last_completed_seq ?s2) ?sq"
      using not_behind_above [of ?sq ?l] by (auto simp: reset_decoder_pipeline_def above_completed_def)
    show ?thesis
    proof (cases "parse_chunk codec p")
      case None
      then show ?thesis
        using r' s1 s2 by (auto simp: ignore_packet_def split: if_splits)
    next
      case (Some c)
      note c = parse_chunk_ok [OF Some 4(2) known]
      show ?thesis
        using r' Some s1 accept_chunk_ok [OF s2 c(1), of now clock ?l f s'] above c(2)
        by (auto simp: ignore_packet_def split: if_splits)
    qed
  qed
qed

end
