(* ===== verification/Reassembly_Correct.thy ===== *)
theory Reassembly_Correct
  imports Reassembly_Invariant
begin

text \<open>
  What reassembly promises: the chunks of an access unit, in whatever order they arrive within the
  assembly lifetime, give exactly one frame, the concatenation of their payloads by index; and the
  behaviours around restarts, duplicates and malformed packets.
\<close>

section \<open>The wire format of a sender\<close>

text \<open>
  The packet builders of the module's tests (\<open>packet\<close>, \<open>timed_packet\<close>, \<open>synchronized_packet\<close>),
  as one builder: the timing block is empty, capture time and encode duration, or those and the send
  start time, depending on the tag.
\<close>

record au_format =
  fm_tag :: "byte list"
  fm_seq :: u32
  fm_total :: u16
  fm_width :: u16
  fm_height :: u16
  fm_timing :: "byte list"

definition chunk_packet :: "au_format \<Rightarrow> nat \<Rightarrow> byte list \<Rightarrow> byte list" where
  "chunk_packet h i payload =
     fm_tag h @ u32_to_be_bytes (fm_seq h) @ u16_to_be_bytes (of_nat i) @ u16_to_be_bytes (fm_total h)
     @ u16_to_be_bytes (fm_width h) @ u16_to_be_bytes (fm_height h) @ fm_timing h @ payload"

definition timing_len :: "byte list \<Rightarrow> nat" where
  "timing_len tag = (if is_synchronized tag then 20 else if is_timed_v1 tag then 12 else 0)"

definition format_timing :: "au_format \<Rightarrow> timing" where
  "format_timing h =
     (if is_timed_v1 (fm_tag h) \<or> is_synchronized (fm_tag h)
      then \<lparr>tm_header_len = 16 + timing_len (fm_tag h),
             tm_capture = Some (f64_from_bits (u64_from_be_bytes (take 8 (fm_timing h)))),
             tm_encode = Some (f32_from_bits (u32_from_be_bytes (take 4 (drop 8 (fm_timing h))))),
             tm_send_start = (if is_synchronized (fm_tag h)
               then Some (f64_from_bits (u64_from_be_bytes (drop 12 (fm_timing h)))) else None)\<rparr>
      else \<lparr>tm_header_len = 16, tm_capture = None, tm_encode = None, tm_send_start = None\<rparr>)"

definition timing_ok :: "timing \<Rightarrow> bool" where
  "timing_ok t \<longleftrightarrow>
     (case (tm_capture t, tm_encode t) of
        (Some capture, Some encode) \<Rightarrow> valid_timing capture encode
          \<and> (case tm_send_start t of None \<Rightarrow> True
             | Some v \<Rightarrow> is_finite v \<and> \<not> fp_le v (Finite False 0))
      | (None, None) \<Rightarrow> tm_send_start t = None
      | _ \<Rightarrow> False)"

definition format_ok :: "au_format \<Rightarrow> bool" where
  "format_ok h \<longleftrightarrow>
     length (fm_tag h) = 4 \<and> length (fm_timing h) = timing_len (fm_tag h) \<and> timing_ok (format_timing h)
     \<and> 0 < unat (fm_total h) \<and> unat (fm_total h) \<le> MAX_CHUNKS
     \<and> (case codec_of_tag (fm_tag h) of None \<Rightarrow> False
        | Some codec \<Rightarrow> dimensions_ok codec (unat (fm_width h)) (unat (fm_height h)))"

definition format_codec :: "au_format \<Rightarrow> string" where
  "format_codec h = the (codec_of_tag (fm_tag h))"

definition format_chunk :: "au_format \<Rightarrow> nat \<Rightarrow> byte list \<Rightarrow> chunk" where
  "format_chunk h i payload = \<lparr>ck_seq = fm_seq h, ck_index = of_nat i, ck_total = fm_total h,
     ck_width = fm_width h, ck_height = fm_height h, ck_codec = format_codec h,
     ck_timing = format_timing h, ck_payload = payload\<rparr>"

lemma stop_is_no_codec: "codec_of_tag STOP_TAG = None"
  by (simp add: codec_of_tag_def tag_defs code_of_def)

lemma slices_of_packet:
  assumes "length (fm_tag h) = 4"
  shows "take CODEC_TAG_BYTES (chunk_packet h i pl) = fm_tag h"
    and "slice_of SEQUENCE_OFFSET SEQUENCE_BYTES (chunk_packet h i pl) = u32_to_be_bytes (fm_seq h)"
    and "slice_of CHUNK_INDEX_OFFSET CHUNK_INDEX_BYTES (chunk_packet h i pl) = u16_to_be_bytes (of_nat i)"
    and "slice_of CHUNK_COUNT_OFFSET CHUNK_COUNT_BYTES (chunk_packet h i pl) = u16_to_be_bytes (fm_total h)"
    and "slice_of WIDTH_OFFSET DIMENSION_BYTES (chunk_packet h i pl) = u16_to_be_bytes (fm_width h)"
    and "slice_of HEIGHT_OFFSET DIMENSION_BYTES (chunk_packet h i pl) = u16_to_be_bytes (fm_height h)"
    and "drop 16 (chunk_packet h i pl) = fm_timing h @ pl"
  using assms by (simp_all add: chunk_packet_def slice_of_def limits)

lemma length_chunk_packet:
  "length (fm_tag h) = 4 \<Longrightarrow> length (chunk_packet h i pl) = 16 + length (fm_timing h) + length pl"
  by (simp add: chunk_packet_def)

lemma read_timing_packet:
  assumes h: "format_ok h" and pl: "pl \<noteq> []"
  shows "read_timing (chunk_packet h i pl) = Some (format_timing h)"
proof -
  have tag: "length (fm_tag h) = 4" and tl: "length (fm_timing h) = timing_len (fm_tag h)"
    using h by (simp_all add: format_ok_def)
  let ?p = "chunk_packet h i pl"
  have sl: "slice_of (16 + a) n ?p = take n (drop a (fm_timing h @ pl))" for a n
    unfolding slice_of_def by (simp add: add.commute [of 16] slices_of_packet(7) [OF tag] flip: drop_drop)
  have sl_num: "slice_of 16 8 ?p = take 8 (fm_timing h @ pl)" "slice_of 24 4 ?p = take 4 (drop 8 (fm_timing h @ pl))"
    "slice_of 28 8 ?p = take 8 (drop 12 (fm_timing h @ pl))"
    using sl [of 0 8] sl [of 8 4] sl [of 12 8] by simp_all
  have tk: "take 4 ?p = fm_tag h"
    using slices_of_packet(1) [OF tag] by (simp add: limits)
  have t: "timing_ok (format_timing h)"
    using h by (simp add: format_ok_def)
  show ?thesis
    using t tl pl
    by (auto simp: read_timing_def Let_def tk length_chunk_packet [OF tag] sl_num
        format_timing_def timing_ok_def timing_len_def limits split: if_splits)
qed

lemma parse_packet:
  assumes h: "format_ok h" and i: "i < unat (fm_total h)" and pl: "payload_ok pl"
  shows "parse_chunk (format_codec h) (chunk_packet h i pl) = Some (format_chunk h i pl)"
    and "parse_seq (chunk_packet h i pl) = fm_seq h"
proof -
  have tag: "length (fm_tag h) = 4" and tl: "length (fm_timing h) = timing_len (fm_tag h)"
    using h by (simp_all add: format_ok_def)
  have idx: "(of_nat i :: u16) < fm_total h"
    using i unat_below [of "fm_total h"] by (simp add: word_less_nat_alt unat_of_nat)
  have hl: "drop (tm_header_len (format_timing h)) (chunk_packet h i pl) = pl"
    using tl by (auto simp: format_timing_def slices_of_packet(7) [OF tag] chunk_packet_def tag timing_len_def)
  have nz: "fm_total h \<noteq> 0" "fm_width h \<noteq> 0" "fm_height h \<noteq> 0"
    using h by (auto simp: format_ok_def dimensions_ok_def split: option.splits)
  show seq: "parse_seq (chunk_packet h i pl) = fm_seq h"
    by (simp add: parse_seq_def slices_of_packet(2) [OF tag])
  show "parse_chunk (format_codec h) (chunk_packet h i pl) = Some (format_chunk h i pl)"
    using h pl idx nz
    by (auto simp: parse_chunk_def Let_def slices_of_packet [OF tag] read_timing_packet payload_ok_def
        hl seq format_chunk_def format_ok_def format_codec_def dimensions_ok_def split: option.splits)
qed

lemma process_packet:
  assumes h: "format_ok h" and i: "i < unat (fm_total h)" and pl: "payload_ok pl"
    and above: "last_completed_seq s < fm_seq h"
  shows "process_udp_chunk now clock (chunk_packet h i pl) s =
    accept_chunk now clock (last_completed_seq s) (format_chunk h i pl) (s\<lparr>stats_chunks := stats_chunks s + 1\<rparr>)"
proof -
  let ?p = "chunk_packet h i pl"
  have tag: "length (fm_tag h) = 4" and codec: "codec_of_tag (fm_tag h) = Some (format_codec h)"
    using h by (auto simp: format_ok_def format_codec_def split: option.splits)
  have stop: "take (length STOP_TAG) ?p \<noteq> STOP_TAG"
    using codec stop_is_no_codec slices_of_packet(1) [OF tag, of i pl] by (auto simp: limits)
  have len: "\<not> length ?p \<le> LEGACY_PACKET_HEADER_BYTES"
    using pl by (simp add: length_chunk_packet [OF tag] header_sizes payload_ok_def)
  have behind: "\<not> is_behind (fm_seq h) (last_completed_seq s)"
    using above by (simp add: is_behind_def not_le)
  show ?thesis
    using stop len behind
    by (simp add: process_udp_chunk_def Let_def slices_of_packet(1) [OF tag] codec parse_packet [OF h i pl])
qed

section \<open>Reassembly in any order\<close>

text \<open>Packets in sequence, with what each call returned.\<close>

fun feed :: "(instant \<times> f64 \<times> byte list) list \<Rightarrow> reassembly \<Rightarrow> video_frame option list \<times> reassembly" where
  "feed [] s = ([], s)"
| "feed ((now, clock, p) # ps) s =
     (let (f, s') = process_udp_chunk now clock p s; (fs, s'') = feed ps s' in (f # fs, s''))"

lemma feed_Cons:
  "fst (feed ((now, clock, p) # ps) s) =
     fst (process_udp_chunk now clock p s) # fst (feed ps (snd (process_udp_chunk now clock p s)))"
  "snd (feed ((now, clock, p) # ps) s) = snd (feed ps (snd (process_udp_chunk now clock p s)))"
  by (simp_all add: Let_def split_beta)

text \<open>The entry of an access unit of which the chunks with indices in \<open>D\<close> have arrived.\<close>

definition slots :: "nat \<Rightarrow> nat set \<Rightarrow> (nat \<Rightarrow> byte list) \<Rightarrow> byte list option list" where
  "slots n D pl = map (\<lambda>i. if i \<in> D then Some (pl i) else None) [0..<n]"

definition entry_with :: "au_format \<Rightarrow> instant \<Rightarrow> nat set \<Rightarrow> (nat \<Rightarrow> byte list) \<Rightarrow> assembly" where
  "entry_with h t0 D pl = (new_assembly t0 (format_chunk h 0 []))\<lparr>
     as_chunks := slots (unat (fm_total h)) D pl, as_received := card D\<rparr>"

definition holds_part :: "au_format \<Rightarrow> instant \<Rightarrow> nat set \<Rightarrow> (nat \<Rightarrow> byte list) \<Rightarrow> reassembly \<Rightarrow> bool" where
  "holds_part h t0 D pl s \<longleftrightarrow>
     distinct (map as_seq (assemblies s)) \<and> entry_with h t0 D pl \<in> set (assemblies s)"

lemma slots_simps [simp]: "length (slots n D pl) = n" "i < n \<Longrightarrow> slots n D pl ! i = (if i \<in> D then Some (pl i) else None)"
  by (simp_all add: slots_def)

lemma slots_insert: "i < n \<Longrightarrow> (slots n D pl)[i := Some (pl i)] = slots n (insert i D) pl"
  by (rule nth_equalityI) (auto simp: nth_list_update)

lemma slots_full: "D = {..<n} \<Longrightarrow> map the (slots n D pl) = map pl [0..<n]" "None \<notin> set (slots n {..<n} pl)"
  by (auto simp: slots_def)

lemma entry_with_simps [simp]:
  "as_seq (entry_with h t0 D pl) = fm_seq h" "as_total_chunks (entry_with h t0 D pl) = fm_total h"
  "as_chunks (entry_with h t0 D pl) = slots (unat (fm_total h)) D pl"
  "as_received (entry_with h t0 D pl) = card D" "as_first_packet_at (entry_with h t0 D pl) = t0"
  by (simp_all add: entry_with_def new_assembly_def format_chunk_def)

lemma new_entry_with:
  assumes "i < unat (fm_total h)"
  shows "new_assembly now (format_chunk h i (pl i)) = entry_with h now {i} pl"
proof -
  have "unat (of_nat i :: u16) = i"
    using assms unat_below [of "fm_total h"] by (simp add: unat_of_nat)
  moreover have "(replicate n None)[i := Some (pl i)] = slots n {i} pl" if "i < n" for n
    by (rule nth_equalityI) (auto simp: nth_list_update that)
  ultimately show ?thesis
    using assms by (simp add: new_assembly_def entry_with_def format_chunk_def)
qed

lemma entry_matches:
  assumes "format_ok h"
  shows "\<not> entry_mismatch (entry_with h t0 D pl) (format_chunk h i q)"
proof -
  have "opt_eq (tm_capture (format_timing h)) (tm_capture (format_timing h))"
    "opt_eq (tm_encode (format_timing h)) (tm_encode (format_timing h))"
    "opt_eq (tm_send_start (format_timing h)) (tm_send_start (format_timing h))"
    using assms
    by (auto simp: format_ok_def timing_ok_def valid_timing_def fp_eq_finite_refl split: option.splits)
  then show ?thesis
    by (simp add: entry_mismatch_def entry_with_def new_assembly_def format_chunk_def)
qed

text \<open>The only entry with a given sequence number is where the search finds it.\<close>

lemma position_of_member:
  assumes "distinct (map as_seq xs)" "e \<in> set xs" "p e" "\<And>x. x \<in> set xs \<Longrightarrow> p x \<Longrightarrow> as_seq x = as_seq e"
  shows "\<exists>i. position p xs = Some i \<and> i < length xs \<and> xs ! i = e"
proof -
  obtain i where i: "position p xs = Some i"
    using assms(2,3) position_None [of p xs] by (cases "position p xs") auto
  have "i < length xs" "p (xs ! i)"
    using position_Some [OF i] by auto
  moreover then have "as_seq (xs ! i) = as_seq e"
    using assms(4) nth_mem by blast
  ultimately have "xs ! i = e"
    using assms(1,2) nth_mem by (metis distinct_map inj_onD)
  with i \<open>i < length xs\<close> show ?thesis by blast
qed

lemma complete_waits:
  assumes "holds_part h t0 D pl s" "card D \<noteq> unat (fm_total h)"
  shows "complete clock (fm_seq h) s = (None, s)"
proof -
  have "\<not> (as_seq e = fm_seq h \<and> as_received e = unat (as_total_chunks e))" if "e \<in> set (assemblies s)" for e
  proof
    assume c: "as_seq e = fm_seq h \<and> as_received e = unat (as_total_chunks e)"
    have "e = entry_with h t0 D pl"
      using assms(1) that c by (auto simp: holds_part_def distinct_map inj_on_def)
    with c assms(2) show False by simp
  qed
  then show ?thesis
    by (auto simp: complete_def position_None [THEN iffD2])
qed

lemma complete_delivers:
  assumes s: "holds_part h t0 {..<unat (fm_total h)} pl s"
    and len: "0 < length (concat (map pl [0..<unat (fm_total h)]))"
      "length (concat (map pl [0..<unat (fm_total h)])) \<le> MAX_ACCESS_UNIT_BYTES"
  shows "fst (complete clock (fm_seq h) s) =
    Some (frame_of (entry_with h t0 {..<unat (fm_total h)} pl) clock (concat (map pl [0..<unat (fm_total h)])))"
    and "last_completed_seq (snd (complete clock (fm_seq h) s)) = fm_seq h"
proof -
  let ?n = "unat (fm_total h)" let ?e = "entry_with h t0 {..<?n} pl"
  let ?p = "\<lambda>e. as_seq e = fm_seq h \<and> as_received e = unat (as_total_chunks e)"
  obtain i where i: "position ?p (assemblies s) = Some i" "assemblies s ! i = ?e"
    using position_of_member [of "assemblies s" ?e ?p] s by (auto simp: holds_part_def)
  have sum: "sum_list (map chunk_len (slots ?n {..<?n} pl)) = length (concat (map pl [0..<?n]))"
    by (simp only: sum_chunk_len [OF slots_full(2)] slots_full(1))
  have join: "join_chunks (slots ?n {..<?n} pl) = Some (concat (map pl [0..<?n]))"
    by (simp only: join_chunks_def slots_full if_False)
  have nz: "\<not> (length (concat (map pl [0..<?n])) = 0 \<or> MAX_ACCESS_UNIT_BYTES < length (concat (map pl [0..<?n])))"
    using len by auto
  have "complete clock (fm_seq h) s =
      (let s = s\<lparr>last_completed_seq := as_seq ?e,
          assemblies := filter (\<lambda>e. as_seq e > as_seq ?e) (remove_at i (assemblies s))\<rparr>
       in (Some (frame_of ?e clock (concat (map pl [0..<?n]))), s\<lparr>stats_completed := stats_completed s + 1\<rparr>))"
    unfolding complete_def i option.case Let_def entry_with_simps(3) sum join if_not_P [OF nz] ..
  then show "fst (complete clock (fm_seq h) s) = Some (frame_of ?e clock (concat (map pl [0..<?n])))"
    and "last_completed_seq (snd (complete clock (fm_seq h) s)) = fm_seq h"
    by (simp_all add: Let_def)
qed

lemma accept_first:
  assumes "distinct (map as_seq (assemblies s))" "\<forall>e \<in> set (assemblies s). as_seq e \<noteq> fm_seq h"
    and i: "i < unat (fm_total h)"
  obtains s2 where "accept_chunk now clock l (format_chunk h i (pl i)) s = complete clock (fm_seq h) s2"
    "holds_part h now {i} pl s2" "last_completed_seq s2 = last_completed_seq s"
proof
  let ?c = "format_chunk h i (pl i)" let ?s = "retain_fresh now l s"
  have seq: "ck_seq ?c = fm_seq h"
    by (simp add: format_chunk_def)
  have none: "position (\<lambda>e. as_seq e = fm_seq h) (assemblies ?s) = None"
    using assms(2) by (auto simp: position_None)
  show "accept_chunk now clock l ?c s = complete clock (fm_seq h) (store_new now ?c ?s)"
    by (simp add: accept_chunk_def Let_def seq none del: retain_fresh_simps)
  have "distinct (map as_seq (assemblies ?s))" "\<forall>e \<in> set (assemblies ?s). as_seq e \<noteq> fm_seq h"
    using assms(1,2) by (auto simp: distinct_map_filter)
  then show "holds_part h now {i} pl (store_new now ?c ?s)"
    by (auto simp: holds_part_def store_new_def Let_def new_entry_with [OF i] distinct_map_remove_at
        simp del: retain_fresh_simps dest: set_remove_at [THEN subsetD])
  show "last_completed_seq (store_new now ?c ?s) = last_completed_seq s"
    by (simp add: store_new_def Let_def)
qed

lemma accept_next:
  assumes s: "holds_part h t0 D pl s" and D: "finite D" "i \<notin> D" and i: "i < unat (fm_total h)"
    and time: "now - t0 \<le> ASSEMBLY_TTL" and l: "l < fm_seq h" and h: "format_ok h"
  obtains s2 where "accept_chunk now clock l (format_chunk h i (pl i)) s = complete clock (fm_seq h) s2"
    "holds_part h t0 (insert i D) pl s2" "last_completed_seq s2 = last_completed_seq s"
proof -
  let ?c = "format_chunk h i (pl i)" and ?e = "entry_with h t0 D pl"
  define s1 where "s1 = retain_fresh now l s"
  have s1: "distinct (map as_seq (assemblies s1))" "?e \<in> set (assemblies s1)"
    "last_completed_seq s1 = last_completed_seq s"
    using s time l by (auto simp: s1_def holds_part_def distinct_map_filter)
  obtain j where j: "position (\<lambda>e. as_seq e = fm_seq h) (assemblies s1) = Some j"
    "j < length (assemblies s1)" "assemblies s1 ! j = ?e"
    using position_of_member [OF s1(1,2), of "\<lambda>e. as_seq e = fm_seq h"] by auto
  have idx: "unat (ck_index ?c) = i" "ck_payload ?c = pl i" "ck_seq ?c = fm_seq h"
    using i unat_below [of "fm_total h"] by (simp_all add: format_chunk_def unat_of_nat)
  let ?e' = "entry_with h t0 (insert i D) pl"
  have "?e\<lparr>as_chunks := (as_chunks ?e)[i := Some (pl i)], as_received := as_received ?e + 1\<rparr> = ?e'"
    using D by (simp add: entry_with_def slots_insert [OF i])
  then have st: "store_in_entry j ?c s1 = s1\<lparr>assemblies := (assemblies s1)[j := ?e']\<rparr>"
    using D(2) i by (simp add: store_in_entry_def Let_def j(3) idx)
  have "map as_seq ((assemblies s1)[j := ?e']) = map as_seq (assemblies s1)"
    using j(2,3) by (intro nth_equalityI) (auto simp: nth_list_update)
  then have holds: "holds_part h t0 (insert i D) pl (store_in_entry j ?c s1)"
    using s1(1) j(2) by (simp add: st holds_part_def set_update_memI)
  show thesis
  proof (rule that)
    show "accept_chunk now clock l ?c s = complete clock (fm_seq h) (store_in_entry j ?c s1)"
      unfolding accept_chunk_def s1_def [symmetric] Let_def idx(3) j(1)
      using entry_matches [OF h] by (simp add: j(3))
    show "last_completed_seq (store_in_entry j ?c s1) = last_completed_seq s"
      using s1(3) by (simp add: st)
  qed (rule holds)
qed

text \<open>The state between arrivals: no entry before the first chunk, the partial entry after it.\<close>

definition awaiting :: "au_format \<Rightarrow> instant \<Rightarrow> nat set \<Rightarrow> (nat \<Rightarrow> byte list) \<Rightarrow> reassembly \<Rightarrow> bool" where
  "awaiting h t0 D pl s \<longleftrightarrow>
     (if D = {} then distinct (map as_seq (assemblies s)) \<and> (\<forall>e \<in> set (assemblies s). as_seq e \<noteq> fm_seq h)
      else holds_part h t0 D pl s)"

lemma accept_arrival:
  assumes s: "awaiting h t0 D pl s" and D: "finite D" "i \<notin> D" and i: "i < unat (fm_total h)"
    and time: "now - t0 \<le> ASSEMBLY_TTL" "D = {} \<Longrightarrow> t0 = now" and l: "l < fm_seq h" and h: "format_ok h"
  obtains s2 where "accept_chunk now clock l (format_chunk h i (pl i)) s = complete clock (fm_seq h) s2"
    "holds_part h t0 (insert i D) pl s2" "last_completed_seq s2 = last_completed_seq s"
proof (cases "D = {}")
  case True
  with s time(2) show thesis
    using accept_first [of s h i now clock l pl thesis] i that by (auto simp: awaiting_def)
next
  case False
  with s show thesis
    using accept_next [of h t0 D pl s i now l clock thesis] D i time l h that by (auto simp: awaiting_def)
qed

definition arrivals_of ::
  "au_format \<Rightarrow> (nat \<Rightarrow> byte list) \<Rightarrow> (nat \<times> instant \<times> f64) list \<Rightarrow> (instant \<times> f64 \<times> byte list) list" where
  "arrivals_of h pl as = map (\<lambda>(i, now, clock). (now, clock, chunk_packet h i (pl i))) as"

lemma awaiting_stats [simp]: "awaiting h t0 D pl (s\<lparr>stats_chunks := x\<rparr>) = awaiting h t0 D pl s"
  by (simp add: awaiting_def holds_part_def)

lemma feed_arrivals:
  assumes h: "format_ok h"
    and payloads: "\<And>i. i < unat (fm_total h) \<Longrightarrow> pl i \<noteq> []"
      "length (concat (map pl [0..<unat (fm_total h)])) \<le> MAX_ACCESS_UNIT_BYTES"
    and s: "awaiting h t0 D pl s" "last_completed_seq s < fm_seq h"
    and "as": "as \<noteq> []" "distinct (map fst as)" "D \<inter> set (map fst as) = {}"
      "D \<union> set (map fst as) = {..<unat (fm_total h)}"
    and times: "\<forall>(i, now, clock) \<in> set as. now - t0 \<le> ASSEMBLY_TTL" "D = {} \<Longrightarrow> t0 = fst (snd (hd as))"
  shows "fst (feed (arrivals_of h pl as) s) = replicate (length as - 1) None @
    [Some (frame_of (entry_with h t0 {..<unat (fm_total h)} pl) (snd (snd (last as)))
      (concat (map pl [0..<unat (fm_total h)])))]
    \<and> last_completed_seq (snd (feed (arrivals_of h pl as) s)) = fm_seq h"
  using s "as" times
proof (induction as arbitrary: s D)
  case (Cons a as)
  let ?n = "unat (fm_total h)"
  obtain i now clock where a: "a = (i, now, clock)" by (cases a) auto
  have D: "finite D" "i \<notin> D" and i: "i < ?n"
    using Cons.prems(4,5,6) by (auto simp: a intro: finite_subset [of D "{..<?n}"])
  have len_i: "length (pl i) \<le> length (concat (map pl [0..<?n]))"
    using i by (simp add: length_concat member_le_sum_list comp_def)
  have pl_ok: "payload_ok (pl i)"
    using payloads i len_i by (auto simp: payload_ok_def)
  let ?s1 = "s\<lparr>stats_chunks := stats_chunks s + 1\<rparr>"
  obtain s2 where s2: "accept_chunk now clock (last_completed_seq s) (format_chunk h i (pl i)) ?s1 = complete clock (fm_seq h) s2"
    "holds_part h t0 (insert i D) pl s2" "last_completed_seq s2 = last_completed_seq ?s1"
    by (rule accept_arrival [of h t0 D pl ?s1 i now "last_completed_seq s" clock])
      (use Cons.prems D i h in \<open>auto simp: a\<close>)
  have proc: "process_udp_chunk now clock (chunk_packet h i (pl i)) s = complete clock (fm_seq h) s2"
    using process_packet [OF h i pl_ok Cons.prems(2)] s2(1) by simp
  show ?case
  proof (cases "as = []")
    case True
    then have full: "insert i D = {..<?n}"
      using Cons.prems(6) by (auto simp: a)
    have ne: "0 < length (concat (map pl [0..<?n]))"
      using i payloads(1) [OF i] by auto
    show ?thesis
      using complete_delivers [OF s2(2) [unfolded full] ne payloads(2), of clock] True
      by (simp add: a arrivals_of_def feed_Cons proc del: feed.simps(2))
  next
    case False
    obtain j where j: "j \<in> set (map fst as)"
      using False by (cases as) auto
    have "j \<in> {..<?n}" "j \<notin> insert i D"
      using Cons.prems(4,5,6) j by (auto simp: a)
    then have "insert i D \<noteq> {..<?n}"
      by blast
    moreover have "insert i D \<subseteq> {..<?n}"
      using Cons.prems(6) by (auto simp: a)
    ultimately have "card (insert i D) \<noteq> ?n"
      using card_subset_eq [of "{..<?n}" "insert i D"] by auto
    then have wait: "complete clock (fm_seq h) s2 = (None, s2)"
      by (rule complete_waits [OF s2(2)])
    have IH: "fst (feed (arrivals_of h pl as) s2) = replicate (length as - 1) None @
        [Some (frame_of (entry_with h t0 {..<?n} pl) (snd (snd (last as))) (concat (map pl [0..<?n])))]
        \<and> last_completed_seq (snd (feed (arrivals_of h pl as) s2)) = fm_seq h"
      by (rule Cons.IH [of "insert i D"])
        (use Cons.prems False s2 in \<open>auto simp: a awaiting_def\<close>)
    have "replicate (length (a # as) - 1) None = (None :: video_frame option) # replicate (length as - 1) None"
      using False by (cases as) simp_all
    moreover have "arrivals_of h pl (a # as) = (now, clock, chunk_packet h i (pl i)) # arrivals_of h pl as"
      by (simp add: arrivals_of_def a)
    ultimately show ?thesis
      using IH False by (simp only: feed_Cons proc wait fst_conv snd_conv append_Cons last.simps if_False)
  qed
qed simp

text \<open>The same from a state without an entry for the access unit.\<close>

lemma feed_fresh:
  assumes "reassembly_ok s" and "format_ok h" and "last_completed_seq s < fm_seq h"
    and "\<forall>e \<in> set (assemblies s). as_seq e \<noteq> fm_seq h"
    and "distinct (map fst as)" and "set (map fst as) = {..<unat (fm_total h)}"
    and "\<forall>i < unat (fm_total h). pl i \<noteq> []"
    and "length (concat (map pl [0..<unat (fm_total h)])) \<le> MAX_ACCESS_UNIT_BYTES"
    and "\<forall>(i, now, clock) \<in> set as. now - fst (snd (hd as)) \<le> ASSEMBLY_TTL"
  shows "fst (feed (arrivals_of h pl as) s) = replicate (unat (fm_total h) - 1) None @
    [Some (frame_of (entry_with h (fst (snd (hd as))) {..<unat (fm_total h)} pl) (snd (snd (last as)))
      (concat (map pl [0..<unat (fm_total h)])))]"
proof -
  have len: "length as = unat (fm_total h)"
    using assms(5,6) distinct_card [of "map fst as"] by simp
  moreover have "0 < unat (fm_total h)"
    using assms(2) by (simp add: format_ok_def)
  ultimately have "as \<noteq> []"
    by auto
  moreover have "awaiting h (fst (snd (hd as))) {} pl s"
    using assms(1,4) by (simp add: awaiting_def reassembly_ok_def)
  ultimately show ?thesis
    using feed_arrivals [OF assms(2), of pl "fst (snd (hd as))" "{}" s "as"] assms len by simp
qed

section \<open>The machine and its invariant\<close>

interpretation ra: invariant_machine reassembly_step reassembly_ok "\<lambda>_. True"
proof
  fix s :: reassembly and e :: "instant \<times> f64 \<times> byte list"
  assume ok: "reassembly_ok s"
  obtain now clock p where e: "e = (now, clock, p)"
    by (cases e) auto
  show "reassembly_ok (reassembly_step e s)"
    using process_ok [OF ok, of now clock p] by (simp add: e reassembly_step_def prod_eq_iff)
qed

section \<open>Properties\<close>

text \<open>
  Property C1. In-order or not, an access unit is delivered exactly once and whole: from any
  well-formed state in which no entry for the sequence number exists and the last completed sequence
  number is below it, feeding each of its chunk packets once, in any order and within the assembly
  lifetime of the first, returns no frame for every packet but the last one, and for the last one
  the frame whose access unit is the concatenation of the payloads in index order, with the
  header's dimensions, codec and timing.
\<close>

theorem any_order_reassembly:
  assumes "reassembly_ok s" and "format_ok h" and "last_completed_seq s < fm_seq h"
    and "\<forall>e \<in> set (assemblies s). as_seq e \<noteq> fm_seq h"
    and "distinct (map fst as)" and "set (map fst as) = {..<unat (fm_total h)}"
    and "\<forall>i < unat (fm_total h). pl i \<noteq> []"
    and "length (concat (map pl [0..<unat (fm_total h)])) \<le> MAX_ACCESS_UNIT_BYTES"
    and "\<forall>(i, now, clock) \<in> set as. now - fst (snd (hd as)) \<le> ASSEMBLY_TTL"
  shows "fst (feed (arrivals_of h pl as) s) = replicate (unat (fm_total h) - 1) None @
    [Some \<lparr>vf_seq = fm_seq h, vf_width = ucast (fm_width h), vf_height = ucast (fm_height h),
       vf_codec = format_codec h, vf_access_unit = concat (map pl [0..<unat (fm_total h)]),
       vf_first_packet_at = fst (snd (hd as)),
       vf_capture_time_ms = tm_capture (format_timing h),
       vf_encode_duration_ms = tm_encode (format_timing h),
       vf_send_start_time_ms = tm_send_start (format_timing h),
       vf_receiver_complete_time_ms =
         map_option (\<lambda>_. snd (snd (last as))) (tm_send_start (format_timing h))\<rparr>]"
  using feed_fresh [OF assms] by (simp add: frame_of_def entry_with_def new_assembly_def format_chunk_def)

text \<open>A two-chunk access unit arriving in reverse order, 7 ms apart.\<close>

definition sample_format :: au_format where
  "sample_format = \<lparr>fm_tag = H265_TAG, fm_seq = 7, fm_total = 2, fm_width = 3840, fm_height = 2160,
     fm_timing = []\<rparr>"

lemma sample_format_ok: "format_ok sample_format" "format_codec sample_format = ''hevc''"
  "format_timing sample_format = \<lparr>tm_header_len = 16, tm_capture = None, tm_encode = None, tm_send_start = None\<rparr>"
  by (simp_all add: sample_format_def format_ok_def format_timing_def timing_len_def is_synchronized_def
      is_timed_v1_def timing_ok_def dimensions_ok_def max_dimensions_def codec_of_tag_def limits
      tag_defs code_of_def format_codec_def)

theorem any_order_reassembly_witness:
  "map (map_option vf_access_unit) (fst (feed (arrivals_of sample_format (\<lambda>i. if i = 0 then [1, 2] else [3])
      [(1, 1000, NaN), (0, 7001000, NaN)]) initial_reassembly)) = [None, Some [1, 2, 3]]"
proof -
  have "{0..<2::nat} = {0, 1}" "{..<2::nat} = {1, 0}"
    by auto
  then show ?thesis
    using any_order_reassembly [of initial_reassembly sample_format "[(1, 1000, NaN), (0, 7001000, NaN)]"
        "\<lambda>i. if i = 0 then [1, 2] else [3]", OF initial_ok sample_format_ok(1)]
    by (simp add: initial_reassembly_def sample_format_ok(2,3) limits from_millis_def upt_rec)
       (simp add: sample_format_def upt_rec)
qed

text \<open>
  Property C2. Whatever packets arrive, at whatever times, the reassembly state stays well formed: at
  most 32 partial access units with distinct sequence numbers, each with one slot per chunk, a
  received count equal to its filled slots and below its total, a known codec with dimensions within
  that codec's limits, and no partial entry at or below the last completed sequence number.
\<close>

theorem reassembly_always_well_formed: "reassembly_ok (fold reassembly_step ps initial_reassembly)"
  by (rule ra.run_inv [OF initial_ok]) (simp add: list_all_iff)

text \<open>
  Every frame the receiver ever hands on is either the stop frame or within the decoder's
  limits: codec hevc or h264, non-zero dimensions of at most 3840x2160 for HEVC and 1920x1088 for H.264,
  and a non-empty access unit of at most 8 MiB.
\<close>

theorem delivered_frames_within_limits:
  assumes "process_udp_chunk now clock p (fold reassembly_step ps initial_reassembly) = (Some f, s')"
  shows "f = stop_frame now \<or> frame_ok f"
  using process_ok [OF ra.run_inv [OF initial_ok, of ps] assms] by (auto simp: list_all_iff)

theorem delivered_frames_within_limits_witness:
  "stop_frame 5 = stop_frame 5 \<or> frame_ok (stop_frame 5)"
  by (rule delivered_frames_within_limits
      [where ps = "[]" and clock = NaN and p = STOP_TAG and s' = "reset_decoder_pipeline initial_reassembly"])
     (simp add: process_udp_chunk_def)

text \<open>
  No redelivery above the restart window: a media packet that repeats the last completed
  sequence number, when that number exceeds 5, is counted as ignored and changes nothing else but the
  chunk counter.
\<close>

theorem completed_sequence_not_redelivered:
  assumes "LEGACY_PACKET_HEADER_BYTES < length p" and "codec_of_tag (take CODEC_TAG_BYTES p) = Some codec"
    and "parse_seq p = last_completed_seq s" and "5 < last_completed_seq s"
  shows "process_udp_chunk now clock p s =
    (None, s\<lparr>stats_chunks := stats_chunks s + 1, stats_ignored_packets := stats_ignored_packets s + 1\<rparr>)"
proof -
  have "take (length STOP_TAG) p \<noteq> STOP_TAG"
    using assms(2) stop_is_no_codec by (auto simp: limits)
  moreover have "0 < last_completed_seq s"
    using assms(4) by (metis le_less_trans word_zero_le)
  moreover have "\<not> last_completed_seq s \<le> 5"
    using assms(4) by simp
  ultimately show ?thesis
    using assms by (auto simp: process_udp_chunk_def Let_def is_behind_def is_restart_def ignore_packet_def)
qed

theorem completed_sequence_not_redelivered_witness:
  "process_udp_chunk 0 NaN (chunk_packet sample_format 0 [1]) (initial_reassembly\<lparr>last_completed_seq := 7\<rparr>) =
     (None, initial_reassembly\<lparr>last_completed_seq := 7, stats_chunks := 1, stats_ignored_packets := 1\<rparr>)"
proof -
  have tag: "length (fm_tag sample_format) = 4" "codec_of_tag (fm_tag sample_format) = Some ''hevc''"
    "length (fm_timing sample_format) = 0" "fm_seq sample_format = 7"
    by (simp_all add: sample_format_def codec_of_tag_def)
  let ?p = "chunk_packet sample_format 0 [1]"
  have "LEGACY_PACKET_HEADER_BYTES < length ?p"
    by (simp add: length_chunk_packet [OF tag(1)] tag header_sizes)
  moreover have "codec_of_tag (take CODEC_TAG_BYTES ?p) = Some ''hevc''"
    by (simp add: slices_of_packet [OF tag(1)] tag)
  moreover have "parse_seq ?p = last_completed_seq (initial_reassembly\<lparr>last_completed_seq := 7\<rparr>)"
    by (simp add: parse_seq_def slices_of_packet [OF tag(1)] tag)
  moreover have "5 < last_completed_seq (initial_reassembly\<lparr>last_completed_seq := 7\<rparr>)"
    by simp
  ultimately have "process_udp_chunk 0 NaN ?p (initial_reassembly\<lparr>last_completed_seq := 7\<rparr>) =
    (None, initial_reassembly\<lparr>last_completed_seq := 7,
       stats_chunks := stats_chunks (initial_reassembly\<lparr>last_completed_seq := 7\<rparr>) + 1,
       stats_ignored_packets := stats_ignored_packets (initial_reassembly\<lparr>last_completed_seq := 7\<rparr>) + 1\<rparr>)"
    by (rule completed_sequence_not_redelivered)
  then show ?thesis
    by (simp add: initial_reassembly_def)
qed

end
