(* ===== verification/Config.thy ===== *)
theory Config
  imports Config_Limits "HOL-Library.AList" "HOL-Library.Monad_Syntax"
begin

text \<open>
  \<open>src/config.rs\<close>: the receiver's settings, their validation, the environment overrides, the flat
  YAML document with its parser and writer, and the order of file operations of a save.  The JSON
  library (\<open>serde_json\<close>) is a parameter: \<open>parse_value\<close> and \<open>quote\<close> stand for \<open>from_str::<Value>\<close> and
  \<open>to_string(&str)\<close>, \<open>parse_json_document\<close> for the first attempt on the whole text.
\<close>

section \<open>Environment\<close>

type_synonym environment = "string \<Rightarrow> string option"

text \<open>\<open>env_or\<close> at an unsigned integer type of \<open>LENGTH('a)\<close> bits (\<open>usize\<close> has 64).\<close>

definition env_or :: "environment \<Rightarrow> string \<Rightarrow> 'a::len word \<Rightarrow> 'a word" where
  "env_or env name fallback =
     (case env name \<bind> parse_uint (2 ^ LENGTH('a) - 1) of
        Some n \<Rightarrow> word_of_nat n | None \<Rightarrow> fallback)"

definition env_string_or :: "environment \<Rightarrow> string \<Rightarrow> string \<Rightarrow> string" where
  "env_string_or env name fallback = (case env name of Some v \<Rightarrow> v | None \<Rightarrow> fallback)"

definition env_bool_or :: "environment \<Rightarrow> string \<Rightarrow> bool \<Rightarrow> bool" where
  "env_bool_or env name fallback =
     (case env name of None \<Rightarrow> fallback
      | Some v \<Rightarrow>
        if v = ''1'' \<or> v = ''true'' \<or> v = ''TRUE'' \<or> v = ''yes'' \<or> v = ''YES'' then True
        else if v = ''0'' \<or> v = ''false'' \<or> v = ''FALSE'' \<or> v = ''no'' \<or> v = ''NO'' then False
        else fallback)"

definition codec_diagnostics_enabled :: "environment \<Rightarrow> bool" where
  "codec_diagnostics_enabled env = env_bool_or env ''LLRDC_CODEC_DIAGNOSTICS'' False"

text \<open>\<open>Display\<close> of an unsigned word and of a \<open>bool\<close>.\<close>

definition word_to_string :: "'a::len word \<Rightarrow> string" where
  "word_to_string w = nat_to_string (unat w)"

definition bool_to_string :: "bool \<Rightarrow> string" where
  "bool_to_string b = (if b then ''true'' else ''false'')"

lemma parse_word_to_string [simp]:
  "parse_uint (2 ^ LENGTH('a) - Suc 0) (word_to_string (w :: 'a::len word)) = Some (unat w)"
  unfolding word_to_string_def by (rule parse_uint_to_string) (use unat_below [of w] in linarith)

lemma env_or_to_string [simp]: "env name = Some (word_to_string w) \<Longrightarrow> env_or env name d = w"
  by (simp add: env_or_def)

lemma env_bool_or_to_string [simp]: "env name = Some (bool_to_string b) \<Longrightarrow> env_bool_or env name d = b"
  by (simp add: env_bool_or_def bool_to_string_def)

lemma env_string_or_to_string [simp]: "env name = Some v \<Longrightarrow> env_string_or env name d = v"
  by (simp add: env_string_or_def)

section \<open>Settings\<close>

record receiver_settings =
  port :: u16
  webtransport_port :: u16
  http_port :: u16
  admin_bind_address :: string
  admin_port :: u16
  drm_connector_id :: string
  drm_plane_id :: string
  idle_dashboard :: bool
  idle_dashboard_mode :: string
  idle_timeout_sec :: u64
  sender_liveness_timeout_sec :: u64
  udp_buffer_size_mb :: u64
  cert_dir :: string
  pairing_worker_url :: string
  cloud_discovery_enabled :: bool
  receiver_id :: string
  pairing_code_ttl_sec :: u64
  local_pairing_code_required :: bool
  pairing_token_public_key_file :: string

definition default_settings :: receiver_settings where
  "default_settings =
    \<lparr>port = word_of_nat DEFAULT_BOARD_PORT,
     webtransport_port = word_of_nat DEFAULT_WEBTRANSPORT_PORT,
     http_port = word_of_nat DEFAULT_HTTP_PORT,
     admin_bind_address = [],
     admin_port = word_of_nat DEFAULT_ADMIN_PORT,
     drm_connector_id = ''auto'',
     drm_plane_id = DEFAULT_DRM_PLANE_ID,
     idle_dashboard = True,
     idle_dashboard_mode = DEFAULT_MODE,
     idle_timeout_sec = word_of_nat DEFAULT_IDLE_TIMEOUT_SEC,
     sender_liveness_timeout_sec = word_of_nat DEFAULT_SENDER_LIVENESS_TIMEOUT_SEC,
     udp_buffer_size_mb = word_of_nat DEFAULT_UDP_BUFFER_SIZE_MB,
     cert_dir = DEFAULT_CERTS_DIR,
     pairing_worker_url = ''https://cast.llrdc.com'',
     cloud_discovery_enabled = False,
     receiver_id = [],
     pairing_code_ttl_sec = word_of_nat PAIRING_CODE_TTL_SEC,
     local_pairing_code_required = True,
     pairing_token_public_key_file = DEFAULT_PAIRING_PUBLIC_KEY_FILE\<rparr>"

definition from_environment :: "environment \<Rightarrow> receiver_settings" where
  "from_environment env =
    (let defaults = default_settings in
    \<lparr>port = env_or env ''BOARD_PORT'' (port defaults),
     webtransport_port = env_or env ''WEBTRANSPORT_PORT'' (webtransport_port defaults),
     http_port = env_or env ''HTTP_PORT'' (http_port defaults),
     admin_bind_address = env_string_or env ''ADMIN_BIND_ADDR'' (admin_bind_address defaults),
     admin_port = env_or env ''ADMIN_PORT'' (admin_port defaults),
     drm_connector_id = env_string_or env ''DRM_CONNECTOR_ID'' (drm_connector_id defaults),
     drm_plane_id = env_string_or env ''DRM_PLANE_ID'' (drm_plane_id defaults),
     idle_dashboard = env_bool_or env ''IDLE_DASHBOARD'' (idle_dashboard defaults),
     idle_dashboard_mode = env_string_or env ''IDLE_DASHBOARD_MODE'' (idle_dashboard_mode defaults),
     idle_timeout_sec = env_or env ''IDLE_TIMEOUT_SEC'' (idle_timeout_sec defaults),
     sender_liveness_timeout_sec =
       env_or env ''SENDER_LIVENESS_TIMEOUT_SEC'' (sender_liveness_timeout_sec defaults),
     udp_buffer_size_mb = env_or env ''UDP_BUFFER_SIZE_MB'' (udp_buffer_size_mb defaults),
     cert_dir = env_string_or env ''CERTS_DIR'' (cert_dir defaults),
     pairing_worker_url = env_string_or env ''PAIRING_WORKER_URL'' (pairing_worker_url defaults),
     cloud_discovery_enabled =
       env_bool_or env ''CLOUD_DISCOVERY_ENABLED'' (cloud_discovery_enabled defaults),
     receiver_id = env_string_or env ''RECEIVER_ID'' (receiver_id defaults),
     pairing_code_ttl_sec = env_or env ''PAIRING_CODE_TTL_SEC'' (pairing_code_ttl_sec defaults),
     local_pairing_code_required =
       env_bool_or env ''LOCAL_PAIRING_CODE_REQUIRED'' (local_pairing_code_required defaults),
     pairing_token_public_key_file =
       env_string_or env ''PAIRING_TOKEN_PUBLIC_KEY_FILE'' (pairing_token_public_key_file defaults)\<rparr>)"

definition environment_pairs :: "receiver_settings \<Rightarrow> (string \<times> string) list" where
  "environment_pairs s =
    [(''BOARD_PORT'', word_to_string (port s)), (''UDP_PORT'', word_to_string (port s)),
     (''WEBTRANSPORT_PORT'', word_to_string (webtransport_port s)),
     (''HTTP_PORT'', word_to_string (http_port s)),
     (''ADMIN_BIND_ADDR'', admin_bind_address s), (''ADMIN_PORT'', word_to_string (admin_port s)),
     (''DRM_CONNECTOR_ID'', drm_connector_id s), (''DRM_PLANE_ID'', drm_plane_id s),
     (''IDLE_DASHBOARD'', bool_to_string (idle_dashboard s)),
     (''IDLE_DASHBOARD_MODE'', idle_dashboard_mode s),
     (''IDLE_TIMEOUT_SEC'', word_to_string (idle_timeout_sec s)),
     (''SENDER_LIVENESS_TIMEOUT_SEC'', word_to_string (sender_liveness_timeout_sec s)),
     (''UDP_BUFFER_SIZE_MB'', word_to_string (udp_buffer_size_mb s)), (''CERTS_DIR'', cert_dir s),
     (''PAIRING_WORKER_URL'', pairing_worker_url s),
     (''CLOUD_DISCOVERY_ENABLED'', bool_to_string (cloud_discovery_enabled s)),
     (''RECEIVER_ID'', receiver_id s),
     (''PAIRING_CODE_TTL_SEC'', word_to_string (pairing_code_ttl_sec s)),
     (''LOCAL_PAIRING_CODE_REQUIRED'', bool_to_string (local_pairing_code_required s)),
     (''PAIRING_TOKEN_PUBLIC_KEY_FILE'', pairing_token_public_key_file s)]"

definition export_environment :: "receiver_settings \<Rightarrow> environment \<Rightarrow> environment" where
  "export_environment s env = fold (\<lambda>(name, value) e. e(name \<mapsto> value)) (environment_pairs s) env"

section \<open>Validation\<close>

definition is_single_line :: "string \<Rightarrow> bool" where
  "is_single_line v \<longleftrightarrow> CHR 0x0A \<notin> set v \<and> CHR 0x0D \<notin> set v"

definition settings_strings :: "receiver_settings \<Rightarrow> (string \<times> string) list" where
  "settings_strings s =
    [(''admin_bind_address'', admin_bind_address s), (''drm_connector_id'', drm_connector_id s),
     (''drm_plane_id'', drm_plane_id s), (''idle_dashboard_mode'', idle_dashboard_mode s),
     (''cert_dir'', cert_dir s), (''pairing_worker_url'', pairing_worker_url s),
     (''receiver_id'', receiver_id s),
     (''pairing_token_public_key_file'', pairing_token_public_key_file s)]"

definition settings_ports :: "receiver_settings \<Rightarrow> (string \<times> u16) list" where
  "settings_ports s =
    [(''port'', port s), (''webtransport_port'', webtransport_port s), (''http_port'', http_port s),
     (''admin_port'', admin_port s)]"

definition validate :: "receiver_settings \<Rightarrow> string + unit" where
  "validate s =
    (case List.find (\<lambda>(_, v). \<not> is_single_line v) (settings_strings s) of
       Some (name, _) \<Rightarrow> Inl (name @ '' must be a single line'')
     | None \<Rightarrow>
     (case List.find (\<lambda>(_, v). v = 0) (settings_ports s) of
       Some (name, _) \<Rightarrow> Inl (name @ '' must be between 1 and 65535'')
     | None \<Rightarrow>
       if port s = webtransport_port s \<or> port s = http_port s \<or> port s = admin_port s
          \<or> webtransport_port s = http_port s \<or> webtransport_port s = admin_port s
          \<or> http_port s = admin_port s
       then Inl ''receiver ports must be unique''
       else if idle_timeout_sec s = 0 \<or> sender_liveness_timeout_sec s = 0
          \<or> udp_buffer_size_mb s = 0 \<or> pairing_code_ttl_sec s = 0
       then Inl ''timeouts, buffer size, and pairing TTL must be positive''
       else if drm_connector_id s \<noteq> ''auto'' \<and> \<not> list_all is_ascii_digit (drm_connector_id s)
       then Inl ''drm_connector_id must be auto or numeric''
       else if \<not> list_all is_ascii_digit (drm_plane_id s)
       then Inl ''drm_plane_id must be numeric''
       else if idle_dashboard_mode s \<noteq> ''raw'' \<and> idle_dashboard_mode s \<noteq> ''hevc''
       then Inl ''idle_dashboard_mode must be raw or hevc''
       else Inr ()))"

text \<open>What a validated configuration satisfies.\<close>

definition settings_valid :: "receiver_settings \<Rightarrow> bool" where
  "settings_valid s \<longleftrightarrow>
     (\<forall>(_, v) \<in> set (settings_strings s). is_single_line v)
     \<and> distinct [0, port s, webtransport_port s, http_port s, admin_port s]
     \<and> 0 < idle_timeout_sec s \<and> 0 < sender_liveness_timeout_sec s
     \<and> 0 < udp_buffer_size_mb s \<and> 0 < pairing_code_ttl_sec s
     \<and> (drm_connector_id s = ''auto'' \<or> list_all is_ascii_digit (drm_connector_id s))
     \<and> list_all is_ascii_digit (drm_plane_id s)
     \<and> idle_dashboard_mode s \<in> {''raw'', ''hevc''}"

lemma validate_iff: "validate s = Inr () \<longleftrightarrow> settings_valid s"
  unfolding validate_def settings_valid_def
  by (auto simp: settings_strings_def settings_ports_def word_neq_0_conv)

section \<open>The document\<close>

datatype json =
    Json_Null | Json_Bool bool | Json_Int int | Json_Float | Json_String string
  | Json_Array "json list" | Json_Object "(string \<times> json) list"

record device_config_document =
  version :: u32
  server :: receiver_settings

datatype config_error =
    Invalid_Line string | Invalid_Version | Unknown_Top_Level_Key string | Version_Missing
  | Bad_Server | Unreadable | Unsupported_Version u32 | Invalid_Configuration string

text \<open>Typed fields of the \<open>server\<close> object, as the derived \<open>Deserialize\<close> reads them.\<close>

definition json_word :: "(string \<times> json) list \<Rightarrow> string \<Rightarrow> 'a::len word option" where
  "json_word fs k =
     (case map_of fs k of
        Some (Json_Int i) \<Rightarrow> if 0 \<le> i \<and> i < 2 ^ LENGTH('a) then Some (word_of_int i) else None
      | _ \<Rightarrow> None)"

definition json_string :: "(string \<times> json) list \<Rightarrow> string \<Rightarrow> string option" where
  "json_string fs k = (case map_of fs k of Some (Json_String v) \<Rightarrow> Some v | _ \<Rightarrow> None)"

definition json_bool :: "(string \<times> json) list \<Rightarrow> string \<Rightarrow> bool option" where
  "json_bool fs k = (case map_of fs k of Some (Json_Bool b) \<Rightarrow> Some b | _ \<Rightarrow> None)"

definition default_local_pairing_code_required :: bool where
  "default_local_pairing_code_required = True"

definition server_keys :: "string list" where
  "server_keys =
    [''port'', ''webtransport_port'', ''http_port'', ''admin_bind_address'', ''admin_port'',
     ''drm_connector_id'', ''drm_plane_id'', ''idle_dashboard'', ''idle_dashboard_mode'',
     ''idle_timeout_sec'', ''sender_liveness_timeout_sec'', ''udp_buffer_size_mb'', ''cert_dir'',
     ''pairing_worker_url'', ''cloud_discovery_enabled'', ''receiver_id'',
     ''pairing_code_ttl_sec'', ''local_pairing_code_required'', ''pairing_token_public_key_file'']"

definition server_of_json :: "(string \<times> json) list \<Rightarrow> receiver_settings option" where
  "server_of_json fs =
    (if \<not> list_all (\<lambda>(k, _). k \<in> set server_keys) fs then None
     else do {
       p \<leftarrow> json_word fs ''port'';
       wp \<leftarrow> json_word fs ''webtransport_port'';
       hp \<leftarrow> json_word fs ''http_port'';
       aa \<leftarrow> json_string fs ''admin_bind_address'';
       ap \<leftarrow> json_word fs ''admin_port'';
       ci \<leftarrow> json_string fs ''drm_connector_id'';
       pi \<leftarrow> json_string fs ''drm_plane_id'';
       d \<leftarrow> json_bool fs ''idle_dashboard'';
       dm \<leftarrow> json_string fs ''idle_dashboard_mode'';
       it \<leftarrow> json_word fs ''idle_timeout_sec'';
       st \<leftarrow> json_word fs ''sender_liveness_timeout_sec'';
       ub \<leftarrow> json_word fs ''udp_buffer_size_mb'';
       cd \<leftarrow> json_string fs ''cert_dir'';
       pw \<leftarrow> json_string fs ''pairing_worker_url'';
       ce \<leftarrow> json_bool fs ''cloud_discovery_enabled'';
       ri \<leftarrow> json_string fs ''receiver_id'';
       tt \<leftarrow> json_word fs ''pairing_code_ttl_sec'';
       lp \<leftarrow> (if map_of fs ''local_pairing_code_required'' = None
             then Some default_local_pairing_code_required
             else json_bool fs ''local_pairing_code_required'');
       pk \<leftarrow> json_string fs ''pairing_token_public_key_file'';
       Some \<lparr>port = p, webtransport_port = wp, http_port = hp, admin_bind_address = aa,
         admin_port = ap, drm_connector_id = ci, drm_plane_id = pi, idle_dashboard = d,
         idle_dashboard_mode = dm, idle_timeout_sec = it, sender_liveness_timeout_sec = st,
         udp_buffer_size_mb = ub, cert_dir = cd, pairing_worker_url = pw,
         cloud_discovery_enabled = ce, receiver_id = ri, pairing_code_ttl_sec = tt,
         local_pairing_code_required = lp, pairing_token_public_key_file = pk\<rparr>
     })"

text \<open>\<open>value.trim_matches(|c| c == '"' || c == '\'')\<close>\<close>

definition is_quote :: "char \<Rightarrow> bool" where
  "is_quote c \<longleftrightarrow> c = CHR 0x22 \<or> c = CHR 0x27"

definition trim_quotes :: "string \<Rightarrow> string" where
  "trim_quotes v = rev (dropWhile is_quote (rev (dropWhile is_quote v)))"

text \<open>The line loop: the version so far, the \<open>server\<close> object, and whether \<open>server:\<close> was seen.\<close>

definition line_value :: "(string \<Rightarrow> json option) \<Rightarrow> string \<Rightarrow> json" where
  "line_value parse_value v =
     (case parse_value v of Some j \<Rightarrow> j | None \<Rightarrow> Json_String (trim_quotes v))"

definition replace_dash :: "string \<Rightarrow> string" where
  "replace_dash k = map (\<lambda>c. if c = CHR ''-'' then CHR ''_'' else c) k"

fun parse_lines ::
  "(string \<Rightarrow> json option) \<Rightarrow> string list \<Rightarrow> u32 option \<Rightarrow> (string \<times> json) list \<Rightarrow> bool
   \<Rightarrow> config_error + (u32 option \<times> (string \<times> json) list)" where
  "parse_lines pv [] ver fs in_server = Inr (ver, fs)"
| "parse_lines pv (raw # rest) ver fs in_server =
     (let line = trim_end (hd (split_on (CHR ''#'') raw)); trimmed = trim line
      in if trimmed = [] then parse_lines pv rest ver fs in_server
         else if trimmed = ''server:'' then parse_lines pv rest ver fs True
         else (case split_once (CHR '':'') trimmed of
                 None \<Rightarrow> Inl (Invalid_Line trimmed)
               | Some (k, v) \<Rightarrow>
                 let key = trim k; val = trim v
                 in if key = ''version'' then
                      (case parse_uint u32_max val of
                         None \<Rightarrow> Inl Invalid_Version
                       | Some n \<Rightarrow> parse_lines pv rest (Some (word_of_nat n)) fs in_server)
                    else if \<not> in_server then Inl (Unknown_Top_Level_Key key)
                    else parse_lines pv rest ver
                           (AList.update (replace_dash key) (line_value pv val) fs) in_server))"

definition parse_document ::
  "(string \<Rightarrow> device_config_document option) \<Rightarrow> (string \<Rightarrow> json option) \<Rightarrow> string
   \<Rightarrow> config_error + device_config_document" where
  "parse_document parse_json_document pv txt =
     (case parse_json_document txt of
        Some d \<Rightarrow> Inr d
      | None \<Rightarrow>
        (case parse_lines pv (str_lines txt) None [] False of
           Inl e \<Rightarrow> Inl e
         | Inr (None, fs) \<Rightarrow> Inl Version_Missing
         | Inr (Some ver, fs) \<Rightarrow>
           (case server_of_json fs of
              None \<Rightarrow> Inl Bad_Server
            | Some s \<Rightarrow> Inr \<lparr>version = ver, server = s\<rparr>)))"

text \<open>What is at the configuration path: nothing, a file that cannot be read, or its text.\<close>

datatype config_file = No_File | Unreadable_File | File_Text string

definition load_settings_at ::
  "(string \<Rightarrow> device_config_document option) \<Rightarrow> (string \<Rightarrow> json option) \<Rightarrow> environment
   \<Rightarrow> config_file \<Rightarrow> config_error + receiver_settings" where
  "load_settings_at parse_json_document pv env file =
     (let settings =
        (case file of
           No_File \<Rightarrow> Inr (from_environment env)
         | Unreadable_File \<Rightarrow> Inl Unreadable
         | File_Text t \<Rightarrow>
           (case parse_document parse_json_document pv t of
              Inl e \<Rightarrow> Inl e
            | Inr d \<Rightarrow> if version d \<noteq> word_of_nat DEVICE_CONFIG_VERSION
                      then Inl (Unsupported_Version (version d)) else Inr (server d)))
      in case settings of Inl e \<Rightarrow> Inl e
         | Inr s \<Rightarrow> (case validate s of Inl m \<Rightarrow> Inl (Invalid_Configuration m) | Inr _ \<Rightarrow> Inr s))"

text \<open>\<open>render_yaml\<close>: the lines of the format string, each ended by a newline.\<close>

definition yaml_fields :: "(string \<Rightarrow> string) \<Rightarrow> receiver_settings \<Rightarrow> (string \<times> string) list" where
  "yaml_fields quote s =
    [(''port'', word_to_string (port s)), (''webtransport_port'', word_to_string (webtransport_port s)),
     (''http_port'', word_to_string (http_port s)),
     (''admin_bind_address'', quote (admin_bind_address s)),
     (''admin_port'', word_to_string (admin_port s)),
     (''drm_connector_id'', quote (drm_connector_id s)), (''drm_plane_id'', quote (drm_plane_id s)),
     (''idle_dashboard'', bool_to_string (idle_dashboard s)),
     (''idle_dashboard_mode'', quote (idle_dashboard_mode s)),
     (''idle_timeout_sec'', word_to_string (idle_timeout_sec s)),
     (''sender_liveness_timeout_sec'', word_to_string (sender_liveness_timeout_sec s)),
     (''udp_buffer_size_mb'', word_to_string (udp_buffer_size_mb s)), (''cert_dir'', quote (cert_dir s)),
     (''pairing_worker_url'', quote (pairing_worker_url s)),
     (''cloud_discovery_enabled'', bool_to_string (cloud_discovery_enabled s)),
     (''receiver_id'', quote (receiver_id s)),
     (''pairing_code_ttl_sec'', word_to_string (pairing_code_ttl_sec s)),
     (''local_pairing_code_required'', bool_to_string (local_pairing_code_required s)),
     (''pairing_token_public_key_file'', quote (pairing_token_public_key_file s))]"

definition yaml_line :: "string \<times> string \<Rightarrow> string" where
  "yaml_line kv = ''  '' @ fst kv @ '': '' @ snd kv @ [CHR 0x0A]"

definition render_yaml :: "(string \<Rightarrow> string) \<Rightarrow> receiver_settings \<Rightarrow> string" where
  "render_yaml quote s =
     ''version: 1'' @ [CHR 0x0A] @ ''server:'' @ [CHR 0x0A] @ concat (map yaml_line (yaml_fields quote s))"

section \<open>Saving\<close>

text \<open>
  \<open>persist_document_at\<close> as the file operations it performs, in order, for a path \<open>dir/name\<close>.
  \<open>write_all\<close> may reach the file in several writes; \<open>pieces\<close> are the bytes of each.
\<close>

datatype fs_op =
    Create_Dir_All string
  | Create_Truncate string
  | Append_Bytes string string
  | Sync_File string
  | Set_Mode string nat
  | Rename_File string string
  | Sync_Dir string

type_synonym file_system = "string \<Rightarrow> string option"

fun fs_apply :: "fs_op \<Rightarrow> file_system \<Rightarrow> file_system" where
  "fs_apply (Create_Truncate p) fs = fs(p \<mapsto> [])"
| "fs_apply (Append_Bytes p bs) fs = (case fs p of None \<Rightarrow> fs | Some old \<Rightarrow> fs(p \<mapsto> old @ bs))"
| "fs_apply (Rename_File a b) fs = (case fs a of None \<Rightarrow> fs | Some c \<Rightarrow> (fs(a := None))(b \<mapsto> c))"
| "fs_apply _ fs = fs"

definition persist_ops :: "string \<Rightarrow> string \<Rightarrow> string list \<Rightarrow> fs_op list" where
  "persist_ops dir name pieces =
     (let temporary = dir @ ''/config.yaml.new''
      in [Create_Dir_All dir, Create_Truncate temporary] @ map (Append_Bytes temporary) pieces
         @ [Sync_File temporary, Set_Mode temporary 416, Rename_File temporary (dir @ ''/'' @ name),
            Sync_Dir dir])"

definition persist_document_at ::
  "(string \<Rightarrow> string) \<Rightarrow> string \<Rightarrow> string \<Rightarrow> (string \<Rightarrow> string list) \<Rightarrow> receiver_settings
   \<Rightarrow> config_error + fs_op list" where
  "persist_document_at quote dir name split_writes s =
     (case validate s of
        Inl m \<Rightarrow> Inl (Invalid_Configuration m)
      | Inr _ \<Rightarrow> Inr (persist_ops dir name (split_writes (render_yaml quote s))))"

end
