(* ===== verification/Atomic_File.thy ===== *)
theory Atomic_File
  imports Config
begin

text \<open>
  Replacing a file whole: the program writes a temporary file beside the target and renames it over the target, for
  the configuration document and for the requests to the host updater.  The contract is stated once, for a crash after
  any number of file operations.
\<close>

text \<open>The paths whose content an operation may change.\<close>

fun op_targets :: "fs_op \<Rightarrow> string set" where
  "op_targets (Create_Truncate p) = {p}"
| "op_targets (Append_Bytes p bs) = {p}"
| "op_targets (Rename_File a b) = {a, b}"
| "op_targets _ = {}"

lemma apply_elsewhere: "q \<notin> op_targets e \<Longrightarrow> fs_apply e fs q = fs q"
  by (cases e) (auto split: option.splits)

lemma fold_elsewhere: "\<forall>e \<in> set ops. q \<notin> op_targets e \<Longrightarrow> fold fs_apply ops fs q = fs q"
  by (induction ops arbitrary: fs) (simp_all add: apply_elsewhere)

lemma fold_appends:
  "fs p = Some old \<Longrightarrow> fold fs_apply (map (Append_Bytes p) pieces) fs p = Some (old @ concat pieces)"
  by (induction pieces arbitrary: fs old) simp_all

locale atomic_publish =
  fixes legal :: "'p \<Rightarrow> bool"
    and temporary :: "'p \<Rightarrow> string"
    and target :: "'p \<Rightarrow> string"
    and prepare :: "'p \<Rightarrow> fs_op list"
    and finish :: "'p \<Rightarrow> fs_op list"
    and content :: "'p \<Rightarrow> string"
  assumes only_temporary: "e \<in> set (prepare p) \<Longrightarrow> op_targets e \<subseteq> {temporary p}"
    and written: "fold fs_apply (prepare p) fs (temporary p) = Some (content p)"
    and only_syncs: "e \<in> set (finish p) \<Longrightarrow> op_targets e = {}"
    and apart: "legal p \<Longrightarrow> temporary p \<noteq> target p"
begin

lemma before_rename:
  "q \<noteq> temporary p \<Longrightarrow> fold fs_apply (take n (prepare p)) fs q = fs q"
  using only_temporary by (intro fold_elsewhere) (auto dest!: in_set_takeD)

lemma after_rename:
  "fold fs_apply (take n (finish p)) fs q = fs q"
  using only_syncs by (intro fold_elsewhere) (auto dest!: in_set_takeD)

lemma renamed:
  "legal p \<Longrightarrow> fold fs_apply (prepare p @ [Rename_File (temporary p) (target p)]) fs
    = (fold fs_apply (prepare p) fs)(temporary p := None, target p \<mapsto> content p)"
  using written [of p fs] by simp

text \<open>Either the rename has not happened, or it has and only synchronisation follows.\<close>

lemma prefix_cases:
  "take n (prepare p @ Rename_File (temporary p) (target p) # finish p) = take n (prepare p)
   \<or> (\<exists>m. take n (prepare p @ Rename_File (temporary p) (target p) # finish p)
        = (prepare p @ [Rename_File (temporary p) (target p)]) @ take m (finish p))"
proof (cases "n \<le> length (prepare p)")
  case False
  then obtain k where "n = Suc (length (prepare p) + k)"
    using less_imp_Suc_add [of "length (prepare p)" n] by auto
  then show ?thesis
    by (intro disjI2 exI [of _ k]) simp
qed simp

lemma never_partial:
  "legal p \<Longrightarrow> fold fs_apply (take n (prepare p @ Rename_File (temporary p) (target p) # finish p)) fs (target p)
     \<in> {fs (target p), Some (content p)}"
  using prefix_cases [of n p] before_rename [of "target p" p n fs] apart [of p]
  by (auto simp: after_rename renamed simp del: fold_append)
     (auto simp: after_rename renamed [simplified])

lemma published:
  "legal p \<Longrightarrow> fold fs_apply (prepare p @ Rename_File (temporary p) (target p) # finish p) fs (target p) = Some (content p)"
  using after_rename [of "length (finish p)" p] written [of p fs] by simp

lemma nothing_else:
  "legal p \<Longrightarrow> q \<notin> {temporary p, target p} \<Longrightarrow>
   fold fs_apply (take n (prepare p @ Rename_File (temporary p) (target p) # finish p)) fs q = fs q"
  using only_temporary only_syncs by (intro fold_elsewhere) (fastforce dest!: in_set_takeD)

end

end
