(* ===== verification/Config_Correct.thy ===== *)
theory Config_Correct
  imports Atomic_File
begin

text \<open>
  What \<open>Config\<close> promises: every loaded configuration is valid, exporting settings to the
  environment and reading them back gives the same settings, the written YAML document reads back,
  and a save replaces the document atomically.
\<close>

section \<open>White space and lines\<close>

definition graphic :: "char \<Rightarrow> bool" where
  "graphic c \<longleftrightarrow> 33 \<le> code_of c \<and> code_of c < 127"

lemma not_cont_graphic [simp]: "graphic c \<Longrightarrow> \<not> is_cont c" "\<not> is_cont (CHR '' '')"
  by (simp_all add: graphic_def is_cont_def code_of_def)

lemma chars_of_snoc: "\<not> is_cont c \<Longrightarrow> chars_of (s @ [c]) = chars_of s @ [[c]]"
proof (induction s rule: chars_of.induct)
  case (2 d cs)
  show ?case
  proof (cases "\<forall>x \<in> set cs. is_cont x")
    case True
    then have tw: "takeWhile is_cont cs = cs" "dropWhile is_cont cs = []"
      "takeWhile is_cont (cs @ [c]) = cs" "dropWhile is_cont (cs @ [c]) = [c]"
      using 2(2) by (simp_all add: takeWhile_append dropWhile_append takeWhile_eq_all_conv)
    show ?thesis
      using 2(2) by (simp add: tw)
  next
    case False
    then obtain x where "x \<in> set cs" "\<not> is_cont x"
      by blast
    then show ?thesis
      using 2 by (simp add: takeWhile_append1 dropWhile_append1)
  qed
qed simp

lemma ws_graphic: "graphic c \<Longrightarrow> \<not> starts_ws (c # cs)"
  by (auto simp: starts_ws_def ws_len_def graphic_def split: list.splits)

lemma chars_of_graphic: "graphic c \<Longrightarrow> \<exists>cs gs. chars_of (c # s) = (c # cs) # gs"
  by auto

lemma trim_start_graphic: "graphic c \<Longrightarrow> trim_start (c # s) = c # s"
  using ws_graphic [of c "takeWhile is_cont s"] concat_chars_of [of "c # s"]
  by (simp add: trim_start_def del: concat_chars_of)

lemma trim_end_graphic: "graphic c \<Longrightarrow> trim_end (s @ [c]) = s @ [c]"
  by (simp add: trim_end_def chars_of_snoc ws_graphic)

lemma trim_start_space: "s \<noteq> [] \<Longrightarrow> \<not> is_cont (hd s) \<Longrightarrow> trim_start (CHR '' '' # s) = trim_start s"
  by (cases s) (simp_all add: trim_start_def starts_ws_def ws_len_def code_of_def)

text \<open>A text with graphic ends.\<close>

definition solid :: "string \<Rightarrow> bool" where
  "solid v \<longleftrightarrow> v \<noteq> [] \<and> graphic (hd v) \<and> graphic (last v)"

lemma solid_trims [simp]:
  assumes "solid v"
  shows "trim v = v" "trim_start v = v" "trim_start (CHR '' '' # v) = v"
    "trim_start (CHR '' '' # CHR '' '' # v) = v" "trim (CHR '' '' # v) = v"
    "trim (CHR '' '' # CHR '' '' # v) = v"
proof -
  obtain c cs where c: "v = c # cs" "graphic c"
    using assms by (cases v) (auto simp: solid_def)
  obtain s d where d: "v = s @ [d]" "graphic d"
    using assms by (cases v rule: rev_cases) (auto simp: solid_def)
  show start: "trim_start v = v" "trim_start (CHR '' '' # v) = v"
      "trim_start (CHR '' '' # CHR '' '' # v) = v"
    using c by (simp_all add: trim_start_graphic trim_start_space)
  have "trim_end v = v"
    using d trim_end_graphic by simp
  then show "trim v = v" "trim (CHR '' '' # v) = v" "trim (CHR '' '' # CHR '' '' # v) = v"
    using start by (simp_all add: trim_def)
qed

lemma split_on_lines:
  "\<forall>l \<in> set ls. d \<notin> set l \<Longrightarrow> split_on d (concat (map (\<lambda>l. l @ [d]) ls)) = ls @ [[]]"
  by (induction ls) (auto simp: split_on_append)

lemma str_lines_concat:
  "\<forall>l \<in> set ls. is_single_line l \<Longrightarrow> str_lines (concat (map (\<lambda>l. l @ [CHR 0x0A]) ls)) = ls"
proof -
  assume a: "\<forall>l \<in> set ls. is_single_line l"
  have "strip_cr l = l" if "l \<in> set ls" for l
    using a that last_in_set by (fastforce simp: strip_cr_def is_single_line_def)
  then show ?thesis
    using a by (simp add: str_lines_def split_on_lines is_single_line_def map_idI)
qed

section \<open>The line loop on a written document\<close>

lemma update_append: "k \<notin> fst ` set fs \<Longrightarrow> AList.update k v fs = fs @ [(k, v)]"
  by (induction fs) auto

text \<open>A field that the writer produces: a key of lower-case letters and underscores, a value with
  graphic ends, and no comment sign or line break in either.\<close>

definition key_char :: "char \<Rightarrow> bool" where
  "key_char c \<longleftrightarrow> is_ascii_lowercase c \<or> c = CHR ''_''"

definition field_ok :: "string \<times> string \<Rightarrow> bool" where
  "field_ok kv \<longleftrightarrow>
     fst kv \<noteq> [] \<and> list_all key_char (fst kv) \<and> fst kv \<noteq> ''version''
     \<and> solid (snd kv) \<and> CHR ''#'' \<notin> set (snd kv) \<and> is_single_line (snd kv)"

definition field_line :: "string \<times> string \<Rightarrow> string" where
  "field_line kv = ''  '' @ fst kv @ '': '' @ snd kv"

lemma key_char_facts:
  "key_char c \<Longrightarrow> graphic c \<and> c \<noteq> CHR ''#'' \<and> c \<noteq> CHR '':'' \<and> c \<noteq> CHR ''-'' \<and> c \<noteq> CHR 0x0A \<and> c \<noteq> CHR 0x0D"
  by (auto simp: key_char_def graphic_def is_ascii_lowercase_def code_of_def)

lemma key_text:
  assumes "k \<noteq> []" "list_all key_char k"
  shows "solid k" "CHR ''#'' \<notin> set k" "CHR '':'' \<notin> set k" "replace_dash k = k" "is_single_line k"
proof -
  have c: "graphic c \<and> c \<noteq> CHR ''#'' \<and> c \<noteq> CHR '':'' \<and> c \<noteq> CHR ''-'' \<and> c \<noteq> CHR 0x0A \<and> c \<noteq> CHR 0x0D"
    if "c \<in> set k" for c
    using assms(2) that key_char_facts by (auto simp: list_all_iff)
  show "solid k"
    using assms(1) c by (simp add: solid_def)
  show "CHR ''#'' \<notin> set k" "CHR '':'' \<notin> set k" "is_single_line k"
    using c by (auto simp: is_single_line_def)
  show "replace_dash k = k"
    using c by (auto simp: replace_dash_def intro: map_idI)
qed

lemma split_once_append: "d \<notin> set a \<Longrightarrow> split_once d (a @ d # b) = Some (a, b)"
  by (simp add: split_once_Some)

text \<open>One line of the loop, once the line is cut at its comment and split at its colon.\<close>

lemma parse_line:
  assumes "hd (split_on (CHR ''#'') raw) = ''  '' @ k @ '': '' @ v" and "solid k" and "solid v"
    and "CHR '':'' \<notin> set k" and "k \<noteq> ''version''" and "replace_dash k = key" and "key \<notin> fst ` set fs"
  shows "parse_lines pv (raw # rest) ver fs True = parse_lines pv rest ver (fs @ [(key, line_value pv v)]) True"
proof -
  let ?body = "k @ '': '' @ v"
  let ?line = "''  '' @ ?body"
  have body: "solid ?body"
    using assms(2,3) by (auto simp: solid_def)
  obtain s d where s: "?body = s @ [d]"
    by (cases ?body rule: rev_cases) auto
  then have d: "?line = (''  '' @ s) @ [d]" "graphic d"
    using body unfolding s by (simp_all add: solid_def)
  have raw: "trim_end ?line = ?line"
    using d trim_end_graphic by metis
  have trimmed: "trim ?line = ?body"
    using solid_trims(6) [OF body] by simp
  have once: "split_once (CHR '':'') ?body = Some (k, CHR '' '' # v)"
    using split_once_append [OF assms(4), of "CHR '' '' # v"] by simp
  have space: "CHR '' '' \<in> set ?body"
    by simp
  have server: "?body \<noteq> ''server:''"
  proof -
    have "CHR '' '' \<notin> set ''server:''"
      by simp
    then show ?thesis
      using space by (intro notI) (simp only:)
  qed
  have nonempty: "?body \<noteq> []"
    by simp
  show ?thesis
    by (simp only: parse_lines.simps Let_def assms(1) raw trimmed once nonempty server if_False
        option.case prod.case solid_trims [OF assms(2)] solid_trims [OF assms(3)] assms(5,6)
        not_True_eq_False update_append [OF assms(7)])
qed

lemma parse_field_line:
  assumes "field_ok kv" and "fst kv \<notin> fst ` set fs"
  shows "parse_lines pv (field_line kv # rest) ver fs True =
    parse_lines pv rest ver (fs @ [(fst kv, line_value pv (snd kv))]) True"
proof (rule parse_line)
  have kv: "fst kv \<noteq> []" "list_all key_char (fst kv)" "fst kv \<noteq> ''version''" "solid (snd kv)"
      "CHR ''#'' \<notin> set (snd kv)"
    using assms(1) by (simp_all add: field_ok_def)
  note k = key_text [OF kv(1,2)]
  show "hd (split_on (CHR ''#'') (field_line kv)) = ''  '' @ fst kv @ '': '' @ snd kv"
    using k(2) kv(5) by (subst split_on_no_sep) (auto simp: field_line_def)
  show "solid (fst kv)" "solid (snd kv)" "CHR '':'' \<notin> set (fst kv)" "fst kv \<noteq> ''version''"
      "replace_dash (fst kv) = fst kv" "fst kv \<notin> fst ` set fs"
    using k kv assms(2) by simp_all
qed

lemma parse_field_lines:
  assumes "list_all field_ok kvs" and "distinct (map fst fs @ map fst kvs)"
  shows "parse_lines pv (map field_line kvs @ rest) ver fs True =
    parse_lines pv rest ver (fs @ map (\<lambda>kv. (fst kv, line_value pv (snd kv))) kvs) True"
  using assms
proof (induction kvs arbitrary: fs)
  case (Cons kv kvs)
  then have "fst kv \<notin> fst ` set fs"
    by auto
  then show ?case
    using Cons by (simp add: parse_field_line del: parse_lines.simps)
qed simp

section \<open>The written document reads back\<close>

text \<open>What is relied on of the JSON library, for text on one line: \<open>quote\<close> encloses it in double
  quotes, on one line and without adding a \<open>#\<close>, and \<open>parse_value\<close> inverts it; integers
  of at most 64 bits (a larger one becomes a floating-point number) and booleans parse as themselves.\<close>

definition json_laws :: "(string \<Rightarrow> json option) \<Rightarrow> (string \<Rightarrow> string) \<Rightarrow> bool" where
  "json_laws pv quote \<longleftrightarrow>
     (\<forall>t. is_single_line t \<longrightarrow>
        pv (quote t) = Some (Json_String t) \<and> is_single_line (quote t)
        \<and> (\<exists>b. quote t = CHR 0x22 # b @ [CHR 0x22])
        \<and> (CHR ''#'' \<in> set (quote t) \<longrightarrow> CHR ''#'' \<in> set t))
     \<and> (\<forall>n < 2 ^ 64. pv (nat_to_string n) = Some (Json_Int (int n)))
     \<and> pv ''true'' = Some (Json_Bool True) \<and> pv ''false'' = Some (Json_Bool False)"

definition no_hash :: "receiver_settings \<Rightarrow> bool" where
  "no_hash s \<longleftrightarrow> (\<forall>(_, v) \<in> set (settings_strings s). CHR ''#'' \<notin> set v)"

lemma solid_number [simp]: "solid (nat_to_string n)"
proof -
  have "graphic c" if "c \<in> set (nat_to_string n)" for c
    using nat_to_string_digits [OF that] by (auto simp: graphic_def is_ascii_digit_def)
  then show ?thesis
    by (simp add: solid_def)
qed

lemma number_value:
  "solid (word_to_string w)" "CHR ''#'' \<notin> set (word_to_string w)" "is_single_line (word_to_string w)"
  by (auto simp: word_to_string_def is_single_line_def is_ascii_digit_def code_of_def
      dest: nat_to_string_digits)

lemma bool_value:
  "solid (bool_to_string b)" "CHR ''#'' \<notin> set (bool_to_string b)" "is_single_line (bool_to_string b)"
  by (auto simp: bool_to_string_def is_single_line_def solid_def graphic_def code_of_def)

lemma quoted_value:
  assumes "json_laws pv quote" and "is_single_line t" and "CHR ''#'' \<notin> set t"
  shows "solid (quote t)" "CHR ''#'' \<notin> set (quote t)" "is_single_line (quote t)"
    "line_value pv (quote t) = Json_String t"
proof -
  have l: "pv (quote t) = Some (Json_String t)" "is_single_line (quote t)"
      "\<exists>b. quote t = CHR 0x22 # b @ [CHR 0x22]" "CHR ''#'' \<notin> set (quote t)"
    using assms unfolding json_laws_def by blast+
  then show "CHR ''#'' \<notin> set (quote t)" "is_single_line (quote t)" "line_value pv (quote t) = Json_String t"
    by (simp_all add: line_value_def)
  show "solid (quote t)"
    using l(3) by (auto simp: solid_def graphic_def code_of_def)
qed

lemma line_value_word:
  fixes w :: "'a::len word"
  assumes "json_laws pv quote" and "LENGTH('a) \<le> 64"
  shows "line_value pv (word_to_string w) = Json_Int (uint w)"
proof -
  have "unat w < 2 ^ LENGTH('a)"
    by (rule unsigned_less)
  also have "\<dots> \<le> 2 ^ 64"
    using assms(2) by (intro power_increasing) simp_all
  finally show ?thesis
    using assms(1) by (simp add: json_laws_def line_value_def word_to_string_def)
qed

lemma line_value_bool: "json_laws pv quote \<Longrightarrow> line_value pv (bool_to_string b) = Json_Bool b"
  by (simp add: json_laws_def line_value_def bool_to_string_def)

lemma keys_ok: "list_all key_char k \<longleftrightarrow> (\<forall>c \<in> set k. 97 \<le> code_of c \<and> code_of c \<le> 122 \<or> c = CHR ''_'')"
  by (simp add: list_all_iff key_char_def is_ascii_lowercase_def)

text \<open>The fields as the parser has them once the lines are read.\<close>

definition server_fields :: "receiver_settings \<Rightarrow> (string \<times> json) list" where
  "server_fields s =
    [(''port'', Json_Int (uint (port s))), (''webtransport_port'', Json_Int (uint (webtransport_port s))),
     (''http_port'', Json_Int (uint (http_port s))),
     (''admin_bind_address'', Json_String (admin_bind_address s)),
     (''admin_port'', Json_Int (uint (admin_port s))),
     (''drm_connector_id'', Json_String (drm_connector_id s)),
     (''drm_plane_id'', Json_String (drm_plane_id s)),
     (''idle_dashboard'', Json_Bool (idle_dashboard s)),
     (''idle_dashboard_mode'', Json_String (idle_dashboard_mode s)),
     (''idle_timeout_sec'', Json_Int (uint (idle_timeout_sec s))),
     (''sender_liveness_timeout_sec'', Json_Int (uint (sender_liveness_timeout_sec s))),
     (''udp_buffer_size_mb'', Json_Int (uint (udp_buffer_size_mb s))),
     (''cert_dir'', Json_String (cert_dir s)),
     (''pairing_worker_url'', Json_String (pairing_worker_url s)),
     (''cloud_discovery_enabled'', Json_Bool (cloud_discovery_enabled s)),
     (''receiver_id'', Json_String (receiver_id s)),
     (''pairing_code_ttl_sec'', Json_Int (uint (pairing_code_ttl_sec s))),
     (''local_pairing_code_required'', Json_Bool (local_pairing_code_required s)),
     (''pairing_token_public_key_file'', Json_String (pairing_token_public_key_file s))]"

lemma json_word_at: "map_of fs k = Some (Json_Int (uint w)) \<Longrightarrow> json_word fs k = Some (w :: 'a::len word)"
  using uint_lt2p [of w] by (simp add: json_word_def)

lemma json_string_at: "map_of fs k = Some (Json_String v) \<Longrightarrow> json_string fs k = Some v"
  by (simp add: json_string_def)

lemma json_bool_at: "map_of fs k = Some (Json_Bool b) \<Longrightarrow> json_bool fs k = Some b"
  by (simp add: json_bool_def)

lemma server_of_fields: "server_of_json (server_fields s) = Some s"
  by (simp add: server_of_json_def server_fields_def server_keys_def json_word_at json_string_at json_bool_at)

lemma yaml_fields_ok:
  assumes "json_laws pv quote" and "settings_valid s" and "no_hash s"
  shows "list_all field_ok (yaml_fields quote s)"
    and "map (\<lambda>kv. (fst kv, line_value pv (snd kv))) (yaml_fields quote s) = server_fields s"
proof -
  note strings = quoted_value [OF assms(1)]
  have s: "\<forall>(_, v) \<in> set (settings_strings s). is_single_line v \<and> CHR ''#'' \<notin> set v"
    using assms(2,3) by (auto simp: settings_valid_def no_hash_def)
  show "list_all field_ok (yaml_fields quote s)"
    using s by (simp add: yaml_fields_def settings_strings_def field_ok_def strings number_value bool_value
        key_char_def is_ascii_lowercase_def code_of_def)
  show "map (\<lambda>kv. (fst kv, line_value pv (snd kv))) (yaml_fields quote s) = server_fields s"
    using s by (simp add: yaml_fields_def settings_strings_def server_fields_def strings
        line_value_word [OF assms(1)] line_value_bool [OF assms(1)])
qed

lemma render_yaml_lines:
  "render_yaml quote s = concat (map (\<lambda>l. l @ [CHR 0x0A])
     (''version: 1'' # ''server:'' # map field_line (yaml_fields quote s)))"
  by (simp add: render_yaml_def yaml_line_def [abs_def] field_line_def comp_def)

lemma parse_head:
  "parse_lines pv (''version: 1'' # ''server:'' # rest) None [] False = parse_lines pv rest (Some 1) [] True"
proof -
  have h: "trim_end (hd (split_on (CHR ''#'') ''version: 1'')) = ''version: 1''"
    "trim ''version: 1'' = ''version: 1''" "split_once (CHR '':'') ''version: 1'' = Some (''version'', '' 1'')"
    "trim ''version'' = ''version''" "trim '' 1'' = ''1''"
    "trim_end (hd (split_on (CHR ''#'') ''server:'')) = ''server:''" "trim ''server:'' = ''server:''"
    by code_simp+
  have one: "parse_uint u32_max ''1'' = Some 1"
    by (simp add: parse_uint_def u32_max_def digits_value_def ascii_defs)
  have d: "''version: 1'' \<noteq> []" "''version: 1'' \<noteq> ''server:''" "''server:'' \<noteq> []" "word_of_nat 1 = (1 :: u32)"
    by simp_all
  show ?thesis
    by (simp only: parse_lines.simps Let_def h one d if_False if_True option.case prod.case simp_thms)
qed

lemma line_single: "field_ok kv \<Longrightarrow> is_single_line (field_line kv)"
  using key_text(5) [of "fst kv"] by (auto simp: field_ok_def field_line_def is_single_line_def)

lemma lines_single:
  "list_all field_ok kvs \<Longrightarrow> \<forall>l \<in> set (map field_line kvs). is_single_line l"
  by (auto simp: list_all_iff line_single)

lemma parse_written:
  assumes "json_laws pv quote" and "settings_valid s" and "no_hash s"
    and "pd (render_yaml quote s) = None"
  shows "parse_document pd pv (render_yaml quote s) = Inr \<lparr>version = 1, server = s\<rparr>"
proof -
  note f = yaml_fields_ok [OF assms(1-3)]
  have "str_lines (render_yaml quote s) = ''version: 1'' # ''server:'' # map field_line (yaml_fields quote s)"
    unfolding render_yaml_lines using lines_single [OF f(1)]
    by (intro str_lines_concat) (auto simp: is_single_line_def)
  moreover have "distinct (map fst [] @ map fst (yaml_fields quote s))"
    by (simp add: yaml_fields_def)
  ultimately show ?thesis
    using parse_field_lines [OF f(1), of "[]" pv "[]" "Some 1"] assms(4)
    by (simp add: parse_document_def parse_head f(2) server_of_fields del: parse_lines.simps(2))
qed

section \<open>Properties\<close>

text \<open>
  Property C7. A saved configuration reads back: for valid settings whose texts hold no \<open>#\<close>, loading the
  YAML document that the writer produces gives the same settings, whatever the environment.
\<close>

theorem saved_settings_load_back:
  assumes "json_laws pv quote" and "settings_valid s" and "no_hash s"
    and "pd (render_yaml quote s) = None"
  shows "load_settings_at pd pv env (File_Text (render_yaml quote s)) = Inr s"
  using parse_written [OF assms(1-3), of pd, OF assms(4)] assms(2)
  by (simp add: load_settings_at_def validate_iff [THEN iffD2] limits)

text \<open>A small instance of the library: no escapes, decimal integers of 64 bits.\<close>

definition plain_quote :: "string \<Rightarrow> string" where
  "plain_quote t = CHR 0x22 # t @ [CHR 0x22]"

definition plain_value :: "string \<Rightarrow> json option" where
  "plain_value v =
     (if v = [] then None
      else if hd v = CHR 0x22 \<and> length v > 1 \<and> last v = CHR 0x22 then Some (Json_String (butlast (tl v)))
      else if list_all is_ascii_digit v \<and> digits_value v < 2 ^ 64 then Some (Json_Int (int (digits_value v)))
      else if v = ''true'' then Some (Json_Bool True)
      else if v = ''false'' then Some (Json_Bool False) else None)"

lemma plain_laws: "json_laws plain_value plain_quote"
proof -
  have "plain_value (nat_to_string n) = Some (Json_Int (int n))" if "n < 2 ^ 64" for n
  proof -
    have "list_all is_ascii_digit (nat_to_string n)"
      using nat_to_string_digits by (auto simp: list_all_iff)
    moreover have "hd (nat_to_string n) \<noteq> CHR 0x22"
      using nat_to_string_digits [of "hd (nat_to_string n)" n] by (auto simp: ascii_defs)
    ultimately show ?thesis
      using that by (simp add: plain_value_def digits_value_to_string)
  qed
  then show ?thesis
    by (auto simp: json_laws_def plain_quote_def plain_value_def is_single_line_def ascii_defs)
qed

lemma default_settings_valid: "settings_valid default_settings" "no_hash default_settings"
  by (simp_all add: settings_valid_def no_hash_def default_settings_def settings_strings_def
      is_single_line_def limits ascii_defs)

theorem saved_settings_load_back_witness:
  "load_settings_at (\<lambda>_. None) plain_value (\<lambda>_. None) (File_Text (render_yaml plain_quote default_settings))
     = Inr default_settings"
  by (rule saved_settings_load_back [OF plain_laws default_settings_valid]) simp

text \<open>
  A \<open>#\<close> inside a text setting does not survive a save, although validation accepts it: the
  writer encloses the receiver's name in double quotes, the reader cuts the line at the \<open>#\<close> before it
  looks at quotes and, since what is left is no JSON value, keeps only the text before the sign.  The
  receiver called \<open>a#b\<close> loads as \<open>a\<close>.
\<close>

theorem hash_in_receiver_id_is_cut:
  assumes "json_laws pv quote" and "settings_valid s" and "no_hash s" and "is_single_line (a @ ''#'' @ b)"
    and "solid a" and "CHR ''#'' \<notin> set a" and "\<not> is_quote (hd a)" and "\<not> is_quote (last a)"
    and "quote (a @ ''#'' @ b) = CHR 0x22 # a @ ''#'' @ b @ [CHR 0x22]" and "pv (CHR 0x22 # a) = None"
    and "pd (render_yaml quote (s\<lparr>receiver_id := a @ ''#'' @ b\<rparr>)) = None"
  shows "load_settings_at pd pv env (File_Text (render_yaml quote (s\<lparr>receiver_id := a @ ''#'' @ b\<rparr>)))
    = Inr (s\<lparr>receiver_id := a\<rparr>)"
proof -
  let ?s = "s\<lparr>receiver_id := a @ ''#'' @ b\<rparr>"
  let ?f = "yaml_fields quote s"
  note f = yaml_fields_ok [OF assms(1-3)]
  have split: "yaml_fields quote ?s = take 15 ?f @ (''receiver_id'', quote (a @ ''#'' @ b)) # drop 16 ?f"
    by (simp add: yaml_fields_def)
  have good: "list_all field_ok (take 15 ?f)" "list_all field_ok (drop 16 ?f)"
    using f(1) by (auto simp: list_all_iff dest: in_set_takeD in_set_dropD)
  let ?raw = "field_line (''receiver_id'', quote (a @ ''#'' @ b))"
  have single: "is_single_line ?raw"
    using assms(4,9) by (simp add: field_line_def is_single_line_def)
  have lines: "str_lines (render_yaml quote ?s) =
      ''version: 1'' # ''server:'' # map field_line (take 15 ?f) @ ?raw # map field_line (drop 16 ?f)"
    unfolding render_yaml_lines split using single lines_single [OF good(1)] lines_single [OF good(2)]
    by (subst str_lines_concat) (auto simp: is_single_line_def)
  have cut: "hd (split_on (CHR ''#'') ?raw) = ''  '' @ ''receiver_id'' @ '': '' @ CHR 0x22 # a"
    unfolding field_line_def assms(9)
    using split_on_append [of "CHR ''#''" "''  receiver_id: '' @ CHR 0x22 # a" "b @ [CHR 0x22]"] assms(6)
    by simp
  have key: "solid ''receiver_id''" "CHR '':'' \<notin> set ''receiver_id''" "replace_dash ''receiver_id'' = ''receiver_id''"
    by (simp_all add: solid_def graphic_def code_of_def replace_dash_def)
  have val: "solid (CHR 0x22 # a)"
    using assms(5) by (auto simp: solid_def graphic_def code_of_def)
  have trimmed: "trim_quotes (CHR 0x22 # a) = a"
  proof -
    have a: "a \<noteq> []"
      using assms(5) by (simp add: solid_def)
    then have "dropWhile is_quote a = a" "dropWhile is_quote (rev a) = rev a"
      using assms(7,8) by (cases a; simp add: hd_rev [symmetric]; cases "rev a"; simp)+
    then show ?thesis
      by (simp add: trim_quotes_def is_quote_def)
  qed
  have lv: "line_value pv (CHR 0x22 # a) = Json_String a"
    using assms(10) trimmed by (simp add: line_value_def)
  let ?g = "map (\<lambda>kv. (fst kv, line_value pv (snd kv)))"
  have fields: "?g (take 15 ?f) @ (''receiver_id'', Json_String a) # ?g (drop 16 ?f) =
      server_fields (s\<lparr>receiver_id := a\<rparr>)"
    using f(2) by (simp add: yaml_fields_def server_fields_def)
  have "parse_lines pv (str_lines (render_yaml quote ?s)) None [] False =
      Inr (Some 1, server_fields (s\<lparr>receiver_id := a\<rparr>))"
  proof -
    have d1: "distinct (map fst [] @ map fst (take 15 ?f))" "''receiver_id'' \<notin> fst ` set ([] @ ?g (take 15 ?f))"
      by (simp_all add: yaml_fields_def)
    have d2: "distinct (map fst (([] @ ?g (take 15 ?f)) @ [(''receiver_id'', Json_String a)]) @ map fst (drop 16 ?f))"
      by (simp add: yaml_fields_def)
    show ?thesis
      unfolding lines parse_head parse_field_lines [OF good(1) d1(1)]
      by (subst parse_line [OF cut key(1) val key(2) _ key(3) d1(2)])
         (use parse_field_lines [OF good(2) d2, of pv "[]"] fields in \<open>simp_all add: lv\<close>)
  qed
  moreover have "settings_valid (s\<lparr>receiver_id := a\<rparr>)"
    using assms(2,4) by (simp add: settings_valid_def settings_strings_def is_single_line_def)
  ultimately show ?thesis
    using assms(11) validate_iff [of "s\<lparr>receiver_id := a\<rparr>"]
    by (simp add: load_settings_at_def parse_document_def server_of_fields limits)
qed

theorem hash_in_receiver_id_is_cut_witness:
  "load_settings_at (\<lambda>_. None) plain_value (\<lambda>_. None)
     (File_Text (render_yaml plain_quote (default_settings\<lparr>receiver_id := ''Room'' @ ''#'' @ ''2''\<rparr>)))
   = Inr (default_settings\<lparr>receiver_id := ''Room''\<rparr>)"
  by (rule hash_in_receiver_id_is_cut [OF plain_laws default_settings_valid])
     (simp_all add: is_single_line_def solid_def graphic_def is_quote_def plain_quote_def plain_value_def ascii_defs)

text \<open>
  Exporting settings to the environment and rebuilding them from it gives the same settings,
  whatever the environment held before.
\<close>

theorem environment_roundtrip: "from_environment (export_environment s env) = s"
  by (simp add: from_environment_def export_environment_def environment_pairs_def Let_def)

text \<open>
  The receiver never starts on an invalid configuration: settings that load, from a file or
  from the environment, have single-line texts, four distinct non-zero ports, positive timeouts, buffer
  size and code lifetime, a connector that is \<open>auto\<close> or numeric, a numeric plane and a known dashboard mode.
\<close>

theorem loaded_settings_valid:
  assumes "load_settings_at parse_json_document pv env file = Inr s"
  shows "settings_valid s"
  using assms by (auto simp: load_settings_at_def validate_iff [symmetric] Let_def
      split: sum.splits config_file.splits if_splits)

lemma no_overrides: "from_environment (\<lambda>_. None) = default_settings"
  unfolding from_environment_def Let_def
  by (rule receiver_settings.equality) (simp_all add: env_or_def env_string_or_def env_bool_or_def)

theorem loaded_settings_valid_witness: "settings_valid default_settings"
proof (rule loaded_settings_valid)
  show "load_settings_at (\<lambda>_. None) plain_value (\<lambda>_. None) No_File = Inr default_settings"
    using default_settings_valid(1)
    by (simp add: load_settings_at_def validate_iff [THEN iffD2] no_overrides)
qed

section \<open>Atomic saving\<close>

text \<open>A save is \<open>(dir, name, pieces)\<close>.\<close>

definition save_temporary :: "string \<times> string \<times> string list \<Rightarrow> string" where
  "save_temporary p = fst p @ ''/config.yaml.new''"

definition save_target :: "string \<times> string \<times> string list \<Rightarrow> string" where
  "save_target p = fst p @ ''/'' @ fst (snd p)"

definition save_prepare :: "string \<times> string \<times> string list \<Rightarrow> fs_op list" where
  "save_prepare p = [Create_Dir_All (fst p), Create_Truncate (save_temporary p)]
     @ map (Append_Bytes (save_temporary p)) (snd (snd p)) @ [Sync_File (save_temporary p), Set_Mode (save_temporary p) 416]"

interpretation save: atomic_publish "\<lambda>p. fst (snd p) \<noteq> ''config.yaml.new''" save_temporary save_target save_prepare
    "\<lambda>p. [Sync_Dir (fst p)]" "\<lambda>p. concat (snd (snd p))"
  by unfold_locales (auto simp: save_temporary_def save_target_def save_prepare_def fold_appends)

lemma persist_as_save:
  "persist_ops dir name pieces = save_prepare (dir, name, pieces)
     @ Rename_File (save_temporary (dir, name, pieces)) (save_target (dir, name, pieces)) # [Sync_Dir dir]"
  by (simp add: persist_ops_def save_prepare_def save_temporary_def save_target_def Let_def)

text \<open>
  Property C8. A save is atomic: after any prefix of its file operations, however the write was split, the
  configuration path holds its previous content unchanged or the whole new document; after all of them it
  holds the new document.
\<close>

theorem save_is_atomic:
  assumes "name \<noteq> ''config.yaml.new''"
    and "concat pieces = doc"
  shows "fold fs_apply (take n (persist_ops dir name pieces)) fs (dir @ ''/'' @ name)
      \<in> {fs (dir @ ''/'' @ name), Some doc}
    \<and> fold fs_apply (persist_ops dir name pieces) fs (dir @ ''/'' @ name) = Some doc"
  using save.never_partial [of "(dir, name, pieces)" n fs] save.published [of "(dir, name, pieces)" fs] assms
  by (simp add: persist_as_save save_target_def)

theorem save_is_atomic_witness:
  "fold fs_apply (take 4 (persist_ops ''/config'' ''config.yaml'' [''ver'', ''sion'']))
     [''/config/config.yaml'' \<mapsto> ''old''] ''/config/config.yaml'' \<in> {Some ''old'', Some ''version''}"
  using save_is_atomic [of "''config.yaml''" "[''ver'', ''sion'']" "''version''" 4 "''/config''"
      "[''/config/config.yaml'' \<mapsto> ''old'']"] by simp

end
