(* ===== verification/Pairing.thy ===== *)
theory Pairing
  imports Config
begin

text \<open>
  \<open>src/local_pairing.rs\<close>: the four-character pairing code, its expiry, and the per-peer attempt limit.
  Each method is one step on the state under the mutex; the instant it reads is an argument, and the
  random indices of \<open>rotate_code\<close> are an argument too.
\<close>

section \<open>State\<close>

record pairing_snapshot =
  code :: "string option"
  local_status :: string
  cloud_status :: string
  cloud_ip :: "string option"

record pairing_data =
  ps_snapshot :: pairing_snapshot
  expires_at :: "instant option"
  failed_attempts :: "string \<Rightarrow> (u32 \<times> instant) option"
  fixed_code :: "string option"
  code_required :: bool

definition is_valid_pairing_code :: "string \<Rightarrow> bool" where
  "is_valid_pairing_code c \<longleftrightarrow> length c = PAIRING_CODE_LENGTH \<and> list_all is_ascii_alphanumeric c"

definition pairing_code_ttl_seconds :: "environment \<Rightarrow> nat" where
  "pairing_code_ttl_seconds env =
     max (unat (env_or env ''PAIRING_CODE_TTL_SEC'' (word_of_nat PAIRING_CODE_TTL_SEC :: u64)))
         PAIRING_CODE_TTL_SEC"

definition with_fixed_code :: "string option \<Rightarrow> bool \<Rightarrow> string + pairing_data" where
  "with_fixed_code c required =
     (let initial = (\<lambda>fixed. \<lparr>ps_snapshot = \<lparr>code = None,
            local_status = (if required then ''WAITING'' else ''DISABLED''),
            cloud_status = ''DISABLED'', cloud_ip = None\<rparr>,
          expires_at = None, failed_attempts = Map.empty, fixed_code = fixed, code_required = required\<rparr>)
      in case map_option to_ascii_uppercase c of
           None \<Rightarrow> Inr (initial None)
         | Some v \<Rightarrow> if is_valid_pairing_code v then Inr (initial (Some v))
                     else Inl ''fixed pairing code must be four alphanumeric characters'')"

section \<open>Operations\<close>

text \<open>The code the generator draws: one alphabet letter per index.\<close>

definition random_code :: "nat list \<Rightarrow> string" where
  "random_code rng = map (\<lambda>i. PAIRING_CODE_ALPHABET ! i) rng"

definition ready_status :: "pairing_data \<Rightarrow> string" where
  "ready_status d = (if code_required d then ''READY'' else ''DISABLED'')"

text \<open>Publishing a code: both \<open>rotate_code\<close> and \<open>adopt_cloud_code\<close> end with these four assignments.\<close>

definition publish_code :: "string \<Rightarrow> instant \<Rightarrow> pairing_data \<Rightarrow> pairing_data" where
  "publish_code c until d = d\<lparr>ps_snapshot := (ps_snapshot d)\<lparr>code := Some c, local_status := ready_status d\<rparr>,
     expires_at := Some until, failed_attempts := Map.empty\<rparr>"

definition rotate_code :: "environment \<Rightarrow> nat list \<Rightarrow> instant \<Rightarrow> pairing_data \<Rightarrow> string \<times> pairing_data" where
  "rotate_code env rng now d =
     (let c = (case fixed_code d of Some f \<Rightarrow> f | None \<Rightarrow> random_code rng)
      in (c, publish_code c (now + from_secs (pairing_code_ttl_seconds env)) d))"

definition needs_code :: "instant \<Rightarrow> pairing_data \<Rightarrow> bool" where
  "needs_code now d \<longleftrightarrow>
     code (ps_snapshot d) = None \<or> (case expires_at d of None \<Rightarrow> True | Some e \<Rightarrow> e \<le> now)"

definition ensure_fallback_code :: "environment \<Rightarrow> nat list \<Rightarrow> instant \<Rightarrow> pairing_data \<Rightarrow> pairing_data" where
  "ensure_fallback_code env rng now d = (if needs_code now d then snd (rotate_code env rng now d) else d)"

definition set_cloud_status :: "string \<Rightarrow> pairing_data \<Rightarrow> pairing_data" where
  "set_cloud_status st d = d\<lparr>ps_snapshot := (ps_snapshot d)\<lparr>cloud_status := st\<rparr>\<rparr>"

definition set_cloud_ip :: "string option \<Rightarrow> pairing_data \<Rightarrow> pairing_data" where
  "set_cloud_ip ip d = d\<lparr>ps_snapshot := (ps_snapshot d)\<lparr>cloud_ip := ip\<rparr>\<rparr>"

definition adopt_cloud_code ::
  "string \<Rightarrow> duration \<Rightarrow> instant \<Rightarrow> pairing_data \<Rightarrow> (string + unit) \<times> pairing_data" where
  "adopt_cloud_code c valid_for now d =
     (let c = to_ascii_uppercase c
      in if \<not> is_valid_pairing_code c \<or> valid_for = 0 then (Inl ''invalid cloud pairing code'', d)
         else (Inr (), publish_code c (now + valid_for) d))"

definition snapshot :: "instant \<Rightarrow> pairing_data \<Rightarrow> pairing_snapshot \<times> pairing_data" where
  "snapshot now d =
     (let d = (if (case expires_at d of None \<Rightarrow> False | Some e \<Rightarrow> e \<le> now)
               then d\<lparr>ps_snapshot := (ps_snapshot d)\<lparr>code := None,
                        local_status := (if code_required d then ''EXPIRED'' else ''DISABLED'')\<rparr>\<rparr>
               else d)
      in (ps_snapshot d, d))"

definition dashboard_code :: "pairing_data \<Rightarrow> string option" where
  "dashboard_code d =
     (if code_required d \<or> cloud_status (ps_snapshot d) \<noteq> ''DISABLED'' then code (ps_snapshot d) else None)"

definition code_accepted :: "string \<Rightarrow> instant \<Rightarrow> pairing_data \<Rightarrow> bool" where
  "code_accepted c now d \<longleftrightarrow>
     is_valid_pairing_code c
     \<and> (case code (ps_snapshot d) of None \<Rightarrow> False | Some expected \<Rightarrow> eq_ignore_ascii_case expected c)
     \<and> (case expires_at d of None \<Rightarrow> False | Some e \<Rightarrow> e > now)"

definition current_attempts :: "string \<Rightarrow> instant \<Rightarrow> pairing_data \<Rightarrow> u32 \<times> instant" where
  "current_attempts peer now d =
     (let attempts = (case failed_attempts d peer of Some a \<Rightarrow> a | None \<Rightarrow> (0, now))
      in if snd attempts + from_secs PAIRING_ATTEMPT_WINDOW_SEC \<le> now then (0, now) else attempts)"

definition validate_code ::
  "string \<Rightarrow> string \<Rightarrow> instant \<Rightarrow> pairing_data \<Rightarrow> (string + unit) \<times> pairing_data" where
  "validate_code c peer now d =
     (let valid = code_accepted c now d;
          attempts = current_attempts peer now d;
          d' = d\<lparr>failed_attempts := (failed_attempts d)(peer \<mapsto> attempts)\<rparr>
      in if fst attempts \<ge> word_of_nat PAIRING_ATTEMPT_LIMIT then (Inl ''too many pairing attempts'', d')
         else if \<not> valid then
           (Inl ''invalid or expired pairing code'',
            d\<lparr>failed_attempts := (failed_attempts d)(peer \<mapsto> (fst attempts + 1, snd attempts))\<rparr>)
         else (Inr (), d'))"

section \<open>The component as a machine\<close>

text \<open>What the rest of the receiver does to the shared state: the fallback loop, the cloud loop, the
  transport's code checks and the snapshot readers.\<close>

datatype pairing_event =
    Fallback_Tick environment "nat list" instant
  | Cloud_Status string
  | Cloud_Ip "string option"
  | Cloud_Code string duration instant
  | Read_Snapshot instant
  | Try_Code string string instant

fun pairing_step :: "pairing_event \<Rightarrow> pairing_data \<Rightarrow> pairing_data" where
  "pairing_step (Fallback_Tick env rng now) d = ensure_fallback_code env rng now d"
| "pairing_step (Cloud_Status st) d = set_cloud_status st d"
| "pairing_step (Cloud_Ip ip) d = set_cloud_ip ip d"
| "pairing_step (Cloud_Code c valid_for now) d = snd (adopt_cloud_code c valid_for now d)"
| "pairing_step (Read_Snapshot now) d = snd (snapshot now d)"
| "pairing_step (Try_Code c peer now) d = snd (validate_code c peer now d)"

end
