(* ===== verification/Pairing_Correct.thy ===== *)
theory Pairing_Correct
  imports Pairing
begin

text \<open>
  What the pairing state promises: it stays well formed, a code is accepted exactly when it is the current
  unexpired one and the peer is within its attempt limit, guessing is limited per peer and window, and the
  fallback timer never replaces a live cloud code.
\<close>

section \<open>Well-formed states\<close>

definition code_ok :: "string \<Rightarrow> bool" where
  "code_ok c \<longleftrightarrow> is_valid_pairing_code c \<and> to_ascii_uppercase c = c"

definition pairing_ok :: "pairing_data \<Rightarrow> bool" where
  "pairing_ok d \<longleftrightarrow>
     (\<forall>c. code (ps_snapshot d) = Some c \<longrightarrow> code_ok c \<and> expires_at d \<noteq> None)
     \<and> (\<forall>c. fixed_code d = Some c \<longrightarrow> code_ok c)
     \<and> local_status (ps_snapshot d)
         \<in> (if code_required d then {''WAITING'', ''READY'', ''EXPIRED''} else {''DISABLED''})
     \<and> (\<forall>a \<in> ran (failed_attempts d). fst a \<le> word_of_nat PAIRING_ATTEMPT_LIMIT)"

text \<open>\<open>rng.gen_range(0..PAIRING_CODE_ALPHABET.len())\<close>, drawn \<open>PAIRING_CODE_LENGTH\<close> times.\<close>

definition draws_ok :: "nat list \<Rightarrow> bool" where
  "draws_ok rng \<longleftrightarrow> length rng = PAIRING_CODE_LENGTH \<and> list_all (\<lambda>i. i < length PAIRING_CODE_ALPHABET) rng"

fun event_ok :: "pairing_event \<Rightarrow> bool" where
  "event_ok (Fallback_Tick env rng now) = draws_ok rng"
| "event_ok _ = True"

lemma alphabet_ok: "c \<in> set PAIRING_CODE_ALPHABET \<Longrightarrow> is_ascii_alphanumeric c \<and> ascii_upper c = c"
proof -
  have "list_all (\<lambda>c. is_ascii_alphanumeric c \<and> ascii_upper c = c) PAIRING_CODE_ALPHABET"
    by code_simp
  then show "c \<in> set PAIRING_CODE_ALPHABET \<Longrightarrow> is_ascii_alphanumeric c \<and> ascii_upper c = c"
    by (auto simp: list_all_iff)
qed

lemma random_code_ok:
  assumes "draws_ok rng"
  shows "code_ok (random_code rng)"
proof -
  have "is_ascii_alphanumeric c \<and> ascii_upper c = c" if "c \<in> set (random_code rng)" for c
    using that assms alphabet_ok by (auto simp: random_code_def draws_ok_def list_all_iff)
  then show ?thesis
    using assms by (auto simp: code_ok_def is_valid_pairing_code_def to_ascii_uppercase_def list_all_iff
        random_code_def draws_ok_def intro: map_idI)
qed

lemma upper_code_ok: "is_valid_pairing_code (to_ascii_uppercase c) \<Longrightarrow> code_ok (to_ascii_uppercase c)"
  by (simp add: code_ok_def)

lemma publish_ok: "pairing_ok d \<Longrightarrow> code_ok c \<Longrightarrow> pairing_ok (publish_code c until d)"
  by (auto simp: pairing_ok_def publish_code_def ready_status_def)

lemma rotate_ok:
  assumes "pairing_ok d" and "draws_ok rng"
  shows "code_ok (fst (rotate_code env rng now d))" "pairing_ok (snd (rotate_code env rng now d))"
  using assms random_code_ok [OF assms(2)]
  by (auto simp: rotate_code_def Let_def pairing_ok_def publish_code_def ready_status_def split: option.splits)

lemma attempts_le: "pairing_ok d \<Longrightarrow> failed_attempts d peer = Some (n, t) \<Longrightarrow> n \<le> word_of_nat PAIRING_ATTEMPT_LIMIT"
  unfolding pairing_ok_def by (metis fst_conv ranI)

lemma ran_upd: "\<forall>a \<in> ran m. P a \<Longrightarrow> P b \<Longrightarrow> \<forall>a \<in> ran (m(k \<mapsto> b)). P a"
  by (auto simp: ran_def)

lemma attempt_bound:
  "pairing_ok d \<Longrightarrow> fst (current_attempts peer now d) \<le> word_of_nat PAIRING_ATTEMPT_LIMIT"
  by (auto simp: current_attempts_def Let_def dest: attempts_le split: option.splits)

lemma word_step: "n \<le> k \<Longrightarrow> \<not> k \<le> n \<Longrightarrow> n + 1 \<le> (k :: 'a::len word)"
  by (simp add: inc_le)

lemma set_attempts_ok:
  "pairing_ok d \<Longrightarrow> fst a \<le> word_of_nat PAIRING_ATTEMPT_LIMIT \<Longrightarrow>
   pairing_ok (d\<lparr>failed_attempts := (failed_attempts d)(peer \<mapsto> a)\<rparr>)"
  using ran_upd [of "failed_attempts d" "\<lambda>a. fst a \<le> word_of_nat PAIRING_ATTEMPT_LIMIT" a peer]
  by (simp add: pairing_ok_def)

lemma validate_ok: "pairing_ok d \<Longrightarrow> pairing_ok (snd (validate_code c peer now d))"
  using attempt_bound [of d peer now] word_step [of "fst (current_attempts peer now d)" "word_of_nat PAIRING_ATTEMPT_LIMIT"]
  by (simp add: validate_code_def Let_def set_attempts_ok)

lemma pairing_step_ok: "pairing_ok d \<Longrightarrow> event_ok e \<Longrightarrow> pairing_ok (pairing_step e d)"
proof (cases e)
  case (Fallback_Tick env rng now)
  then show "pairing_ok d \<Longrightarrow> event_ok e \<Longrightarrow> ?thesis"
    using rotate_ok(2) [of d rng env now] by (simp add: ensure_fallback_code_def)
next
  case (Cloud_Code c valid_for now)
  then show "pairing_ok d \<Longrightarrow> event_ok e \<Longrightarrow> ?thesis"
    using publish_ok [OF _ upper_code_ok] by (auto simp: adopt_cloud_code_def Let_def)
next
  case (Try_Code c peer now)
  then show "pairing_ok d \<Longrightarrow> event_ok e \<Longrightarrow> ?thesis"
    by (simp add: validate_ok)
qed (auto simp: pairing_ok_def set_cloud_status_def set_cloud_ip_def snapshot_def Let_def split: option.splits)

interpretation pairing: invariant_machine pairing_step pairing_ok event_ok
  by unfold_locales (rule pairing_step_ok)

lemma with_fixed_code_ok: "with_fixed_code c required = Inr d \<Longrightarrow> pairing_ok d"
  by (auto simp: with_fixed_code_def Let_def pairing_ok_def code_ok_def split: option.splits if_splits)

section \<open>Guessing\<close>

text \<open>The verdicts on the attempts of one peer in a run of the component.\<close>

definition too_many :: string where "too_many = ''too many pairing attempts''"
definition invalid :: string where "invalid = ''invalid or expired pairing code''"

fun wrong_guesses :: "string \<Rightarrow> pairing_event list \<Rightarrow> pairing_data \<Rightarrow> nat" where
  "wrong_guesses peer [] d = 0"
| "wrong_guesses peer (e # es) d =
     (case e of
        Try_Code c p now \<Rightarrow>
          if p = peer \<and> fst (validate_code c p now d) = Inl invalid then 1 else 0
      | _ \<Rightarrow> 0) + wrong_guesses peer es (pairing_step e d)"

text \<open>What publishes a new code: a tick that finds none that is live, or a cloud code that is taken over.\<close>

definition publishes :: "pairing_event \<Rightarrow> pairing_data \<Rightarrow> bool" where
  "publishes e d =
     (case e of Fallback_Tick env rng now \<Rightarrow> needs_code now d
      | Cloud_Code c valid_for now \<Rightarrow> fst (adopt_cloud_code c valid_for now d) = Inr ()
      | _ \<Rightarrow> False)"

text \<open>A run in which no new code is published and the peer's attempts fall into one window.\<close>

definition in_window :: "string \<Rightarrow> instant \<Rightarrow> pairing_event \<Rightarrow> bool" where
  "in_window peer t0 e =
     (case e of Try_Code c p now \<Rightarrow> p = peer \<longrightarrow> t0 \<le> now \<and> now < t0 + from_secs PAIRING_ATTEMPT_WINDOW_SEC
      | _ \<Rightarrow> True)"

fun guessing_run :: "string \<Rightarrow> instant \<Rightarrow> pairing_event list \<Rightarrow> pairing_data \<Rightarrow> bool" where
  "guessing_run peer t0 [] d = True"
| "guessing_run peer t0 (e # es) d \<longleftrightarrow>
     \<not> publishes e d \<and> in_window peer t0 e \<and> guessing_run peer t0 es (pairing_step e d)"

definition used :: "string \<Rightarrow> instant \<Rightarrow> pairing_data \<Rightarrow> nat \<Rightarrow> bool" where
  "used peer t0 d k \<longleftrightarrow>
     k \<le> PAIRING_ATTEMPT_LIMIT
     \<and> (case failed_attempts d peer of None \<Rightarrow> k = 0 | Some (n, t) \<Rightarrow> n = word_of_nat k \<and> t0 \<le> t)"

lemma used_current:
  assumes "used peer t0 d k" and "t0 \<le> now" and "now < t0 + from_secs PAIRING_ATTEMPT_WINDOW_SEC"
  shows "fst (current_attempts peer now d) = word_of_nat k" "t0 \<le> snd (current_attempts peer now d)"
  using assms by (auto simp: used_def current_attempts_def Let_def split: option.splits)

lemma limit_word:
  "k \<le> PAIRING_ATTEMPT_LIMIT \<Longrightarrow> (word_of_nat PAIRING_ATTEMPT_LIMIT :: u32) \<le> word_of_nat k \<longleftrightarrow> k = PAIRING_ATTEMPT_LIMIT"
  by (auto simp: limits word_le_nat_alt unat_of_nat)

lemma try_used:
  assumes "used peer t0 d k" and "t0 \<le> now" and "now < t0 + from_secs PAIRING_ATTEMPT_WINDOW_SEC"
  shows "used peer t0 (snd (validate_code c peer now d))
    (if fst (validate_code c peer now d) = Inl invalid then Suc k else k)"
    and "fst (validate_code c peer now d) = Inl invalid \<Longrightarrow> k < PAIRING_ATTEMPT_LIMIT"
  using used_current [OF assms] assms(1) limit_word [of k]
  by (auto simp: validate_code_def Let_def used_def invalid_def split: if_splits)

lemma other_peer: "p \<noteq> peer \<Longrightarrow> failed_attempts (snd (validate_code c p now d)) peer = failed_attempts d peer"
  by (simp add: validate_code_def Let_def)

text \<open>No other event of such a run touches the attempts on record.\<close>

lemma quiet_attempts:
  assumes "\<not> publishes e d" and "\<And>c now. e \<noteq> Try_Code c peer now"
  shows "failed_attempts (pairing_step e d) peer = failed_attempts d peer"
proof (cases e)
  case (Fallback_Tick env rng now)
  then show ?thesis
    using assms(1) by (simp add: publishes_def ensure_fallback_code_def)
next
  case (Cloud_Code c valid_for now)
  then show ?thesis
    using assms(1) by (auto simp: publishes_def adopt_cloud_code_def Let_def split: if_splits)
next
  case (Try_Code c p now)
  then have "p \<noteq> peer"
    using assms(2) [of c now] by auto
  then show ?thesis
    by (simp add: Try_Code other_peer)
qed (simp_all add: set_cloud_status_def set_cloud_ip_def snapshot_def Let_def)

lemma wrong_guesses_used:
  "used peer t0 d k \<Longrightarrow> guessing_run peer t0 es d
   \<Longrightarrow> used peer t0 (fold pairing_step es d) (wrong_guesses peer es d + k)"
proof (induction es arbitrary: d k)
  case (Cons e es)
  show ?case
  proof (cases "\<exists>c now. e = Try_Code c peer now")
    case True
    then obtain c now where e: "e = Try_Code c peer now"
      by blast
    then have w: "t0 \<le> now" "now < t0 + from_secs PAIRING_ATTEMPT_WINDOW_SEC"
      using Cons.prems(2) by (simp_all add: in_window_def)
    show ?thesis
      using Cons.IH [OF try_used(1) [OF Cons.prems(1) w, of c]] Cons.prems(2) by (auto simp: e split: if_splits)
  next
    case False
    then have "used peer t0 (pairing_step e d) k"
      using Cons.prems quiet_attempts [of e d peer] by (auto simp: used_def)
    moreover have "wrong_guesses peer (e # es) d = wrong_guesses peer es (pairing_step e d)"
      using False by (cases e) auto
    ultimately show ?thesis
      using Cons.IH Cons.prems(2) by simp
  qed
qed simp

section \<open>Properties\<close>

text \<open>
  The pairing state stays well formed under any sequence of ticks, cloud updates, attempts and
  reads, starting from a fixed or an absent code: a published code is always four upper-case alphanumeric
  characters with an expiry, the local status is one of its legal values (always DISABLED when no code is
  required), and no peer's attempt counter exceeds five.
\<close>

theorem pairing_always_well_formed:
  assumes "with_fixed_code c required = Inr d" and "list_all event_ok es"
  shows "pairing_ok (fold pairing_step es d)"
  by (rule pairing.run_inv [OF with_fixed_code_ok [OF assms(1)] assms(2)])

definition sample_events :: "pairing_event list" where
  "sample_events = [Fallback_Tick (\<lambda>_. None) [0, 1, 26, 35] 5, Try_Code ''ab09'' ''10.0.0.2'' 6,
     Cloud_Code ''z9x8'' 60000000000 7, Read_Snapshot 8]"

theorem pairing_always_well_formed_witness:
  "\<exists>d. with_fixed_code None True = Inr d \<and> pairing_ok (fold pairing_step sample_events d)"
proof -
  obtain d where d: "with_fixed_code None True = Inr d"
    by (simp add: with_fixed_code_def Let_def)
  moreover have "list_all event_ok sample_events"
    by (simp add: sample_events_def draws_ok_def limits)
  ultimately show ?thesis
    using pairing_always_well_formed [OF d] by blast
qed

text \<open>
  Property C5. Guessing is limited: in any run in which no new code is published, with the timer ticking, cloud updates, other
  peers and readers in between, a peer with no attempt on record that makes all its attempts within one minute of the first
  gets at most five of them judged wrong; every further one is refused unjudged, even the correct code.
\<close>

theorem guesses_limited_per_window:
  assumes "failed_attempts d peer = None" and "guessing_run peer t0 es d"
    and "t0 \<le> now" and "now < t0 + from_secs PAIRING_ATTEMPT_WINDOW_SEC"
  shows "wrong_guesses peer es d \<le> 5
    \<and> (wrong_guesses peer es d = 5 \<longrightarrow>
        fst (validate_code c peer now (fold pairing_step es d)) = Inl too_many)"
proof -
  have "used peer t0 d 0"
    using assms(1) by (simp add: used_def)
  then have u: "used peer t0 (fold pairing_step es d) (wrong_guesses peer es d)"
    using wrong_guesses_used [OF _ assms(2)] by fastforce
  then have "wrong_guesses peer es d \<le> PAIRING_ATTEMPT_LIMIT"
    by (simp add: used_def)
  moreover have "fst (validate_code c peer now (fold pairing_step es d)) = Inl too_many"
    if "wrong_guesses peer es d = PAIRING_ATTEMPT_LIMIT"
    using used_current(1) [OF u assms(3,4)] that by (simp add: validate_code_def Let_def too_many_def)
  ultimately show ?thesis
    by (simp add: limits)
qed

text \<open>A guess every second, and the timer every five.\<close>

definition guesses :: "pairing_event list" where
  "guesses = (let t = Try_Code ''0000'' ''10.0.0.2'' 8000000000; tick = Fallback_Tick (\<lambda>_. None) [1, 2, 3, 4] 9000000000
     in [t, t, tick, t, t, t, tick, t])"

definition published_state :: pairing_data where
  "published_state = publish_code ''AB12'' (from_secs 3600)
     \<lparr>ps_snapshot = \<lparr>code = None, local_status = ''WAITING'', cloud_status = ''DISABLED'', cloud_ip = None\<rparr>,
      expires_at = None, failed_attempts = Map.empty, fixed_code = None, code_required = True\<rparr>"

lemma live_guessing_run:
  assumes "code (ps_snapshot d) = Some c" and "expires_at d = Some until"
    and "\<forall>e \<in> set es. in_window peer t0 e
      \<and> (case e of Fallback_Tick env rng now \<Rightarrow> now < until | Try_Code _ _ _ \<Rightarrow> True | _ \<Rightarrow> False)"
  shows "guessing_run peer t0 es d"
  using assms
proof (induction es arbitrary: d)
  case (Cons e es)
  then have "\<not> publishes e d" "in_window peer t0 e" "code (ps_snapshot (pairing_step e d)) = Some c"
      "expires_at (pairing_step e d) = Some until"
    by (cases e; simp add: publishes_def needs_code_def ensure_fallback_code_def validate_code_def Let_def)+
  then show ?case
    using Cons by simp
qed simp

lemma guesses_run: "guessing_run ''10.0.0.2'' 8000000000 guesses published_state"
  by (rule live_guessing_run [of _ "''AB12''" "from_secs 3600"])
     (auto simp: guesses_def Let_def in_window_def published_state_def publish_code_def from_secs_def limits)

theorem guesses_limited_per_window_witness:
  "wrong_guesses ''10.0.0.2'' guesses published_state \<le> 5"
  by (rule guesses_limited_per_window [where ?t0.0 = 8000000000 and now = 8000000000, OF _ guesses_run, THEN conjunct1])
     (simp_all add: published_state_def publish_code_def from_secs_def limits)

text \<open>
  Exact acceptance: an attempt succeeds if and only if the peer has made fewer than five wrong
  attempts in its current one-minute window, a code is published and unexpired, and the attempt equals it up
  to ASCII case with four alphanumeric characters; success leaves the published code and its expiry unchanged.
\<close>

theorem code_accepted_iff:
  "fst (validate_code c peer now d) = Inr () \<longleftrightarrow>
    fst (current_attempts peer now d) < word_of_nat PAIRING_ATTEMPT_LIMIT
    \<and> (\<exists>expected until. code (ps_snapshot d) = Some expected \<and> expires_at d = Some until
        \<and> now < until \<and> is_valid_pairing_code c
        \<and> to_ascii_lowercase expected = to_ascii_lowercase c)"
  by (auto simp: validate_code_def Let_def code_accepted_def eq_ignore_ascii_case_def split: option.splits)


fun before :: "instant \<Rightarrow> pairing_event \<Rightarrow> bool" where
  "before limit (Fallback_Tick env rng now) = (now < limit)"
| "before limit (Cloud_Code c valid_for now) = False"
| "before limit (Read_Snapshot now) = (now < limit)"
| "before limit _ = True"

definition live :: "string \<Rightarrow> instant \<Rightarrow> pairing_data \<Rightarrow> bool" where
  "live c until d \<longleftrightarrow> code (ps_snapshot d) = Some c \<and> expires_at d = Some until"

lemma live_step: "live c until d \<Longrightarrow> before until e \<Longrightarrow> live c until (pairing_step e d)"
  by (cases e) (auto simp: live_def ensure_fallback_code_def needs_code_def set_cloud_status_def
      set_cloud_ip_def snapshot_def validate_code_def Let_def)

interpretation live_code: invariant_machine pairing_step "live c until" "before until"
  by unfold_locales (rule live_step)

text \<open>
  The fallback timer never replaces a live cloud code: after the cloud code \<open>c\<close> is adopted for
  \<open>valid_for\<close> at time \<open>t\<close>, any run of timer ticks, snapshot reads, status updates and attempts strictly before
  \<open>t + valid_for\<close> leaves it published, and a peer that has not exhausted its attempts is accepted with it.
\<close>

theorem cloud_code_survives_fallback:
  assumes "fst (adopt_cloud_code c valid_for t d) = Inr ()"
    and "list_all (before (t + valid_for)) es" and "now < t + valid_for"
    and "d' = fold pairing_step es (snd (adopt_cloud_code c valid_for t d))"
  shows "code (ps_snapshot d') = Some (to_ascii_uppercase c)
    \<and> (fst (current_attempts peer now d') < word_of_nat PAIRING_ATTEMPT_LIMIT
        \<longrightarrow> fst (validate_code c peer now d') = Inr ())"
proof -
  have valid: "is_valid_pairing_code (to_ascii_uppercase c)"
    using assms(1) by (auto simp: adopt_cloud_code_def Let_def split: if_splits)
  then have c: "is_valid_pairing_code c"
    by (simp add: is_valid_pairing_code_def to_ascii_uppercase_def list_all_iff)
  have "live (to_ascii_uppercase c) (t + valid_for) (snd (adopt_cloud_code c valid_for t d))"
    using assms(1) by (auto simp: adopt_cloud_code_def Let_def live_def publish_code_def split: if_splits)
  then have "live (to_ascii_uppercase c) (t + valid_for) d'"
    unfolding assms(4) by (rule live_code.run_inv) (rule assms(2))
  then show ?thesis
    using assms(3) c by (auto simp: live_def validate_code_def Let_def code_accepted_def)
qed

theorem cloud_code_survives_fallback_witness:
  "code (ps_snapshot (fold pairing_step [Fallback_Tick (\<lambda>_. None) [1, 2, 3, 4] 20, Read_Snapshot 30]
     (snd (adopt_cloud_code ''z9x8'' 1000 10 published_state)))) = Some ''Z9X8''"
proof -
  have c: "to_ascii_uppercase ''z9x8'' = ''Z9X8''" "is_valid_pairing_code ''Z9X8''"
    by code_simp+
  have "fst (adopt_cloud_code ''z9x8'' 1000 10 published_state) = Inr ()"
    by (simp add: adopt_cloud_code_def c)
  then show ?thesis
    using cloud_code_survives_fallback [of "''z9x8''" 1000 10 published_state
        "[Fallback_Tick (\<lambda>_. None) [1, 2, 3, 4] 20, Read_Snapshot 30]" 40 _ "''10.0.0.2''", OF _ _ _ refl]
    by (simp add: c del: pairing_step.simps fold_simps)
qed

end
