(* ===== verification/Net.thy ===== *)
theory Net
  imports Rust_Std "HOL-Library.List_Lexorder" "HOL-Library.Product_Lexorder" "HOL-Library.Option_ord"
begin

text \<open>
  \<open>src/net.rs\<close>: which local address is announced.  \<open>getifaddrs\<close> is a parameter: the list of interfaces
  with their IPv4 address, \<open>None\<close> for an interface without an address or with one of another family.
\<close>

type_synonym ipv4 = "byte \<times> byte \<times> byte \<times> byte"

definition ipv4_to_string :: "ipv4 \<Rightarrow> string" where
  "ipv4_to_string ip = (case ip of (a, b, c, d) \<Rightarrow>
     nat_to_string (unat a) @ ''.'' @ nat_to_string (unat b) @ ''.'' @ nat_to_string (unat c)
     @ ''.'' @ nat_to_string (unat d))"

definition interface_priority :: "string \<Rightarrow> nat option" where
  "interface_priority name =
     (if starts_with name ''eth'' \<or> starts_with name ''end'' \<or> starts_with name ''enp''
         \<or> starts_with name ''eno'' \<or> starts_with name ''ens'' \<or> starts_with name ''enx'' then Some 0
      else if starts_with name ''wlan'' \<or> starts_with name ''wlp'' \<or> starts_with name ''wl'' then Some 1
      else None)"

text \<open>\<open>Ipv4Addr::is_loopback\<close>, \<open>is_link_local\<close> and \<open>is_private\<close> of the standard library.\<close>

fun is_loopback :: "ipv4 \<Rightarrow> bool" where
  "is_loopback (a, b, c, d) = (a = 127)"

fun is_link_local :: "ipv4 \<Rightarrow> bool" where
  "is_link_local (a, b, c, d) = (a = 169 \<and> b = 254)"

fun is_private :: "ipv4 \<Rightarrow> bool" where
  "is_private (a, b, c, d) = (a = 10 \<or> a = 172 \<and> 16 \<le> b \<and> b \<le> 31 \<or> a = 192 \<and> b = 168)"

definition is_usable_private_ipv4 :: "ipv4 \<Rightarrow> bool" where
  "is_usable_private_ipv4 ip \<longleftrightarrow> \<not> is_loopback ip \<and> \<not> is_link_local ip \<and> is_private ip"

definition address_key :: "string \<times> string \<Rightarrow> nat option \<times> nat list \<times> nat list" where
  "address_key a = (interface_priority (fst a), map code_of (fst a), map code_of (snd a))"

definition sort_addresses :: "(string \<times> string) list \<Rightarrow> (string \<times> string) list" where
  "sort_addresses as = sort_key address_key as"

text \<open>One round of the loop over the interfaces.\<close>

definition collect_address :: "string \<times> ipv4 option \<Rightarrow> (string \<times> string) list \<Rightarrow> (string \<times> string) list" where
  "collect_address i results =
     (case i of (name, address) \<Rightarrow>
        if interface_priority name = None then results
        else (case address of None \<Rightarrow> results
              | Some ip \<Rightarrow>
                if is_usable_private_ipv4 ip \<and> (name, ipv4_to_string ip) \<notin> set results
                then results @ [(name, ipv4_to_string ip)] else results))"

definition get_active_ipv4_addresses :: "(string \<times> ipv4 option) list \<Rightarrow> (string \<times> string) list" where
  "get_active_ipv4_addresses ifaddrs = sort_addresses (fold collect_address ifaddrs [])"

definition get_preferred_private_ipv4 :: "(string \<times> ipv4 option) list \<Rightarrow> string option" where
  "get_preferred_private_ipv4 ifaddrs =
     (case map snd (get_active_ipv4_addresses ifaddrs) of [] \<Rightarrow> None | ip # _ \<Rightarrow> Some ip)"

section \<open>What is announced\<close>

definition usable :: "(string \<times> ipv4 option) list \<Rightarrow> (string \<times> string) set" where
  "usable ifaddrs = {(name, ipv4_to_string ip) |name ip.
     (name, Some ip) \<in> set ifaddrs \<and> interface_priority name \<noteq> None \<and> is_usable_private_ipv4 ip}"

lemma collect_one: "set (collect_address i r) = set r \<union> usable [i]"
  by (cases i) (auto simp: collect_address_def usable_def split: option.splits)

lemma collect_distinct: "distinct r \<Longrightarrow> distinct (collect_address i r)"
  by (cases i) (auto simp: collect_address_def split: option.splits)

lemma collect_all: "set (fold collect_address is r) = set r \<union> usable is"
proof (induction "is" arbitrary: r)
  case Nil
  then show ?case by (simp add: usable_def)
next
  case (Cons i "is")
  have "usable (i # is) = usable [i] \<union> usable is"
    unfolding usable_def list.set by blast
  then show ?case
    using Cons by (auto simp: collect_one)
qed

lemma collect_all_distinct: "distinct r \<Longrightarrow> distinct (fold collect_address is r)"
  by (induction "is" arbitrary: r) (simp_all add: collect_distinct)

lemma active_set: "set (get_active_ipv4_addresses is) = usable is"
  by (simp add: get_active_ipv4_addresses_def sort_addresses_def collect_all)

text \<open>
  The address the receiver announces is a private one of a physical LAN interface, Ethernet first:
  it exists exactly when some Ethernet or Wi-Fi interface has a usable private address, it is the address of
  such an interface, and no usable interface comes before that one in the order by family (Ethernet before
  Wi-Fi), then by name.
\<close>

theorem preferred_address_is_first:
  "case get_preferred_private_ipv4 is of
     None \<Rightarrow> usable is = {}
   | Some ip \<Rightarrow> \<exists>name. (name, ip) \<in> usable is
       \<and> (\<forall>(other, ip') \<in> usable is. (interface_priority name, map code_of name, map code_of ip)
             \<le> (interface_priority other, map code_of other, map code_of ip'))"
proof (cases "get_active_ipv4_addresses is")
  case Nil
  then show ?thesis
    using active_set [of "is"] by (simp add: get_preferred_private_ipv4_def)
next
  case (Cons a rest)
  have "sorted (map address_key (get_active_ipv4_addresses is))"
    by (simp add: get_active_ipv4_addresses_def sort_addresses_def)
  then have "\<forall>b \<in> set rest. address_key a \<le> address_key b"
    by (simp add: Cons)
  then have least: "\<forall>b \<in> usable is. address_key a \<le> address_key b"
    using active_set [of "is"] by (auto simp: Cons)
  moreover have "a \<in> usable is"
    using active_set [of "is"] by (auto simp: Cons)
  ultimately show ?thesis
    by (cases a) (auto simp: get_preferred_private_ipv4_def Cons address_key_def
        intro!: exI [of _ "fst a"])
qed

definition sample_interfaces :: "(string \<times> ipv4 option) list" where
  "sample_interfaces = [(''lo'', Some (127, 0, 0, 1)), (''wlan0'', Some (192, 168, 1, 20)),
     (''docker0'', Some (172, 17, 0, 1)), (''end0'', Some (192, 168, 1, 72))]"

theorem preferred_address_is_first_witness:
  "get_preferred_private_ipv4 sample_interfaces = Some ''192.168.1.72''
   \<and> (\<exists>name. (name, ''192.168.1.72'') \<in> usable sample_interfaces)"
proof -
  have p: "get_preferred_private_ipv4 sample_interfaces = Some ''192.168.1.72''"
    by code_simp
  then show ?thesis
    using preferred_address_is_first [of sample_interfaces] by auto
qed

end
