(* ===== verification/Discovery.thy ===== *)
theory Discovery
  imports Pairing Net
begin

text \<open>
  \<open>src/cloud_discovery.rs\<close>: verification of cloud connection tokens with the replay cache, the
  configuration check, and the registration loop.  Base64, JSON and RSA-PSS are third-party code and come
  in as the record \<open>token_library\<close>; the HTTP exchange of a registration is its outcome.
\<close>

section \<open>Connection tokens\<close>

record token_header =
  th_alg :: string
  th_typ :: string
  th_v :: nat

record token_payload =
  tp_receiver_id :: string
  tp_purpose :: string
  tp_iat :: nat
  tp_exp :: nat
  tp_jti :: string

record token_library =
  tl_decode :: "string \<Rightarrow> byte list option"
  tl_header :: "byte list \<Rightarrow> token_header option"
  tl_payload :: "byte list \<Rightarrow> token_payload option"
  tl_signature :: "byte list \<Rightarrow> bool"
  tl_verify :: "string \<Rightarrow> byte list \<Rightarrow> bool"

text \<open>The receiver's identity and the cache of accepted token ids with their expiry.  A hash map
  iterates in no particular order; the list is the order in which the eviction meets its entries.\<close>

record token_verifier =
  tv_receiver_id :: string
  tv_seen :: "(string \<times> nat) list"

text \<open>\<open>seen.iter().min_by_key(|(_, expires)| *expires)\<close>\<close>

fun min_by_expiry :: "(string \<times> nat) list \<Rightarrow> (string \<times> nat) option" where
  "min_by_expiry [] = None"
| "min_by_expiry (e # es) =
     (case min_by_expiry es of None \<Rightarrow> Some e | Some m \<Rightarrow> Some (if snd e \<le> snd m then e else m))"

definition remove_key :: "string \<Rightarrow> (string \<times> nat) list \<Rightarrow> (string \<times> nat) list" where
  "remove_key k es = filter (\<lambda>e. fst e \<noteq> k) es"

definition record_token :: "nat \<Rightarrow> token_payload \<Rightarrow> (string \<times> nat) list \<Rightarrow> (string + unit) \<times> (string \<times> nat) list" where
  "record_token now p seen =
     (let seen = filter (\<lambda>e. snd e > now) seen
      in if tp_jti p \<in> fst ` set seen then (Inl ''replayed token'', seen)
         else let seen = (if length seen \<ge> PAIRING_REPLAY_CACHE_LIMIT
                          then (case min_by_expiry seen of None \<Rightarrow> seen | Some m \<Rightarrow> remove_key (fst m) seen)
                          else seen)
              in (Inr (), seen @ [(tp_jti p, tp_exp p)]))"

definition token_expired :: "nat \<Rightarrow> token_payload \<Rightarrow> bool" where
  "token_expired now p \<longleftrightarrow>
     tp_iat p > saturating_add_u64 now PAIRING_TOKEN_ISSUED_AT_SKEW_SEC
     \<or> tp_exp p \<le> now \<or> tp_exp p \<le> tp_iat p
     \<or> tp_exp p - tp_iat p > PAIRING_TOKEN_MAX_LIFETIME_SEC"

text \<open>Everything before the replay cache is consulted.\<close>

definition check_token :: "token_library \<Rightarrow> string \<Rightarrow> nat \<Rightarrow> string \<Rightarrow> string + token_payload" where
  "check_token lib receiver now token =
     (let parts = split_on (CHR ''.'') token
      in if length parts \<noteq> 4 \<or> parts ! 0 \<noteq> TOKEN_PREFIX then Inl ''invalid token format''
      else case tl_decode lib (parts ! 1) of None \<Rightarrow> Inl ''invalid token encoding''
      | Some hb \<Rightarrow>
      (case tl_header lib hb of None \<Rightarrow> Inl ''invalid token header''
      | Some h \<Rightarrow>
      (case tl_decode lib (parts ! 2) of None \<Rightarrow> Inl ''invalid token encoding''
      | Some pb \<Rightarrow>
      (case tl_payload lib pb of None \<Rightarrow> Inl ''invalid token payload''
      | Some p \<Rightarrow>
      (case tl_decode lib (parts ! 3) of None \<Rightarrow> Inl ''invalid token encoding''
      | Some sig \<Rightarrow>
        if th_alg h \<noteq> TOKEN_ALGORITHM \<or> th_typ h \<noteq> TOKEN_TYPE \<or> th_v h \<noteq> TOKEN_VERSION
        then Inl ''unsupported token''
        else if tp_receiver_id p \<noteq> receiver \<or> tp_purpose p \<noteq> TOKEN_PURPOSE
        then Inl ''token receiver mismatch''
        else if token_expired now p then Inl ''expired token''
        else if \<not> tl_signature lib sig then Inl ''invalid token signature''
        else if \<not> tl_verify lib (TOKEN_PREFIX @ ''.'' @ parts ! 1 @ ''.'' @ parts ! 2) sig
        then Inl ''invalid token signature''
        else Inr p)))))"

definition verify :: "token_library \<Rightarrow> nat \<Rightarrow> string \<Rightarrow> token_verifier \<Rightarrow> (string + unit) \<times> token_verifier" where
  "verify lib now token v =
     (case check_token lib (tv_receiver_id v) now token of
        Inl e \<Rightarrow> (Inl e, v)
      | Inr p \<Rightarrow> (case record_token now p (tv_seen v) of (r, seen) \<Rightarrow> (r, v\<lparr>tv_seen := seen\<rparr>)))"

section \<open>Configuration check\<close>

text \<open>The outcome of the parts that are not the receiver's own: the URL parser (scheme and host of the
  worker URL), the length of the decoded secret, whether a key file exists, whether a verifier can be built.\<close>

record configuration_probe =
  cp_parse_url :: "string \<Rightarrow> (string \<times> string option) option"
  cp_decode :: "string \<Rightarrow> byte list option"
  cp_is_file :: "string \<Rightarrow> bool"
  cp_verifier :: bool

definition cloud_configuration_missing :: "configuration_probe \<Rightarrow> environment \<Rightarrow> string list" where
  "cloud_configuration_missing probe env =
     (let valid_worker_url = (case env ''PAIRING_WORKER_URL'' of None \<Rightarrow> False
            | Some u \<Rightarrow> (case cp_parse_url probe (trim u) of None \<Rightarrow> False
                        | Some (scheme, host) \<Rightarrow> scheme = ''https'' \<and> host \<noteq> None));
          missing_id = (case env ''RECEIVER_ID'' of None \<Rightarrow> True | Some i \<Rightarrow> trim i = []);
          valid_secret = (case env ''RECEIVER_REGISTRATION_SECRET'' \<bind> cp_decode probe of
              None \<Rightarrow> False | Some k \<Rightarrow> length k \<ge> 32);
          key_available = (case env ''PAIRING_TOKEN_PUBLIC_KEY'' of None \<Rightarrow> False | Some k \<Rightarrow> trim k \<noteq> [])
            \<or> cp_is_file probe (env_string_or env ''PAIRING_TOKEN_PUBLIC_KEY_FILE'' DEFAULT_PAIRING_PUBLIC_KEY_FILE)
      in (if valid_worker_url then [] else [''worker_url''])
         @ (if missing_id then [''receiver_id''] else [])
         @ (if valid_secret then [] else [''registration_secret''])
         @ (if \<not> key_available \<or> \<not> cp_verifier probe then [''token_public_key''] else []))"

record cloud_settings_snapshot =
  cs_receiver :: receiver_settings
  cs_ready :: bool
  cs_missing :: "string list"
  cs_state :: string
  cs_worker_url :: string
  cs_code_source :: string

definition settings_snapshot ::
  "configuration_probe \<Rightarrow> environment \<Rightarrow> receiver_settings \<Rightarrow> cloud_settings_snapshot" where
  "settings_snapshot probe env settings =
     (let missing = cloud_configuration_missing probe env
      in \<lparr>cs_receiver = settings, cs_ready = (missing = []), cs_missing = missing,
          cs_state = (if \<not> cloud_discovery_enabled settings then ''DISABLED''
                      else if missing = [] then ''WAITING'' else ''NOT_CONFIGURED''),
          cs_worker_url = pairing_worker_url settings,
          cs_code_source = (case env ''PAIRING_CODE_FIXED'' of None \<Rightarrow> ''rotating''
                            | Some v \<Rightarrow> if trim v \<noteq> [] then ''fixed'' else ''rotating'')\<rparr>)"

section \<open>Registration\<close>

text \<open>How one round of the loop ends: no private address, or an exchange from address \<open>ip\<close> that the
  worker accepted (with the code and its expiry, at clock \<open>unix_now\<close>), accepted with an unreadable answer,
  rejected, or that failed.\<close>

datatype registration_outcome =
    No_Address
  | Registered string string nat nat instant
  | Unreadable_Answer
  | Rejected
  | Request_Failed

definition cloud_down :: "string \<Rightarrow> pairing_data \<Rightarrow> pairing_data" where
  "cloud_down st d = set_cloud_status st (set_cloud_ip None d)"

definition doubled :: "duration \<Rightarrow> duration" where
  "doubled retry_delay = min (retry_delay * 2) (from_secs REGISTRATION_MAX_RETRY_SEC)"

text \<open>The result is the time slept, the next retry delay and the pairing state.\<close>

fun registration_round ::
  "registration_outcome \<Rightarrow> duration \<times> pairing_data \<Rightarrow> duration \<times> duration \<times> pairing_data" where
  "registration_round No_Address (retry_delay, d) =
     (from_secs REGISTRATION_NO_IP_RETRY_SEC, retry_delay, cloud_down ''WAITING'' d)"
| "registration_round (Registered ip c code_expires_at unix_now now) (retry_delay, d) =
     (case adopt_cloud_code c (from_secs (code_expires_at - unix_now)) now d of
        (Inl _, d) \<Rightarrow> (retry_delay, retry_delay, cloud_down ''FAILED'' d)
      | (Inr _, d) \<Rightarrow> (from_secs REGISTRATION_SUCCESS_RETRY_SEC, from_secs REGISTRATION_INITIAL_RETRY_SEC,
                      set_cloud_status ''READY'' (set_cloud_ip (Some ip) d)))"
| "registration_round Unreadable_Answer (retry_delay, d) = (retry_delay, retry_delay, cloud_down ''FAILED'' d)"
| "registration_round Rejected (retry_delay, d) = (retry_delay, doubled retry_delay, cloud_down ''FAILED'' d)"
| "registration_round Request_Failed (retry_delay, d) = (retry_delay, doubled retry_delay, cloud_down ''FAILED'' d)"

fun trim_end_slashes :: "string \<Rightarrow> string" where
  "trim_end_slashes s = rev (dropWhile (\<lambda>c. c = CHR ''/'') (rev s))"

text \<open>What the loop needs before it starts; \<open>Inl\<close> is the status it gives up with.\<close>

definition registration_setup ::
  "(string \<Rightarrow> byte list option) \<Rightarrow> environment \<Rightarrow> string + (string \<times> string \<times> byte list)" where
  "registration_setup decode env =
     (case env ''PAIRING_WORKER_URL'' of
        None \<Rightarrow> Inl ''NO URL''
      | Some u \<Rightarrow> if trim u = [] then Inl ''NO URL'' else
        (case env ''RECEIVER_ID'' of
           None \<Rightarrow> Inl ''NO ID''
         | Some i \<Rightarrow> if i = [] then Inl ''NO ID'' else
           (case env ''RECEIVER_REGISTRATION_SECRET'' \<bind> decode of
              None \<Rightarrow> Inl ''NO KEY''
            | Some k \<Rightarrow> if length k \<ge> 32 then Inr (trim_end_slashes u, i, k) else Inl ''NO KEY'')))"

fun registration_rounds :: "registration_outcome list \<Rightarrow> duration \<times> pairing_data \<Rightarrow> duration list \<times> pairing_data" where
  "registration_rounds [] (delay, d) = ([], d)"
| "registration_rounds (r # rs) (delay, d) =
     (case registration_round r (delay, d) of (slept, delay, d) \<Rightarrow>
        (case registration_rounds rs (delay, d) of (later, d) \<Rightarrow> (slept # later, d)))"

definition spawn_registration ::
  "(string \<Rightarrow> byte list option) \<Rightarrow> environment \<Rightarrow> registration_outcome list \<Rightarrow> pairing_data
   \<Rightarrow> duration list \<times> pairing_data" where
  "spawn_registration decode env outcomes d =
     (let d = cloud_down ''WAITING'' d
      in case registration_setup decode env of
           Inl st \<Rightarrow> ([], cloud_down st d)
         | Inr _ \<Rightarrow> registration_rounds outcomes (from_secs REGISTRATION_INITIAL_RETRY_SEC, d))"

text \<open>\<open>random_nonce\<close>: the drawn bytes in lower-case hexadecimal.\<close>

definition hex_digit :: "nat \<Rightarrow> char" where
  "hex_digit d = (if d < 10 then char_of (48 + d) else char_of (87 + d))"

definition hex_byte :: "byte \<Rightarrow> string" where
  "hex_byte b = [hex_digit (unat b div 16), hex_digit (unat b mod 16)]"

definition random_nonce :: "byte list \<Rightarrow> string" where
  "random_nonce bytes = concat (map hex_byte bytes)"

end
