(* ===== verification/Discovery_Correct.thy ===== *)
theory Discovery_Correct
  imports Discovery Pairing_Correct
begin

text \<open>
  What cloud discovery promises: a token is accepted only when every check holds and not twice while the
  replay cache has room; the cache is bounded; the registration loop never sleeps less than two seconds or
  more than a minute and shows an address exactly while it is registered.
\<close>

section \<open>The replay cache\<close>

definition seen_ok :: "(string \<times> nat) list \<Rightarrow> bool" where
  "seen_ok seen \<longleftrightarrow> length seen \<le> PAIRING_REPLAY_CACHE_LIMIT \<and> distinct (map fst seen)"

lemma min_by_expiry_in: "min_by_expiry es = Some m \<Longrightarrow> m \<in> set es \<and> (\<forall>e \<in> set es. snd m \<le> snd e)"
proof (induction es arbitrary: m)
  case (Cons e es)
  show ?case
  proof (cases "min_by_expiry es")
    case None
    then show ?thesis
      using Cons.prems by (cases es) (auto split: option.splits)
  next
    case (Some n)
    note n = Cons.IH [OF Some]
    have "m = (if snd e \<le> snd n then e else n)"
      using Cons.prems by (simp add: Some)
    then show ?thesis
      using n by (cases "snd e \<le> snd n") (auto intro: order_trans)
  qed
qed simp

lemma min_by_expiry_None [simp]: "min_by_expiry es = None \<longleftrightarrow> es = []"
  by (cases es) (auto split: option.splits)

lemma remove_key_length:
  assumes "m \<in> set es"
  shows "length (remove_key (fst m) es) < length es"
  unfolding remove_key_def by (rule length_filter_less [OF assms]) simp

lemma distinct_filter_keys: "distinct (map fst es) \<Longrightarrow> distinct (map fst (filter P es))"
  by (induction es) auto

lemma record_token_ok: "seen_ok seen \<Longrightarrow> seen_ok (snd (record_token now p seen))"
proof -
  assume ok: "seen_ok seen"
  let ?s = "filter (\<lambda>e. snd e > now) seen"
  have s: "length ?s \<le> PAIRING_REPLAY_CACHE_LIMIT" "distinct (map fst ?s)"
    using ok le_trans [OF length_filter_le [of _ seen]] by (simp_all add: seen_ok_def distinct_filter_keys)
  show ?thesis
  proof (cases "tp_jti p \<in> fst ` set ?s \<or> length ?s < PAIRING_REPLAY_CACHE_LIMIT")
    case True
    then show ?thesis
      using s by (auto simp: record_token_def Let_def seen_ok_def image_iff)
  next
    case False
    then obtain m where m: "min_by_expiry ?s = Some m"
      by (cases "min_by_expiry ?s") (simp_all add: limits)
    let ?r = "remove_key (fst m) ?s"
    have r: "length ?r < PAIRING_REPLAY_CACHE_LIMIT" "distinct (map fst ?r)" "set ?r \<subseteq> set ?s"
    proof -
      show "length ?r < PAIRING_REPLAY_CACHE_LIMIT"
        using remove_key_length [of m ?s] min_by_expiry_in [OF m] s(1) by simp
      show "distinct (map fst ?r)"
        unfolding remove_key_def by (rule distinct_filter_keys) (rule s(2))
      show "set ?r \<subseteq> set ?s"
        unfolding remove_key_def by (rule filter_is_subset)
    qed
    have "record_token now p seen = (Inr (), ?r @ [(tp_jti p, tp_exp p)])"
      using False m by (simp add: record_token_def Let_def)
    moreover have "tp_jti p \<notin> fst ` set ?r"
      using False r(3) by blast
    ultimately show ?thesis
      using r by (auto simp: seen_ok_def)
  qed
qed

lemma verify_ok: "seen_ok (tv_seen v) \<Longrightarrow> seen_ok (tv_seen (snd (verify lib now token v)))"
  using record_token_ok [of "tv_seen v" now]
  by (auto simp: verify_def split: sum.splits prod.splits) (metis snd_conv)

lemma verify_keeps_receiver [simp]: "tv_receiver_id (snd (verify lib now token v)) = tv_receiver_id v"
  by (auto simp: verify_def split: sum.splits prod.splits)

interpretation replay_cache:
  invariant_machine "\<lambda>(now, token) v. snd (verify lib now token v)" "\<lambda>v. seen_ok (tv_seen v)" "\<lambda>_. True"
  by unfold_locales (auto simp: verify_ok)

lemma record_room:
  assumes "length seen < PAIRING_REPLAY_CACHE_LIMIT"
  shows "record_token now p seen =
    (let s = filter (\<lambda>e. snd e > now) seen
     in if tp_jti p \<in> fst ` set s then (Inl ''replayed token'', s) else (Inr (), s @ [(tp_jti p, tp_exp p)]))"
proof -
  have "length (filter (\<lambda>e. snd e > now) seen) < PAIRING_REPLAY_CACHE_LIMIT"
    using assms length_filter_le [of _ seen] by (rule le_less_trans [rotated])
  then show ?thesis
    by (simp add: record_token_def Let_def)
qed

lemma check_token_unexpired: "check_token lib r now token = Inr p \<Longrightarrow> \<not> token_expired now p"
  by (auto simp: check_token_def Let_def split: if_splits option.splits)

text \<open>The payloads accepted in a run of verifications, each with its clock.\<close>

fun accepted :: "token_library \<Rightarrow> (nat \<times> string) list \<Rightarrow> token_verifier \<Rightarrow> token_payload list" where
  "accepted lib [] v = []"
| "accepted lib ((now, token) # run) v =
     (case check_token lib (tv_receiver_id v) now token of
        Inr p \<Rightarrow> if fst (verify lib now token v) = Inr () then [p] else []
      | Inl _ \<Rightarrow> []) @ accepted lib run (snd (verify lib now token v))"

text \<open>Every payload of \<open>A\<close> that has not expired at \<open>t\<close> is in the cache, which holds no more than they do.\<close>

definition remembers :: "nat \<Rightarrow> token_payload set \<Rightarrow> token_verifier \<Rightarrow> bool" where
  "remembers t A v \<longleftrightarrow>
     (\<forall>p \<in> A. tp_exp p > t \<longrightarrow> (tp_jti p, tp_exp p) \<in> set (tv_seen v)) \<and> length (tv_seen v) \<le> card A"

lemma remembers_step:
  assumes "remembers t A v" and "t \<le> now" and "finite A" and "card A < PAIRING_REPLAY_CACHE_LIMIT"
  shows "case check_token lib (tv_receiver_id v) now token of
      Inl _ \<Rightarrow> snd (verify lib now token v) = v \<and> fst (verify lib now token v) \<noteq> Inr ()
    | Inr p \<Rightarrow> if fst (verify lib now token v) = Inr ()
        then p \<notin> A \<and> remembers now (insert p A) (snd (verify lib now token v))
        else remembers now A (snd (verify lib now token v))"
proof (cases "check_token lib (tv_receiver_id v) now token")
  case (Inl e)
  then show ?thesis by (simp add: verify_def)
next
  case (Inr p)
  have live: "tp_exp p > now"
    using check_token_unexpired [OF Inr] by (simp add: token_expired_def)
  let ?s = "filter (\<lambda>e. snd e > now) (tv_seen v)"
  have room: "length (tv_seen v) < PAIRING_REPLAY_CACHE_LIMIT"
    using assms(1,4) by (simp add: remembers_def)
  have kept: "\<forall>q \<in> A. tp_exp q > now \<longrightarrow> (tp_jti q, tp_exp q) \<in> set ?s"
    using assms(1,2) by (auto simp: remembers_def)
  have len: "length ?s \<le> card A"
    using assms(1) le_trans [OF length_filter_le [of _ "tv_seen v"]] by (simp add: remembers_def)
  show ?thesis
  proof (cases "tp_jti p \<in> fst ` set ?s")
    case True
    then have "verify lib now token v = (Inl ''replayed token'', v\<lparr>tv_seen := ?s\<rparr>)"
      by (simp add: verify_def Inr record_room [OF room] Let_def)
    then show ?thesis
      using kept len by (simp add: Inr remembers_def)
  next
    case False
    then have fresh: "p \<notin> A"
      using kept live by (force simp: image_iff)
    have "verify lib now token v = (Inr (), v\<lparr>tv_seen := ?s @ [(tp_jti p, tp_exp p)]\<rparr>)"
      using False by (simp add: verify_def Inr record_room [OF room] Let_def)
    then show ?thesis
      using kept len fresh assms(3) by (auto simp: Inr remembers_def)
  qed
qed

lemma remembers_later: "remembers t A v \<Longrightarrow> t \<le> u \<Longrightarrow> remembers u A v"
  by (auto simp: remembers_def)

lemma accepted_fresh:
  assumes "remembers t A v" and "finite A" and "sorted (t # map fst run)"
    and "card A + length (accepted lib run v) \<le> PAIRING_REPLAY_CACHE_LIMIT"
  shows "distinct (accepted lib run v) \<and> set (accepted lib run v) \<inter> A = {}"
  using assms
proof (induction run arbitrary: t A v)
  case (Cons r run)
  obtain now token where r: "r = (now, token)"
    by (cases r)
  let ?v = "snd (verify lib now token v)"
  have later: "t \<le> now" "sorted (now # map fst run)"
    using Cons.prems(3) by (simp_all add: r)
  show ?case
  proof (cases "accepted lib (r # run) v = []")
    case False
    then have "0 < length (accepted lib (r # run) v)"
      by blast
    then have "card A < PAIRING_REPLAY_CACHE_LIMIT"
      using Cons.prems(4) by linarith
    note step = remembers_step [OF Cons.prems(1) later(1) Cons.prems(2) this, of lib token]
    show ?thesis
    proof (cases "\<exists>p. check_token lib (tv_receiver_id v) now token = Inr p \<and> fst (verify lib now token v) = Inr ()")
      case True
      then obtain p where p: "check_token lib (tv_receiver_id v) now token = Inr p" "fst (verify lib now token v) = Inr ()"
        by blast
      have new: "p \<notin> A" "remembers now (insert p A) ?v"
        using step by (simp_all add: p)
      have "card (insert p A) + length (accepted lib run ?v) \<le> PAIRING_REPLAY_CACHE_LIMIT"
        using Cons.prems(2,4) new(1) by (simp add: r p)
      then have "distinct (accepted lib run ?v) \<and> set (accepted lib run ?v) \<inter> insert p A = {}"
        using Cons.IH [OF new(2) _ later(2)] Cons.prems(2) by simp
      then show ?thesis
        using new(1) by (auto simp: r p)
    next
      case False
      then have same: "accepted lib (r # run) v = accepted lib run ?v"
        by (auto simp: r split: sum.splits)
      have "remembers now A ?v"
        using step False remembers_later [OF Cons.prems(1) later(1)] by (auto split: sum.splits)
      then show ?thesis
        using Cons.IH [OF _ Cons.prems(2) later(2)] Cons.prems(4) by (simp only: same)
    qed
  qed simp
qed simp

section \<open>Properties of tokens\<close>

text \<open>
  Property C10. No replay: starting with an empty cache and a clock that does not run backwards, as long as at
  most 1024 tokens are accepted in the run, no token payload is accepted twice, however the attempts are
  ordered.  (With more, an unexpired entry may be evicted.)
\<close>

theorem no_token_accepted_twice:
  assumes "tv_seen v = []" and "sorted (map fst run)"
    and "length (accepted lib run v) \<le> PAIRING_REPLAY_CACHE_LIMIT"
  shows "distinct (accepted lib run v)"
proof -
  have "remembers 0 {} v"
    by (simp add: remembers_def assms(1))
  then show ?thesis
    using accepted_fresh [of 0 "{}" v run lib] assms(2,3) by simp
qed

text \<open>A library for which every four-part token carries the same payload.\<close>

definition sample_payload :: token_payload where
  "sample_payload = \<lparr>tp_receiver_id = ''rx'', tp_purpose = TOKEN_PURPOSE, tp_iat = 100, tp_exp = 140, tp_jti = ''a''\<rparr>"

definition sample_library :: token_library where
  "sample_library = \<lparr>tl_decode = (\<lambda>_. Some []),
     tl_header = (\<lambda>_. Some \<lparr>th_alg = TOKEN_ALGORITHM, th_typ = TOKEN_TYPE, th_v = 1\<rparr>),
     tl_payload = (\<lambda>_. Some sample_payload), tl_signature = (\<lambda>_. True), tl_verify = (\<lambda>_ _. True)\<rparr>"

lemma sample_check:
  "check_token sample_library ''rx'' 110 ''v1.h.p.s'' = Inr sample_payload"
  by (simp add: check_token_def sample_library_def sample_payload_def token_expired_def limits
      saturating_add_u64_def u64_max_def)

theorem no_token_accepted_twice_witness:
  "accepted sample_library [(110, ''v1.h.p.s''), (110, ''v1.h.p.s'')] \<lparr>tv_receiver_id = ''rx'', tv_seen = []\<rparr>
     = [sample_payload]
   \<and> distinct (accepted sample_library [(110, ''v1.h.p.s''), (110, ''v1.h.p.s'')] \<lparr>tv_receiver_id = ''rx'', tv_seen = []\<rparr>)"
proof -
  have a: "accepted sample_library [(110, ''v1.h.p.s''), (110, ''v1.h.p.s'')] \<lparr>tv_receiver_id = ''rx'', tv_seen = []\<rparr>
     = [sample_payload]"
    by (simp add: sample_check verify_def record_token_def Let_def limits) (simp add: sample_payload_def)
  then show ?thesis
    using no_token_accepted_twice [of "\<lparr>tv_receiver_id = ''rx'', tv_seen = []\<rparr>"
        "[(110, ''v1.h.p.s''), (110, ''v1.h.p.s'')]" sample_library] by (simp add: limits)
qed

text \<open>
  What an accepted token has passed: it has the form \<open>v1.header.payload.signature\<close>, its parts
  decode, the header names PS256, CAST-CONNECTION and version 1, the payload is for this receiver and for
  connecting, it is at most 30 seconds from the future, unexpired and issued for at most 60 seconds, its id is
  not among the unexpired cached ones, and the signature verifies over \<open>v1.header.payload\<close>.
\<close>

theorem accepted_token_passed_every_check:
  assumes "fst (verify lib now token v) = Inr ()"
  shows "\<exists>h p s hb pb sb hdr pl. split_on (CHR ''.'') token = [''v1'', h, p, s]
    \<and> tl_decode lib h = Some hb \<and> tl_header lib hb = Some hdr
    \<and> tl_decode lib p = Some pb \<and> tl_payload lib pb = Some pl \<and> tl_decode lib s = Some sb
    \<and> th_alg hdr = ''PS256'' \<and> th_typ hdr = ''CAST-CONNECTION'' \<and> th_v hdr = 1
    \<and> tp_receiver_id pl = tv_receiver_id v \<and> tp_purpose pl = ''webtransport-connect''
    \<and> tp_iat pl \<le> now + 30 \<and> now < tp_exp pl \<and> tp_iat pl < tp_exp pl \<and> tp_exp pl \<le> tp_iat pl + 60
    \<and> (\<forall>e \<in> set (tv_seen v). fst e = tp_jti pl \<longrightarrow> snd e \<le> now)
    \<and> tl_verify lib (''v1.'' @ h @ ''.'' @ p) sb"
proof -
  obtain pl where c: "check_token lib (tv_receiver_id v) now token = Inr pl"
      and r: "fst (record_token now pl (tv_seen v)) = Inr ()"
    using assms by (auto simp: verify_def split: sum.splits prod.splits)
  have "length (split_on (CHR ''.'') token) = 4" "split_on (CHR ''.'') token ! 0 = ''v1''"
    using c by (auto simp: check_token_def Let_def limits split: if_splits)
  then obtain h p s where parts: "split_on (CHR ''.'') token = [''v1'', h, p, s]"
    by (auto simp: numeral_eq_Suc length_Suc_conv)
  obtain hb pb sb hdr where d: "tl_decode lib h = Some hb" "tl_header lib hb = Some hdr"
      "tl_decode lib p = Some pb" "tl_payload lib pb = Some pl" "tl_decode lib s = Some sb"
      "th_alg hdr = TOKEN_ALGORITHM \<and> th_typ hdr = TOKEN_TYPE \<and> th_v hdr = TOKEN_VERSION"
      "tp_receiver_id pl = tv_receiver_id v \<and> tp_purpose pl = TOKEN_PURPOSE"
      "\<not> token_expired now pl" "tl_verify lib (TOKEN_PREFIX @ ''.'' @ h @ ''.'' @ p) sb"
    using c by (auto simp: check_token_def parts Let_def split: option.splits if_splits)
  have "\<forall>e \<in> set (tv_seen v). fst e = tp_jti pl \<longrightarrow> snd e \<le> now"
    using r by (force simp: record_token_def Let_def image_iff split: if_splits)
  moreover have "tp_iat pl \<le> now + 30 \<and> now < tp_exp pl \<and> tp_iat pl < tp_exp pl \<and> tp_exp pl \<le> tp_iat pl + 60"
    using d(8) saturating_add_u64_le [of now PAIRING_TOKEN_ISSUED_AT_SKEW_SEC]
    by (auto simp: token_expired_def limits)
  ultimately show ?thesis
    using parts d by (simp add: limits)
qed

theorem accepted_token_passed_every_check_witness:
  "\<exists>h p s. split_on (CHR ''.'') ''v1.h.p.s'' = [''v1'', h, p, s]"
proof -
  have "fst (verify sample_library 110 ''v1.h.p.s'' \<lparr>tv_receiver_id = ''rx'', tv_seen = []\<rparr>) = Inr ()"
    by (simp add: verify_def sample_check record_token_def limits)
  then show ?thesis
    using accepted_token_passed_every_check by blast
qed

text \<open>
  The replay cache stays bounded: whatever is presented, at most 1024 token ids are remembered,
  each once.
\<close>

theorem replay_cache_bounded:
  "length (tv_seen (fold (\<lambda>(now, token) v. snd (verify lib now token v)) run \<lparr>tv_receiver_id = r, tv_seen = []\<rparr>)) \<le> 1024"
proof -
  have "seen_ok (tv_seen (fold (\<lambda>(now, token) v. snd (verify lib now token v)) run \<lparr>tv_receiver_id = r, tv_seen = []\<rparr>))"
    by (rule replay_cache.run_inv) (simp_all add: seen_ok_def list_all_iff)
  then show ?thesis
    by (simp add: seen_ok_def limits)
qed

section \<open>Registration\<close>

text \<open>The loop's own state: the delay is between two seconds and a minute, and an address is shown exactly
  while the status is READY.\<close>

definition registration_ok :: "duration \<times> pairing_data \<Rightarrow> bool" where
  "registration_ok s \<longleftrightarrow>
     from_secs 2 \<le> fst s \<and> fst s \<le> from_secs 60
     \<and> (cloud_ip (ps_snapshot (snd s)) \<noteq> None \<longleftrightarrow> cloud_status (ps_snapshot (snd s)) = ''READY'')"

lemma cloud_down_fields [simp]:
  "cloud_ip (ps_snapshot (cloud_down st d)) = None" "cloud_status (ps_snapshot (cloud_down st d)) = st"
  by (simp_all add: cloud_down_def set_cloud_status_def set_cloud_ip_def)

lemma cloud_down_ok: "st \<noteq> ''READY'' \<Longrightarrow> registration_ok (t, cloud_down st d) \<longleftrightarrow> from_secs 2 \<le> t \<and> t \<le> from_secs 60"
  by (simp add: registration_ok_def)

lemma doubled_bounds: "from_secs 2 \<le> t \<Longrightarrow> from_secs 2 \<le> doubled t \<and> doubled t \<le> from_secs 60"
  by (simp add: doubled_def limits from_secs_def)

lemma registration_round_ok:
  assumes "registration_ok (t, d)"
  shows "registration_ok (snd (registration_round r (t, d)))
    \<and> from_secs 2 \<le> fst (registration_round r (t, d)) \<and> fst (registration_round r (t, d)) \<le> from_secs 60"
proof -
  have t: "from_secs 2 \<le> t" "t \<le> from_secs 60"
    using assms by (simp_all add: registration_ok_def)
  show ?thesis
    using t doubled_bounds [OF t(1)]
    by (cases r) (auto simp: cloud_down_ok limits from_secs_def registration_ok_def set_cloud_status_def
        set_cloud_ip_def split: prod.splits sum.splits)
qed

lemma registration_rounds_ok:
  "registration_ok (t, d) \<Longrightarrow>
    (\<forall>s \<in> set (fst (registration_rounds rs (t, d))). from_secs 2 \<le> s \<and> s \<le> from_secs 60)
    \<and> (\<exists>t'. registration_ok (t', snd (registration_rounds rs (t, d))))"
proof (induction rs arbitrary: t d)
  case (Cons r rs)
  obtain s t' d' where r: "registration_round r (t, d) = (s, t', d')"
    by (cases "registration_round r (t, d)") auto
  show ?case
    using registration_round_ok [OF Cons.prems, of r] Cons.IH [of t' d'] by (auto simp: r split: prod.splits)
qed auto

text \<open>
  Registration never hammers the worker and never shows a stale address: whatever the sequence of
  outcomes, every sleep of the loop lies between 2 and 60 seconds, and after it the announced address is
  present exactly when the status is READY.
\<close>

theorem registration_paced_and_consistent:
  shows "(\<forall>s \<in> set (fst (spawn_registration decode env outcomes d)). from_secs 2 \<le> s \<and> s \<le> from_secs 60)
    \<and> (cloud_ip (ps_snapshot (snd (spawn_registration decode env outcomes d))) \<noteq> None \<longleftrightarrow>
        cloud_status (ps_snapshot (snd (spawn_registration decode env outcomes d))) = ''READY'')"
proof -
  have s: "registration_ok (from_secs REGISTRATION_INITIAL_RETRY_SEC, cloud_down ''WAITING'' d)"
    by (simp add: cloud_down_ok limits from_secs_def)
  have "st \<noteq> ''READY''" if "registration_setup decode env = Inl st" for st
    using that by (auto simp: registration_setup_def split: option.splits if_splits)
  then show ?thesis
    using registration_rounds_ok [OF s, of outcomes]
    by (auto simp: spawn_registration_def Let_def registration_ok_def split: sum.splits)
qed

theorem registration_paced_and_consistent_witness:
  "fst (spawn_registration (\<lambda>_. Some (replicate 32 0)) (\<lambda>_. Some ''x'') [Rejected, Rejected, No_Address] published_state)
     = map from_secs [2, 4, 5]
   \<and> cloud_ip (ps_snapshot (snd (spawn_registration (\<lambda>_. Some (replicate 32 0)) (\<lambda>_. Some ''x'')
       [Rejected, Rejected, No_Address] published_state))) = None"
proof -
  have "trim ''x'' \<noteq> []"
    by code_simp
  then have e: "spawn_registration (\<lambda>_. Some (replicate 32 0)) (\<lambda>_. Some ''x'') [Rejected, Rejected, No_Address] published_state
      = (map from_secs [2, 4, 5], cloud_down ''WAITING'' (cloud_down ''FAILED'' (cloud_down ''FAILED'' (cloud_down ''WAITING'' published_state))))"
    by (simp add: spawn_registration_def registration_setup_def Let_def doubled_def limits from_secs_def)
  then show ?thesis
    using registration_paced_and_consistent [of "\<lambda>_. Some (replicate 32 0)" "\<lambda>_. Some ''x''"
        "[Rejected, Rejected, No_Address]" published_state] by (simp add: e)
qed

end
