(* ===== verification/Management.thy ===== *)
theory Management
  imports Reassembly "HOL-Library.Monad_Syntax"
begin

text \<open>
  \<open>src/management.rs\<close>: connections, the active stream with its metrics, session history, events and
  health.  The mutex-protected \<open>Inner\<close> is one record; each method is one step on it and reads one instant
  \<open>now\<close>.  Counters of 64 bits that grow by at most a frame at a time are \<open>nat\<close>; sequence numbers are words.
  The update notifications sent to subscribers carry no data and are left out.
\<close>

section \<open>State\<close>

definition MAX_EVENTS :: nat where [limits]: "MAX_EVENTS = 2000"
definition MAX_HISTORY :: nat where [limits]: "MAX_HISTORY = 10000"
definition MAX_SAMPLES :: nat where [limits]: "MAX_SAMPLES = 300"
definition ESTIMATED_LATENCY_MAX_MS :: f64 where "ESTIMATED_LATENCY_MAX_MS = Finite False 30000"
definition CLOCK_DRIFT_MS_PER_MS :: f64 where "CLOCK_DRIFT_MS_PER_MS = f64_of_rat (5 / 100000)"

abbreviation zero_f64 :: f64 where "zero_f64 \<equiv> Finite False 0"

record clock_sync_state =
  cy_offset_ms :: f64
  cy_uncertainty_ms :: f64
  cy_received_at :: instant

record client_metadata =
  cm_device_id :: string
  cm_user_agent :: string
  cm_platform :: string
  cm_language :: string
  cm_page_session_id :: string
  cm_remote_ip :: string
  cm_connection_id :: string

record connection_record =
  cr_connection_id :: string
  cr_remote_ip :: string
  cr_device_id :: string
  cr_user_agent :: string
  cr_platform :: string
  cr_language :: string
  cr_page_session_id :: string
  cr_connected :: bool
  cr_connected_at_sec :: f64
  cr_last_seen_at_sec :: f64
  cr_sharing :: bool

record stream_config_snapshot =
  sc_codec :: string
  sc_resolution :: string
  sc_fps :: u32
  sc_bitrate_mbps :: f32
  sc_latency_mode :: string
  sc_aspect_mode :: string
  sc_capture_resolution :: string
  sc_encoded_resolution :: string

record metric_sample =
  ms_elapsed_sec :: f64
  ms_bitrate_mbps :: f64
  ms_fps :: f64

record latency_metric_sample =
  ls_elapsed_sec :: f64
  ls_total_ms :: f64
  ls_encode_ms :: f64
  ls_sender_queue_ms :: f64
  ls_delivery_ms :: f64
  ls_receiver_queue_ms :: f64
  ls_decode_display_ms :: f64

record session_record =
  sr_id :: nat
  sr_sender :: "client_metadata option"
  sr_config :: stream_config_snapshot
  sr_started_at_sec :: f64
  sr_ended_at_sec :: "f64 option"
  sr_duration_sec :: f64
  sr_frames :: nat
  sr_bytes :: nat
  sr_average_bitrate_mbps :: f64
  sr_peak_bitrate_mbps :: f64
  sr_sequence_gaps :: nat
  sr_latency_p50_ms :: f64
  sr_latency_p95_ms :: f64
  sr_latency_max_ms :: f64
  sr_end_reason :: "string option"

record event_record =
  ev_elapsed_sec :: f64
  ev_level :: string
  ev_kind :: string
  ev_message :: string

record health_snapshot =
  hs_display_resolution :: string
  hs_display_fps :: u32
  hs_panel_resolution :: string
  hs_edid_name :: string
  hs_edid_type :: string
  hs_pairing_status :: string
  hs_cloud_status :: string
  hs_playback_state :: string
  hs_reassembly_in_flight :: nat
  hs_dropped_access_units :: u64
  hs_ignored_media_packets :: u64
  hs_load_1m :: "f64 option"
  hs_load_5m :: "f64 option"
  hs_load_15m :: "f64 option"
  hs_memory_available_mib :: "nat option"
  hs_memory_total_mib :: "nat option"
  hs_soc_temperature_c :: "f64 option"

record estimated_latency_snapshot =
  el_seq :: u32
  el_total_ms :: f64
  el_encode_ms :: f64
  el_sender_queue_ms :: f64
  el_delivery_ms :: f64
  el_receiver_queue_ms :: f64
  el_transport_queue_ms :: f64
  el_decode_display_ms :: f64
  el_access_unit_bytes :: u64
  el_media_write_blocked_ms :: f64
  el_clock_uncertainty_ms :: f64
  el_clock_sync_age_ms :: f64
  el_configured_bitrate_mbps :: f64
  el_adaptive_bitrate_mbps :: f64
  el_dropped_input_frames :: u64
  el_effective_fps :: f64

record active_stream =
  st_id :: nat
  st_sender :: "client_metadata option"
  st_config :: stream_config_snapshot
  st_started_at :: instant
  st_frames :: nat
  st_bytes :: nat
  st_last_seq :: "u32 option"
  st_sequence_gaps :: nat
  st_latency_total_ms :: f64
  st_latency_count :: nat
  st_peak_bitrate_mbps :: f64
  st_recent_bytes :: "(instant \<times> nat) list"
  st_recent_frames :: "instant list"
  st_samples :: "metric_sample list"
  st_last_sample_at :: instant
  st_sample_bytes :: nat
  st_sample_frames :: nat
  st_latency_window :: "(instant \<times> f64) list"
  st_latency_samples :: "f64 list"
  st_last_latency_evaluation :: instant
  st_high_latency :: bool
  st_healthy_latency_windows :: nat
  st_estimated_latency :: "(instant \<times> estimated_latency_snapshot) option"
  st_estimated_latency_samples :: "latency_metric_sample list"

record management =
  mg_started :: instant
  mg_next_session :: nat
  mg_stream :: "active_stream option"
  mg_history :: "session_record list"
  mg_events :: "event_record list"
  mg_connections :: "string \<Rightarrow> connection_record option"
  mg_clock_syncs :: "string \<Rightarrow> clock_sync_state option"
  mg_health :: health_snapshot

definition default_health :: health_snapshot where
  "default_health = \<lparr>hs_display_resolution = [], hs_display_fps = 0, hs_panel_resolution = [],
     hs_edid_name = [], hs_edid_type = [], hs_pairing_status = [], hs_cloud_status = [],
     hs_playback_state = [], hs_reassembly_in_flight = 0, hs_dropped_access_units = 0,
     hs_ignored_media_packets = 0, hs_load_1m = None, hs_load_5m = None, hs_load_15m = None,
     hs_memory_available_mib = None, hs_memory_total_mib = None, hs_soc_temperature_c = None\<rparr>"

definition new_management :: "instant \<Rightarrow> management" where
  "new_management now = \<lparr>mg_started = now, mg_next_session = 1, mg_stream = None, mg_history = [],
     mg_events = [], mg_connections = Map.empty, mg_clock_syncs = Map.empty,
     mg_health = default_health\<lparr>hs_playback_state := ''idle_dashboard''\<rparr>\<rparr>"

section \<open>Helpers\<close>

text \<open>\<open>inner.started.elapsed().as_secs_f64()\<close>\<close>

definition elapsed_sec :: "instant \<Rightarrow> management \<Rightarrow> f64" where
  "elapsed_sec now m = as_secs_f64 (now - mg_started m)"

text \<open>\<open>format!("{:.1}", x)\<close>: the exact value to one decimal, ties to even.\<close>

fun fixed1 :: "f64 \<Rightarrow> string" where
  "fixed1 NaN = ''NaN''"
| "fixed1 (Infinity s) = (if s then ''-inf'' else ''inf'')"
| "fixed1 (Finite s q) =
     (let n = nat (round_half_even (q * 10))
      in (if s then ''-'' else []) @ nat_to_string (n div 10) @ ''.'' @ nat_to_string (n mod 10))"

definition push_event :: "event_record \<Rightarrow> management \<Rightarrow> management" where
  "push_event e m = m\<lparr>mg_events := push_bounded MAX_EVENTS e (mg_events m)\<rparr>"

text \<open>\<open>sort_by(f64::total_cmp)\<close>\<close>

fun total_insert :: "f64 \<Rightarrow> f64 list \<Rightarrow> f64 list" where
  "total_insert x [] = [x]"
| "total_insert x (y # ys) = (if total_le x y then x # y # ys else y # total_insert x ys)"

definition total_sort :: "f64 list \<Rightarrow> f64 list" where
  "total_sort xs = foldr total_insert xs []"

definition percentile :: "f64 list \<Rightarrow> f64 \<Rightarrow> f64" where
  "percentile xs quantile =
     (if xs = [] then zero_f64
      else xs ! f64_round_to_nat (f64_mul (f64_of_nat (length xs - 1)) quantile))"

definition sender_id :: "management \<Rightarrow> string option" where
  "sender_id m = mg_stream m \<bind> st_sender \<bind> (\<lambda>s. Some (cm_connection_id s))"

definition update_connection :: "string \<Rightarrow> (connection_record \<Rightarrow> connection_record) \<Rightarrow> management \<Rightarrow> management" where
  "update_connection cid f m =
     (case mg_connections m cid of None \<Rightarrow> m
      | Some c \<Rightarrow> m\<lparr>mg_connections := (mg_connections m)(cid \<mapsto> f c)\<rparr>)"

definition mbps :: "nat \<Rightarrow> f64 \<Rightarrow> f64" where
  "mbps bytes duration =
     f64_div (f64_div (f64_mul (f64_of_nat bytes) (Finite False 8)) duration) (Finite False 1000000)"

definition session_of :: "instant \<Rightarrow> instant \<Rightarrow> string \<Rightarrow> active_stream \<Rightarrow> session_record" where
  "session_of started now reason s =
     (let duration = as_secs_f64 (now - st_started_at s);
          latency = total_sort (st_latency_samples s)
      in \<lparr>sr_id = st_id s, sr_sender = st_sender s, sr_config = st_config s,
          sr_started_at_sec = as_secs_f64 (st_started_at s - started),
          sr_ended_at_sec = Some (as_secs_f64 (now - started)), sr_duration_sec = duration,
          sr_frames = st_frames s, sr_bytes = st_bytes s,
          sr_average_bitrate_mbps = (if fp_lt zero_f64 duration then mbps (st_bytes s) duration else zero_f64),
          sr_peak_bitrate_mbps = st_peak_bitrate_mbps s, sr_sequence_gaps = st_sequence_gaps s,
          sr_latency_p50_ms = percentile latency (f64_of_rat (1 / 2)),
          sr_latency_p95_ms = percentile latency (f64_of_rat (95 / 100)),
          sr_latency_max_ms = (if latency = [] then zero_f64 else last latency),
          sr_end_reason = Some reason\<rparr>)"

definition finish_locked :: "instant \<Rightarrow> string \<Rightarrow> management \<Rightarrow> management" where
  "finish_locked now reason m =
     (case mg_stream m of None \<Rightarrow> m
      | Some s \<Rightarrow>
        let m' = m\<lparr>mg_stream := None\<rparr>;
            m' = (case st_sender s of None \<Rightarrow> m'
                  | Some c \<Rightarrow> update_connection (cm_connection_id c) (\<lambda>r. r\<lparr>cr_sharing := False\<rparr>) m')
        in m'\<lparr>mg_history := push_front_bounded MAX_HISTORY (session_of (mg_started m) now reason s) (mg_history m)\<rparr>)"

section \<open>Operations\<close>

definition event :: "instant \<Rightarrow> string \<Rightarrow> string \<Rightarrow> string \<Rightarrow> management \<Rightarrow> management" where
  "event now level kind message m =
     push_event \<lparr>ev_elapsed_sec = elapsed_sec now m, ev_level = level, ev_kind = kind, ev_message = message\<rparr> m"

definition hello :: "instant \<Rightarrow> client_metadata \<Rightarrow> management \<Rightarrow> management" where
  "hello now d m =
     (let elapsed = elapsed_sec now m
      in event now ''info'' ''connection_metadata''
           (''connection='' @ cm_connection_id d @ '' device='' @ cm_device_id d @ '' ip='' @ cm_remote_ip d
            @ '' platform='' @ cm_platform d @ '' user_agent='' @ cm_user_agent d)
           (m\<lparr>mg_connections := (mg_connections m)(cm_connection_id d \<mapsto>
              \<lparr>cr_connection_id = cm_connection_id d, cr_remote_ip = cm_remote_ip d,
               cr_device_id = cm_device_id d, cr_user_agent = cm_user_agent d, cr_platform = cm_platform d,
               cr_language = cm_language d, cr_page_session_id = cm_page_session_id d, cr_connected = True,
               cr_connected_at_sec = elapsed, cr_last_seen_at_sec = elapsed, cr_sharing = False\<rparr>)\<rparr>))"

definition disconnect_message :: "string \<Rightarrow> f64 \<Rightarrow> connection_record option \<Rightarrow> string" where
  "disconnect_message cid elapsed c =
     (case c of None \<Rightarrow> ''connection='' @ cid @ '' cause=peer_close''
      | Some r \<Rightarrow> ''connection='' @ cid @ '' device='' @ cr_device_id r @ '' ip='' @ cr_remote_ip r
          @ '' cause=peer_close duration_sec='' @ fixed1 (f64_sub elapsed (cr_connected_at_sec r)))"

definition connection_closed :: "instant \<Rightarrow> string \<Rightarrow> management \<Rightarrow> bool \<times> management" where
  "connection_closed now cid m =
     (let elapsed = elapsed_sec now m;
          message = disconnect_message cid elapsed (mg_connections m cid);
          m1 = update_connection cid
                 (\<lambda>c. c\<lparr>cr_connected := False, cr_sharing := False, cr_last_seen_at_sec := elapsed\<rparr>)
                 (m\<lparr>mg_clock_syncs := (mg_clock_syncs m)(cid := None)\<rparr>);
          sender_was_active = (sender_id m1 = Some cid);
          m2 = (if sender_was_active then finish_locked now ''disconnect'' m1 else m1)
      in (sender_was_active, event now ''info'' ''connection_disconnected'' message m2))"

definition touch_connection :: "instant \<Rightarrow> string \<Rightarrow> management \<Rightarrow> bool \<times> management" where
  "touch_connection now cid m =
     (case mg_connections m cid of None \<Rightarrow> (False, m)
      | Some c \<Rightarrow> if cr_connected c
                 then (True, m\<lparr>mg_connections := (mg_connections m)(cid \<mapsto> c\<lparr>cr_last_seen_at_sec := elapsed_sec now m\<rparr>)\<rparr>)
                 else (False, m))"

definition is_connected :: "string \<Rightarrow> management \<Rightarrow> bool" where
  "is_connected cid m = (case mg_connections m cid of None \<Rightarrow> False | Some c \<Rightarrow> cr_connected c)"

definition record_clock_sync :: "instant \<Rightarrow> string \<Rightarrow> f64 \<Rightarrow> f64 \<Rightarrow> management \<Rightarrow> bool \<times> management" where
  "record_clock_sync now cid offset_ms uncertainty_ms m =
     (if \<not> is_finite offset_ms \<or> \<not> is_finite uncertainty_ms
         \<or> \<not> in_range zero_f64 ESTIMATED_LATENCY_MAX_MS uncertainty_ms then (False, m)
      else if is_connected cid m
      then (True, m\<lparr>mg_clock_syncs := (mg_clock_syncs m)(cid \<mapsto>
             \<lparr>cy_offset_ms = offset_ms, cy_uncertainty_ms = uncertainty_ms, cy_received_at = now\<rparr>)\<rparr>)
      else (False, m))"

definition active_sender_heartbeat_fresh :: "instant \<Rightarrow> duration \<Rightarrow> management \<Rightarrow> bool" where
  "active_sender_heartbeat_fresh now max_age m =
     (case sender_id m \<bind> mg_connections m of None \<Rightarrow> False
      | Some c \<Rightarrow> cr_connected c
          \<and> fp_le (f64_sub (elapsed_sec now m) (cr_last_seen_at_sec c)) (as_secs_f64 max_age))"

definition new_stream :: "nat \<Rightarrow> client_metadata option \<Rightarrow> stream_config_snapshot \<Rightarrow> instant \<Rightarrow> active_stream" where
  "new_stream sid sender config now = \<lparr>st_id = sid, st_sender = sender, st_config = config,
     st_started_at = now, st_frames = 0, st_bytes = 0, st_last_seq = None, st_sequence_gaps = 0,
     st_latency_total_ms = zero_f64, st_latency_count = 0, st_peak_bitrate_mbps = zero_f64,
     st_recent_bytes = [], st_recent_frames = [], st_samples = [], st_last_sample_at = now,
     st_sample_bytes = 0, st_sample_frames = 0, st_latency_window = [], st_latency_samples = [],
     st_last_latency_evaluation = now, st_high_latency = False, st_healthy_latency_windows = 0,
     st_estimated_latency = None, st_estimated_latency_samples = []\<rparr>"

definition start :: "instant \<Rightarrow> stream_config_snapshot \<Rightarrow> client_metadata option \<Rightarrow> management \<Rightarrow> management" where
  "start now config sender m =
     (let m = finish_locked now ''replaced'' m;
          sid = mg_next_session m;
          m = m\<lparr>mg_next_session := sid + 1\<rparr>;
          m = (case sender of None \<Rightarrow> m
               | Some s \<Rightarrow> update_connection (cm_connection_id s)
                   (\<lambda>c. c\<lparr>cr_sharing := True, cr_last_seen_at_sec := elapsed_sec now m\<rparr>)
                   (m\<lparr>mg_clock_syncs := (mg_clock_syncs m)(cm_connection_id s := None)\<rparr>));
          m = m\<lparr>mg_stream := Some (new_stream sid sender config now)\<rparr>
      in event now ''info'' ''stream_start'' ''sharing started'' m)"

definition stop :: "instant \<Rightarrow> string \<Rightarrow> management \<Rightarrow> bool \<times> management" where
  "stop now reason m =
     (if mg_stream m = None then (False, m)
      else (True, event now ''info'' ''stream_stop'' reason (finish_locked now reason m)))"

definition set_health :: "health_snapshot \<Rightarrow> management \<Rightarrow> management" where
  "set_health h m = m\<lparr>mg_health := h\<rparr>"

definition refresh_pipeline_health :: "string \<Rightarrow> reassembly_stats \<Rightarrow> management \<Rightarrow> management" where
  "refresh_pipeline_health playback_state stats m = m\<lparr>mg_health := (mg_health m)\<lparr>
     hs_playback_state := playback_state, hs_reassembly_in_flight := in_flight stats,
     hs_dropped_access_units := dropped_access_units stats,
     hs_ignored_media_packets := ignored_packets stats\<rparr>\<rparr>"

section \<open>Latency reports\<close>

definition latency_point :: "instant \<Rightarrow> active_stream \<Rightarrow> estimated_latency_snapshot \<Rightarrow> latency_metric_sample" where
  "latency_point now s e = \<lparr>ls_elapsed_sec = as_secs_f64 (now - st_started_at s), ls_total_ms = el_total_ms e,
     ls_encode_ms = el_encode_ms e, ls_sender_queue_ms = el_sender_queue_ms e,
     ls_delivery_ms = el_delivery_ms e, ls_receiver_queue_ms = el_receiver_queue_ms e,
     ls_decode_display_ms = el_decode_display_ms e\<rparr>"

definition plausible_report :: "estimated_latency_snapshot \<Rightarrow> bool" where
  "plausible_report e \<longleftrightarrow>
     (let aggregate = f64_add (f64_add (el_sender_queue_ms e) (el_delivery_ms e)) (el_receiver_queue_ms e);
          components_total = f64_add (f64_add (el_encode_ms e) aggregate) (el_decode_display_ms e);
          values = [el_total_ms e, el_encode_ms e, el_sender_queue_ms e, el_delivery_ms e,
            el_receiver_queue_ms e, el_decode_display_ms e, el_media_write_blocked_ms e,
            el_clock_uncertainty_ms e, el_clock_sync_age_ms e, el_configured_bitrate_mbps e,
            el_adaptive_bitrate_mbps e, el_effective_fps e]
      in el_seq e \<noteq> 0
         \<and> list_all (\<lambda>v. is_finite v \<and> in_range zero_f64 ESTIMATED_LATENCY_MAX_MS v) values
         \<and> \<not> fp_lt (Finite False 2) (fp_abs (f64_sub (el_total_ms e) components_total))
         \<and> \<not> fp_lt (Finite False 2) (fp_abs (f64_sub (el_transport_queue_ms e) aggregate)))"

definition record_estimated_latency ::
  "instant \<Rightarrow> string \<Rightarrow> estimated_latency_snapshot \<Rightarrow> management \<Rightarrow> bool \<times> management" where
  "record_estimated_latency now cid sample m =
     (if \<not> plausible_report sample then (False, m)
      else case mg_stream m of None \<Rightarrow> (False, m)
      | Some s \<Rightarrow>
        let owned = (case st_sender s of None \<Rightarrow> False | Some c \<Rightarrow> cm_connection_id c = cid);
            previous_seq = map_option (\<lambda>p. el_seq (snd p)) (st_estimated_latency s);
            newer = (case previous_seq of None \<Rightarrow> True | Some p \<Rightarrow> el_seq sample > p);
            same = (previous_seq = Some (el_seq sample));
            submitted = (case st_last_seq s of None \<Rightarrow> False | Some l \<Rightarrow> el_seq sample \<le> l)
        in if owned \<and> (newer \<or> same) \<and> submitted
           then let s = (if newer then s\<lparr>st_estimated_latency_samples :=
                             push_bounded MAX_SAMPLES (latency_point now s sample) (st_estimated_latency_samples s)\<rparr>
                         else s)
                in (True, m\<lparr>mg_stream := Some (s\<lparr>st_estimated_latency := Some (now, sample)\<rparr>)\<rparr>)
           else (False, m))"

text \<open>The raw phases of one submission; \<open>None\<close> where the code rejects it.\<close>

record raw_phases =
  rp_encode :: f64
  rp_sender_queue :: f64
  rp_delivery :: f64
  rp_receiver_queue :: f64
  rp_decode_display :: f64
  rp_total :: f64
  rp_uncertainty :: f64
  rp_sync_age :: f64

definition raw_latency ::
  "instant \<Rightarrow> clock_sync_state \<Rightarrow> f64 \<Rightarrow> f32 \<Rightarrow> f64 \<Rightarrow> f64 \<Rightarrow> f64 \<Rightarrow> u32 \<Rightarrow> raw_phases option" where
  "raw_latency now sync capture_time_ms encode_duration_ms send_start_time_ms
     receiver_complete_time_ms receiver_queue_ms display_fps =
     (let sync_age_ms = f64_mul (as_secs_f64 (now - cy_received_at sync)) (Finite False 1000);
          uncertainty_ms = f64_add (cy_uncertainty_ms sync) (f64_mul sync_age_ms CLOCK_DRIFT_MS_PER_MS);
          sender_raw_ms = f64_sub (f64_sub send_start_time_ms capture_time_ms) encode_duration_ms;
          delivery_raw_ms = f64_sub (f64_sub receiver_complete_time_ms (cy_offset_ms sync)) send_start_time_ms
      in if \<not> list_all is_finite [capture_time_ms, encode_duration_ms, send_start_time_ms,
               receiver_complete_time_ms, receiver_queue_ms, uncertainty_ms, sender_raw_ms, delivery_raw_ms]
            \<or> fp_lt sender_raw_ms (fp_neg uncertainty_ms) \<or> fp_lt delivery_raw_ms (fp_neg uncertainty_ms)
            \<or> fp_lt receiver_queue_ms zero_f64
         then None
         else let sender_queue = fp_max sender_raw_ms zero_f64;
                  delivery = fp_max delivery_raw_ms zero_f64;
                  decode_display = f64_div (Finite False 1000) (f64_of_nat (unat display_fps))
              in Some \<lparr>rp_encode = encode_duration_ms, rp_sender_queue = sender_queue,
                    rp_delivery = delivery, rp_receiver_queue = receiver_queue_ms,
                    rp_decode_display = decode_display,
                    rp_total = f64_add (f64_add (f64_add (f64_add encode_duration_ms sender_queue) delivery)
                       receiver_queue_ms) decode_display,
                    rp_uncertainty = uncertainty_ms, rp_sync_age = sync_age_ms\<rparr>)"

definition blend :: "f64 \<Rightarrow> f64 \<Rightarrow> f64" where
  "blend previous current = f64_add previous (f64_mul (Finite False (1 / 4)) (f64_sub current previous))"

definition smoothed ::
  "u32 \<Rightarrow> stream_config_snapshot \<Rightarrow> estimated_latency_snapshot option \<Rightarrow> raw_phases \<Rightarrow> estimated_latency_snapshot" where
  "smoothed sq config previous r =
     (let mix = (\<lambda>field raw. case previous of None \<Rightarrow> raw | Some p \<Rightarrow> blend (field p) raw);
          keep = (\<lambda>field default. case previous of None \<Rightarrow> default | Some p \<Rightarrow> field p);
          encode = mix el_encode_ms (rp_encode r);
          sender_queue = mix el_sender_queue_ms (rp_sender_queue r);
          delivery = mix el_delivery_ms (rp_delivery r);
          queue = mix el_receiver_queue_ms (rp_receiver_queue r)
      in \<lparr>el_seq = sq,
          el_total_ms = f64_add (f64_add (f64_add (f64_add encode sender_queue) delivery) queue) (rp_decode_display r),
          el_encode_ms = encode, el_sender_queue_ms = sender_queue, el_delivery_ms = delivery,
          el_receiver_queue_ms = queue,
          el_transport_queue_ms = f64_add (f64_add sender_queue delivery) queue,
          el_decode_display_ms = rp_decode_display r,
          el_access_unit_bytes = (case previous of None \<Rightarrow> 0 | Some p \<Rightarrow> el_access_unit_bytes p),
          el_media_write_blocked_ms = keep el_media_write_blocked_ms zero_f64,
          el_clock_uncertainty_ms = rp_uncertainty r, el_clock_sync_age_ms = rp_sync_age r,
          el_configured_bitrate_mbps = keep el_configured_bitrate_mbps (sc_bitrate_mbps config),
          el_adaptive_bitrate_mbps = keep el_adaptive_bitrate_mbps (sc_bitrate_mbps config),
          el_dropped_input_frames = (case previous of None \<Rightarrow> 0 | Some p \<Rightarrow> el_dropped_input_frames p),
          el_effective_fps = keep el_effective_fps (f64_of_nat (unat (sc_fps config)))\<rparr>)"

definition record_receiver_estimated_latency ::
  "instant \<Rightarrow> u32 \<Rightarrow> f64 \<Rightarrow> f32 \<Rightarrow> f64 \<Rightarrow> f64 \<Rightarrow> f64 \<Rightarrow> u32 \<Rightarrow> management \<Rightarrow> bool \<times> management" where
  "record_receiver_estimated_latency now sq capture_time_ms encode_duration_ms send_start_time_ms
     receiver_complete_time_ms receiver_queue_ms display_fps m =
     (if display_fps = 0 \<or> sq = 0 then (False, m)
      else case sender_id m \<bind> mg_clock_syncs m of None \<Rightarrow> (False, m)
      | Some sync \<Rightarrow>
      (case raw_latency now sync capture_time_ms encode_duration_ms send_start_time_ms
              receiver_complete_time_ms receiver_queue_ms display_fps of
         None \<Rightarrow> (False, m)
       | Some r \<Rightarrow>
      (case mg_stream m of None \<Rightarrow> (False, m)
       | Some s \<Rightarrow>
         if (case st_estimated_latency s of None \<Rightarrow> False | Some p \<Rightarrow> sq \<le> el_seq (snd p)) then (False, m)
         else if fp_lt ESTIMATED_LATENCY_MAX_MS (rp_total r) then (False, m)
         else let sample = smoothed sq (st_config s) (map_option snd (st_estimated_latency s)) r
              in if fp_lt ESTIMATED_LATENCY_MAX_MS (el_total_ms sample) then (False, m)
                 else (True, m\<lparr>mg_stream := Some (s\<lparr>
                   st_estimated_latency_samples := push_bounded MAX_SAMPLES
                     \<lparr>ls_elapsed_sec = as_secs_f64 (now - st_started_at s), ls_total_ms = rp_total r,
                      ls_encode_ms = rp_encode r, ls_sender_queue_ms = rp_sender_queue r,
                      ls_delivery_ms = rp_delivery r, ls_receiver_queue_ms = rp_receiver_queue r,
                      ls_decode_display_ms = rp_decode_display r\<rparr> (st_estimated_latency_samples s),
                   st_estimated_latency := Some (now, sample)\<rparr>)\<rparr>))))"

section \<open>Frames\<close>

definition count_frame :: "instant \<Rightarrow> u32 \<Rightarrow> nat \<Rightarrow> f64 \<Rightarrow> active_stream \<Rightarrow> active_stream" where
  "count_frame now sq bytes latency_ms s =
     s\<lparr>st_frames := st_frames s + 1, st_bytes := st_bytes s + bytes,
       st_sample_bytes := st_sample_bytes s + bytes, st_sample_frames := st_sample_frames s + 1,
       st_sequence_gaps := (case st_last_seq s of None \<Rightarrow> st_sequence_gaps s
         | Some l \<Rightarrow> if sq > l + 1 then st_sequence_gaps s + unat (sq - l - 1) else st_sequence_gaps s),
       st_last_seq := Some sq,
       st_latency_total_ms := f64_add (st_latency_total_ms s) latency_ms,
       st_latency_count := st_latency_count s + 1\<rparr>"

definition older_than :: "duration \<Rightarrow> instant \<Rightarrow> instant \<Rightarrow> bool" where
  "older_than d now t \<longleftrightarrow> now - t > d"

definition roll_windows :: "instant \<Rightarrow> nat \<Rightarrow> f64 \<Rightarrow> active_stream \<Rightarrow> active_stream" where
  "roll_windows now bytes latency_ms s =
     (let recent = st_recent_bytes s @ [(now, bytes)];
          rolling_bytes = sum_list (map snd (filter (\<lambda>(t, _). now - t \<le> from_secs 1) recent));
          old = older_than (from_secs 10) now
      in s\<lparr>st_peak_bitrate_mbps := fp_max (st_peak_bitrate_mbps s)
             (f64_div (f64_mul (f64_of_nat rolling_bytes) (Finite False 8)) (Finite False 1000000)),
           st_latency_window := dropWhile (\<lambda>(t, _). old t) (st_latency_window s @ [(now, latency_ms)]),
           st_latency_samples := (if length (st_latency_samples s) < 10000
             then st_latency_samples s @ [latency_ms] else st_latency_samples s),
           st_recent_bytes := dropWhile (\<lambda>(t, _). old t) recent,
           st_recent_frames := dropWhile old (st_recent_frames s @ [now])\<rparr>)"

definition close_bucket :: "instant \<Rightarrow> active_stream \<Rightarrow> active_stream" where
  "close_bucket now s =
     (let bucket = as_secs_f64 (now - st_last_sample_at s)
      in if fp_le (Finite False 1) bucket
         then let rate = mbps (st_sample_bytes s) bucket
              in s\<lparr>st_peak_bitrate_mbps := fp_max (st_peak_bitrate_mbps s) rate,
                   st_samples := push_bounded MAX_SAMPLES
                     \<lparr>ms_elapsed_sec = as_secs_f64 (now - st_started_at s), ms_bitrate_mbps = rate,
                      ms_fps = f64_div (f64_of_nat (st_sample_frames s)) bucket\<rparr> (st_samples s),
                   st_sample_bytes := 0, st_sample_frames := 0, st_last_sample_at := now\<rparr>
         else s)"

definition latency_threshold :: "stream_config_snapshot \<Rightarrow> f64" where
  "latency_threshold config =
     (let frame_period = (if sc_fps config > 0
            then f64_div (Finite False 1000) (f64_of_nat (unat (sc_fps config))) else f64_of_rat (167 / 10))
      in fp_max (f64_mul (Finite False 3) frame_period) (Finite False 50))"

definition evaluate_latency :: "instant \<Rightarrow> active_stream \<Rightarrow> (string \<times> string) option \<times> active_stream" where
  "evaluate_latency now s =
     (if now - st_last_latency_evaluation s \<ge> from_secs 10 \<and> st_latency_window s \<noteq> []
      then let p95 = percentile (total_sort (map snd (st_latency_window s))) (f64_of_rat (95 / 100));
               threshold = latency_threshold (st_config s);
               evaluated = s\<lparr>st_last_latency_evaluation := now\<rparr>
           in if fp_lt threshold p95
              then (if st_high_latency s then None
                    else Some (''warn'', ''receiver ingest p95='' @ fixed1 p95
                      @ ''ms exceeded adaptive budget='' @ fixed1 threshold @ ''ms for 10s''),
                    evaluated\<lparr>st_healthy_latency_windows := 0, st_high_latency := True\<rparr>)
              else if st_high_latency s
              then let healthy = min (st_healthy_latency_windows s + 1) 255
                   in if healthy \<ge> 2
                      then (Some (''info'', ''receiver ingest latency recovered p95='' @ fixed1 p95
                              @ ''ms budget='' @ fixed1 threshold @ ''ms''),
                            evaluated\<lparr>st_high_latency := False, st_healthy_latency_windows := 0\<rparr>)
                      else (None, evaluated\<lparr>st_healthy_latency_windows := healthy\<rparr>)
              else (None, evaluated)
      else (None, s))"

definition stream_frame :: "instant \<Rightarrow> u32 \<Rightarrow> nat \<Rightarrow> f64 \<Rightarrow> active_stream \<Rightarrow> (string \<times> string) option \<times> active_stream" where
  "stream_frame now sq bytes latency_ms s =
     evaluate_latency now (close_bucket now (roll_windows now bytes latency_ms (count_frame now sq bytes latency_ms s)))"

definition record_frame :: "instant \<Rightarrow> u32 \<Rightarrow> nat \<Rightarrow> f64 \<Rightarrow> management \<Rightarrow> management" where
  "record_frame now sq bytes latency_ms m =
     (let m = (case sender_id m of None \<Rightarrow> m
               | Some cid \<Rightarrow> update_connection cid (\<lambda>c. c\<lparr>cr_last_seen_at_sec := elapsed_sec now m\<rparr>) m)
      in case mg_stream m of None \<Rightarrow> m
         | Some s \<Rightarrow>
           (case stream_frame now sq bytes latency_ms s of
              (None, s) \<Rightarrow> m\<lparr>mg_stream := Some s\<rparr>
            | (Some (level, message), s) \<Rightarrow> event now level ''latency'' message (m\<lparr>mg_stream := Some s\<rparr>)))"

section \<open>Reading\<close>

record active_stream_snapshot =
  sn_id :: nat
  sn_sender :: "client_metadata option"
  sn_config :: stream_config_snapshot
  sn_started_at_sec :: f64
  sn_duration_sec :: f64
  sn_frames :: nat
  sn_bytes :: nat
  sn_measured_bitrate_mbps :: f64
  sn_measured_fps :: f64
  sn_average_bitrate_mbps :: f64
  sn_peak_bitrate_mbps :: f64
  sn_sequence_gaps :: nat
  sn_server_latency_ms :: f64
  sn_estimated_latency :: "estimated_latency_snapshot option"
  sn_estimated_latency_age_ms :: "f64 option"
  sn_samples :: "metric_sample list"
  sn_latency_samples :: "latency_metric_sample list"

text \<open>The connections are listed by the hash map in no particular order; here they are the map.\<close>

record management_snapshot =
  sp_server_uptime_sec :: f64
  sp_state :: string
  sp_active_stream :: "active_stream_snapshot option"
  sp_connections :: "string \<Rightarrow> connection_record option"
  sp_history :: "session_record list"
  sp_events :: "event_record list"
  sp_health :: health_snapshot

definition stream_snapshot :: "instant \<Rightarrow> instant \<Rightarrow> active_stream \<Rightarrow> active_stream_snapshot" where
  "stream_snapshot started now s =
     (let window_start = now - from_secs 1;
          bytes_1s = sum_list (map snd (filter (\<lambda>(t, _). t \<ge> window_start) (st_recent_bytes s)));
          frames_1s = length (filter (\<lambda>t. t \<ge> window_start) (st_recent_frames s));
          duration = as_secs_f64 (now - st_started_at s)
      in \<lparr>sn_id = st_id s, sn_sender = st_sender s, sn_config = st_config s,
          sn_started_at_sec = as_secs_f64 (st_started_at s - started), sn_duration_sec = duration,
          sn_frames = st_frames s, sn_bytes = st_bytes s,
          sn_measured_bitrate_mbps =
            f64_div (f64_mul (f64_of_nat bytes_1s) (Finite False 8)) (Finite False 1000000),
          sn_measured_fps = f64_of_nat frames_1s,
          sn_average_bitrate_mbps = (if fp_lt zero_f64 duration then mbps (st_bytes s) duration else zero_f64),
          sn_peak_bitrate_mbps = st_peak_bitrate_mbps s, sn_sequence_gaps = st_sequence_gaps s,
          sn_server_latency_ms = (if st_latency_count s > 0
            then f64_div (st_latency_total_ms s) (f64_of_nat (st_latency_count s)) else zero_f64),
          sn_estimated_latency = map_option snd (st_estimated_latency s),
          sn_estimated_latency_age_ms = map_option
            (\<lambda>p. f64_mul (as_secs_f64 (now - fst p)) (Finite False 1000)) (st_estimated_latency s),
          sn_samples = st_samples s, sn_latency_samples = st_estimated_latency_samples s\<rparr>)"

definition management_snapshot_of :: "instant \<Rightarrow> management \<Rightarrow> management_snapshot" where
  "management_snapshot_of now m =
     \<lparr>sp_server_uptime_sec = elapsed_sec now m,
      sp_state = (if mg_stream m \<noteq> None then ''STREAMING'' else ''IDLE''),
      sp_active_stream = map_option (stream_snapshot (mg_started m) now) (mg_stream m),
      sp_connections = mg_connections m, sp_history = mg_history m, sp_events = mg_events m,
      sp_health = mg_health m\<rparr>"

text \<open>\<open>parse::<f64>\<close> is a parameter.\<close>

definition parse_load_average :: "(string \<Rightarrow> f64 option) \<Rightarrow> string \<Rightarrow> (f64 \<times> f64 \<times> f64) option" where
  "parse_load_average parse_f64 v =
     (case split_whitespace v of
        a # b # c # _ \<Rightarrow> do { x \<leftarrow> parse_f64 a; y \<leftarrow> parse_f64 b; z \<leftarrow> parse_f64 c; Some (x, y, z) }
      | _ \<Rightarrow> None)"

fun memory_line :: "string \<Rightarrow> nat option \<times> nat option \<Rightarrow> nat option \<times> nat option" where
  "memory_line line (total_kib, available_kib) =
     (case split_whitespace line of
        [] \<Rightarrow> (total_kib, available_kib)
      | key # ws \<Rightarrow>
        let number = (case ws of [] \<Rightarrow> None | f # _ \<Rightarrow> parse_uint u64_max f)
        in if key = ''MemTotal:'' then (number, available_kib)
           else if key = ''MemAvailable:'' then (total_kib, number)
           else (total_kib, available_kib))"

definition parse_memory_info :: "string \<Rightarrow> (nat \<times> nat) option" where
  "parse_memory_info v =
     (case fold memory_line (str_lines v) (None, None) of
        (Some tot, Some avail) \<Rightarrow> Some (avail div 1024, tot div 1024)
      | _ \<Rightarrow> None)"

text \<open>\<open>read_soc_temperature\<close> over the entries of the thermal directory: name, the \<open>temp\<close> value in
  millidegrees when it reads as a number, and the \<open>type\<close> text (empty when unreadable).\<close>

definition zone_temperature :: "f64 option \<Rightarrow> f64 option" where
  "zone_temperature milli =
     (case map_option (\<lambda>v. f64_div v (Finite False 1000)) milli of
        None \<Rightarrow> None
      | Some t \<Rightarrow> if is_finite t \<and> in_range (Finite True 40) (Finite False 150) t then Some t else None)"

fun read_soc_temperature :: "(string \<times> f64 option \<times> string) list \<Rightarrow> f64 option \<Rightarrow> f64 option" where
  "read_soc_temperature [] fallback = fallback"
| "read_soc_temperature ((name, milli, kind) # zones) fallback =
     (if \<not> starts_with name ''thermal_zone'' then read_soc_temperature zones fallback
      else case zone_temperature milli of None \<Rightarrow> read_soc_temperature zones fallback
      | Some t \<Rightarrow>
        let k = to_ascii_lowercase kind
        in if str_contains ''cpu'' k \<or> str_contains ''soc'' k \<or> str_contains ''package'' k then Some t
           else read_soc_temperature zones (case fallback of None \<Rightarrow> Some t | Some f \<Rightarrow> Some f))"

definition refresh_system_health ::
  "(f64 \<times> f64 \<times> f64) option \<Rightarrow> (nat \<times> nat) option \<Rightarrow> f64 option \<Rightarrow> management \<Rightarrow> management" where
  "refresh_system_health load memory soc m = m\<lparr>mg_health := (mg_health m)\<lparr>
     hs_load_1m := map_option fst load, hs_load_5m := map_option (fst \<circ> snd) load,
     hs_load_15m := map_option (snd \<circ> snd) load,
     hs_memory_available_mib := map_option fst memory, hs_memory_total_mib := map_option snd memory,
     hs_soc_temperature_c := soc\<rparr>\<rparr>"

section \<open>The component as a machine\<close>

datatype management_event =
    Event instant string string string
  | Hello instant client_metadata
  | Closed instant string
  | Touch instant string
  | Clock_Sync instant string f64 f64
  | Start_Stream instant stream_config_snapshot "client_metadata option"
  | Stop_Stream instant string
  | Frame instant u32 nat f64
  | Report instant string estimated_latency_snapshot
  | Submission instant u32 f64 f32 f64 f64 f64 u32
  | Health health_snapshot

fun management_step :: "management_event \<Rightarrow> management \<Rightarrow> management" where
  "management_step (Event now level kind message) m = event now level kind message m"
| "management_step (Hello now d) m = hello now d m"
| "management_step (Closed now cid) m = snd (connection_closed now cid m)"
| "management_step (Touch now cid) m = snd (touch_connection now cid m)"
| "management_step (Clock_Sync now cid offset uncertainty) m = snd (record_clock_sync now cid offset uncertainty m)"
| "management_step (Start_Stream now config sender) m = start now config sender m"
| "management_step (Stop_Stream now reason) m = snd (stop now reason m)"
| "management_step (Frame now sq bytes latency) m = record_frame now sq bytes latency m"
| "management_step (Report now cid e) m = snd (record_estimated_latency now cid e m)"
| "management_step (Submission now sq a b c d e fps) m = snd (record_receiver_estimated_latency now sq a b c d e fps m)"
| "management_step (Health h) m = set_health h m"

end
