(* ===== verification/Management_Correct.thy ===== *)
theory Management_Correct
  imports Management
begin

text \<open>
  What the management state promises: its logs are bounded, session ids grow, a connection is marked as
  sharing only while it owns the active stream, clock offsets belong to live connections, and a session
  record accounts for exactly the frames recorded in it.
\<close>

section \<open>Fields the operations touch\<close>

lemma event_fields [simp]:
  "mg_stream (event now l k t m) = mg_stream m" "mg_history (event now l k t m) = mg_history m"
  "mg_connections (event now l k t m) = mg_connections m"
  "mg_clock_syncs (event now l k t m) = mg_clock_syncs m"
  "mg_next_session (event now l k t m) = mg_next_session m"
  "mg_started (event now l k t m) = mg_started m" "mg_health (event now l k t m) = mg_health m"
  by (simp_all add: event_def push_event_def)

lemma update_connection_fields [simp]:
  "mg_stream (update_connection cid f m) = mg_stream m" "mg_history (update_connection cid f m) = mg_history m"
  "mg_events (update_connection cid f m) = mg_events m"
  "mg_clock_syncs (update_connection cid f m) = mg_clock_syncs m"
  "mg_next_session (update_connection cid f m) = mg_next_session m"
  "mg_started (update_connection cid f m) = mg_started m"
  by (simp_all add: update_connection_def split: option.splits)

lemma update_connection_at [simp]:
  "mg_connections (update_connection cid f m) k =
    (if k = cid then map_option f (mg_connections m cid) else mg_connections m k)"
  by (simp add: update_connection_def split: option.splits)

lemma sender_id_stream: "mg_stream a = mg_stream b \<Longrightarrow> sender_id a = sender_id b"
  by (simp add: sender_id_def)

lemma sender_id_simps [simp]:
  "sender_id (event now l k t m) = sender_id m" "sender_id (update_connection cid f m) = sender_id m"
  by (rule sender_id_stream, simp)+

lemma finish_fields [simp]:
  "mg_stream (finish_locked now r m) = None" "mg_events (finish_locked now r m) = mg_events m"
  "mg_clock_syncs (finish_locked now r m) = mg_clock_syncs m"
  "mg_next_session (finish_locked now r m) = mg_next_session m"
  "mg_started (finish_locked now r m) = mg_started m"
  "sender_id (finish_locked now r m) = None"
  by (simp_all add: finish_locked_def Let_def sender_id_def split: option.splits)

lemma finish_history:
  "mg_history (finish_locked now r m) =
    (case mg_stream m of None \<Rightarrow> mg_history m
     | Some s \<Rightarrow> push_front_bounded MAX_HISTORY (session_of (mg_started m) now r s) (mg_history m))"
  by (simp add: finish_locked_def Let_def split: option.splits)

lemma finish_connections:
  "mg_connections (finish_locked now r m) k =
    (if sender_id m = Some k then map_option (\<lambda>c. c\<lparr>cr_sharing := False\<rparr>) (mg_connections m k)
     else mg_connections m k)"
  by (auto simp: finish_locked_def Let_def sender_id_def split: option.splits)

section \<open>The logs are bounded\<close>

interpretation event_log: bounded_log push_event mg_events MAX_EVENTS
  by unfold_locales (simp add: push_event_def push_bounded_def)

interpretation session_log:
  bounded_log "\<lambda>r m. m\<lparr>mg_history := push_front_bounded MAX_HISTORY r (mg_history m)\<rparr>" "rev \<circ> mg_history" MAX_HISTORY
  by unfold_locales (simp add: push_front_bounded_def)

interpretation sample_log:
  bounded_log "\<lambda>x s. s\<lparr>st_samples := push_bounded MAX_SAMPLES x (st_samples s)\<rparr>" st_samples MAX_SAMPLES
  by unfold_locales (simp add: push_bounded_def)

interpretation latency_log:
  bounded_log "\<lambda>x s. s\<lparr>st_estimated_latency_samples := push_bounded MAX_SAMPLES x (st_estimated_latency_samples s)\<rparr>"
    st_estimated_latency_samples MAX_SAMPLES
  by unfold_locales (simp add: push_bounded_def)

definition stream_bounded :: "active_stream \<Rightarrow> bool" where
  "stream_bounded s \<longleftrightarrow> length (st_samples s) \<le> MAX_SAMPLES
     \<and> length (st_estimated_latency_samples s) \<le> MAX_SAMPLES \<and> length (st_latency_samples s) \<le> 10000"

definition logs_bounded :: "management \<Rightarrow> bool" where
  "logs_bounded m \<longleftrightarrow> length (mg_events m) \<le> MAX_EVENTS \<and> length (mg_history m) \<le> MAX_HISTORY
     \<and> (\<forall>s. mg_stream m = Some s \<longrightarrow> stream_bounded s)"

text \<open>Session ids grow: the newest record comes first.\<close>

definition ids_ok :: "management \<Rightarrow> bool" where
  "ids_ok m \<longleftrightarrow>
     sorted_wrt (>) (map st_id (case mg_stream m of None \<Rightarrow> [] | Some s \<Rightarrow> [s]) @ map sr_id (mg_history m))
     \<and> (\<forall>i \<in> set (map st_id (case mg_stream m of None \<Rightarrow> [] | Some s \<Rightarrow> [s]) @ map sr_id (mg_history m)).
          i < mg_next_session m)"

definition sharing_ok :: "management \<Rightarrow> bool" where
  "sharing_ok m \<longleftrightarrow> (\<forall>k c. mg_connections m k = Some c \<longrightarrow> cr_sharing c \<longrightarrow> sender_id m = Some k)"

definition syncs_ok :: "management \<Rightarrow> bool" where
  "syncs_ok m \<longleftrightarrow> (\<forall>k. mg_clock_syncs m k \<noteq> None \<longrightarrow> is_connected k m)"

definition management_ok :: "management \<Rightarrow> bool" where
  "management_ok m \<longleftrightarrow> logs_bounded m \<and> ids_ok m \<and> sharing_ok m \<and> syncs_ok m"

lemma new_management_ok: "management_ok (new_management now)"
  by (simp add: management_ok_def new_management_def logs_bounded_def ids_ok_def sharing_ok_def syncs_ok_def)

section \<open>Streams\<close>

lemma count_frame_fields [simp]:
  "st_id (count_frame now sq b l s) = st_id s" "st_sender (count_frame now sq b l s) = st_sender s"
  "st_config (count_frame now sq b l s) = st_config s" "st_started_at (count_frame now sq b l s) = st_started_at s"
  "st_frames (count_frame now sq b l s) = st_frames s + 1" "st_bytes (count_frame now sq b l s) = st_bytes s + b"
  "st_samples (count_frame now sq b l s) = st_samples s"
  "st_estimated_latency_samples (count_frame now sq b l s) = st_estimated_latency_samples s"
  "st_latency_samples (count_frame now sq b l s) = st_latency_samples s"
  "st_last_seq (count_frame now sq b l s) = Some sq"
  by (simp_all add: count_frame_def)

lemma roll_windows_fields [simp]:
  "st_id (roll_windows now b l s) = st_id s" "st_sender (roll_windows now b l s) = st_sender s"
  "st_config (roll_windows now b l s) = st_config s" "st_started_at (roll_windows now b l s) = st_started_at s"
  "st_frames (roll_windows now b l s) = st_frames s" "st_bytes (roll_windows now b l s) = st_bytes s"
  "st_samples (roll_windows now b l s) = st_samples s"
  "st_estimated_latency_samples (roll_windows now b l s) = st_estimated_latency_samples s"
  "st_latency_samples (roll_windows now b l s) =
     (if length (st_latency_samples s) < 10000 then st_latency_samples s @ [l] else st_latency_samples s)"
  "st_last_seq (roll_windows now b l s) = st_last_seq s"
  "st_sequence_gaps (roll_windows now b l s) = st_sequence_gaps s"
  by (simp_all add: roll_windows_def Let_def)

lemma close_bucket_fields [simp]:
  "st_id (close_bucket now s) = st_id s" "st_sender (close_bucket now s) = st_sender s"
  "st_config (close_bucket now s) = st_config s" "st_started_at (close_bucket now s) = st_started_at s"
  "st_frames (close_bucket now s) = st_frames s" "st_bytes (close_bucket now s) = st_bytes s"
  "st_estimated_latency_samples (close_bucket now s) = st_estimated_latency_samples s"
  "st_latency_samples (close_bucket now s) = st_latency_samples s"
  "st_last_seq (close_bucket now s) = st_last_seq s"
  "st_sequence_gaps (close_bucket now s) = st_sequence_gaps s"
  by (simp_all add: close_bucket_def Let_def)

lemma evaluate_latency_fields [simp]:
  "st_id (snd (evaluate_latency now s)) = st_id s" "st_sender (snd (evaluate_latency now s)) = st_sender s"
  "st_config (snd (evaluate_latency now s)) = st_config s"
  "st_started_at (snd (evaluate_latency now s)) = st_started_at s"
  "st_frames (snd (evaluate_latency now s)) = st_frames s" "st_bytes (snd (evaluate_latency now s)) = st_bytes s"
  "st_samples (snd (evaluate_latency now s)) = st_samples s"
  "st_estimated_latency_samples (snd (evaluate_latency now s)) = st_estimated_latency_samples s"
  "st_latency_samples (snd (evaluate_latency now s)) = st_latency_samples s"
  "st_last_seq (snd (evaluate_latency now s)) = st_last_seq s"
  "st_sequence_gaps (snd (evaluate_latency now s)) = st_sequence_gaps s"
  by (simp_all add: evaluate_latency_def Let_def)

lemma close_bucket_samples:
  "length (st_samples s) \<le> MAX_SAMPLES \<Longrightarrow> length (st_samples (close_bucket now s)) \<le> MAX_SAMPLES"
  by (simp add: close_bucket_def Let_def length_push_bounded)

lemma stream_frame_bounded: "stream_bounded s \<Longrightarrow> stream_bounded (snd (stream_frame now sq b l s))"
  by (simp add: stream_bounded_def stream_frame_def close_bucket_samples)

lemma stream_frame_id [simp]:
  "st_id (snd (stream_frame now sq b l s)) = st_id s" "st_sender (snd (stream_frame now sq b l s)) = st_sender s"
  by (simp_all add: stream_frame_def)

lemma record_frame_stream:
  "mg_stream (record_frame now sq b l m) = map_option (\<lambda>s. snd (stream_frame now sq b l s)) (mg_stream m)"
  by (auto simp: record_frame_def Let_def split: option.splits prod.splits)

lemma record_frame_fields [simp]:
  "mg_history (record_frame now sq b l m) = mg_history m"
  "mg_clock_syncs (record_frame now sq b l m) = mg_clock_syncs m"
  "mg_next_session (record_frame now sq b l m) = mg_next_session m"
  "mg_started (record_frame now sq b l m) = mg_started m"
  by (auto simp: record_frame_def Let_def split: option.splits prod.splits)

lemma record_frame_connections:
  "mg_connections (record_frame now sq b l m) k =
    (if sender_id m = Some k then map_option (\<lambda>c. c\<lparr>cr_last_seen_at_sec := elapsed_sec now m\<rparr>) (mg_connections m k)
     else mg_connections m k)"
  by (auto simp: record_frame_def Let_def split: option.splits prod.splits)

lemma record_frame_events:
  "length (mg_events m) \<le> MAX_EVENTS \<Longrightarrow> length (mg_events (record_frame now sq b l m)) \<le> MAX_EVENTS"
  by (auto simp: record_frame_def Let_def event_def event_log.bounded split: option.splits prod.splits)

lemma record_frame_sender [simp]: "sender_id (record_frame now sq b l m) = sender_id m"
  by (cases "mg_stream m") (simp_all add: sender_id_def record_frame_stream)

section \<open>Every operation keeps the invariant\<close>

text \<open>Two states that agree on what a part of the invariant reads.\<close>

lemma ids_ok_cong:
  "map_option st_id (mg_stream a) = map_option st_id (mg_stream b) \<Longrightarrow> mg_history a = mg_history b
   \<Longrightarrow> mg_next_session a = mg_next_session b \<Longrightarrow> ids_ok a = ids_ok b"
  by (cases "mg_stream a"; cases "mg_stream b") (simp_all add: ids_ok_def)

lemma is_connected_map:
  "mg_connections m k = map_option f (mg_connections m' k) \<Longrightarrow> (\<And>c. cr_connected (f c) = cr_connected c)
   \<Longrightarrow> is_connected k m = is_connected k m'"
  by (cases "mg_connections m' k") (simp_all add: is_connected_def)

lemma is_connected_finish [simp]: "is_connected k (finish_locked now r m) = is_connected k m"
  by (rule is_connected_map [where f = "\<lambda>c. if sender_id m = Some k then c\<lparr>cr_sharing := False\<rparr> else c"])
     (simp_all add: finish_connections map_option.id [unfolded id_def])

lemma is_connected_event [simp]: "is_connected k (event now l t x m) = is_connected k m"
  by (simp add: is_connected_def)

lemma is_connected_frame [simp]: "is_connected k (record_frame now sq b l m) = is_connected k m"
  by (rule is_connected_map [where f = "\<lambda>c. if sender_id m = Some k then c\<lparr>cr_last_seen_at_sec := elapsed_sec now m\<rparr> else c"])
     (simp_all add: record_frame_connections map_option.id [unfolded id_def])

lemma event_ok [simp]: "management_ok m \<Longrightarrow> management_ok (event now l k t m)"
proof -
  assume m: "management_ok m"
  have "length (mg_events (event now l k t m)) \<le> MAX_EVENTS"
    by (simp add: event_def event_log.bounded)
  then show ?thesis
    using m by (simp add: management_ok_def logs_bounded_def ids_ok_def sharing_ok_def syncs_ok_def)
qed

lemma finish_ok: "management_ok m \<Longrightarrow> management_ok (finish_locked now r m)"
proof -
  assume m: "management_ok m"
  have "logs_bounded (finish_locked now r m)"
    using m by (simp add: management_ok_def logs_bounded_def finish_history push_front_bounded_def
        length_pop_front_over split: option.splits)
  moreover have "ids_ok (finish_locked now r m)"
  proof (cases "mg_stream m")
    case None
    then show ?thesis
      using m by (simp add: management_ok_def finish_locked_def)
  next
    case (Some s)
    have "\<exists>n. rev (pop_front_over MAX_HISTORY (rev xs)) = take n xs" for xs :: "session_record list"
      by (rule exI [of _ "length xs - (length xs - MAX_HISTORY)"]) (simp add: pop_front_over_drop rev_drop)
    then obtain n where n: "mg_history (finish_locked now r m) = take n (session_of (mg_started m) now r s # mg_history m)"
      by (metis finish_history Some option.case(2) push_front_bounded_def)
    have sid: "sr_id (session_of (mg_started m) now r s) = st_id s"
      by (simp add: session_of_def Let_def)
    have all: "sorted_wrt (>) (map sr_id (session_of (mg_started m) now r s # mg_history m))"
      "\<forall>i \<in> set (map sr_id (session_of (mg_started m) now r s # mg_history m)). i < mg_next_session m"
      using m by (simp_all add: management_ok_def ids_ok_def Some sid)
    show ?thesis
      using sorted_wrt_take [OF all(1), of n] all(2)
      by (auto simp: ids_ok_def n take_map [symmetric] dest!: in_set_takeD)
  qed
  moreover have "sharing_ok (finish_locked now r m)"
    using m by (auto simp: management_ok_def sharing_ok_def finish_connections split: if_splits)
  moreover have "syncs_ok (finish_locked now r m)"
    using m by (simp add: management_ok_def syncs_ok_def)
  ultimately show ?thesis
    by (simp add: management_ok_def)
qed

lemma hello_ok: "management_ok m \<Longrightarrow> management_ok (hello now d m)"
  unfolding hello_def Let_def
  by (rule event_ok) (auto simp: management_ok_def logs_bounded_def ids_ok_def sharing_ok_def syncs_ok_def
      is_connected_def sender_id_def)

lemma stop_ok: "management_ok m \<Longrightarrow> management_ok (snd (stop now r m))"
  by (simp add: stop_def finish_ok)

lemma closed_ok: "management_ok m \<Longrightarrow> management_ok (snd (connection_closed now cid m))"
proof -
  assume m: "management_ok m"
  let ?m = "update_connection cid
      (\<lambda>c. c\<lparr>cr_connected := False, cr_sharing := False, cr_last_seen_at_sec := elapsed_sec now m\<rparr>)
      (m\<lparr>mg_clock_syncs := (mg_clock_syncs m)(cid := None)\<rparr>)"
  have sid: "sender_id ?m = sender_id m"
    by (rule sender_id_stream) simp
  have "management_ok ?m"
    using m unfolding management_ok_def
    by (auto simp: logs_bounded_def ids_ok_def sharing_ok_def syncs_ok_def is_connected_def sid
        simp del: sender_id_simps)
  then show ?thesis
    using finish_ok [of ?m] by (simp add: connection_closed_def Let_def)
qed

lemma touch_ok: "management_ok m \<Longrightarrow> management_ok (snd (touch_connection now cid m))"
  by (auto simp: touch_connection_def management_ok_def logs_bounded_def ids_ok_def sharing_ok_def syncs_ok_def
      is_connected_def sender_id_def split: option.splits)

lemma sync_ok: "management_ok m \<Longrightarrow> management_ok (snd (record_clock_sync now cid a b m))"
  by (auto simp: record_clock_sync_def management_ok_def logs_bounded_def ids_ok_def sharing_ok_def syncs_ok_def
      is_connected_def sender_id_def)

lemma start_ok: "management_ok m \<Longrightarrow> management_ok (start now config sender m)"
proof -
  assume "management_ok m"
  then have f: "management_ok (finish_locked now ''replaced'' m)" (is "management_ok ?f")
    by (rule finish_ok)
  let ?n = "?f\<lparr>mg_next_session := mg_next_session ?f + 1\<rparr>"
  define g where "g = (case sender of None \<Rightarrow> ?n
      | Some s \<Rightarrow> update_connection (cm_connection_id s)
          (\<lambda>c. c\<lparr>cr_sharing := True, cr_last_seen_at_sec := elapsed_sec now ?n\<rparr>)
          (?n\<lparr>mg_clock_syncs := (mg_clock_syncs ?n)(cm_connection_id s := None)\<rparr>))"
  let ?g = "g\<lparr>mg_stream := Some (new_stream (mg_next_session ?f) sender config now)\<rparr>"
  have keep: "mg_events g = mg_events ?f" "mg_history g = mg_history ?f" "mg_next_session g = mg_next_session ?f + 1"
    by (simp_all add: g_def split: option.splits)
  have none: "\<not> cr_sharing c" if "mg_connections ?f k = Some c" for k c
    using f that by (auto simp: management_ok_def sharing_ok_def)
  have "logs_bounded ?g"
    using f by (simp add: management_ok_def logs_bounded_def keep stream_bounded_def new_stream_def)
  moreover have "ids_ok ?g"
    using f by (auto simp: management_ok_def ids_ok_def keep new_stream_def)
  moreover have "sharing_ok ?g"
    using none by (auto simp: sharing_ok_def g_def sender_id_def new_stream_def split: option.splits if_splits)
  moreover have "syncs_ok ?g"
    using f by (auto simp: management_ok_def syncs_ok_def g_def is_connected_def split: option.splits if_splits)
  ultimately show ?thesis
    unfolding start_def Let_def g_def by (intro event_ok) (simp add: management_ok_def)
qed

lemma frame_ok': "management_ok m \<Longrightarrow> management_ok (record_frame now sq b l m)"
proof -
  assume m: "management_ok m"
  have "logs_bounded (record_frame now sq b l m)"
    using m record_frame_events [of m now sq b l] stream_frame_bounded
    by (auto simp: management_ok_def logs_bounded_def record_frame_stream)
  moreover have "ids_ok (record_frame now sq b l m)"
    using m ids_ok_cong [of "record_frame now sq b l m" m]
    by (simp add: management_ok_def record_frame_stream option.map_comp comp_def)
  moreover have "sharing_ok (record_frame now sq b l m)"
    using m by (auto simp: management_ok_def sharing_ok_def record_frame_connections split: if_splits)
  moreover have "syncs_ok (record_frame now sq b l m)"
    using m by (simp add: management_ok_def syncs_ok_def)
  ultimately show ?thesis
    by (simp add: management_ok_def)
qed

lemma stream_update_ok:
  assumes "management_ok m" and "mg_stream m = Some s" and "st_id s' = st_id s" and "st_sender s' = st_sender s"
    and "stream_bounded s'"
  shows "management_ok (m\<lparr>mg_stream := Some s'\<rparr>)"
  using assms by (auto simp: management_ok_def logs_bounded_def ids_ok_def sharing_ok_def syncs_ok_def
      is_connected_def sender_id_def)

lemma report_ok: "management_ok m \<Longrightarrow> management_ok (snd (record_estimated_latency now cid e m))"
proof -
  assume m: "management_ok m"
  show ?thesis
  proof (cases "mg_stream m")
    case (Some s)
    then have "stream_bounded s"
      using m by (simp add: management_ok_def logs_bounded_def)
    then show ?thesis
      using m Some by (auto simp: record_estimated_latency_def Let_def stream_bounded_def length_push_bounded
          intro!: stream_update_ok [of m s])
  qed (use m in \<open>simp add: record_estimated_latency_def\<close>)
qed

lemma submission_ok:
  "management_ok m \<Longrightarrow> management_ok (snd (record_receiver_estimated_latency now sq a b c d e fps m))"
proof -
  assume m: "management_ok m"
  show ?thesis
  proof (cases "mg_stream m")
    case (Some s)
    then have "stream_bounded s"
      using m by (simp add: management_ok_def logs_bounded_def)
    then show ?thesis
      using m Some by (auto simp: record_receiver_estimated_latency_def Let_def stream_bounded_def length_push_bounded
          intro!: stream_update_ok [of m s] split: option.splits)
  qed (use m in \<open>simp add: record_receiver_estimated_latency_def split: option.splits\<close>)
qed

lemma health_ok: "management_ok m \<Longrightarrow> management_ok (set_health h m)"
  by (simp add: set_health_def management_ok_def logs_bounded_def ids_ok_def sharing_ok_def syncs_ok_def
      is_connected_def sender_id_def)

interpretation management: invariant_machine management_step management_ok "\<lambda>_. True"
proof
  fix m e
  assume "management_ok m"
  then show "management_ok (management_step e m)"
    by (cases e) (simp_all add: hello_ok closed_ok touch_ok sync_ok start_ok stop_ok frame_ok' report_ok
        submission_ok health_ok)
qed

section \<open>Session accounting\<close>

type_synonym frame_arrival = "instant \<times> u32 \<times> nat \<times> f64"

fun record_frames :: "frame_arrival list \<Rightarrow> management \<Rightarrow> management" where
  "record_frames [] m = m"
| "record_frames ((now, sq, bytes, latency) # fs) m = record_frames fs (record_frame now sq bytes latency m)"

definition seq_of :: "frame_arrival \<Rightarrow> u32" where "seq_of f = fst (snd f)"
definition bytes_of_frame :: "frame_arrival \<Rightarrow> nat" where "bytes_of_frame f = fst (snd (snd f))"

lemma frame_selectors [simp]: "seq_of (now, sq, b, l) = sq" "bytes_of_frame (now, sq, b, l) = b"
  by (simp_all add: seq_of_def bytes_of_frame_def)

text \<open>Counters of a stream that has received increasing sequence numbers from \<open>first\<close> on.\<close>

definition tallied :: "nat \<Rightarrow> nat \<Rightarrow> u32 \<Rightarrow> u32 \<Rightarrow> active_stream \<Rightarrow> bool" where
  "tallied frames bytes first final s \<longleftrightarrow>
     st_frames s = frames \<and> st_bytes s = bytes \<and> st_last_seq s = Some final \<and> first \<le> final
     \<and> st_sequence_gaps s + st_frames s = unat final - unat first + 1"

lemma stream_frame_counts [simp]:
  "st_frames (snd (stream_frame now sq b l s)) = st_frames s + 1"
  "st_bytes (snd (stream_frame now sq b l s)) = st_bytes s + b"
  "st_last_seq (snd (stream_frame now sq b l s)) = Some sq"
  "st_sequence_gaps (snd (stream_frame now sq b l s)) = st_sequence_gaps (count_frame now sq b l s)"
  by (simp_all add: stream_frame_def)

lemma gap_counted:
  fixes l sq :: u32
  assumes "l < sq"
  shows "(if sq > l + 1 then unat (sq - l - 1) else 0) + 1 = unat sq - unat l"
proof -
  have "unat l < unat sq"
    using assms by (simp add: word_less_nat_alt)
  moreover have succ: "unat (l + 1) = unat l + 1"
  proof -
    have "unat l + 1 < 2 ^ 32"
      using \<open>unat l < unat sq\<close> unat_below [of sq] by simp
    then show ?thesis
      by (simp add: unat_word_ariths)
  qed
  moreover have "unat (sq - (l + 1)) = unat sq - unat (l + 1)"
    by (rule unat_sub) (use succ \<open>unat l < unat sq\<close> in \<open>simp add: word_le_nat_alt\<close>)
  ultimately show ?thesis
    by (auto simp: word_less_nat_alt diff_diff_eq)
qed

lemma tally_next:
  assumes "tallied n b first l s" and "l < sq"
  shows "tallied (n + 1) (b + bytes) first sq (snd (stream_frame now sq bytes latency s))"
proof -
  have c: "st_frames s = n" "st_bytes s = b" "st_last_seq s = Some l" "unat first \<le> unat l"
      "st_sequence_gaps s + n = unat l - unat first + 1"
    using assms(1) by (auto simp: tallied_def word_le_nat_alt)
  have "unat l < unat sq"
    using assms(2) by (simp add: word_less_nat_alt)
  then have "first \<le> sq" "unat sq - unat first + 1 = (unat l - unat first + 1) + (unat sq - unat l)"
    using c(4) by (simp_all add: word_le_nat_alt)
  then show ?thesis
    using c gap_counted [OF assms(2)] by (auto simp: tallied_def count_frame_def)
qed

lemma tally_run:
  assumes "mg_stream m = Some s" and "tallied n b first l s" and "sorted_wrt (<) (l # map seq_of fs)"
  shows "\<exists>s'. mg_stream (record_frames fs m) = Some s' \<and> st_id s' = st_id s \<and> st_sender s' = st_sender s
    \<and> tallied (n + length fs) (b + sum_list (map bytes_of_frame fs)) first (last (l # map seq_of fs)) s'
    \<and> mg_history (record_frames fs m) = mg_history m"
  using assms
proof (induction fs arbitrary: m s n b l)
  case (Cons f fs)
  obtain now sq bytes latency where f: "f = (now, sq, bytes, latency)"
    by (cases f)
  have sq: "l < sq" "sorted_wrt (<) (sq # map seq_of fs)"
    using Cons.prems(3) by (simp_all add: f)
  have m': "mg_stream (record_frame now sq bytes latency m) = Some (snd (stream_frame now sq bytes latency s))"
    by (simp add: record_frame_stream Cons.prems(1))
  show ?case
    using Cons.IH [OF m' tally_next [OF Cons.prems(2) sq(1)] sq(2)]
    by (simp add: f add.assoc)
qed auto

section \<open>Properties\<close>

text \<open>
  Property C11. The management state stays well formed under any sequence of its operations at any times: at most
  2000 events, 10000 sessions, 300 samples of either kind and 10000 latencies are held; session ids decrease
  strictly from the newest record and stay below the next id; a connection is marked as sharing only if it owns
  the active stream; and clock offsets belong to connected clients.
\<close>

theorem management_always_well_formed: "management_ok (fold management_step es (new_management t0))"
  by (rule management.run_inv [OF new_management_ok]) (simp add: list_all_iff)

text \<open>
  Property C12. A session record accounts for its frames exactly: after a start, a run of frames with increasing
  sequence numbers and a stop, the newest record carries the session's id and sender, the number and total size
  of the frames and the given reason, and its sequence gaps are the numbers missing between the first and the
  last.
\<close>

theorem session_record_accounts_for_frames:
  assumes "fs \<noteq> []" and "sorted_wrt (<) (map seq_of fs)"
  shows "let m = record_frames fs (start t0 config sender m0);
             r = hd (mg_history (snd (stop t reason m)))
         in fst (stop t reason m) \<and> mg_stream (snd (stop t reason m)) = None
            \<and> sr_id r = mg_next_session m0 \<and> sr_sender r = sender
            \<and> sr_frames r = length fs \<and> sr_bytes r = sum_list (map bytes_of_frame fs)
            \<and> sr_end_reason r = Some reason
            \<and> sr_sequence_gaps r + length fs = unat (seq_of (last fs)) - unat (seq_of (hd fs)) + 1"
proof -
  obtain f rest where fs: "fs = f # rest"
    using assms(1) by (cases fs) auto
  obtain now sq bytes latency where f: "f = (now, sq, bytes, latency)"
    by (cases f)
  let ?m = "start t0 config sender m0"
  let ?s = "new_stream (mg_next_session m0) sender config t0"
  have s: "mg_stream ?m = Some ?s"
    by (simp add: start_def Let_def)
  let ?s1 = "snd (stream_frame now sq bytes latency ?s)"
  have m1: "mg_stream (record_frame now sq bytes latency ?m) = Some ?s1"
    by (simp add: record_frame_stream s)
  have t1: "tallied 1 bytes sq sq ?s1"
    by (simp add: tallied_def count_frame_def new_stream_def)
  have "sorted_wrt (<) (sq # map seq_of rest)"
    using assms(2) by (simp add: fs f)
  then obtain s' where s': "mg_stream (record_frames fs ?m) = Some s'" "st_id s' = mg_next_session m0"
      "st_sender s' = sender"
      "tallied (1 + length rest) (bytes + sum_list (map bytes_of_frame rest)) sq (last (sq # map seq_of rest)) s'"
    using tally_run [OF m1 t1, of rest] by (auto simp: fs f new_stream_def)
  have final: "last (sq # map seq_of rest) = seq_of (last fs)"
    by (cases rest rule: rev_cases) (simp_all add: fs f)
  let ?h = "mg_history (snd (stop t reason (record_frames fs ?m)))"
  have "hd ?h = session_of (mg_started (record_frames fs ?m)) t reason s'"
    by (simp add: stop_def s'(1) finish_history push_front_bounded_def pop_front_over_drop rev_drop limits hd_take)
  then show ?thesis
    using s' final by (simp add: Let_def stop_def session_of_def tallied_def fs f)
qed

definition sample_config :: stream_config_snapshot where
  "sample_config = \<lparr>sc_codec = ''hevc'', sc_resolution = ''1920x1080'', sc_fps = 30,
     sc_bitrate_mbps = Finite False 6, sc_latency_mode = ''ULL'', sc_aspect_mode = ''preserve'',
     sc_capture_resolution = [], sc_encoded_resolution = []\<rparr>"

theorem session_record_accounts_for_frames_witness:
  "let m = record_frames [(10, 1, 1000, NaN), (20, 4, 500, NaN)] (start 5 sample_config None (new_management 0));
       r = hd (mg_history (snd (stop 30 ''user_stop'' m)))
   in sr_frames r = 2 \<and> sr_bytes r = 1500 \<and> sr_sequence_gaps r = 2"
  using session_record_accounts_for_frames [of "[(10, 1, 1000, NaN), (20, 4, 500, NaN)]" 5 sample_config None
      "new_management 0" 30 "''user_stop''"]
  by (simp add: Let_def)

fun foreign :: "string \<Rightarrow> management_event \<Rightarrow> bool" where
  "foreign owner (Hello now d) = (cm_connection_id d \<noteq> owner)"
| "foreign owner (Closed now cid) = (cid \<noteq> owner)"
| "foreign owner (Touch now cid) = (cid \<noteq> owner)"
| "foreign owner (Clock_Sync now cid a b) = (cid \<noteq> owner)"
| "foreign owner (Report now cid e) = (cid \<noteq> owner)"
| "foreign owner _ = False"

lemma foreign_step:
  assumes "sender_id m = Some owner" and "foreign owner e"
  shows "mg_stream (management_step e m) = mg_stream m
    \<and> mg_connections (management_step e m) owner = mg_connections m owner
    \<and> mg_started (management_step e m) = mg_started m"
proof (cases e)
  case (Hello now d)
  then show ?thesis
    using assms(2) by (simp add: hello_def Let_def)
next
  case (Closed now cid)
  have "sender_id (m\<lparr>mg_clock_syncs := f\<rparr>) = sender_id m" for f
    by (rule sender_id_stream) simp
  then show ?thesis
    using assms Closed by (simp add: connection_closed_def Let_def)
next
  case (Touch now cid)
  then show ?thesis
    using assms(2) by (simp add: touch_connection_def split: option.splits)
next
  case (Clock_Sync now cid a b)
  then show ?thesis
    by (simp add: record_clock_sync_def)
next
  case (Report now cid r)
  obtain st c where st: "mg_stream m = Some st" "st_sender st = Some c" "cm_connection_id c = owner"
    using assms(1) by (cases "mg_stream m"; cases "st_sender (the (mg_stream m))") (auto simp: sender_id_def)
  then show ?thesis
    using assms(2) by (simp add: Report record_estimated_latency_def Let_def)
qed (use assms(2) in simp_all)

text \<open>
  Property C13. Other clients cannot disturb a stream through the management state: whatever connections other
  than the sender's say about themselves (announce, touch, sync their clock, report latencies, disconnect), in
  any order, the active stream is unchanged and so is the answer to whether its sender is alive.
\<close>

theorem foreign_connections_cannot_disturb_stream:
  assumes "sender_id m = Some owner" and "list_all (foreign owner) es"
  shows "mg_stream (fold management_step es m) = mg_stream m
    \<and> active_sender_heartbeat_fresh now max_age (fold management_step es m)
      = active_sender_heartbeat_fresh now max_age m"
proof -
  have "mg_stream (fold management_step es m) = mg_stream m
      \<and> mg_connections (fold management_step es m) owner = mg_connections m owner
      \<and> mg_started (fold management_step es m) = mg_started m"
    using assms
  proof (induction es arbitrary: m)
    case (Cons e es)
    have "sender_id (management_step e m) = Some owner"
      using foreign_step [of m owner e] Cons.prems sender_id_stream [of "management_step e m" m] by simp
    then show ?case
      using Cons.IH [of "management_step e m"] foreign_step [of m owner e] Cons.prems by simp
  qed simp
  then show ?thesis
    using assms(1) sender_id_stream [of "fold management_step es m" m]
    by (simp add: active_sender_heartbeat_fresh_def elapsed_sec_def split: option.split)
qed

definition sample_client :: "string \<Rightarrow> client_metadata" where
  "sample_client cid = \<lparr>cm_device_id = cid, cm_user_agent = [], cm_platform = [], cm_language = [],
     cm_page_session_id = [], cm_remote_ip = ''127.0.0.1'', cm_connection_id = cid\<rparr>"

theorem foreign_connections_cannot_disturb_stream_witness:
  "mg_stream (fold management_step [Hello 7 (sample_client ''b''), Closed 9 ''b'']
      (start 5 sample_config (Some (sample_client ''a'')) (new_management 0)))
    = mg_stream (start 5 sample_config (Some (sample_client ''a'')) (new_management 0))"
proof (rule foreign_connections_cannot_disturb_stream [where owner = "''a''", THEN conjunct1])
  show "sender_id (start 5 sample_config (Some (sample_client ''a'')) (new_management 0)) = Some ''a''"
    by (simp add: start_def Let_def sender_id_def new_stream_def sample_client_def)
qed (simp add: sample_client_def)

end
