(* ===== verification/Control.thy ===== *)
theory Control
  imports Management
begin

text \<open>
  \<open>src/control.rs\<close>: the commands of the control channel and the telemetry messages.  The JSON form of both
  is the business of \<open>serde\<close>; a latency report is the record that the receiver makes of its fields.
\<close>

record start_request =
  sq_codec :: "string option"
  sq_resolution :: "string option"
  sq_fps :: "u32 option"
  sq_bitrate_mbps :: "f32 option"
  sq_latency_mode :: "string option"
  sq_aspect_mode :: "string option"
  sq_source_width :: "u32 option"
  sq_source_height :: "u32 option"
  sq_encoded_width :: "u32 option"
  sq_encoded_height :: "u32 option"
  sq_content_rect :: "string option"
  sq_signal_content_rect :: "string option"
  sq_panel_content_rect :: "string option"
  sq_signal_width :: "u32 option"
  sq_signal_height :: "u32 option"
  sq_panel_width :: "u32 option"
  sq_panel_height :: "u32 option"
  sq_connection_id :: "string option"
  sq_device_id :: "string option"

record client_hello =
  ch_device_id :: string
  ch_user_agent :: string
  ch_platform :: string
  ch_language :: string
  ch_page_session_id :: string
  ch_connection_id :: "string option"
  ch_remote_ip :: "string option"

datatype control_command =
    Start start_request
  | Stop
  | Admin_Stop
  | Restart_Receiver
  | Shutdown string
  | Client_Hello client_hello
  | Ping "u64 option" "f64 option"
  | Sync_Clock f64 f64
  | Get_Status
  | Client_Diagnostic string string
  | Latency_Report estimated_latency_snapshot

record status_message =
  sm_state :: string
  sm_resolution :: string
  sm_fps :: u32
  sm_display_resolution :: string
  sm_display_fps :: u32
  sm_bitrate_mbps :: f32
  sm_latency_mode :: string
  sm_edid_name :: string
  sm_edid_type :: string
  sm_edid_max_res :: string
  sm_edid_max_fps :: u32
  sm_display_max_fps :: u32
  sm_capture_resolution :: string
  sm_encoded_resolution :: string
  sm_aspect_mode :: string
  sm_content_rect :: string
  sm_signal_resolution :: string
  sm_panel_resolution :: string

record latency_sample =
  lm_seq :: u32
  lm_capture_time_ms :: f64
  lm_encode_duration_ms :: f32
  lm_send_start_time_ms :: f64
  lm_receiver_complete_time_ms :: f64
  lm_receiver_queue_ms :: f64

datatype telemetry_message =
    Pong "u64 option" "f64 option" "f64 option"
  | Latency_Sample latency_sample
  | Status status_message
  | Telemetry_Event string string

text \<open>The level and text of a client diagnostic, as both transports record it.\<close>

definition normalized_level :: "string \<Rightarrow> string" where
  "normalized_level level =
     (let l = to_ascii_lowercase level
      in if l = ''error'' then ''error'' else if l = ''warn'' \<or> l = ''warning'' then ''warn''
         else if l = ''debug'' then ''debug'' else ''info'')"

definition record_diagnostic :: "instant \<Rightarrow> string \<Rightarrow> string \<Rightarrow> string \<Rightarrow> management \<Rightarrow> management" where
  "record_diagnostic now client level message m =
     (let bounded_message = take_chars 4096 message
      in if bounded_message = [] then m
         else event now (normalized_level level) ''client_diagnostic''
                (''client='' @ client @ '': '' @ bounded_message) m)"

end
