(* ===== verification/Playback.thy ===== *)
theory Playback
  imports Config Rust_Float
begin

text \<open>
  \<open>src/playback.rs\<close>: the arguments of the GStreamer process, the engine that holds it, switching its
  configuration, and the pacing of latency samples.  Spawning a process is an outcome (\<open>bool\<close>); processes
  and the queues that feed them are numbered.
\<close>

section \<open>Latency samples\<close>

record playback_timing =
  pt_seq :: u32
  pt_capture_time_ms :: f64
  pt_encode_duration_ms :: f32
  pt_send_start_time_ms :: f64
  pt_receiver_complete_time_ms :: f64

record playback_buffer =
  pb_bytes :: "byte list"
  pb_timing :: "playback_timing option"

record playback_submission =
  pm_seq :: u32
  pm_capture_time_ms :: f64
  pm_encode_duration_ms :: f32
  pm_send_start_time_ms :: f64
  pm_receiver_complete_time_ms :: f64
  pm_receiver_queue_ms :: f64

definition receiver_queue_ms :: "f64 \<Rightarrow> f64 \<Rightarrow> f64" where
  "receiver_queue_ms receiver_complete_time_ms flush_time_ms =
     fp_max (f64_sub flush_time_ms receiver_complete_time_ms) (Finite False 0)"

text \<open>The writer thread, once a buffer is written and flushed at \<open>clock_ms\<close>.\<close>

definition submission_of :: "f64 \<Rightarrow> playback_buffer \<Rightarrow> playback_submission option" where
  "submission_of clock_ms b = map_option (\<lambda>t. \<lparr>pm_seq = pt_seq t, pm_capture_time_ms = pt_capture_time_ms t,
     pm_encode_duration_ms = pt_encode_duration_ms t, pm_send_start_time_ms = pt_send_start_time_ms t,
     pm_receiver_complete_time_ms = pt_receiver_complete_time_ms t,
     pm_receiver_queue_ms = receiver_queue_ms (pt_receiver_complete_time_ms t) clock_ms\<rparr>) (pb_timing b)"

record latency_ack_cadence =
  last_sent_at :: "instant option"
  interval :: duration

definition default_cadence :: latency_ack_cadence where
  "default_cadence = \<lparr>last_sent_at = None, interval = from_secs 1\<rparr>"

definition should_emit :: "instant \<Rightarrow> latency_ack_cadence \<Rightarrow> bool \<times> latency_ack_cadence" where
  "should_emit now c =
     (if (case last_sent_at c of None \<Rightarrow> True | Some l \<Rightarrow> now - l \<ge> interval c)
      then (True, c\<lparr>last_sent_at := Some now\<rparr>) else (False, c))"

definition reset_cadence :: "latency_ack_cadence \<Rightarrow> latency_ack_cadence" where
  "reset_cadence c = c\<lparr>last_sent_at := None\<rparr>"

section \<open>The pipeline\<close>

text \<open>Lower-casing beyond ASCII cannot produce or remove any of the texts compared here.\<close>

definition normalize_codec :: "string \<Rightarrow> string" where
  "normalize_codec codec =
     (let codec_lower = to_ascii_lowercase codec
      in if codec_lower = ''raw'' \<or> codec_lower = ''bgra'' \<or> codec_lower = ''dashboard'' then ''raw''
         else if str_contains ''264'' codec_lower then ''h264'' else ''h265'')"

definition encoded_pipeline_args :: "string \<Rightarrow> string list" where
  "encoded_pipeline_args norm_codec =
     (let (parser, bitstream_caps, decoder) =
        (if norm_codec = ''h264'' then (''h264parse'', ''video/x-h264'', ''v4l2slh264dec'')
         else (''h265parse'', ''video/x-h265'', ''v4l2slh265dec''))
      in [''fdsrc'', ''fd=0'', ''do-timestamp=true'',
          ''blocksize='' @ nat_to_string RAW_PIPELINE_BLOCK_SIZE, ''!'',
          parser, ''config-interval='' @ int_to_string ENCODED_CONFIG_INTERVAL, ''!'',
          ''capssetter'', ''caps='' @ bitstream_caps @ '',pixel-aspect-ratio=(fraction)15/16'',
          ''replace=false'', ''!'', decoder, ''!''])"

definition raw_pipeline_args :: "u32 \<Rightarrow> u32 \<Rightarrow> string list" where
  "raw_pipeline_args width height =
     [''fdsrc'', ''fd=0'', ''do-timestamp=true'', ''blocksize='' @ nat_to_string RAW_PIPELINE_BLOCK_SIZE, ''!'',
      ''rawvideoparse'', ''format=bgra'', ''width='' @ word_to_string width,
      ''height='' @ word_to_string height, ''framerate='' @ RAW_PIPELINE_FRAMERATE, ''!'']"

definition append_kms_sink_args :: "string list \<Rightarrow> string \<Rightarrow> string \<Rightarrow> string option \<Rightarrow> string list" where
  "append_kms_sink_args gst_args connector plane render_rect =
     gst_args @ [''kmssink'', ''driver-name=rockchip'', ''connector-id='' @ connector, ''plane-id='' @ plane]
     @ (case render_rect of None \<Rightarrow> [] | Some r \<Rightarrow> [''render-rectangle='' @ r])"

definition gst_args :: "environment \<Rightarrow> string \<Rightarrow> string \<Rightarrow> string option \<Rightarrow> u32 \<Rightarrow> u32 \<Rightarrow> string list" where
  "gst_args env codec connector render_rect width height =
     (let norm_codec = normalize_codec codec
      in append_kms_sink_args
           (''-q'' # (if norm_codec = ''raw'' then raw_pipeline_args width height
                      else encoded_pipeline_args norm_codec))
           connector (env_string_or env ''DRM_PLANE_ID'' DEFAULT_DRM_PLANE_ID) render_rect
         @ [''force-modesetting=false'', ''can-scale=true'', ''sync=false'', ''async=false'',
            ''skip-vsync=true'', ''max-lateness=0''])"

text \<open>The capacity of the queue that feeds the process.\<close>

definition queue_capacity :: "string \<Rightarrow> nat" where
  "queue_capacity norm_codec = (if norm_codec = ''raw'' then RAW_QUEUE_CAPACITY else ENCODED_QUEUE_CAPACITY)"

section \<open>The engine\<close>

text \<open>\<open>pe_process\<close> numbers the process, \<open>pe_alive\<close> says whether it runs; \<open>pe_writer\<close> and
  \<open>pe_dashboard_writer\<close> are the process that the engine's queue and the shared dashboard queue feed.\<close>

record playback_engine =
  pe_process :: nat
  pe_alive :: bool
  pe_args :: "string list"
  pe_writer :: nat
  pe_current_codec :: string
  pe_width :: u32
  pe_height :: u32
  pe_render_rect :: "string option"
  pe_aspect_mode :: string
  pe_dashboard_writer :: nat

definition start_persistent_playback ::
  "environment \<Rightarrow> bool \<Rightarrow> nat \<Rightarrow> string \<Rightarrow> string \<Rightarrow> string option \<Rightarrow> string \<Rightarrow> u32 \<Rightarrow> u32 \<Rightarrow> playback_engine option" where
  "start_persistent_playback env spawned n codec connector render_rect aspect_mode width height =
     (if \<not> spawned then None
      else Some \<lparr>pe_process = n, pe_alive = True, pe_args = gst_args env codec connector render_rect width height,
        pe_writer = n, pe_current_codec = normalize_codec codec, pe_width = width, pe_height = height,
        pe_render_rect = render_rect, pe_aspect_mode = aspect_mode, pe_dashboard_writer = n\<rparr>)"

definition ensure_configuration ::
  "environment \<Rightarrow> bool \<Rightarrow> string \<Rightarrow> string \<Rightarrow> string option \<Rightarrow> string \<Rightarrow> playback_engine \<Rightarrow> bool \<times> playback_engine" where
  "ensure_configuration env spawned target_codec connector render_rect aspect_mode e =
     (let norm = normalize_codec target_codec
      in if pe_current_codec e = norm \<and> pe_render_rect e = render_rect \<and> pe_aspect_mode e = aspect_mode
         then (True, e)
         else case start_persistent_playback env spawned (Suc (pe_process e)) norm connector render_rect
                     aspect_mode (pe_width e) (pe_height e) of
                None \<Rightarrow> (False, e\<lparr>pe_alive := False\<rparr>)
              | Some n \<Rightarrow> (True, n))"

definition is_configured :: "string \<Rightarrow> string option \<Rightarrow> string \<Rightarrow> playback_engine \<Rightarrow> bool" where
  "is_configured codec render_rect aspect_mode e \<longleftrightarrow>
     pe_current_codec e = normalize_codec codec \<and> pe_render_rect e = render_rect \<and> pe_aspect_mode e = aspect_mode"

lemma normalize_idem [simp]: "normalize_codec (normalize_codec c) = normalize_codec c"
proof -
  have "normalize_codec ''raw'' = ''raw''" "normalize_codec ''h264'' = ''h264''" "normalize_codec ''h265'' = ''h265''"
    by code_simp+
  moreover have "normalize_codec c \<in> {''raw'', ''h264'', ''h265''}"
    by (simp add: normalize_codec_def Let_def)
  ultimately show ?thesis
    by auto
qed

lemma ensure_ok:
  "fst (ensure_configuration env spawned codec connector rect aspect e)
   \<Longrightarrow> is_configured codec rect aspect (snd (ensure_configuration env spawned codec connector rect aspect e))"
  by (auto simp: ensure_configuration_def is_configured_def start_persistent_playback_def Let_def split: option.splits)

text \<open>
  Switching the pipeline: a switch that reports success leaves the engine at the requested codec,
  rectangle and aspect mode; if the configuration changed, a new process runs and both the engine's queue and the
  dashboard's shared queue feed it; asking again changes nothing.
\<close>

theorem switch_reaches_configuration:
  assumes "ensure_configuration env spawned codec connector rect aspect e = (True, e')"
  shows "is_configured codec rect aspect e'
    \<and> (e' \<noteq> e \<longrightarrow> pe_alive e' \<and> pe_process e' = Suc (pe_process e)
         \<and> pe_writer e' = pe_process e' \<and> pe_dashboard_writer e' = pe_process e')
    \<and> ensure_configuration env spawned' codec connector rect aspect e' = (True, e')"
proof -
  have c: "is_configured codec rect aspect e'"
    using ensure_ok [of env spawned codec connector rect aspect e] assms by simp
  moreover have "e' \<noteq> e \<longrightarrow> pe_alive e' \<and> pe_process e' = Suc (pe_process e)
      \<and> pe_writer e' = pe_process e' \<and> pe_dashboard_writer e' = pe_process e'"
    using assms by (auto simp: ensure_configuration_def start_persistent_playback_def Let_def
        split: option.splits if_splits)
  moreover have "ensure_configuration env spawned' codec connector rect aspect e' = (True, e')"
    using c by (simp add: ensure_configuration_def is_configured_def)
  ultimately show ?thesis
    by blast
qed

definition sample_engine :: playback_engine where
  "sample_engine = \<lparr>pe_process = 0, pe_alive = True, pe_args = [], pe_writer = 0, pe_current_codec = ''raw'',
     pe_width = 1920, pe_height = 1080, pe_render_rect = None, pe_aspect_mode = ''dashboard'',
     pe_dashboard_writer = 0\<rparr>"

theorem switch_reaches_configuration_witness:
  "\<exists>e'. ensure_configuration (\<lambda>_. None) True ''hevc'' ''54'' None ''composed'' sample_engine = (True, e')
     \<and> pe_current_codec e' = ''h265'' \<and> pe_dashboard_writer e' = 1"
proof -
  have n: "normalize_codec ''hevc'' = ''h265''"
    by code_simp
  then obtain e' where e: "ensure_configuration (\<lambda>_. None) True ''hevc'' ''54'' None ''composed'' sample_engine = (True, e')"
      "e' \<noteq> sample_engine"
    by (auto simp: ensure_configuration_def sample_engine_def start_persistent_playback_def Let_def)
  then show ?thesis
    using switch_reaches_configuration [OF e(1)] n by (auto simp: is_configured_def sample_engine_def)
qed

text \<open>
  A failed switch is not repaired: when the new process cannot be spawned the old one is already
  killed, but the engine still claims the old configuration, so asking for that configuration again reports
  success with no process running.
\<close>

theorem failed_switch_leaves_dead_pipeline:
  assumes "fst (ensure_configuration env False codec connector rect aspect e) = False"
    and "is_configured old old_rect old_aspect e"
  shows "let dead = snd (ensure_configuration env False codec connector rect aspect e)
         in \<not> pe_alive dead
            \<and> ensure_configuration env' spawned old connector old_rect old_aspect dead = (True, dead)"
  using assms by (auto simp: ensure_configuration_def start_persistent_playback_def is_configured_def Let_def
      split: if_splits)

theorem failed_switch_leaves_dead_pipeline_witness:
  "\<not> pe_alive (snd (ensure_configuration (\<lambda>_. None) False ''hevc'' ''54'' None ''composed'' sample_engine))"
proof -
  have n: "normalize_codec ''hevc'' = ''h265''" "normalize_codec ''raw'' = ''raw''"
    by code_simp+
  have "fst (ensure_configuration (\<lambda>_. None) False ''hevc'' ''54'' None ''composed'' sample_engine) = False"
    by (simp add: ensure_configuration_def start_persistent_playback_def sample_engine_def n)
  moreover have "is_configured ''raw'' None ''dashboard'' sample_engine"
    by (simp add: is_configured_def sample_engine_def n)
  ultimately show ?thesis
    using failed_switch_leaves_dead_pipeline by (simp add: Let_def)
qed

end
