(* ===== verification/Receiver.thy ===== *)
theory Receiver
  imports Control Playback Pairing
begin

text \<open>
  \<open>src/main.rs\<close>: the receiver's event loop.  Its local variables, the engine, the management state, the
  reassembly statics and the frame channel are one record; each arm of the \<open>select!\<close> is one step.  The
  telemetry sent, and the buffers handed to the playback process, are kept in order of sending.
\<close>

section \<open>Start\<close>

definition pairing_at_start :: "environment \<Rightarrow> receiver_settings \<Rightarrow> string + pairing_data" where
  "pairing_at_start env settings =
     (let fixed_pairing_code = (case env ''PAIRING_CODE_FIXED'' of None \<Rightarrow> None
            | Some v \<Rightarrow> if trim v \<noteq> [] then Some v else None)
      in if fixed_pairing_code \<noteq> None \<and> cloud_discovery_enabled settings
         then Inl ''fixed pairing codes cannot be used with Cloudflare discovery enabled''
         else with_fixed_code fixed_pairing_code (local_pairing_code_required settings))"

section \<open>State\<close>

record receiver_setup =
  re_env :: environment
  re_screen_w :: u32
  re_screen_h :: u32
  re_vrefresh :: u32
  re_connector :: string
  re_render_rect :: "string option"
  re_idle_codec :: string
  re_edid_name :: string
  re_edid_type :: string
  re_edid_max_res :: string
  re_edid_max_fps :: u32
  re_panel_resolution :: string
  re_idle_timeout_sec :: nat
  re_liveness_timeout_sec :: nat

record receiver =
  rv_streaming_active :: bool
  rv_fps :: u32
  rv_res :: string
  rv_bitrate_mbps :: f32
  rv_latency_mode :: string
  rv_capture_resolution :: string
  rv_encoded_resolution :: string
  rv_aspect_mode :: string
  rv_content_rect :: string
  rv_sent :: nat
  rv_media_stall_reported :: bool
  rv_cadence :: latency_ack_cadence
  rv_engine :: playback_engine
  rv_management :: management
  rv_reassembly :: reassembly
  rv_frames :: "video_frame list"
  rv_waiting :: "video_frame list"
  rv_telemetry :: "telemetry_message list"
  rv_played :: "playback_buffer list"
  rv_running :: bool

definition dims :: "u32 \<Rightarrow> u32 \<Rightarrow> string" where
  "dims w h = word_to_string w @ ''x'' @ word_to_string h"

definition initial_receiver :: "playback_engine \<Rightarrow> instant \<Rightarrow> receiver" where
  "initial_receiver engine now = \<lparr>rv_streaming_active = False, rv_fps = word_of_nat DEFAULT_ACTIVE_FPS,
     rv_res = DEFAULT_ACTIVE_RESOLUTION, rv_bitrate_mbps = Finite False 10,
     rv_latency_mode = DEFAULT_ACTIVE_LATENCY_MODE, rv_capture_resolution = [],
     rv_encoded_resolution = [], rv_aspect_mode = [], rv_content_rect = [], rv_sent = 0,
     rv_media_stall_reported = False, rv_cadence = default_cadence, rv_engine = engine,
     rv_management = new_management now, rv_reassembly = initial_reassembly, rv_frames = [], rv_waiting = [],
     rv_telemetry = [], rv_played = [], rv_running = True\<rparr>"

definition status ::
  "receiver_setup \<Rightarrow> string \<Rightarrow> string \<Rightarrow> u32 \<Rightarrow> f32 \<Rightarrow> string \<Rightarrow> string \<Rightarrow> string \<Rightarrow> string \<Rightarrow> string \<Rightarrow> telemetry_message" where
  "status e state res fps bw lat_mode capture encoded aspect content = Status \<lparr>sm_state = state,
     sm_resolution = res, sm_fps = fps, sm_display_resolution = dims (re_screen_w e) (re_screen_h e),
     sm_display_fps = re_vrefresh e, sm_bitrate_mbps = bw, sm_latency_mode = lat_mode,
     sm_edid_name = re_edid_name e, sm_edid_type = re_edid_type e, sm_edid_max_res = re_edid_max_res e,
     sm_edid_max_fps = re_edid_max_fps e, sm_display_max_fps = re_edid_max_fps e,
     sm_capture_resolution = capture, sm_encoded_resolution = encoded, sm_aspect_mode = aspect,
     sm_content_rect = content, sm_signal_resolution = dims (re_screen_w e) (re_screen_h e),
     sm_panel_resolution = re_panel_resolution e\<rparr>"

definition send_telemetry :: "telemetry_message \<Rightarrow> receiver \<Rightarrow> receiver" where
  "send_telemetry t r = r\<lparr>rv_telemetry := rv_telemetry r @ [t]\<rparr>"

text \<open>\<open>streaming_active.store(false)\<close>, \<open>latency_ack_cadence.reset()\<close> and the four \<open>clear()\<close>s.\<close>

definition clear_stream :: "receiver \<Rightarrow> receiver" where
  "clear_stream r = r\<lparr>rv_streaming_active := False, rv_cadence := reset_cadence (rv_cadence r),
     rv_capture_resolution := [], rv_encoded_resolution := [], rv_aspect_mode := [], rv_content_rect := []\<rparr>"

text \<open>\<open>ensure_configuration(&idle_dashboard_codec, ..., "dashboard")\<close> and the drain of the channel.\<close>

definition show_dashboard :: "receiver_setup \<Rightarrow> bool \<Rightarrow> receiver \<Rightarrow> receiver" where
  "show_dashboard e spawned r = r\<lparr>rv_engine := snd (ensure_configuration (re_env e) spawned (re_idle_codec e)
       (re_connector e) (re_render_rect e) ''dashboard'' (rv_engine r)), rv_frames := []\<rparr>"

definition reset_pipeline :: "receiver \<Rightarrow> receiver" where
  "reset_pipeline r = r\<lparr>rv_reassembly := reset_decoder_pipeline (rv_reassembly r)\<rparr>"

definition stop_session :: "instant \<Rightarrow> string \<Rightarrow> receiver \<Rightarrow> receiver" where
  "stop_session now reason r = r\<lparr>rv_management := snd (stop now reason (rv_management r))\<rparr>"

definition idle_status :: "receiver_setup \<Rightarrow> receiver \<Rightarrow> telemetry_message" where
  "idle_status e r = status e ''IDLE'' DEFAULT_IDLE_RESOLUTION (word_of_nat DEFAULT_IDLE_FPS)
     (rv_bitrate_mbps r) (rv_latency_mode r) [] [] [] []"

section \<open>Commands\<close>

definition handle_stop :: "receiver_setup \<Rightarrow> instant \<Rightarrow> bool \<Rightarrow> receiver \<Rightarrow> receiver" where
  "handle_stop e now spawned r =
     (let r = show_dashboard e spawned (reset_pipeline (clear_stream
                ((stop_session now ''user_stop'' r)\<lparr>rv_media_stall_reported := False\<rparr>)))
      in send_telemetry (idle_status e r) r)"

definition handle_admin_stop :: "receiver_setup \<Rightarrow> instant \<Rightarrow> bool \<Rightarrow> receiver \<Rightarrow> receiver" where
  "handle_admin_stop e now spawned r =
     (let r = show_dashboard e spawned (reset_pipeline (clear_stream
                ((stop_session now ''admin_stop'' r)\<lparr>rv_media_stall_reported := False\<rparr>)))
      in send_telemetry (status e ''IDLE'' DEFAULT_IDLE_RESOLUTION 0 (Finite False 0) [] [] [] [] []) r)"

definition hello_metadata :: "client_hello \<Rightarrow> client_metadata" where
  "hello_metadata h = \<lparr>cm_device_id = ch_device_id h, cm_user_agent = ch_user_agent h,
     cm_platform = ch_platform h, cm_language = ch_language h, cm_page_session_id = ch_page_session_id h,
     cm_remote_ip = (case ch_remote_ip h of None \<Rightarrow> ''unknown'' | Some i \<Rightarrow> i),
     cm_connection_id = (case ch_connection_id h of None \<Rightarrow> ''legacy'' | Some i \<Rightarrow> i)\<rparr>"

definition or_default :: "'a \<Rightarrow> 'a option \<Rightarrow> 'a" where
  "or_default d x = (case x of None \<Rightarrow> d | Some v \<Rightarrow> v)"

definition start_sender :: "start_request \<Rightarrow> management \<Rightarrow> client_metadata option" where
  "start_sender q m =
     (case sq_connection_id q \<bind> mg_connections m of None \<Rightarrow> None
      | Some c \<Rightarrow> Some \<lparr>cm_device_id = (if cr_device_id c = [] then or_default [] (sq_device_id q) else cr_device_id c),
          cm_user_agent = cr_user_agent c, cm_platform = cr_platform c, cm_language = cr_language c,
          cm_page_session_id = cr_page_session_id c, cm_remote_ip = cr_remote_ip c,
          cm_connection_id = cr_connection_id c\<rparr>)"

definition handle_start :: "receiver_setup \<Rightarrow> instant \<Rightarrow> start_request \<Rightarrow> receiver \<Rightarrow> receiver" where
  "handle_start e now q r =
     (let aspect_mode = (if sq_aspect_mode q = Some ''stretch'' then ''stretch'' else DEFAULT_ASPECT_MODE);
          res_str = or_default DEFAULT_ACTIVE_RESOLUTION (sq_resolution q);
          stream_fps = or_default (word_of_nat DEFAULT_ACTIVE_FPS) (sq_fps q);
          bw = or_default (Finite False 10) (sq_bitrate_mbps q);
          lat_mode = or_default DEFAULT_ACTIVE_LATENCY_MODE (sq_latency_mode q);
          capture_res = (case (sq_source_width q, sq_source_height q) of
            (Some w, Some h) \<Rightarrow> dims w h | _ \<Rightarrow> []);
          encoded_res = (case (sq_encoded_width q, sq_encoded_height q) of
            (Some w, Some h) \<Rightarrow> dims w h | _ \<Rightarrow> res_str);
          content_rect = or_default [] (sq_content_rect q);
          config = \<lparr>sc_codec = or_default DEFAULT_CODEC (sq_codec q), sc_resolution = res_str,
            sc_fps = stream_fps, sc_bitrate_mbps = bw, sc_latency_mode = lat_mode,
            sc_aspect_mode = aspect_mode, sc_capture_resolution = capture_res,
            sc_encoded_resolution = encoded_res\<rparr>
      in send_telemetry (status e ''STREAMING'' res_str stream_fps bw lat_mode capture_res encoded_res
             aspect_mode content_rect)
           (r\<lparr>rv_streaming_active := True, rv_cadence := reset_cadence (rv_cadence r),
              rv_media_stall_reported := False,
              rv_management := start now config (start_sender q (rv_management r)) (rv_management r),
              rv_capture_resolution := capture_res, rv_encoded_resolution := encoded_res,
              rv_aspect_mode := aspect_mode, rv_content_rect := content_rect, rv_fps := stream_fps,
              rv_res := res_str, rv_bitrate_mbps := bw, rv_latency_mode := lat_mode\<rparr>))"

definition handle_get_status :: "receiver_setup \<Rightarrow> receiver \<Rightarrow> receiver" where
  "handle_get_status e r =
     (let is_act = rv_streaming_active r
      in send_telemetry (status e (if is_act then ''STREAMING'' else ''IDLE'')
            (if is_act then rv_res r else DEFAULT_IDLE_RESOLUTION) (if is_act then rv_fps r else 0)
            (rv_bitrate_mbps r) (rv_latency_mode r) (rv_capture_resolution r) (rv_encoded_resolution r)
            (rv_aspect_mode r) (rv_content_rect r)) r)"

fun handle_command :: "receiver_setup \<Rightarrow> instant \<Rightarrow> bool \<Rightarrow> control_command \<Rightarrow> receiver \<Rightarrow> receiver" where
  "handle_command e now spawned Stop r = handle_stop e now spawned r"
| "handle_command e now spawned Admin_Stop r = handle_admin_stop e now spawned r"
| "handle_command e now spawned Restart_Receiver r = (stop_session now ''settings_restart'' r)\<lparr>rv_running := False\<rparr>"
| "handle_command e now spawned (Shutdown reason) r = (stop_session now reason r)\<lparr>rv_running := False\<rparr>"
| "handle_command e now spawned (Client_Hello h) r =
     r\<lparr>rv_management := hello now (hello_metadata h) (rv_management r)\<rparr>"
| "handle_command e now spawned (Start q) r = handle_start e now q r"
| "handle_command e now spawned (Ping pid _) r = send_telemetry (Pong pid None None) r"
| "handle_command e now spawned (Client_Diagnostic level message) r =
     r\<lparr>rv_management := record_diagnostic now ''legacy'' level message (rv_management r)\<rparr>"
| "handle_command e now spawned (Latency_Report _) r = r"
| "handle_command e now spawned (Sync_Clock _ _) r = r"
| "handle_command e now spawned Get_Status r = handle_get_status e r"

section \<open>Frames\<close>

definition handle_stop_frame :: "receiver_setup \<Rightarrow> instant \<Rightarrow> bool \<Rightarrow> receiver \<Rightarrow> receiver" where
  "handle_stop_frame e now spawned r =
     (let r = show_dashboard e spawned (reset_pipeline (clear_stream (stop_session now ''user_stop'' r)))
      in send_telemetry (idle_status e r) r)"

definition frame_timing :: "video_frame \<Rightarrow> playback_timing option" where
  "frame_timing f =
     (case (vf_capture_time_ms f, vf_encode_duration_ms f, vf_send_start_time_ms f, vf_receiver_complete_time_ms f) of
        (Some c, Some d, Some s, Some t) \<Rightarrow> Some \<lparr>pt_seq = vf_seq f, pt_capture_time_ms = c,
          pt_encode_duration_ms = d, pt_send_start_time_ms = s, pt_receiver_complete_time_ms = t\<rparr>
      | _ \<Rightarrow> None)"

definition streaming_status :: "receiver_setup \<Rightarrow> video_frame \<Rightarrow> receiver \<Rightarrow> telemetry_message" where
  "streaming_status e f r = status e ''STREAMING'' (dims (vf_width f) (vf_height f)) (rv_fps r)
     (rv_bitrate_mbps r) (rv_latency_mode r) [] [] [] []"

text \<open>The auto-start block: \<open>streaming_active.swap(true)\<close> returns what the earlier \<open>store(true)\<close> left.\<close>

definition auto_start :: "receiver_setup \<Rightarrow> video_frame \<Rightarrow> receiver \<Rightarrow> receiver" where
  "auto_start e f r =
     (if vf_seq f \<le> 1 then
        let was_active = rv_streaming_active r;
            r = r\<lparr>rv_streaming_active := True, rv_res := dims (vf_width f) (vf_height f)\<rparr>
        in if was_active then r else send_telemetry (streaming_status e f r) r
      else r)"

definition play_frame :: "receiver_setup \<Rightarrow> instant \<Rightarrow> video_frame \<Rightarrow> receiver \<Rightarrow> receiver" where
  "play_frame e now f r =
     (let latency_ms = as_millis_f32 (now - vf_first_packet_at f);
          r = r\<lparr>rv_played := rv_played r @ [\<lparr>pb_bytes = vf_access_unit f, pb_timing = frame_timing f\<rparr>],
                rv_sent := rv_sent r + 1, rv_media_stall_reported := False,
                rv_management := record_frame now (vf_seq f) (length (vf_access_unit f)) latency_ms (rv_management r)\<rparr>
      in if rv_sent r = 1 \<or> rv_sent r mod 30 = 0 then send_telemetry (streaming_status e f r) r else r)"

text \<open>Before a frame is played: mark the stream active, switch the pipeline, announce the start.\<close>

definition prepare_frame :: "receiver_setup \<Rightarrow> bool \<Rightarrow> video_frame \<Rightarrow> receiver \<Rightarrow> receiver" where
  "prepare_frame e spawned f r =
     (let r = (if vf_seq f \<le> 1 then r\<lparr>rv_streaming_active := True, rv_cadence := reset_cadence (rv_cadence r)\<rparr> else r);
          r = r\<lparr>rv_engine := snd (ensure_configuration (re_env e) spawned (vf_codec f) (re_connector e)
                     (re_render_rect e) ''composed'' (rv_engine r))\<rparr>
      in auto_start e f r)"

text \<open>\<open>accepted\<close> says whether the writer thread still takes buffers.\<close>

definition handle_frame :: "receiver_setup \<Rightarrow> instant \<Rightarrow> bool \<Rightarrow> bool \<Rightarrow> video_frame \<Rightarrow> receiver \<Rightarrow> receiver" where
  "handle_frame e now spawned accepted f r =
     (if vf_codec f = ''stop'' then handle_stop_frame e now spawned r
      else if vf_codec f \<noteq> ''hevc'' \<and> vf_codec f \<noteq> ''h264'' then r
      else if \<not> rv_streaming_active r \<and> vf_seq f > 1 then r
      else
        let r = prepare_frame e spawned f r
        in if \<not> rv_streaming_active r then r
           else if \<not> accepted then r
           else play_frame e now f r)"

definition handle_idle_timeout :: "receiver_setup \<Rightarrow> instant \<Rightarrow> bool \<Rightarrow> receiver \<Rightarrow> receiver" where
  "handle_idle_timeout e now spawned r =
     (if \<not> rv_streaming_active r then r
      else if active_sender_heartbeat_fresh now (from_secs (re_liveness_timeout_sec e)) (rv_management r)
      then if rv_media_stall_reported r then r
           else r\<lparr>rv_management := event now ''warn'' ''media_stalled_sender_alive''
                    (''no frames for '' @ nat_to_string (re_idle_timeout_sec e)
                     @ ''s while sender heartbeat remained fresh'') (rv_management r),
                  rv_media_stall_reported := True\<rparr>
      else
        let r = show_dashboard e spawned
                  ((clear_stream (stop_session now ''idle_timeout'' r))\<lparr>rv_media_stall_reported := False\<rparr>)
        in send_telemetry (idle_status e r) r)"

section \<open>Health and latency samples\<close>

definition playback_state :: "bool \<Rightarrow> playback_engine \<Rightarrow> string" where
  "playback_state exited e =
     (if exited then ''error''
      else if pe_current_codec e = ''h264'' then ''h264'' else if pe_current_codec e = ''h265'' then ''h265''
      else ''idle_dashboard'')"

definition handle_submission :: "receiver_setup \<Rightarrow> instant \<Rightarrow> playback_submission \<Rightarrow> receiver \<Rightarrow> receiver" where
  "handle_submission e now s r =
     (if \<not> rv_streaming_active r then r
      else case should_emit now (rv_cadence r) of
        (False, c) \<Rightarrow> r\<lparr>rv_cadence := c\<rparr>
      | (True, c) \<Rightarrow>
        send_telemetry (Latency_Sample \<lparr>lm_seq = pm_seq s, lm_capture_time_ms = pm_capture_time_ms s,
            lm_encode_duration_ms = pm_encode_duration_ms s, lm_send_start_time_ms = pm_send_start_time_ms s,
            lm_receiver_complete_time_ms = pm_receiver_complete_time_ms s,
            lm_receiver_queue_ms = pm_receiver_queue_ms s\<rparr>)
          (r\<lparr>rv_cadence := c, rv_management := snd (record_receiver_estimated_latency now (pm_seq s)
               (pm_capture_time_ms s) (pm_encode_duration_ms s) (pm_send_start_time_ms s)
               (pm_receiver_complete_time_ms s) (pm_receiver_queue_ms s) (re_vrefresh e) (rv_management r))\<rparr>))"

section \<open>The loop\<close>

text \<open>
  What the loop and the tasks beside it can do next: an arm of the \<open>select!\<close>, a packet that reaches the
  reassembly, a stop frame that a closing session sends, a waiting sender that gets its place in the channel,
  or a transport's own call on the management state.
\<close>

datatype receiver_event =
    Health_Tick instant bool "(f64 \<times> f64 \<times> f64) option" "(nat \<times> nat) option" "f64 option"
  | Submitted instant playback_submission
  | Command instant bool control_command
  | Take_Frame instant bool bool
  | Idle_Timeout instant bool
  | Channel_Closed
  | Packet instant f64 "byte list"
  | Stop_Enters instant
  | Sender_Resumes
  | Transport_Closed instant string
  | Transport_Touch instant string
  | Transport_Event instant string string string
  | Transport_Sync instant string f64 f64
  | Transport_Report instant string estimated_latency_snapshot

text \<open>\<open>frame_tx.send(frame).await\<close>: into the channel if it has room and nobody waits, else into the line of
  waiting senders.  A drain empties the channel, not the line.\<close>

definition send_frame :: "video_frame \<Rightarrow> receiver \<Rightarrow> receiver" where
  "send_frame f r =
     (if length (rv_frames r) < FRAME_CHANNEL_CAPACITY \<and> rv_waiting r = [] then r\<lparr>rv_frames := rv_frames r @ [f]\<rparr>
      else r\<lparr>rv_waiting := rv_waiting r @ [f]\<rparr>)"

definition resume_sender :: "receiver \<Rightarrow> receiver" where
  "resume_sender r =
     (case rv_waiting r of [] \<Rightarrow> r
      | f # fs \<Rightarrow> if length (rv_frames r) < FRAME_CHANNEL_CAPACITY
                 then r\<lparr>rv_frames := rv_frames r @ [f], rv_waiting := fs\<rparr> else r)"

fun receiver_step :: "receiver_setup \<Rightarrow> receiver_event \<Rightarrow> receiver \<Rightarrow> receiver" where
  "receiver_step e (Health_Tick now exited load memory soc) r =
     r\<lparr>rv_management := refresh_system_health load memory soc
         (refresh_pipeline_health (playback_state exited (rv_engine r)) (read_reassembly_stats (rv_reassembly r))
           (rv_management r))\<rparr>"
| "receiver_step e (Submitted now s) r = handle_submission e now s r"
| "receiver_step e (Command now spawned c) r = handle_command e now spawned c r"
| "receiver_step e (Take_Frame now spawned accepted) r =
     (case rv_frames r of [] \<Rightarrow> r | f # fs \<Rightarrow> handle_frame e now spawned accepted f (r\<lparr>rv_frames := fs\<rparr>))"
| "receiver_step e (Idle_Timeout now spawned) r = handle_idle_timeout e now spawned r"
| "receiver_step e Channel_Closed r = r\<lparr>rv_running := False\<rparr>"
| "receiver_step e (Packet now clock p) r =
     (case process_udp_chunk now clock p (rv_reassembly r) of
        (None, s) \<Rightarrow> r\<lparr>rv_reassembly := s\<rparr>
      | (Some f, s) \<Rightarrow> send_frame f (r\<lparr>rv_reassembly := s\<rparr>))"
| "receiver_step e (Stop_Enters now) r = send_frame (stop_frame now) r"
| "receiver_step e Sender_Resumes r = resume_sender r"
| "receiver_step e (Transport_Closed now cid) r = r\<lparr>rv_management := snd (connection_closed now cid (rv_management r))\<rparr>"
| "receiver_step e (Transport_Touch now cid) r = r\<lparr>rv_management := snd (touch_connection now cid (rv_management r))\<rparr>"
| "receiver_step e (Transport_Event now l k t) r = r\<lparr>rv_management := event now l k t (rv_management r)\<rparr>"
| "receiver_step e (Transport_Sync now cid offset uncertainty) r =
     r\<lparr>rv_management := snd (record_clock_sync now cid offset uncertainty (rv_management r))\<rparr>"
| "receiver_step e (Transport_Report now cid x) r =
     r\<lparr>rv_management := snd (record_estimated_latency now cid x (rv_management r))\<rparr>"

end
