(* ===== verification/Receiver_Correct.thy ===== *)
theory Receiver_Correct
  imports Receiver Reassembly_Correct Management_Correct
begin

text \<open>
  What the event loop promises across its components: the well-formedness of the reassembly and the management
  state is never lost, a session is open only while streaming, every way of ending a stream leads back to the
  dashboard, and frames that trail a stop are not played.
\<close>

section \<open>The invariant\<close>

definition receiver_ok :: "receiver \<Rightarrow> bool" where
  "receiver_ok r \<longleftrightarrow>
     reassembly_ok (rv_reassembly r) \<and> management_ok (rv_management r)
     \<and> length (rv_frames r) \<le> FRAME_CHANNEL_CAPACITY
     \<and> (mg_stream (rv_management r) \<noteq> None \<longrightarrow> rv_streaming_active r)"

lemma stop_closes [simp]: "mg_stream (snd (stop now reason m)) = None"
  by (simp add: stop_def)

lemma send_telemetry_fields [simp]:
  "rv_reassembly (send_telemetry t r) = rv_reassembly r" "rv_management (send_telemetry t r) = rv_management r"
  "rv_frames (send_telemetry t r) = rv_frames r" "rv_streaming_active (send_telemetry t r) = rv_streaming_active r"
  "rv_engine (send_telemetry t r) = rv_engine r" "rv_telemetry (send_telemetry t r) = rv_telemetry r @ [t]"
  "rv_played (send_telemetry t r) = rv_played r" "rv_sent (send_telemetry t r) = rv_sent r"
  "rv_fps (send_telemetry t r) = rv_fps r" "rv_bitrate_mbps (send_telemetry t r) = rv_bitrate_mbps r"
  "rv_latency_mode (send_telemetry t r) = rv_latency_mode r"
  by (simp_all add: send_telemetry_def)

lemmas ending_defs = handle_stop_def handle_admin_stop_def handle_stop_frame_def show_dashboard_def
  reset_pipeline_def clear_stream_def stop_session_def idle_status_def

lemma refresh_ok:
  "management_ok m \<Longrightarrow> management_ok (refresh_system_health l k s (refresh_pipeline_health p st m))"
  "mg_stream (refresh_system_health l k s m) = mg_stream m" "mg_stream (refresh_pipeline_health p st m) = mg_stream m"
  by (simp_all add: refresh_system_health_def refresh_pipeline_health_def management_ok_def logs_bounded_def
      ids_ok_def sharing_ok_def syncs_ok_def is_connected_def sender_id_def)

lemma reset_keeps_ok: "reassembly_ok s \<Longrightarrow> reassembly_ok (reset_decoder_pipeline s)"
  by (simp add: reset_decoder_pipeline_def reassembly_ok_def)

lemma diagnostic_ok:
  "management_ok m \<Longrightarrow> management_ok (record_diagnostic now c l t m)"
  "mg_stream (record_diagnostic now c l t m) = mg_stream m"
  by (simp_all add: record_diagnostic_def Let_def)

lemma hello_stream [simp]: "mg_stream (hello now d m) = mg_stream m"
  by (simp add: hello_def Let_def)

lemma touch_stream [simp]: "mg_stream (snd (touch_connection now cid m)) = mg_stream m"
  by (simp add: touch_connection_def split: option.splits)

lemma closed_stream: "mg_stream (snd (connection_closed now cid m)) \<noteq> None \<Longrightarrow> mg_stream m \<noteq> None"
  by (auto simp: connection_closed_def Let_def split: if_splits)

lemma sync_stream [simp]: "mg_stream (snd (record_clock_sync now cid a b m)) = mg_stream m"
  by (simp add: record_clock_sync_def)

lemma report_stream: "mg_stream (snd (record_estimated_latency now cid x m)) \<noteq> None \<longleftrightarrow> mg_stream m \<noteq> None"
  by (auto simp: record_estimated_latency_def Let_def split: option.splits)

lemma submission_stream:
  "mg_stream (snd (record_receiver_estimated_latency now sq a b c d q fps m)) \<noteq> None \<longleftrightarrow> mg_stream m \<noteq> None"
  by (auto simp: record_receiver_estimated_latency_def Let_def split: option.splits)

lemma frame_stream: "mg_stream (record_frame now sq b l m) \<noteq> None \<longleftrightarrow> mg_stream m \<noteq> None"
  by (simp add: record_frame_stream)

lemma command_ok: "receiver_ok r \<Longrightarrow> receiver_ok (handle_command e now spawned c r)"
  by (cases c) (auto simp: receiver_ok_def ending_defs Let_def handle_start_def handle_get_status_def
      stop_ok start_ok hello_ok reset_keeps_ok diagnostic_ok)

lemma played_ok:
  assumes "receiver_ok r" and "rv_streaming_active r"
  shows "receiver_ok (play_frame e now f r)"
proof -
  have "management_ok (record_frame now (vf_seq f) (length (vf_access_unit f))
      (as_millis_f32 (now - vf_first_packet_at f)) (rv_management r))"
    using assms(1) by (simp add: receiver_ok_def frame_ok')
  then show ?thesis
    using assms by (auto simp: play_frame_def Let_def receiver_ok_def)
qed

lemma auto_start_fields [simp]:
  "rv_reassembly (auto_start e f r) = rv_reassembly r" "rv_management (auto_start e f r) = rv_management r"
  "rv_frames (auto_start e f r) = rv_frames r"
  "rv_streaming_active (auto_start e f r) = (rv_streaming_active r \<or> vf_seq f \<le> 1)"
  "rv_sent (auto_start e f r) = rv_sent r" "rv_engine (auto_start e f r) = rv_engine r"
  "rv_played (auto_start e f r) = rv_played r"
  by (auto simp: auto_start_def Let_def)

lemma prepare_frame_fields [simp]:
  "rv_reassembly (prepare_frame e sp f r) = rv_reassembly r" "rv_management (prepare_frame e sp f r) = rv_management r"
  "rv_frames (prepare_frame e sp f r) = rv_frames r"
  "rv_streaming_active (prepare_frame e sp f r) = (rv_streaming_active r \<or> vf_seq f \<le> 1)"
  "rv_sent (prepare_frame e sp f r) = rv_sent r" "rv_played (prepare_frame e sp f r) = rv_played r"
  by (auto simp: prepare_frame_def Let_def)

lemma frame_step_ok: "receiver_ok r \<Longrightarrow> receiver_ok (handle_frame e now spawned accepted f r)"
proof -
  assume r: "receiver_ok r"
  have stop: "receiver_ok (handle_stop_frame e now spawned r)"
    using r by (simp add: receiver_ok_def ending_defs Let_def stop_ok reset_keeps_ok)
  have "receiver_ok (prepare_frame e spawned f r)"
    using r by (auto simp: receiver_ok_def)
  then show ?thesis
    using r stop played_ok [of "prepare_frame e spawned f r"] by (simp add: handle_frame_def Let_def)
qed

lemma send_frame_ok: "receiver_ok r \<Longrightarrow> receiver_ok (send_frame f r)"
  by (simp add: send_frame_def receiver_ok_def)

lemma receiver_step_ok: "receiver_ok r \<Longrightarrow> receiver_ok (receiver_step e ev r)"
proof (cases ev)
  case (Packet now clock p)
  assume r: "receiver_ok r"
  obtain o' s where p: "process_udp_chunk now clock p (rv_reassembly r) = (o', s)"
    by fastforce
  then have "reassembly_ok s"
    using r process_ok [of "rv_reassembly r" now clock p] by (simp add: receiver_ok_def)
  then have "receiver_ok (r\<lparr>rv_reassembly := s\<rparr>)"
    using r by (simp add: receiver_ok_def)
  then show ?thesis
    by (simp add: Packet p send_frame_ok split: option.splits)
next
  case (Take_Frame now spawned accepted)
  assume r: "receiver_ok r"
  show ?thesis
  proof (cases "rv_frames r")
    case (Cons f fs)
    then have "receiver_ok (r\<lparr>rv_frames := fs\<rparr>)"
      using r by (simp add: receiver_ok_def)
    then show ?thesis
      by (simp add: Take_Frame Cons frame_step_ok)
  qed (use r in \<open>simp add: Take_Frame\<close>)
next
  case (Submitted now s)
  assume r: "receiver_ok r"
  then have "rv_streaming_active r \<Longrightarrow> receiver_ok (handle_submission e now s r)"
    by (auto simp: handle_submission_def receiver_ok_def submission_ok split: prod.splits bool.splits)
  then show ?thesis
    using r by (cases "rv_streaming_active r") (simp_all add: Submitted handle_submission_def)
next
  case (Transport_Closed now cid)
  assume "receiver_ok r"
  then show ?thesis
    using closed_stream [of now cid "rv_management r"] by (simp add: Transport_Closed receiver_ok_def closed_ok)
next
  case (Idle_Timeout now spawned)
  assume "receiver_ok r"
  then show ?thesis
    by (auto simp: Idle_Timeout handle_idle_timeout_def receiver_ok_def ending_defs Let_def stop_ok)
next
  case (Transport_Report now cid x)
  assume "receiver_ok r"
  then show ?thesis
    using report_stream [of now cid x "rv_management r"] by (simp add: Transport_Report receiver_ok_def report_ok)
qed (auto simp: receiver_ok_def refresh_ok command_ok [unfolded receiver_ok_def] touch_ok sync_ok send_frame_ok [unfolded receiver_ok_def]
    resume_sender_def split: list.splits)

interpretation loop: invariant_machine "receiver_step e" receiver_ok "\<lambda>_. True"
  by unfold_locales (rule receiver_step_ok)

lemma initial_receiver_ok: "receiver_ok (initial_receiver engine now)"
  by (simp add: receiver_ok_def initial_receiver_def initial_ok new_management_ok)
     (simp add: new_management_def)

section \<open>Ending a stream\<close>

text \<open>Nothing is streamed: no session, no queued frame, no stream geometry, and the last word to the clients
  is the status IDLE.\<close>

definition back_to_idle :: "receiver \<Rightarrow> bool" where
  "back_to_idle r \<longleftrightarrow>
     \<not> rv_streaming_active r \<and> mg_stream (rv_management r) = None \<and> rv_frames r = []
     \<and> rv_capture_resolution r = [] \<and> rv_encoded_resolution r = [] \<and> rv_aspect_mode r = []
     \<and> rv_content_rect r = []
     \<and> (case last (rv_telemetry r) of Status m \<Rightarrow> sm_state m = ''IDLE'' \<and> sm_resolution m = ''0x0'' \<and> sm_fps m = 0
        | _ \<Rightarrow> False)"

text \<open>What the engine claims to show, and that its process has been started and not been killed since.\<close>

definition dashboard_configured :: "receiver_setup \<Rightarrow> receiver \<Rightarrow> bool" where
  "dashboard_configured e r \<longleftrightarrow> is_configured (re_idle_codec e) (re_render_rect e) ''dashboard'' (rv_engine r)"

definition shows_dashboard :: "receiver_setup \<Rightarrow> receiver \<Rightarrow> bool" where
  "shows_dashboard e r \<longleftrightarrow> dashboard_configured e r \<and> pe_alive (rv_engine r)"

text \<open>What a failed switch away from the dashboard leaves.\<close>

definition dead_dashboard :: "receiver_setup \<Rightarrow> receiver \<Rightarrow> bool" where
  "dead_dashboard e r \<longleftrightarrow> dashboard_configured e r \<and> \<not> pe_alive (rv_engine r)"

lemma dashboard_reached: "is_configured c rect a (snd (ensure_configuration env True c connector rect a eng))"
  by (rule ensure_ok) (simp add: ensure_configuration_def start_persistent_playback_def Let_def)

lemma alive_after_switch:
  "pe_alive (snd (ensure_configuration env True c connector rect a eng)) \<longleftrightarrow> \<not> (is_configured c rect a eng \<and> \<not> pe_alive eng)"
  by (auto simp: ensure_configuration_def start_persistent_playback_def is_configured_def Let_def)

lemmas dashboard_defs = shows_dashboard_def dead_dashboard_def dashboard_configured_def dashboard_reached alive_after_switch

lemma stop_ends:
  "back_to_idle (handle_stop e now spawned r)" "back_to_idle (handle_admin_stop e now spawned r)"
  "back_to_idle (handle_stop_frame e now spawned r)"
  by (simp_all add: back_to_idle_def ending_defs Let_def status_def send_telemetry_def limits)

lemma stop_resets:
  "assemblies (rv_reassembly (handle_stop e now spawned r)) = []"
  "assemblies (rv_reassembly (handle_admin_stop e now spawned r)) = []"
  "assemblies (rv_reassembly (handle_stop_frame e now spawned r)) = []"
  "last_completed_seq (rv_reassembly (handle_stop e now spawned r)) = 0"
  "last_completed_seq (rv_reassembly (handle_admin_stop e now spawned r)) = 0"
  "last_completed_seq (rv_reassembly (handle_stop_frame e now spawned r)) = 0"
  by (simp_all add: ending_defs Let_def reset_decoder_pipeline_def send_telemetry_def)

lemma stop_shows:
  "dashboard_configured e (handle_stop e now True r)" "dashboard_configured e (handle_admin_stop e now True r)"
  "dashboard_configured e (handle_stop_frame e now True r)"
  "shows_dashboard e (handle_stop e now True r) \<longleftrightarrow> \<not> dead_dashboard e r"
  "shows_dashboard e (handle_admin_stop e now True r) \<longleftrightarrow> \<not> dead_dashboard e r"
  "shows_dashboard e (handle_stop_frame e now True r) \<longleftrightarrow> \<not> dead_dashboard e r"
  by (simp_all add: dashboard_defs ending_defs Let_def send_telemetry_def)

lemma idle_timeout_ends:
  assumes "rv_streaming_active r"
    and "\<not> active_sender_heartbeat_fresh now (from_secs (re_liveness_timeout_sec e)) (rv_management r)"
  shows "back_to_idle (handle_idle_timeout e now spawned r)"
    "dashboard_configured e (handle_idle_timeout e now True r)"
    "shows_dashboard e (handle_idle_timeout e now True r) \<longleftrightarrow> \<not> dead_dashboard e r"
  using assms by (simp_all add: handle_idle_timeout_def back_to_idle_def dashboard_defs ending_defs Let_def
      status_def send_telemetry_def limits)

section \<open>Properties\<close>

text \<open>
  Property C14. Across the whole receiver, whatever happens in whatever order (commands, packets, frames, timeouts,
  submissions, connections coming and going, processes failing to start): the reassembly and the management state
  stay well formed, at most two frames are queued, and a session is open only while the receiver is streaming.
\<close>

theorem receiver_always_well_formed: "receiver_ok (fold (receiver_step e) es (initial_receiver engine t0))"
  by (rule loop.run_inv [OF initial_receiver_ok]) (simp add: list_all_iff)

text \<open>
  Property C15. Every way of ending a stream leads back to the dashboard: after a stop command, an administrative
  stop, a stop frame, or an idle timeout with a stale sender, nothing is streamed, no session is open, the frame
  channel is empty, clients are told IDLE, and, when the process can be spawned, the engine is configured for the dashboard.
  Its process is then one that was started and not killed since, with one exception: an engine that already claimed the
  dashboard after a failed switch had killed its process keeps claiming it, and none is started.  The first three endings
  also discard every partial access unit and forget the last completed sequence number.
\<close>

theorem every_ending_restores_dashboard:
  assumes "r' \<in> {handle_stop e now True r, handle_admin_stop e now True r, handle_stop_frame e now True r}
      \<and> discards = True
    \<or> r' = handle_idle_timeout e now True r \<and> rv_streaming_active r
      \<and> \<not> active_sender_heartbeat_fresh now (from_secs (re_liveness_timeout_sec e)) (rv_management r)
      \<and> discards = False"
  shows "back_to_idle r' \<and> dashboard_configured e r'
    \<and> (pe_alive (rv_engine r') \<longleftrightarrow> \<not> (dashboard_configured e r \<and> \<not> pe_alive (rv_engine r)))
    \<and> (discards \<longrightarrow> assemblies (rv_reassembly r') = [] \<and> last_completed_seq (rv_reassembly r') = 0)"
proof -
  have "shows_dashboard e r' \<longleftrightarrow> \<not> dead_dashboard e r" and c: "dashboard_configured e r'"
    using assms by (auto simp: stop_shows idle_timeout_ends)
  then have "pe_alive (rv_engine r') \<longleftrightarrow> \<not> (dashboard_configured e r \<and> \<not> pe_alive (rv_engine r))"
    by (simp add: shows_dashboard_def dead_dashboard_def)
  then show ?thesis
    using assms c by (auto simp: stop_ends stop_resets idle_timeout_ends)
qed

definition sample_setup :: receiver_setup where
  "sample_setup = \<lparr>re_env = (\<lambda>_. None), re_screen_w = 1920, re_screen_h = 1080, re_vrefresh = 60,
     re_connector = ''54'', re_render_rect = None, re_idle_codec = ''raw'', re_edid_name = [],
     re_edid_type = [], re_edid_max_res = [], re_edid_max_fps = 60, re_panel_resolution = [],
     re_idle_timeout_sec = 30, re_liveness_timeout_sec = 90\<rparr>"

theorem every_ending_restores_dashboard_witness:
  "back_to_idle (handle_stop sample_setup 9 True (initial_receiver sample_engine 0))
   \<and> pe_alive (rv_engine (handle_stop sample_setup 9 True (initial_receiver sample_engine 0)))"
proof -
  have "pe_alive (rv_engine (initial_receiver sample_engine 0))"
    by (simp add: initial_receiver_def sample_engine_def)
  then show ?thesis
    using every_ending_restores_dashboard [of "handle_stop sample_setup 9 True (initial_receiver sample_engine 0)"
        sample_setup 9 "initial_receiver sample_engine 0" True] by simp
qed

text \<open>
  The start announcement of a stream that begins with its first frame is never sent: the flag that
  decides it is read after it was set.  A frame with sequence number at most 1 that reaches an idle receiver starts
  streaming, but the only status it can cause is the periodic one (on the first and on every thirtieth frame since
  the receiver started).
\<close>

theorem auto_start_is_not_announced:
  assumes "\<not> rv_streaming_active r" and "vf_seq f \<le> 1" and "vf_codec f = ''hevc'' \<or> vf_codec f = ''h264''"
    and "rv_sent r \<noteq> 0" and "Suc (rv_sent r) mod 30 \<noteq> 0"
  shows "rv_streaming_active (handle_frame e now spawned True f r)
    \<and> rv_telemetry (handle_frame e now spawned True f r) = rv_telemetry r"
proof -
  have t: "rv_telemetry (prepare_frame e spawned f r) = rv_telemetry r"
    using assms(2) by (simp add: prepare_frame_def Let_def auto_start_def)
  have "vf_codec f \<noteq> ''stop''" "\<not> vf_seq f > 1"
    using assms(2,3) by auto
  then show ?thesis
    using assms t by (auto simp: handle_frame_def Let_def play_frame_def)
qed

definition sample_frame :: video_frame where
  "sample_frame = (stop_frame 0)\<lparr>vf_seq := 1, vf_codec := ''hevc'', vf_access_unit := [1]\<rparr>"

theorem auto_start_is_not_announced_witness:
  "rv_telemetry (handle_frame sample_setup 9 True True sample_frame ((initial_receiver sample_engine 0)\<lparr>rv_sent := 5\<rparr>)) = []"
  using auto_start_is_not_announced [of "(initial_receiver sample_engine 0)\<lparr>rv_sent := 5\<rparr>" sample_frame sample_setup 9 True]
  by (simp add: initial_receiver_def sample_frame_def stop_frame_def)

lemma stall_step:
  assumes "rv_streaming_active r"
    and "active_sender_heartbeat_fresh now (from_secs (re_liveness_timeout_sec e)) (rv_management r)"
  shows "rv_streaming_active (handle_idle_timeout e now spawned r)
    \<and> mg_stream (rv_management (handle_idle_timeout e now spawned r)) = mg_stream (rv_management r)
    \<and> rv_media_stall_reported (handle_idle_timeout e now spawned r)
    \<and> (rv_media_stall_reported r \<longrightarrow> handle_idle_timeout e now spawned r = r)
    \<and> (\<forall>t. active_sender_heartbeat_fresh t (from_secs (re_liveness_timeout_sec e)) (rv_management (handle_idle_timeout e now spawned r))
         = active_sender_heartbeat_fresh t (from_secs (re_liveness_timeout_sec e)) (rv_management r))"
  using assms by (auto simp: handle_idle_timeout_def active_sender_heartbeat_fresh_def elapsed_sec_def
      split: option.splits)

text \<open>
  A paused sender keeps its stream: however often the frame timeout fires while the sender's heartbeat
  is fresh, the receiver keeps streaming the same session and reports the stall at most once.
\<close>

theorem paused_sender_keeps_stream:
  assumes "rv_streaming_active r" and "\<not> rv_media_stall_reported r" and "ts \<noteq> []"
    and "\<forall>t \<in> set ts. active_sender_heartbeat_fresh t (from_secs (re_liveness_timeout_sec e)) (rv_management r)"
    and "r' = fold (\<lambda>t. receiver_step e (Idle_Timeout t spawned)) ts r"
  shows "rv_streaming_active r' \<and> mg_stream (rv_management r') = mg_stream (rv_management r)
    \<and> r' = handle_idle_timeout e (hd ts) spawned r"
proof -
  obtain t us where ts: "ts = t # us"
    using assms(3) by (cases ts) auto
  let ?r = "handle_idle_timeout e t spawned r"
  note first = stall_step [OF assms(1), of t e spawned]
  have fresh: "\<forall>u \<in> set us. active_sender_heartbeat_fresh u (from_secs (re_liveness_timeout_sec e)) (rv_management ?r)"
    using assms(4) first by (simp add: ts)
  have s: "rv_streaming_active ?r" "rv_media_stall_reported ?r"
    using assms(4) first by (simp_all add: ts)
  have "fold (\<lambda>t. receiver_step e (Idle_Timeout t spawned)) us ?r = ?r"
    using fresh by (induction us) (simp_all add: stall_step s)
  then show ?thesis
    using assms(4,5) first by (simp add: ts)
qed

definition streaming_receiver :: receiver where
  "streaming_receiver = (initial_receiver sample_engine 0)\<lparr>rv_streaming_active := True,
     rv_management := start 0 sample_config (Some (sample_client ''a'')) (hello 0 (sample_client ''a'') (new_management 0))\<rparr>"

lemma sample_liveness: "as_secs_f64 (from_secs (re_liveness_timeout_sec sample_setup)) = Finite False 90"
  by (simp add: sample_setup_def from_secs_def f64_eval Let_def)

lemma sample_fresh:
  "active_sender_heartbeat_fresh 0 (from_secs (re_liveness_timeout_sec sample_setup)) (rv_management streaming_receiver)"
proof -
  have "sender_id (rv_management streaming_receiver) = Some ''a''"
    by (simp add: streaming_receiver_def start_def Let_def sender_id_def new_stream_def sample_client_def)
  moreover have "\<exists>c. mg_connections (rv_management streaming_receiver) ''a'' = Some c \<and> cr_connected c
      \<and> cr_last_seen_at_sec c = Finite False 0"
    by (simp add: streaming_receiver_def start_def Let_def hello_def sample_client_def new_management_def
        finish_locked_def elapsed_sec_def)
  moreover have "mg_started (rv_management streaming_receiver) = 0"
    by (simp add: streaming_receiver_def start_def Let_def hello_def new_management_def split: option.splits)
  ultimately show ?thesis
    unfolding active_sender_heartbeat_fresh_def sample_liveness
    by (auto simp: elapsed_sec_def f64_sub_def fp_le_def)
qed

theorem paused_sender_keeps_stream_witness:
  "rv_streaming_active (fold (\<lambda>t. receiver_step sample_setup (Idle_Timeout t True)) [0, 0] streaming_receiver)"
proof (rule paused_sender_keeps_stream [OF _ _ _ _ refl, THEN conjunct1])
  show "rv_streaming_active streaming_receiver" "\<not> rv_media_stall_reported streaming_receiver"
    by (simp_all add: streaming_receiver_def initial_receiver_def)
qed (use sample_fresh in simp_all)

end
