(* ===== verification/Receiver_Timing.thy ===== *)
theory Receiver_Timing
  imports Receiver_Correct
begin

text \<open>
  The timing of the \<open>select!\<close> in \<open>src/main.rs\<close>: which arm can be taken when.  The loop enters the
  \<open>select!\<close> anew for every event, and each time wraps the receive of a frame in a fresh
  \<open>timeout(idle_timeout, ..)\<close>, while the health interval keeps its due time across rounds.  The timer library
  is a parameter: \<open>next_due due w\<close> is the due time of the interval after it fired at \<open>w\<close>, and \<open>lag\<close> bounds how
  long after the first arm became ready the loop is resumed.
\<close>

definition HEALTH_INTERVAL :: duration where
  "HEALTH_INTERVAL = from_secs 2"

datatype arm = Tick_Arm | Submission_Arm | Command_Arm | Frame_Arm | Timeout_Arm

record loop_clock =
  lc_entered :: instant
  lc_tick_due :: instant

fun arm_of :: "receiver_event \<Rightarrow> arm option" where
  "arm_of (Health_Tick _ _ _ _ _) = Some Tick_Arm"
| "arm_of (Submitted _ _) = Some Submission_Arm"
| "arm_of (Command _ _ _) = Some Command_Arm"
| "arm_of (Take_Frame _ _ _) = Some Frame_Arm"
| "arm_of Channel_Closed = Some Frame_Arm"
| "arm_of (Idle_Timeout _ _) = Some Timeout_Arm"
| "arm_of _ = None"

fun arm_ready :: "duration \<Rightarrow> loop_clock \<Rightarrow> instant \<Rightarrow> arm \<Rightarrow> bool" where
  "arm_ready idle c w Tick_Arm = (lc_tick_due c \<le> w)"
| "arm_ready idle c w Timeout_Arm = (lc_entered c + idle \<le> w)"
| "arm_ready idle c w _ = True"

text \<open>The round entered at \<open>lc_entered\<close> ends at \<open>w\<close> with an arm that is ready then; any ready arm may be
  chosen.  The round cannot outlast the first timer by more than \<open>lag\<close>.\<close>

definition can_take :: "duration \<Rightarrow> duration \<Rightarrow> loop_clock \<Rightarrow> instant \<Rightarrow> arm \<Rightarrow> bool" where
  "can_take idle lag c w a \<longleftrightarrow> lc_entered c \<le> w \<and> arm_ready idle c w a
     \<and> w \<le> max (lc_entered c) (min (lc_tick_due c) (lc_entered c + idle)) + lag"

definition next_round :: "(instant \<Rightarrow> instant \<Rightarrow> instant) \<Rightarrow> arm \<Rightarrow> instant \<Rightarrow> instant \<Rightarrow> loop_clock \<Rightarrow> loop_clock" where
  "next_round next_due a w t c =
     \<lparr>lc_entered = t, lc_tick_due = (if a = Tick_Arm then next_due (lc_tick_due c) w else lc_tick_due c)\<rparr>"

definition idle_timeout :: "receiver_setup \<Rightarrow> duration" where
  "idle_timeout e = from_secs (re_idle_timeout_sec e)"

text \<open>The runs of the loop from a state \<open>r0\<close> entered at \<open>t0\<close>, when the health interval is created and due
  at once, with events from \<open>allowed\<close>: a round of the \<open>select!\<close> whose handler ends at \<open>t\<close>, or a step of
  another task.\<close>

inductive loop_run ::
  "(instant \<Rightarrow> instant \<Rightarrow> instant) \<Rightarrow> duration \<Rightarrow> (receiver_event \<Rightarrow> bool) \<Rightarrow> receiver_setup \<Rightarrow> instant \<Rightarrow> receiver
   \<Rightarrow> loop_clock \<Rightarrow> receiver \<Rightarrow> bool"
  for next_due lag allowed e t0 r0 where
  enter: "loop_run next_due lag allowed e t0 r0 \<lparr>lc_entered = t0, lc_tick_due = t0\<rparr> r0"
| round: "loop_run next_due lag allowed e t0 r0 (next_round next_due a w t c) (receiver_step e ev r)"
    if "loop_run next_due lag allowed e t0 r0 c r" "allowed ev" "arm_of ev = Some a"
       "can_take (idle_timeout e) lag c w a" "w \<le> t"
| beside: "loop_run next_due lag allowed e t0 r0 c (receiver_step e ev r)"
    if "loop_run next_due lag allowed e t0 r0 c r" "allowed ev" "arm_of ev = None"

section \<open>The health tick is always due soon\<close>

definition tick_soon :: "loop_clock \<Rightarrow> bool" where
  "tick_soon c \<longleftrightarrow> lc_tick_due c \<le> lc_entered c + HEALTH_INTERVAL"

lemma next_round_soon:
  assumes "\<forall>due w. due \<le> w \<longrightarrow> next_due due w \<le> w + HEALTH_INTERVAL"
    and "tick_soon c" and "can_take idle lag c w a" and "w \<le> t"
  shows "tick_soon (next_round next_due a w t c)"
proof (cases "a = Tick_Arm")
  case True
  then have "next_due (lc_tick_due c) w \<le> w + HEALTH_INTERVAL"
    using assms(1,3) by (simp add: can_take_def)
  then show ?thesis
    using True assms(4) by (simp add: tick_soon_def next_round_def)
next
  case False
  then show ?thesis
    using assms(2-4) by (auto simp: tick_soon_def next_round_def can_take_def)
qed

lemma loop_run_soon:
  assumes "loop_run next_due lag allowed e t0 r0 c r"
    and "\<forall>due w. due \<le> w \<longrightarrow> next_due due w \<le> w + HEALTH_INTERVAL"
  shows "tick_soon c"
  using assms(1)
proof induction
  case enter
  then show ?case
    by (simp add: tick_soon_def)
next
  case (round c r ev a w t)
  then show ?case
    by (intro next_round_soon [OF assms(2)])
next
  case (beside c r ev)
  then show ?case
    by simp
qed

lemma soon_no_timeout:
  assumes "tick_soon c" and "HEALTH_INTERVAL + lag < idle"
  shows "\<not> can_take idle lag c w Timeout_Arm"
  using assms by (auto simp: tick_soon_def can_take_def max_def min_def split: if_splits)

section \<open>A silent sender\<close>

text \<open>What a live sender or a client causes: a command, a frame, the end of the frame channel, or the end of a
  connection.\<close>

fun sender_event :: "receiver_event \<Rightarrow> bool" where
  "sender_event (Command _ _ _) = True"
| "sender_event (Take_Frame _ _ _) = True"
| "sender_event Channel_Closed = True"
| "sender_event (Transport_Closed _ _) = True"
| "sender_event _ = False"

definition in_session :: "receiver \<Rightarrow> bool" where
  "in_session r \<longleftrightarrow> rv_streaming_active r \<and> mg_stream (rv_management r) \<noteq> None"

lemma send_frame_session [simp]: "in_session (send_frame f r) = in_session r"
  by (simp add: send_frame_def in_session_def)

lemma silent_step:
  assumes "in_session r" and "\<not> sender_event ev" and "\<And>now sp. ev \<noteq> Idle_Timeout now sp"
  shows "in_session (receiver_step e ev r)"
proof (cases ev)
  case (Submitted now s)
  then show ?thesis
    using assms(1) submission_stream
    by (auto simp: in_session_def handle_submission_def split: prod.splits bool.splits)
next
  case (Packet now clock p)
  then show ?thesis
    using assms(1) by (auto simp: in_session_def send_frame_def split: prod.splits option.splits)
next
  case (Stop_Enters now)
  then show ?thesis
    using assms(1) by simp
next
  case (Transport_Report now cid x)
  then show ?thesis
    using assms(1) report_stream [of now cid x "rv_management r"] by (simp add: in_session_def)
qed (use assms in \<open>auto simp: in_session_def refresh_ok resume_sender_def split: list.splits\<close>)

text \<open>
  The idle timeout never fires.  Every round of the loop starts the timeout anew, and the health tick
  ends a round at least every two seconds, so with an idle timeout above two seconds plus the resumption lag (30
  seconds by default) no reachable round can take the timeout arm.
\<close>

theorem idle_timeout_never_fires:
  assumes "loop_run next_due lag allowed e t0 r0 c r"
    and "\<forall>due w. due \<le> w \<longrightarrow> next_due due w \<le> w + HEALTH_INTERVAL"
    and "HEALTH_INTERVAL + lag < idle_timeout e"
  shows "\<not> can_take (idle_timeout e) lag c w Timeout_Arm"
  using soon_no_timeout [OF loop_run_soon [OF assms(1,2)] assms(3)] .

text \<open>The documented interval: from the due time on in whole periods, missed ones skipped.\<close>

definition skip_missed :: "instant \<Rightarrow> instant \<Rightarrow> instant" where
  "skip_missed due w = due + HEALTH_INTERVAL * ((w - due) div HEALTH_INTERVAL + 1)"

lemma skip_missed_soon: "due \<le> w \<Longrightarrow> skip_missed due w \<le> w + HEALTH_INTERVAL"
  using times_div_less_eq_dividend [of HEALTH_INTERVAL "w - due"]
  unfolding skip_missed_def distrib_left by linarith

lemma sample_margin: "HEALTH_INTERVAL + from_secs 1 < idle_timeout sample_setup"
  by (simp add: HEALTH_INTERVAL_def idle_timeout_def sample_setup_def from_secs_def)

theorem idle_timeout_never_fires_witness:
  "\<not> can_take (idle_timeout sample_setup) (from_secs 1)
      (next_round skip_missed Tick_Arm 0 0 \<lparr>lc_entered = 0, lc_tick_due = 0\<rparr>) (from_secs 30) Timeout_Arm"
proof (rule idle_timeout_never_fires [OF _ _ sample_margin])
  show "loop_run skip_missed (from_secs 1) (\<lambda>_. True) sample_setup 0 streaming_receiver
     (next_round skip_missed Tick_Arm 0 0 \<lparr>lc_entered = 0, lc_tick_due = 0\<rparr>)
     (receiver_step sample_setup (Health_Tick 0 False None None None) streaming_receiver)"
    by (rule loop_run.round [OF loop_run.enter]) (simp_all add: can_take_def)
qed (simp add: skip_missed_soon)

text \<open>
  An abandoned stream is never ended by the receiver itself: from a receiver in a session, along every
  run in which no command, no frame and no disconnect arrives, however long and however stale the sender's
  heartbeat, the session stays open and streaming.
\<close>

theorem silent_stream_never_ends:
  assumes "loop_run next_due lag (\<lambda>ev. \<not> sender_event ev) e t0 r0 c r"
    and "in_session r0"
    and "\<forall>due w. due \<le> w \<longrightarrow> next_due due w \<le> w + HEALTH_INTERVAL"
    and "HEALTH_INTERVAL + lag < idle_timeout e"
  shows "in_session r"
  using assms(1,2)
proof induction
  case (round c r ev a w t)
  have "\<not> can_take (idle_timeout e) lag c w Timeout_Arm"
    using soon_no_timeout [OF loop_run_soon [OF round.hyps(1) assms(3)] assms(4)] .
  then have "a \<noteq> Timeout_Arm"
    using round.hyps by auto
  then show ?case
    using round by (intro silent_step) auto
next
  case (beside c r ev)
  then show ?case
    by (intro silent_step) auto
qed simp

theorem silent_stream_never_ends_witness:
  "in_session (receiver_step sample_setup (Health_Tick 0 False None None None) streaming_receiver)"
proof (rule silent_stream_never_ends [OF _ _ _ sample_margin])
  show "loop_run skip_missed (from_secs 1) (\<lambda>ev. \<not> sender_event ev) sample_setup 0 streaming_receiver
     (next_round skip_missed Tick_Arm 0 0 \<lparr>lc_entered = 0, lc_tick_due = 0\<rparr>)
     (receiver_step sample_setup (Health_Tick 0 False None None None) streaming_receiver)"
    by (rule loop_run.round [OF loop_run.enter]) (simp_all add: can_take_def)
qed (simp_all add: skip_missed_soon in_session_def streaming_receiver_def start_def Let_def)

end
