(* ===== verification/Webtransport.thy ===== *)
theory Webtransport
  imports Discovery Pairing Control Net
begin

text \<open>
  \<open>src/webtransport_server.rs\<close> and \<open>src/ui_delivery.rs\<close>: who is let in, the length-prefixed messages of the
  streams, and what a control stream does with each message.  The QUIC library delivers, for a stream, the bytes
  that arrive until it ends; the JSON library is a parameter (\<open>parse\<close> for a command, \<open>json_type\<close> for the
  \<open>type\<close> field of a JSON object).
\<close>

section \<open>Addresses\<close>

text \<open>An IPv6 address is the list of its eight segments; \<open>to_ipv4\<close> is the standard library's, which accepts
  IPv4-compatible addresses beside IPv4-mapped ones.\<close>

datatype ip_addr = V4 ipv4 | V6 "u16 list"

definition ipv4_of_segments :: "u16 \<Rightarrow> u16 \<Rightarrow> ipv4" where
  "ipv4_of_segments ab cd = (word_of_nat (unat ab div 256), word_of_nat (unat ab mod 256),
     word_of_nat (unat cd div 256), word_of_nat (unat cd mod 256))"

fun to_ipv4 :: "u16 list \<Rightarrow> ipv4 option" where
  "to_ipv4 [s0, s1, s2, s3, s4, s5, ab, cd] =
     (if s0 = 0 \<and> s1 = 0 \<and> s2 = 0 \<and> s3 = 0 \<and> s4 = 0 \<and> (s5 = 0 \<or> s5 = 0xFFFF)
      then Some (ipv4_of_segments ab cd) else None)"
| "to_ipv4 _ = None"

text \<open>The text of an IPv6 address: the first longest run of at least two zero segments becomes \<open>::\<close>.\<close>

fun hex_of_nat :: "nat \<Rightarrow> string" where
  "hex_of_nat n = (if n < 16 then [hex_digit n] else hex_of_nat (n div 16) @ [hex_digit (n mod 16)])"

declare hex_of_nat.simps [simp del]

definition segments_text :: "u16 list \<Rightarrow> string" where
  "segments_text ss = concat (case ss of [] \<Rightarrow> [] | s # r \<Rightarrow> hex_of_nat (unat s) # map (\<lambda>x. '':'' @ hex_of_nat (unat x)) r)"

fun zero_runs :: "nat \<Rightarrow> nat \<times> nat \<Rightarrow> nat \<times> nat \<Rightarrow> u16 list \<Rightarrow> nat \<times> nat" where
  "zero_runs i current longest [] = longest"
| "zero_runs i current longest (s # ss) =
     (if s = 0 then
        let current = (if snd current = 0 then i else fst current, Suc (snd current))
        in zero_runs (Suc i) current (if snd current > snd longest then current else longest) ss
      else zero_runs (Suc i) (0, 0) longest ss)"

definition ipv6_to_string :: "u16 list \<Rightarrow> string" where
  "ipv6_to_string ss =
     (let (start, len) = zero_runs 0 (0, 0) (0, 0) ss
      in if len > 1 then segments_text (take start ss) @ ''::'' @ segments_text (drop (start + len) ss)
         else segments_text ss)"

definition normalize_peer_ip :: "ip_addr \<Rightarrow> string" where
  "normalize_peer_ip address =
     (case address of V4 ip \<Rightarrow> ipv4_to_string ip
      | V6 ss \<Rightarrow> (case to_ipv4 ss of None \<Rightarrow> ipv6_to_string ss | Some mapped \<Rightarrow> ipv4_to_string mapped))"

text \<open>\<open>checked_mul\<close> on a 64-bit \<open>usize\<close>.\<close>

definition udp_receive_buffer_bytes :: "nat \<Rightarrow> nat option" where
  "udp_receive_buffer_bytes megabytes =
     (let n = megabytes * (1024 * 1024) in if n \<le> u64_max then Some n else None)"

section \<open>Admission\<close>

fun query_item :: "string \<Rightarrow> string option \<times> string option \<Rightarrow> string option \<times> string option" where
  "query_item item (c, t) =
     (case strip_prefix ''code='' item of Some v \<Rightarrow> (Some v, t)
      | None \<Rightarrow> (case strip_prefix ''token='' item of Some v \<Rightarrow> (c, Some v) | None \<Rightarrow> (c, t)))"

definition connection_query :: "string \<Rightarrow> string option \<times> string option" where
  "connection_query path =
     (case split_once CHR ''?'' path of None \<Rightarrow> (None, None)
      | Some (_, query) \<Rightarrow> fold query_item (split_on CHR ''&'' query) (None, None))"

definition pairing_admission :: "bool \<Rightarrow> bool \<Rightarrow> bool \<Rightarrow> string + unit" where
  "pairing_admission pairing_required has_code has_token =
     (if \<not> has_code \<and> (pairing_required \<or> has_token)
      then Inl (if has_token then ''cloud token requires a pairing code'' else ''missing local pairing code'')
      else Inr ())"

text \<open>What the connections share: the id counter, the pairing state, the verifier if there is one, and the
  management state.\<close>

record transport =
  tp_next_connection_id :: u64
  tp_pairing :: pairing_data
  tp_verifier :: "token_verifier option"
  tp_management :: management

definition report :: "instant \<Rightarrow> string \<Rightarrow> string \<Rightarrow> string \<Rightarrow> transport \<Rightarrow> transport" where
  "report now level kind message t = t\<lparr>tp_management := event now level kind message (tp_management t)\<rparr>"

definition peer_reason :: "string \<Rightarrow> string \<Rightarrow> string" where
  "peer_reason peer reason = ''peer='' @ peer @ '' reason='' @ reason"

definition admit_code :: "instant \<Rightarrow> string \<Rightarrow> string option \<Rightarrow> transport \<Rightarrow> (string + unit) \<times> transport" where
  "admit_code now peer c t =
     (case c of None \<Rightarrow> (Inr (), t)
      | Some v \<Rightarrow>
        (case validate_code v peer now (tp_pairing t) of (r, d) \<Rightarrow>
          let t = t\<lparr>tp_pairing := d\<rparr>
          in case r of Inr _ \<Rightarrow> (Inr (), t)
             | Inl reason \<Rightarrow> (Inl (''local pairing rejected: '' @ reason),
                 report now ''warn'' ''pairing_rejected'' (peer_reason peer reason) t)))"

definition admit_token ::
  "token_library \<Rightarrow> instant \<Rightarrow> nat \<Rightarrow> string \<Rightarrow> string option \<Rightarrow> transport \<Rightarrow> (string + unit) \<times> transport" where
  "admit_token lib now unix_sec peer token t =
     (case token of None \<Rightarrow> (Inr (), t)
      | Some x \<Rightarrow>
        (case tp_verifier t of
           None \<Rightarrow> (Inl ''cloud token verifier unavailable'',
             report now ''error'' ''cloud_token_rejected'' (peer_reason peer ''verifier_unavailable'') t)
         | Some v \<Rightarrow>
           (case verify lib unix_sec x v of (r, v') \<Rightarrow>
             let t = t\<lparr>tp_verifier := Some v'\<rparr>
             in case r of Inr _ \<Rightarrow> (Inr (), t)
                | Inl reason \<Rightarrow> (Inl (''cloud token rejected: '' @ reason),
                    report now ''warn'' ''cloud_token_rejected'' (peer_reason peer reason) t))))"

definition authentication_label :: "string option \<Rightarrow> string option \<Rightarrow> string" where
  "authentication_label c token =
     (if token \<noteq> None then ''cloud_token'' else if c \<noteq> None then ''lan_security_code'' else ''direct_lan'')"

text \<open>\<open>accepted\<close> says whether the session library completes the accepted request.  The result is the
  connection id, the peer and the label.\<close>

definition admit ::
  "token_library \<Rightarrow> bool \<Rightarrow> instant \<Rightarrow> nat \<Rightarrow> string \<Rightarrow> ip_addr \<Rightarrow> bool \<Rightarrow> transport
   \<Rightarrow> (string + string \<times> string \<times> string) \<times> transport" where
  "admit lib pairing_required now unix_sec path address accepted t =
     (let (c, token) = connection_query path; peer = normalize_peer_ip address
      in case pairing_admission pairing_required (c \<noteq> None) (token \<noteq> None) of
           Inl reason \<Rightarrow> (Inl reason, report now ''warn'' ''security_rejected'' (peer_reason peer reason) t)
         | Inr _ \<Rightarrow>
           let connection_id = ''wt-'' @ word_to_string (tp_next_connection_id t);
               t = t\<lparr>tp_next_connection_id := tp_next_connection_id t + 1\<rparr>
           in case admit_code now peer c t of
                (Inl e, t) \<Rightarrow> (Inl e, t)
              | (Inr _, t) \<Rightarrow>
                (case admit_token lib now unix_sec peer token t of
                   (Inl e, t) \<Rightarrow> (Inl e, t)
                 | (Inr _, t) \<Rightarrow>
                   if \<not> accepted then (Inl ''session not accepted'', t)
                   else let label = authentication_label c token
                        in (Inr (connection_id, peer, label),
                            report now ''info'' ''connection_accepted''
                              (''connection='' @ connection_id @ '' peer='' @ peer @ '' authentication='' @ label) t)))"

section \<open>Length-prefixed messages\<close>

text \<open>Reading until the stream ends, a message is empty or too long, or it is cut off.\<close>

function read_messages :: "nat \<Rightarrow> byte list \<Rightarrow> byte list list" where
  "read_messages limit bs =
     (if length bs < LENGTH_PREFIX_BYTES then []
      else let len = unat (u32_from_be_bytes (take LENGTH_PREFIX_BYTES bs)); rest = drop LENGTH_PREFIX_BYTES bs
           in if len = 0 \<or> len > limit then []
              else if length rest < len then []
              else take len rest # read_messages limit (drop len rest))"
  by auto
termination
  by (relation "measure (length \<circ> snd)") (auto simp: LENGTH_PREFIX_BYTES_def)

declare read_messages.simps [simp del]

definition write_control_message :: "byte list \<Rightarrow> byte list option" where
  "write_control_message payload =
     (if length payload \<le> u32_max then Some (u32_to_be_bytes (word_of_nat (length payload)) @ payload) else None)"

section \<open>Control streams\<close>

definition UI_REQUEST_TYPE :: string where
  "UI_REQUEST_TYPE = ''get_ui''"

definition is_ui_request :: "(byte list \<Rightarrow> string option) \<Rightarrow> byte list \<Rightarrow> bool" where
  "is_ui_request json_type payload \<longleftrightarrow> json_type payload = Some UI_REQUEST_TYPE"

text \<open>\<open>send_embedded_ui\<close>: what is written for the page \<open>html\<close>.\<close>

definition send_embedded_ui :: "byte list \<Rightarrow> byte list option" where
  "send_embedded_ui html =
     (if length html > MAX_UI_BYTES then None
      else if length html \<le> u32_max then Some (u32_to_be_bytes (word_of_nat (length html)) @ html) else None)"

fun stamp_identity :: "string \<Rightarrow> string \<Rightarrow> control_command \<Rightarrow> control_command" where
  "stamp_identity connection_id remote_ip (Client_Hello h) =
     Client_Hello (h\<lparr>ch_connection_id := Some connection_id, ch_remote_ip := Some remote_ip\<rparr>)"
| "stamp_identity connection_id remote_ip (Start q) = Start (q\<lparr>sq_connection_id := Some connection_id\<rparr>)"
| "stamp_identity connection_id remote_ip c = c"

text \<open>What routing one message leaves: the management state, the commands put into the receiver's queue, and
  the messages for the client.\<close>

record routed =
  ro_management :: management
  ro_commands :: "control_command list"
  ro_outbound :: "telemetry_message list"

fun route_command ::
  "f64 \<Rightarrow> f64 \<Rightarrow> instant \<Rightarrow> string \<Rightarrow> control_command \<Rightarrow> management \<Rightarrow> routed" where
  "route_command receive_ms send_ms now cid (Ping pid client_send_ms) m =
     (let m = snd (touch_connection now cid m);
          synchronized = (case client_send_ms of None \<Rightarrow> False
            | Some v \<Rightarrow> is_finite v \<and> fp_lt (Finite False 0) v)
      in \<lparr>ro_management = m, ro_commands = [],
          ro_outbound = [Pong pid (if synchronized then Some receive_ms else None)
            (if synchronized then Some send_ms else None)]\<rparr>)"
| "route_command receive_ms send_ms now cid (Sync_Clock offset_ms uncertainty_ms) m =
     \<lparr>ro_management = snd (record_clock_sync now cid offset_ms uncertainty_ms (snd (touch_connection now cid m))),
      ro_commands = [], ro_outbound = []\<rparr>"
| "route_command receive_ms send_ms now cid (Client_Diagnostic level message) m =
     \<lparr>ro_management = record_diagnostic now cid level message (snd (touch_connection now cid m)),
      ro_commands = [], ro_outbound = []\<rparr>"
| "route_command receive_ms send_ms now cid (Latency_Report x) m =
     \<lparr>ro_management = snd (record_estimated_latency now cid x (snd (touch_connection now cid m))),
      ro_commands = [], ro_outbound = []\<rparr>"
| "route_command receive_ms send_ms now cid c m = \<lparr>ro_management = m, ro_commands = [c], ro_outbound = []\<rparr>"

definition route_control_payload ::
  "(byte list \<Rightarrow> control_command option) \<Rightarrow> f64 \<Rightarrow> f64 \<Rightarrow> instant \<Rightarrow> string \<Rightarrow> string \<Rightarrow> byte list \<Rightarrow> management
   \<Rightarrow> routed" where
  "route_control_payload parse receive_ms send_ms now cid ip payload m =
     (case parse payload of None \<Rightarrow> \<lparr>ro_management = m, ro_commands = [], ro_outbound = []\<rparr>
      | Some c \<Rightarrow> route_command receive_ms send_ms now cid (stamp_identity cid ip c) m)"

text \<open>A message with the clock readings and the instant of its routing.\<close>

type_synonym timed_message = "f64 \<times> f64 \<times> instant \<times> byte list"

fun route_messages ::
  "(byte list \<Rightarrow> control_command option) \<Rightarrow> string \<Rightarrow> string \<Rightarrow> timed_message list \<Rightarrow> routed \<Rightarrow> routed" where
  "route_messages parse cid ip [] r = r"
| "route_messages parse cid ip ((receive_ms, send_ms, now, payload) # ps) r =
     (let x = route_control_payload parse receive_ms send_ms now cid ip payload (ro_management r)
      in route_messages parse cid ip ps
           \<lparr>ro_management = ro_management x, ro_commands = ro_commands r @ ro_commands x,
            ro_outbound = ro_outbound r @ ro_outbound x\<rparr>)"

text \<open>A whole control stream: its messages as read from the bytes that arrive, the \<open>i\<close>th routed with the
  readings \<open>i\<close>, and its end at \<open>closed_at\<close>.  A first message that asks for the page is answered with it and
  ends the stream.\<close>

definition timed_messages :: "(nat \<Rightarrow> f64 \<times> f64 \<times> instant) \<Rightarrow> byte list list \<Rightarrow> timed_message list" where
  "timed_messages readings ps =
     map (\<lambda>(i, p). case readings i of (receive_ms, send_ms, now) \<Rightarrow> (receive_ms, send_ms, now, p)) (enumerate 0 ps)"

definition handle_control_stream ::
  "(byte list \<Rightarrow> control_command option) \<Rightarrow> (byte list \<Rightarrow> string option) \<Rightarrow> string \<Rightarrow> string
   \<Rightarrow> (nat \<Rightarrow> f64 \<times> f64 \<times> instant) \<Rightarrow> byte list \<Rightarrow> instant \<Rightarrow> management \<Rightarrow> routed" where
  "handle_control_stream parse json_type cid ip readings bs closed_at m =
     (case read_messages MAX_CONTROL_MESSAGE_BYTES bs of
        [] \<Rightarrow> \<lparr>ro_management = m, ro_commands = [], ro_outbound = []\<rparr>
      | first_payload # ps \<Rightarrow>
        if is_ui_request json_type first_payload then \<lparr>ro_management = m, ro_commands = [], ro_outbound = []\<rparr>
        else
          let r = route_messages parse cid ip (timed_messages readings (first_payload # ps))
                    \<lparr>ro_management = m, ro_commands = [Get_Status], ro_outbound = []\<rparr>;
              (sharing, m) = connection_closed closed_at cid (ro_management r)
          in r\<lparr>ro_management := m, ro_commands := ro_commands r @ (if sharing then [Stop] else [])\<rparr>)"

end
