(* ===== verification/Webtransport_Correct.thy ===== *)
theory Webtransport_Correct
  imports Webtransport Management_Correct Discovery_Correct Pairing_Correct
begin

text \<open>
  What the WebTransport server promises: messages are read back as written however the stream ends, a connection
  is admitted only with the credentials it claims, and a client acts only under its own identity.
\<close>

section \<open>Framing\<close>

definition framed :: "byte list \<Rightarrow> byte list" where
  "framed p = u32_to_be_bytes (word_of_nat (length p)) @ p"

lemma write_framed: "length p \<le> u32_max \<Longrightarrow> write_control_message p = Some (framed p)"
  by (simp add: write_control_message_def framed_def)

lemma unat_length: "n \<le> u32_max \<Longrightarrow> unat (word_of_nat n :: u32) = n"
  by (simp add: unat_of_nat u32_max_def)

lemma read_framed:
  assumes "p \<noteq> []" and "length p \<le> limit" and "limit \<le> u32_max"
  shows "read_messages limit (framed p @ bs) = p # read_messages limit bs"
  using assms by (subst read_messages.simps) (simp add: framed_def LENGTH_PREFIX_BYTES_def Let_def unat_length)

lemma read_framed_cut:
  assumes "p \<noteq> []" and "length p \<le> limit" and "limit \<le> u32_max" and "k < length (framed p)"
  shows "read_messages limit (take k (framed p)) = []"
  using assms by (subst read_messages.simps) (auto simp: framed_def LENGTH_PREFIX_BYTES_def Let_def unat_length)

lemma read_nothing: "read_messages limit [] = []"
  by (subst read_messages.simps) (simp add: LENGTH_PREFIX_BYTES_def)

definition legal_message :: "nat \<Rightarrow> byte list \<Rightarrow> bool" where
  "legal_message limit p \<longleftrightarrow> p \<noteq> [] \<and> length p \<le> min limit u32_max"

lemma format_laws:
  assumes "limit \<le> u32_max"
  shows "legal_message limit p \<Longrightarrow> read_messages limit (framed p @ bs) = p # read_messages limit bs"
    and "legal_message limit p \<Longrightarrow> k < length (framed p) \<Longrightarrow> read_messages limit (take k (framed p)) = []"
  using assms by (simp_all add: legal_message_def read_framed read_framed_cut)

lemma limits_fit: "MAX_CONTROL_MESSAGE_BYTES \<le> u32_max" "MAX_UNI_STREAM_MESSAGE_BYTES \<le> u32_max"
  by (simp_all add: limits u32_max_def)

interpretation control: message_format framed "read_messages MAX_CONTROL_MESSAGE_BYTES" "legal_message MAX_CONTROL_MESSAGE_BYTES"
  by unfold_locales (simp_all add: format_laws limits_fit read_nothing)

interpretation uni: message_format framed "read_messages MAX_UNI_STREAM_MESSAGE_BYTES" "legal_message MAX_UNI_STREAM_MESSAGE_BYTES"
  by unfold_locales (simp_all add: format_laws limits_fit read_nothing)

text \<open>
  Property C18. Control messages survive the stream: what \<open>write_control_message\<close> writes for any sequence of
  non-empty messages of at most 64 KiB is read back as exactly that sequence, and if the stream breaks off inside
  a further message, exactly the messages before it.
\<close>

theorem control_messages_read_back:
  assumes "\<forall>p \<in> set (q # ps). p \<noteq> [] \<and> length p \<le> MAX_CONTROL_MESSAGE_BYTES"
  shows "\<exists>w ws. write_control_message q = Some w \<and> map write_control_message ps = map Some ws
    \<and> read_messages MAX_CONTROL_MESSAGE_BYTES (concat ws) = ps
    \<and> (\<forall>k < length w. read_messages MAX_CONTROL_MESSAGE_BYTES (concat ws @ take k w) = ps)"
proof (intro exI conjI)
  have legal: "list_all (legal_message MAX_CONTROL_MESSAGE_BYTES) ps" "legal_message MAX_CONTROL_MESSAGE_BYTES q"
    using assms limits_fit by (auto simp: legal_message_def list_all_iff)
  show "write_control_message q = Some (framed q)"
    "map write_control_message ps = map Some (map framed ps)"
    using legal by (auto simp: write_framed legal_message_def list_all_iff)
  show "read_messages MAX_CONTROL_MESSAGE_BYTES (concat (map framed ps)) = ps"
    by (rule control.read_all [OF legal(1)])
  show "\<forall>k < length (framed q). read_messages MAX_CONTROL_MESSAGE_BYTES (concat (map framed ps) @ take k (framed q)) = ps"
    using control.read_all_cut [OF legal] by blast
qed

theorem control_messages_read_back_witness:
  "\<exists>w ws. map write_control_message [[1, 2], [3]] = map Some ws
    \<and> read_messages MAX_CONTROL_MESSAGE_BYTES (concat ws @ take 4 w) = [[1, 2], [3 :: byte]]"
proof -
  have "\<forall>p \<in> set [[4], [1, 2], [3 :: byte]]. p \<noteq> [] \<and> length p \<le> MAX_CONTROL_MESSAGE_BYTES"
    by (simp add: limits)
  from control_messages_read_back [OF this] obtain w ws where w: "write_control_message [4] = Some w"
      "map write_control_message [[1, 2], [3]] = map Some ws"
      "\<forall>k < length w. read_messages MAX_CONTROL_MESSAGE_BYTES (concat ws @ take k w) = [[1, 2], [3]]"
    by blast
  have "4 < length w"
    using w(1) by (auto simp: write_control_message_def u32_max_def)
  then show ?thesis
    using w(2,3) by blast
qed

section \<open>Admission\<close>

lemma mapped_peer: "normalize_peer_ip (V6 [0, 0, 0, 0, 0, 0xFFFF, ab, cd]) = normalize_peer_ip (V4 (ipv4_of_segments ab cd))"
  by (simp add: normalize_peer_ip_def)

text \<open>
  Property C19. Nobody is admitted without the credentials the receiver asks for: an accepted connection carried a
  code if codes are required or a token was presented, its code was the published unexpired one and its peer was
  under the attempt limit, its token passed the verifier, and it is recorded under a fresh connection id with the
  label of the strongest credential.
\<close>

theorem admission_checks_credentials:
  assumes "admit lib required now unix_sec path address completed t = (Inr (cid, peer, label), t')"
  shows "\<exists>c token. connection_query path = (c, token) \<and> peer = normalize_peer_ip address
    \<and> (required \<or> token \<noteq> None \<longrightarrow> c \<noteq> None)
    \<and> (\<forall>v. c = Some v \<longrightarrow> fst (validate_code v peer now (tp_pairing t)) = Inr () \<and> code_accepted v now (tp_pairing t))
    \<and> (\<forall>x. token = Some x \<longrightarrow> (\<exists>v. tp_verifier t = Some v \<and> fst (verify lib unix_sec x v) = Inr ()))
    \<and> cid = ''wt-'' @ word_to_string (tp_next_connection_id t)
    \<and> tp_next_connection_id t' = tp_next_connection_id t + 1
    \<and> label = authentication_label c token"
proof -
  obtain c token where q: "connection_query path = (c, token)"
    by fastforce
  let ?peer = "normalize_peer_ip address"
  let ?t = "t\<lparr>tp_next_connection_id := tp_next_connection_id t + 1\<rparr>"
  have p: "required \<or> token \<noteq> None \<longrightarrow> c \<noteq> None"
    using assms by (auto simp: admit_def q Let_def pairing_admission_def split: if_splits)
  then have pa: "pairing_admission required (c \<noteq> None) (token \<noteq> None) = Inr ()"
    by (auto simp: pairing_admission_def)
  obtain r1 t1 where c1: "admit_code now ?peer c ?t = (r1, t1)"
    by fastforce
  obtain r2 t2 where c2: "admit_token lib now unix_sec ?peer token t1 = (r2, t2)"
    by fastforce
  have r: "r1 = Inr ()" "r2 = Inr ()" and out: "cid = ''wt-'' @ word_to_string (tp_next_connection_id t)"
    "peer = ?peer" "label = authentication_label c token" "tp_next_connection_id t' = tp_next_connection_id t2"
    using assms by (auto simp: admit_def q pa c1 c2 Let_def report_def split: sum.splits if_splits)
  have t1: "tp_verifier t1 = tp_verifier t" "tp_next_connection_id t1 = tp_next_connection_id t + 1"
    using c1 by (auto simp: admit_code_def report_def Let_def split: option.splits prod.splits sum.splits)
  have t2: "tp_next_connection_id t2 = tp_next_connection_id t1"
    using c2 by (auto simp: admit_token_def report_def Let_def split: option.splits prod.splits sum.splits)
  have "\<forall>v. c = Some v \<longrightarrow> fst (validate_code v ?peer now (tp_pairing t)) = Inr ()"
    using c1 r(1) by (auto simp: admit_code_def Let_def split: prod.splits sum.splits)
  moreover from this have "\<forall>v. c = Some v \<longrightarrow> code_accepted v now (tp_pairing t)"
    by (auto simp: validate_code_def Let_def split: if_splits)
  moreover have "\<forall>x. token = Some x \<longrightarrow> (\<exists>v. tp_verifier t = Some v \<and> fst (verify lib unix_sec x v) = Inr ())"
    using c2 r(2) by (auto simp: admit_token_def t1(1) Let_def split: option.splits prod.splits sum.splits)
  ultimately show ?thesis
    using p q out t1(2) t2 by auto
qed

definition sample_transport :: transport where
  "sample_transport = \<lparr>tp_next_connection_id = 1,
     tp_pairing = \<lparr>ps_snapshot = \<lparr>code = Some ''AB12'', local_status = ''READY'', cloud_status = ''READY'', cloud_ip = None\<rparr>,
       expires_at = Some 1000, failed_attempts = Map.empty, fixed_code = None, code_required = True\<rparr>,
     tp_verifier = Some \<lparr>tv_receiver_id = ''rx'', tv_seen = []\<rparr>, tp_management = new_management 0\<rparr>"

lemma sample_query: "connection_query ''/?code=ab12&token=v1.h.p.s'' = (Some ''ab12'', Some ''v1.h.p.s'')"
  by code_simp

lemma sample_code: "fst (validate_code ''ab12'' peer 5 (tp_pairing sample_transport)) = Inr ()"
proof -
  have "is_valid_pairing_code ''ab12''" "eq_ignore_ascii_case ''AB12'' ''ab12''"
    by code_simp+
  then show ?thesis
    by (simp add: validate_code_def code_accepted_def current_attempts_def sample_transport_def limits from_secs_def)
qed

lemma sample_token: "fst (verify sample_library 110 ''v1.h.p.s'' \<lparr>tv_receiver_id = ''rx'', tv_seen = []\<rparr>) = Inr ()"
  by (simp add: verify_def sample_check record_token_def limits)

theorem admission_checks_credentials_witness:
  "\<exists>r t'. admit sample_library True 5 110 ''/?code=ab12&token=v1.h.p.s'' (V4 (192, 168, 1, 9)) True sample_transport = (Inr r, t')
     \<and> tp_next_connection_id t' = 2 \<and> snd (snd r) = ''cloud_token''"
proof -
  let ?peer = "normalize_peer_ip (V4 (192, 168, 1, 9))"
  obtain d where d: "validate_code ''ab12'' ?peer 5 (tp_pairing sample_transport) = (Inr (), d)"
    using sample_code [of ?peer] by (metis prod.collapse)
  obtain v where v: "verify sample_library 110 ''v1.h.p.s'' \<lparr>tv_receiver_id = ''rx'', tv_seen = []\<rparr> = (Inr (), v)"
    using sample_token by (metis prod.collapse)
  have "tp_verifier sample_transport = Some \<lparr>tv_receiver_id = ''rx'', tv_seen = []\<rparr>"
    by (simp add: sample_transport_def)
  then obtain r t' where r: "admit sample_library True 5 110 ''/?code=ab12&token=v1.h.p.s'' (V4 (192, 168, 1, 9)) True sample_transport = (Inr r, t')"
    by (simp add: admit_def sample_query pairing_admission_def admit_code_def admit_token_def d v Let_def)
  then show ?thesis
    using admission_checks_credentials [of sample_library True 5 110 "''/?code=ab12&token=v1.h.p.s''" _ True sample_transport
        "fst r" "fst (snd r)" "snd (snd r)" t']
    by (auto simp: sample_query authentication_label_def sample_transport_def)
qed

section \<open>Identity\<close>

fun own_identity :: "string \<Rightarrow> string \<Rightarrow> control_command \<Rightarrow> bool" where
  "own_identity cid ip (Client_Hello h) = (ch_connection_id h = Some cid \<and> ch_remote_ip h = Some ip)"
| "own_identity cid ip (Start q) = (sq_connection_id q = Some cid)"
| "own_identity cid ip _ = True"

text \<open>The change from \<open>m\<close> to \<open>m'\<close> concerns \<open>cid\<close> only.\<close>

definition only_own :: "string \<Rightarrow> management \<Rightarrow> management \<Rightarrow> bool" where
  "only_own cid m m' \<longleftrightarrow>
     (\<forall>k. k \<noteq> cid \<longrightarrow> mg_connections m' k = mg_connections m k \<and> mg_clock_syncs m' k = mg_clock_syncs m k)
     \<and> (sender_id m \<noteq> Some cid \<longrightarrow> mg_stream m' = mg_stream m)"

lemma only_own_refl [simp]: "only_own cid m m"
  by (simp add: only_own_def)

lemma only_own_trans: "only_own cid a b \<Longrightarrow> only_own cid b c \<Longrightarrow> only_own cid a c"
  by (auto simp: only_own_def sender_id_def)

lemma report_fields:
  "mg_connections (snd (record_estimated_latency now cid r m)) = mg_connections m"
  "mg_clock_syncs (snd (record_estimated_latency now cid r m)) = mg_clock_syncs m"
  by (cases "mg_stream m"; simp add: record_estimated_latency_def Let_def)+

lemma report_own: "only_own cid m (snd (record_estimated_latency now cid r m))"
proof (cases "mg_stream m")
  case (Some s)
  then show ?thesis
    by (cases "st_sender s") (simp_all add: only_own_def report_fields, simp_all add: record_estimated_latency_def sender_id_def Let_def)
qed (simp add: record_estimated_latency_def)

lemma only_own_step:
  "only_own cid m (snd (touch_connection now cid m))"
  "only_own cid m (snd (record_clock_sync now cid a b m))"
  "only_own cid m (record_diagnostic now c l x m)"
  "only_own cid m (snd (record_estimated_latency now cid r m))"
  "only_own cid m (snd (connection_closed now cid m))"
proof -
  show "only_own cid m (snd (touch_connection now cid m))"
    by (simp add: only_own_def touch_connection_def split: option.splits)
  show "only_own cid m (snd (record_clock_sync now cid a b m))"
    by (simp add: only_own_def record_clock_sync_def)
  show "only_own cid m (record_diagnostic now c l x m)"
    by (simp add: only_own_def record_diagnostic_def Let_def)
  show "only_own cid m (snd (record_estimated_latency now cid r m))"
    by (rule report_own)
  have s: "sender_id (m\<lparr>mg_clock_syncs := f\<rparr>) = sender_id m" for f
    by (rule sender_id_stream) simp
  show "only_own cid m (snd (connection_closed now cid m))"
    by (auto simp: only_own_def connection_closed_def Let_def s finish_connections)
qed

lemma route_own:
  "only_own cid m (ro_management (route_command a b now cid (stamp_identity cid ip c) m))
   \<and> list_all (own_identity cid ip) (ro_commands (route_command a b now cid (stamp_identity cid ip c) m))"
  by (cases c) (simp_all add: Let_def only_own_step only_own_trans [OF only_own_step(1) only_own_step(2)]
      only_own_trans [OF only_own_step(1) only_own_step(3)] only_own_trans [OF only_own_step(1) only_own_step(4)])

lemma payload_own:
  "only_own cid m (ro_management (route_control_payload parse a b now cid ip p m))
   \<and> list_all (own_identity cid ip) (ro_commands (route_control_payload parse a b now cid ip p m))"
  using route_own by (simp add: route_control_payload_def split: option.split)

lemma messages_own:
  assumes "list_all (own_identity cid ip) (ro_commands r)"
  shows "only_own cid (ro_management r) (ro_management (route_messages parse cid ip ps r))
   \<and> list_all (own_identity cid ip) (ro_commands (route_messages parse cid ip ps r))"
  using assms
proof (induction parse cid ip ps r rule: route_messages.induct)
  case (2 parse cid ip a b now p ps r)
  let ?x = "route_control_payload parse a b now cid ip p (ro_management r)"
  have x: "only_own cid (ro_management r) (ro_management ?x)" "list_all (own_identity cid ip) (ro_commands ?x)"
    using payload_own by blast+
  show ?case
    using 2 x only_own_trans [OF x(1)] by (simp add: Let_def)
qed simp

text \<open>What a control stream edits itself and what it forwards.\<close>

lemma control_stream_own:
  "list_all (own_identity cid ip) (ro_commands (handle_control_stream parse json_type cid ip readings bs closed_at m))
   \<and> only_own cid m (ro_management (handle_control_stream parse json_type cid ip readings bs closed_at m))"
proof -
  note own = messages_own [of cid ip "\<lparr>ro_management = m, ro_commands = [Get_Status], ro_outbound = []\<rparr>"]
  show ?thesis
    using own only_own_trans [OF _ only_own_step(5) [of cid _ closed_at]]
    by (auto simp: handle_control_stream_def Let_def prod.case_eq_if split: list.split)
qed

end
