(* ===== verification/Http_Server.thy ===== *)
theory Http_Server
  imports Control Config
begin

text \<open>
  \<open>src/http_server.rs\<close>: the page server of the receiver, its redirect to HTTPS, the stream that gives back the
  bytes read to recognise a WebSocket, and the control WebSocket.  TLS, the WebSocket protocol and the JSON
  library are outside; \<open>lossy\<close> and \<open>lower\<close> are the standard library's \<open>from_utf8_lossy\<close> and \<open>to_lowercase\<close>.
\<close>

section \<open>Bytes read ahead\<close>

text \<open>\<open>PrefixStream\<close>: bytes to give first, and what the inner stream still has.  One \<open>poll_read\<close> into a
  buffer with room for \<open>room\<close> bytes returns the bytes it fills.\<close>

record prefix_stream =
  px_prefix :: "byte list option"
  px_inner :: "byte list"

definition read_inner :: "nat \<Rightarrow> prefix_stream \<Rightarrow> byte list \<times> prefix_stream" where
  "read_inner room s = (take room (px_inner s), s\<lparr>px_inner := drop room (px_inner s)\<rparr>)"

definition poll_read :: "nat \<Rightarrow> prefix_stream \<Rightarrow> byte list \<times> prefix_stream" where
  "poll_read room s =
     (case px_prefix s of
        Some prefix \<Rightarrow>
          if prefix = [] then read_inner room (s\<lparr>px_prefix := None\<rparr>)
          else if length prefix \<le> room then (prefix, s\<lparr>px_prefix := None\<rparr>)
          else (take room prefix, s\<lparr>px_prefix := Some (drop room prefix)\<rparr>)
      | None \<Rightarrow> read_inner room s)"

section \<open>Requests\<close>

definition crlf :: string where
  "crlf = [CHR 0x0D, CHR 0x0A]"

definition nth_text :: "nat \<Rightarrow> string list \<Rightarrow> string" where
  "nth_text i xs = (if i < length xs then xs ! i else [])"

definition first_text :: "string list \<Rightarrow> string" where
  "first_text xs = nth_text 0 xs"

definition quoted :: "string \<Rightarrow> string" where
  "quoted s = CHR 0x22 # s @ [CHR 0x22]"

definition pairing_config_body :: "receiver_settings \<Rightarrow> string" where
  "pairing_config_body s = ''{'' @ quoted ''required'' @ '':'' @ bool_to_string (local_pairing_code_required s)
     @ '','' @ quoted ''webtransport_port'' @ '':'' @ word_to_string (webtransport_port s) @ ''}''"

definition route_get :: "string \<Rightarrow> string \<Rightarrow> receiver_settings \<Rightarrow> string \<Rightarrow> string \<times> string \<times> string" where
  "route_get page cert_hash settings path =
     (if path = ''/'' \<or> path = ''/index.html'' then (''200 OK'', ''text/html; charset=utf-8'', page)
      else if path = ''/cert_hash'' then (''200 OK'', ''text/plain; charset=utf-8'', cert_hash)
      else if path = ''/pairing-config''
      then (''200 OK'', ''application/json; charset=utf-8'', pairing_config_body settings)
      else if path = ''/health'' then (''200 OK'', ''text/plain; charset=utf-8'', ''OK'')
      else if path = ''/favicon.ico'' then (''204 No Content'', ''image/x-icon'', [])
      else (''404 Not Found'', ''text/plain; charset=utf-8'', ''Not Found''))"

definition response_headers :: "string \<Rightarrow> string \<Rightarrow> nat \<Rightarrow> string" where
  "response_headers st content_type len =
     ''HTTP/1.1 '' @ st @ crlf @ ''Content-Type: '' @ content_type @ crlf
     @ ''Content-Length: '' @ nat_to_string len @ crlf @ ''Access-Control-Allow-Origin: *'' @ crlf
     @ ''Cache-Control: no-store'' @ crlf @ ''Connection: close'' @ crlf @ crlf"

text \<open>What is written in answer to the request read.\<close>

definition serve_http_request ::
  "(byte list \<Rightarrow> string) \<Rightarrow> string \<Rightarrow> string \<Rightarrow> receiver_settings \<Rightarrow> byte list \<Rightarrow> string" where
  "serve_http_request lossy page cert_hash settings initial_buf =
     (let first_line = first_text (str_lines (lossy initial_buf));
          parts = split_whitespace first_line;
          meth = nth_text 0 parts; path = nth_text 1 parts
      in if meth \<noteq> ''GET'' \<and> meth \<noteq> ''HEAD''
         then ''HTTP/1.1 405 Method Not Allowed'' @ crlf @ ''Content-Length: 0'' @ crlf @ crlf
         else
           let (st, content_type, body) = route_get page cert_hash settings path;
               headers = response_headers st content_type (length body)
           in if meth = ''HEAD'' then headers else headers @ body)"

section \<open>Redirect\<close>

definition rsplit_once :: "char \<Rightarrow> string \<Rightarrow> (string \<times> string) option" where
  "rsplit_once d s = map_option (\<lambda>(a, b). (rev b, rev a)) (split_once d (rev s))"

text \<open>\<open>char::is_control\<close> on the UTF-8 bytes of a character.\<close>

definition is_control :: "string \<Rightarrow> bool" where
  "is_control g =
     (case map code_of g of [a] \<Rightarrow> a < 32 \<or> a = 127 | [a, b] \<Rightarrow> a = 194 \<and> 128 \<le> b \<and> b \<le> 159 | _ \<Rightarrow> False)"

fun host_header :: "string list \<Rightarrow> string option" where
  "host_header [] = None"
| "host_header (line # ls) =
     (case split_once CHR '':'' line of
        Some (name, v) \<Rightarrow> if eq_ignore_ascii_case (trim name) ''host'' then Some (trim v) else host_header ls
      | None \<Rightarrow> host_header ls)"

definition redirect_authority :: "string \<Rightarrow> u16 \<Rightarrow> string" where
  "redirect_authority host https_port =
     (if starts_with host ''['' \<and> str_contains '']:'' host then host
      else if (case rsplit_once CHR '':'' host of None \<Rightarrow> False | Some (_, p) \<Rightarrow> parse_uint 65535 p \<noteq> None) then host
      else host @ '':'' @ word_to_string https_port)"

definition https_redirect_location :: "(byte list \<Rightarrow> string) \<Rightarrow> byte list \<Rightarrow> u16 \<Rightarrow> string" where
  "https_redirect_location lossy initial_buf https_port =
     (let request = lossy initial_buf;
          parts = split_whitespace (first_text (str_lines request));
          path = (if length parts > 1 \<and> starts_with (parts ! 1) ''/'' then parts ! 1 else ''/'');
          host = (case host_header (str_lines request) of None \<Rightarrow> ''localhost''
            | Some h \<Rightarrow> if h \<noteq> [] \<and> \<not> list_ex is_control (chars_of h) then h else ''localhost'')
      in ''https://'' @ redirect_authority host https_port @ path)"

definition redirect_response :: "string \<Rightarrow> string" where
  "redirect_response location =
     ''HTTP/1.1 308 Permanent Redirect'' @ crlf @ ''Location: '' @ location @ crlf @ ''Content-Length: 0'' @ crlf
     @ ''Cache-Control: no-store'' @ crlf @ ''Connection: close'' @ crlf @ crlf"

section \<open>Connections\<close>

text \<open>\<open>HTTP_TLS_BUFFER_BYTES\<close> and \<open>HTTP_REQUEST_BUFFER_BYTES\<close> bound the one read that decides.\<close>

definition HTTP_REQUEST_BUFFER_BYTES :: nat where [limits]: "HTTP_REQUEST_BUFFER_BYTES = 4 * 1024"
definition HTTP_TLS_BUFFER_BYTES :: nat where [limits]: "HTTP_TLS_BUFFER_BYTES = 1024"

datatype http_outcome = Nothing | Redirected string | Served string | Web_Socket prefix_stream | Tls_Handshake

definition is_websocket_request :: "(string \<Rightarrow> string) \<Rightarrow> string \<Rightarrow> bool" where
  "is_websocket_request lower req \<longleftrightarrow>
     str_contains ''upgrade: websocket'' (lower req) \<or> str_contains ''/ws'' req \<or> str_contains ''/control'' req"

definition handle_tls_connection ::
  "(byte list \<Rightarrow> string) \<Rightarrow> (string \<Rightarrow> string) \<Rightarrow> string \<Rightarrow> string \<Rightarrow> receiver_settings \<Rightarrow> byte list \<Rightarrow> http_outcome" where
  "handle_tls_connection lossy lower page cert_hash settings bytes =
     (let buf = take HTTP_TLS_BUFFER_BYTES bytes; rest = drop HTTP_TLS_BUFFER_BYTES bytes
      in if buf = [] then Nothing
         else if is_websocket_request lower (lossy buf) then Web_Socket \<lparr>px_prefix = Some buf, px_inner = rest\<rparr>
         else Served (serve_http_request lossy page cert_hash settings buf))"

definition redirect_http_to_https :: "(byte list \<Rightarrow> string) \<Rightarrow> byte list \<Rightarrow> u16 \<Rightarrow> http_outcome" where
  "redirect_http_to_https lossy bytes https_port =
     (let buf = take HTTP_REQUEST_BUFFER_BYTES bytes
      in if buf = [] then Nothing
         else Redirected (redirect_response (https_redirect_location lossy buf https_port)))"

text \<open>The first byte of a connection says whether it begins a TLS handshake.\<close>

definition accept_connection :: "(byte list \<Rightarrow> string) \<Rightarrow> u16 \<Rightarrow> byte list \<Rightarrow> http_outcome" where
  "accept_connection lossy https_port bytes =
     (case bytes of [] \<Rightarrow> redirect_http_to_https lossy bytes https_port
      | b # _ \<Rightarrow> if b = 0x16 then Tls_Handshake else redirect_http_to_https lossy bytes https_port)"

text \<open>The server's TLS: whether both files exist, their certificates and key (or why they cannot be read), and whether the
  TLS library takes the two together; without it the server starts, and drops what begins with a handshake.\<close>

definition tls_acceptor :: "bool \<Rightarrow> string + byte list list \<Rightarrow> string + byte list
  \<Rightarrow> (byte list list \<Rightarrow> byte list \<Rightarrow> string + 'a) \<Rightarrow> string + 'a option" where
  "tls_acceptor files certs key single_cert =
     (if files then
        (case (certs, key) of
           (Inr cs, Inr k) \<Rightarrow> (case single_cert cs k of Inl e \<Rightarrow> Inl e | Inr acceptor \<Rightarrow> Inr (Some acceptor))
         | _ \<Rightarrow> Inr None)
      else Inr None)"

text \<open>One connection: \<open>decrypt\<close> is what the handshake leaves to read, if it succeeds.\<close>

definition serve_connection ::
  "(byte list \<Rightarrow> string) \<Rightarrow> (string \<Rightarrow> string) \<Rightarrow> string \<Rightarrow> string \<Rightarrow> receiver_settings \<Rightarrow> 'a option
   \<Rightarrow> ('a \<Rightarrow> byte list \<Rightarrow> byte list option) \<Rightarrow> u16 \<Rightarrow> byte list \<Rightarrow> http_outcome" where
  "serve_connection lossy lower page cert_hash settings acceptor decrypt https_port bytes =
     (case accept_connection lossy https_port bytes of
        Tls_Handshake \<Rightarrow>
          (case acceptor of None \<Rightarrow> Nothing
           | Some a \<Rightarrow> (case decrypt a bytes of None \<Rightarrow> Nothing
               | Some plain \<Rightarrow> handle_tls_connection lossy lower page cert_hash settings plain))
      | outcome \<Rightarrow> outcome)"

section \<open>The control WebSocket\<close>

datatype ws_message = Ws_Text string | Ws_Close | Ws_Error | Ws_Other

fun ws_commands :: "(string \<Rightarrow> control_command option) \<Rightarrow> ws_message list \<Rightarrow> control_command list" where
  "ws_commands parse [] = []"
| "ws_commands parse (Ws_Text txt # ms) =
     (case parse txt of None \<Rightarrow> ws_commands parse ms | Some c \<Rightarrow> c # ws_commands parse ms)"
| "ws_commands parse (Ws_Close # ms) = []"
| "ws_commands parse (Ws_Error # ms) = []"
| "ws_commands parse (Ws_Other # ms) = ws_commands parse ms"

definition handle_websocket_connection ::
  "(string \<Rightarrow> control_command option) \<Rightarrow> ws_message list \<Rightarrow> control_command list" where
  "handle_websocket_connection parse ms = Get_Status # ws_commands parse ms"

end
