(* ===== verification/Casting_System.thy ===== *)
theory Casting_System
  imports Receiver_Timing Webtransport_Correct Http_Server
begin

text \<open>
  The transports and the receiver composed: the streams of an admitted session as events of the receiver's loop.
  Properties that need both sides: what is written on a media stream is what is queued for playback, and what a
  session's control messages and its end do to a stream that it does not own, and what the page server's WebSocket
  lets through.
\<close>

section \<open>Composition\<close>

text \<open>A unidirectional stream that carries \<open>bs\<close>: each message goes to the reassembly, and a frame it completes
  into the channel.  \<open>readings i\<close> are the instant and the clock at the \<open>i\<close>th message.\<close>

definition uni_stream :: "(nat \<Rightarrow> instant \<times> f64) \<Rightarrow> byte list \<Rightarrow> receiver_event list" where
  "uni_stream readings bs =
     map (\<lambda>(i, p). case readings i of (now, clock) \<Rightarrow> Packet now clock p)
       (enumerate 0 (read_messages MAX_UNI_STREAM_MESSAGE_BYTES bs))"

text \<open>A session whose accept loop ended, whatever its client was doing.\<close>

definition session_end :: "instant \<Rightarrow> string \<Rightarrow> receiver_event list" where
  "session_end now cid = [Stop_Enters now, Transport_Closed now cid]"

text \<open>One control message: routed at the connection, and what it forwards handled by the loop.\<close>

definition control_message ::
  "receiver_setup \<Rightarrow> bool \<Rightarrow> (byte list \<Rightarrow> control_command option) \<Rightarrow> f64 \<times> f64 \<times> instant \<Rightarrow> string \<Rightarrow> string
   \<Rightarrow> byte list \<Rightarrow> receiver \<Rightarrow> receiver" where
  "control_message e spawned parse reading cid ip payload r =
     (case reading of (receive_ms, send_ms, now) \<Rightarrow>
        let x = route_control_payload parse receive_ms send_ms now cid ip payload (rv_management r)
        in fold (\<lambda>c. receiver_step e (Command now spawned c)) (ro_commands x) (r\<lparr>rv_management := ro_management x\<rparr>))"

section \<open>Packets through the loop\<close>

definition packet_event :: "instant \<times> f64 \<times> byte list \<Rightarrow> receiver_event" where
  "packet_event a = (case a of (now, clock, p) \<Rightarrow> Packet now clock p)"

lemma send_frame_reassembly:
  "rv_reassembly (send_frame f r) = rv_reassembly r"
  "send_frame f (r\<lparr>rv_reassembly := s\<rparr>) = (send_frame f r)\<lparr>rv_reassembly := s\<rparr>"
  by (simp_all add: send_frame_def)

lemma send_frames_reassembly:
  "rv_reassembly (fold send_frame fs r) = rv_reassembly r"
  "fold send_frame fs (r\<lparr>rv_reassembly := s\<rparr>) = (fold send_frame fs r)\<lparr>rv_reassembly := s\<rparr>"
  by (induction fs arbitrary: r) (simp_all add: send_frame_reassembly)

lemma packets_run:
  "fold (receiver_step e) (map packet_event ps) r =
     (fold send_frame (concat (map (\<lambda>f. case f of None \<Rightarrow> [] | Some x \<Rightarrow> [x]) (fst (feed ps (rv_reassembly r))))) r)
       \<lparr>rv_reassembly := snd (feed ps (rv_reassembly r))\<rparr>"
proof (induction ps arbitrary: r)
  case (Cons a ps)
  obtain now clock p where a: "a = (now, clock, p)" by (cases a) auto
  obtain f s where p: "process_udp_chunk now clock p (rv_reassembly r) = (f, s)" by fastforce
  obtain fs s' where q: "feed ps s = (fs, s')" by fastforce
  show ?case
    using Cons.IH [of "receiver_step e (Packet now clock p) r"]
    by (cases f) (simp_all add: a packet_event_def p q send_frame_reassembly send_frames_reassembly)
qed simp

lemma enumerated_readings:
  "map (\<lambda>(i, p). case readings i of (now, clock) \<Rightarrow> Packet now clock p) (enumerate n ps)
   = map packet_event (map (\<lambda>(i, p). case readings i of (now, clock) \<Rightarrow> (now, clock, p)) (enumerate n ps))"
  by (induction ps arbitrary: n) (auto simp: packet_event_def split: prod.split)

lemma enumerate_arrivals:
  assumes "\<And>j. j < length as \<Longrightarrow> readings (n + j) = snd (as ! j)"
  shows "map (\<lambda>(i, p). case readings i of (now, clock) \<Rightarrow> (now, clock, p))
      (enumerate n (map (\<lambda>a. chunk_packet h (fst a) (pl (fst a))) as)) = arrivals_of h pl as"
  using assms
proof (induction as arbitrary: n)
  case (Cons a as)
  have "readings n = snd a"
    using Cons.prems [of 0] by simp
  moreover have "\<And>j. j < length as \<Longrightarrow> readings (Suc n + j) = snd (as ! j)"
    using Cons.prems [of "Suc j" for j] by simp
  ultimately show ?case
    using Cons.IH [of "Suc n"] by (cases a) (simp add: arrivals_of_def)
qed (simp add: arrivals_of_def)

lemma packet_legal:
  assumes "format_ok h" and "i < unat (fm_total h)" and "pl i \<noteq> []"
    and "length (concat (map pl [0..<unat (fm_total h)])) \<le> MAX_ACCESS_UNIT_BYTES"
  shows "legal_message MAX_UNI_STREAM_MESSAGE_BYTES (chunk_packet h i (pl i))"
proof -
  have "length (pl i) \<in> set (map (length \<circ> pl) [0..<unat (fm_total h)])"
    using assms(2) by auto
  then have "length (pl i) \<le> length (concat (map pl [0..<unat (fm_total h)]))"
    using member_le_sum_list [of "length (pl i)" "map (length \<circ> pl) [0..<unat (fm_total h)]"]
    by (simp add: length_concat comp_def)
  moreover have "length (chunk_packet h i (pl i)) = 16 + timing_len (fm_tag h) + length (pl i)"
    using assms(1) by (simp add: format_ok_def length_chunk_packet)
  moreover have "timing_len (fm_tag h) \<le> 20"
    by (simp add: timing_len_def)
  ultimately have "length (chunk_packet h i (pl i)) \<le> MAX_UNI_STREAM_MESSAGE_BYTES"
      "chunk_packet h i (pl i) \<noteq> []"
    using assms(4) by (auto simp: limits)
  then show ?thesis
    using limits_fit(2) by (simp add: legal_message_def)
qed

section \<open>Properties\<close>

text \<open>
  Media end to end: when a client writes the chunks of an access unit, in any order, as messages of a
  unidirectional stream to an idle receiver loop, the whole stream makes exactly one frame and puts it into the
  frame channel, and its access unit is the concatenation of the payloads in index order.
\<close>

theorem media_stream_is_queued_whole:
  assumes "reassembly_ok (rv_reassembly r)" and "rv_frames r = []" and "rv_waiting r = []"
    and "format_ok h" and "last_completed_seq (rv_reassembly r) < fm_seq h"
    and "\<forall>a \<in> set (assemblies (rv_reassembly r)). as_seq a \<noteq> fm_seq h"
    and "distinct (map fst as)" and "set (map fst as) = {..<unat (fm_total h)}"
    and "\<forall>i < unat (fm_total h). pl i \<noteq> []"
    and "length (concat (map pl [0..<unat (fm_total h)])) \<le> MAX_ACCESS_UNIT_BYTES"
    and "\<forall>(i, now, clock) \<in> set as. now - fst (snd (hd as)) \<le> ASSEMBLY_TTL"
    and "bs = concat (map (\<lambda>a. framed (chunk_packet h (fst a) (pl (fst a)))) as)"
    and "\<forall>j < length as. readings j = snd (as ! j)"
  shows "\<exists>f. rv_frames (fold (receiver_step e) (uni_stream readings bs) r) = [f]
    \<and> rv_waiting (fold (receiver_step e) (uni_stream readings bs) r) = []
    \<and> vf_access_unit f = concat (map pl [0..<unat (fm_total h)]) \<and> vf_seq f = fm_seq h
    \<and> vf_codec f = format_codec h"
proof -
  let ?ps = "map (\<lambda>a. chunk_packet h (fst a) (pl (fst a))) as"
  have "list_all (legal_message MAX_UNI_STREAM_MESSAGE_BYTES) ?ps"
  proof -
    have "fst a < unat (fm_total h)" if "a \<in> set as" for a
      using assms(8) that by auto
    then show ?thesis
      using packet_legal [OF assms(4) _ _ assms(10)] assms(9) by (auto simp: list_all_iff)
  qed
  from uni.read_all [OF this] have "read_messages MAX_UNI_STREAM_MESSAGE_BYTES bs = ?ps"
    by (simp add: assms(12) comp_def)
  then have ev: "uni_stream readings bs = map packet_event (arrivals_of h pl as)"
    using enumerate_arrivals [of as readings 0 h pl] assms(13) by (simp add: uni_stream_def enumerated_readings)
  show ?thesis
    using feed_fresh [OF assms(1,4-11)]
    by (simp add: ev packets_run assms(2,3) send_frame_def frame_of_def entry_with_def new_assembly_def
        format_chunk_def limits)
qed

definition sample_payloads :: "nat \<Rightarrow> byte list" where
  "sample_payloads i = (if i = 0 then [1, 2] else [3])"

definition sample_readings :: "nat \<Rightarrow> instant \<times> f64" where
  "sample_readings j = (if j = 0 then (1000, NaN) else (7001000, NaN))"

theorem media_stream_is_queued_whole_witness:
  "\<exists>f. rv_frames (fold (receiver_step sample_setup) (uni_stream sample_readings
        (framed (chunk_packet sample_format 1 [3]) @ framed (chunk_packet sample_format 0 [1, 2])))
      (initial_receiver sample_engine 0)) = [f] \<and> vf_access_unit f = [1, 2, 3]"
proof -
  have t: "unat (fm_total sample_format) = 2" "fm_seq sample_format = 7"
    by (simp_all add: sample_format_def)
  have "\<exists>f. rv_frames (fold (receiver_step sample_setup) (uni_stream sample_readings
        (framed (chunk_packet sample_format 1 [3]) @ framed (chunk_packet sample_format 0 [1, 2])))
      (initial_receiver sample_engine 0)) = [f]
    \<and> rv_waiting (fold (receiver_step sample_setup) (uni_stream sample_readings
        (framed (chunk_packet sample_format 1 [3]) @ framed (chunk_packet sample_format 0 [1, 2])))
      (initial_receiver sample_engine 0)) = []
    \<and> vf_access_unit f = concat (map sample_payloads [0..<unat (fm_total sample_format)])
    \<and> vf_seq f = fm_seq sample_format \<and> vf_codec f = format_codec sample_format"
    by (rule media_stream_is_queued_whole [where as = "[(1, sample_readings 0), (0, sample_readings 1)]"
          and pl = sample_payloads])
       (auto simp: initial_receiver_def initial_ok sample_format_ok t, auto simp: initial_reassembly_def sample_payloads_def
          sample_readings_def upt_rec limits from_millis_def less_2_cases_iff)
  then show ?thesis
    by (auto simp: t upt_rec sample_payloads_def)
qed

text \<open>
  Property C21. Any client's disconnect ends another client's stream: while a client streams, the end of the
  session of a different client sends a stop frame, and as soon as the loop takes it the receiver is back on the
  dashboard (with a process that has not been killed, unless the engine claimed the dashboard without one), with the session
  of the streaming client closed as stopped by its user.
\<close>

theorem foreign_disconnect_ends_stream:
  assumes "sender_id (rv_management r) = Some owner" and "other \<noteq> owner"
    and "rv_frames r = []" and "rv_waiting r = []"
    and "r' = fold (receiver_step e) (session_end t other @ [Take_Frame t' True taken]) r"
  shows "back_to_idle r' \<and> dashboard_configured e r' \<and> (shows_dashboard e r' \<longleftrightarrow> \<not> dead_dashboard e r)
    \<and> (\<exists>s. mg_stream (rv_management r) = Some s \<and> sr_id (hd (mg_history (rv_management r'))) = st_id s
         \<and> sr_end_reason (hd (mg_history (rv_management r'))) = Some ''user_stop'')"
proof -
  let ?c = "r\<lparr>rv_management := snd (connection_closed t other (rv_management r)), rv_frames := []\<rparr>"
  have r': "r' = handle_stop_frame e t' True ?c"
    using assms(3-5) by (simp add: session_end_def send_frame_def limits handle_frame_def stop_frame_def)
  obtain s where s: "mg_stream (rv_management r) = Some s"
    using assms(1) by (cases "mg_stream (rv_management r)") (simp_all add: sender_id_def)
  have "only_own other (rv_management r) (snd (connection_closed t other (rv_management r)))"
    by (rule only_own_step(5))
  then have c: "mg_stream (rv_management ?c) = Some s"
    using assms(1,2) s by (simp add: only_own_def)
  have "mg_history (rv_management r') = mg_history (snd (stop t' ''user_stop'' (rv_management ?c)))"
    by (simp add: r' handle_stop_frame_def ending_defs Let_def)
  then have "sr_id (hd (mg_history (rv_management r'))) = st_id s
      \<and> sr_end_reason (hd (mg_history (rv_management r'))) = Some ''user_stop''"
    using c by (simp add: stop_def Let_def finish_history push_front_bounded_def pop_front_over_drop session_of_def limits)
  moreover have "dead_dashboard e ?c \<longleftrightarrow> dead_dashboard e r"
    by (simp add: dead_dashboard_def dashboard_configured_def)
  ultimately show ?thesis
    using s stop_ends(3) stop_shows(3,6) r' by blast
qed

theorem foreign_disconnect_ends_stream_witness:
  "back_to_idle (fold (receiver_step sample_setup) (session_end 7 ''b'' @ [Take_Frame 8 True True]) streaming_receiver)"
proof (rule foreign_disconnect_ends_stream [OF _ _ _ _ refl, THEN conjunct1])
  show "sender_id (rv_management streaming_receiver) = Some ''a''"
    by (simp add: streaming_receiver_def start_def Let_def sender_id_def new_stream_def sample_client_def)
qed (simp_all add: streaming_receiver_def initial_receiver_def)

text \<open>The commands that act on the stream of whoever is casting, whoever sends them.\<close>

fun takes_the_stream :: "control_command \<Rightarrow> bool" where
  "takes_the_stream Stop = True"
| "takes_the_stream Admin_Stop = True"
| "takes_the_stream Restart_Receiver = True"
| "takes_the_stream (Shutdown _) = True"
| "takes_the_stream (Start _) = True"
| "takes_the_stream _ = False"

lemma hello_own: "cm_connection_id d = cid \<Longrightarrow> only_own cid m (hello now d m)"
  by (auto simp: only_own_def hello_def Let_def)

lemma command_own:
  assumes "own_identity cid ip c" and "\<not> takes_the_stream c"
  shows "only_own cid (rv_management r) (rv_management (handle_command e now spawned c r))"
  using assms by (cases c) (auto simp: hello_metadata_def only_own_step handle_get_status_def Let_def intro: hello_own)

lemma commands_own:
  assumes "list_all (own_identity cid ip) (map (\<lambda>(now, spawned, c). c) cs)"
    and "\<forall>(now, spawned, c) \<in> set cs. \<not> takes_the_stream c"
  shows "only_own cid (rv_management r)
    (rv_management (fold (\<lambda>(now, spawned, c). receiver_step e (Command now spawned c)) cs r))"
  using assms
proof (induction cs arbitrary: r)
  case (Cons x cs)
  obtain now spawned c where x: "x = (now, spawned, c)"
    by (cases x) auto
  have "only_own cid (rv_management r) (rv_management (handle_command e now spawned c r))"
    using Cons.prems by (intro command_own [where ip = ip]) (simp_all add: x)
  then show ?case
    using Cons only_own_trans by (fastforce simp: x)
qed simp

text \<open>
  Property C20. A client cannot act under another identity.  Whatever bytes a control stream carries, however they parse,
  every hello and start it forwards names its own connection (and address), and what it changes itself leaves the records and
  clock offsets of other connections and a stream it does not own as they are, up to and including its end.  When the loop
  has handled what it forwarded, at any later instants, that still holds unless one of the commands was a stop, an
  administrative stop, a restart, a shutdown or a start: those five act on the stream of whoever is casting.
\<close>

theorem control_stream_acts_for_itself:
  assumes "x = handle_control_stream parse json_type cid ip readings bs closed_at (rv_management r)"
    and "map (\<lambda>(now, spawned, c). c) cs = ro_commands x"
    and "r' = fold (\<lambda>(now, spawned, c). receiver_step e (Command now spawned c)) cs (r\<lparr>rv_management := ro_management x\<rparr>)"
  shows "list_all (own_identity cid ip) (ro_commands x) \<and> only_own cid (rv_management r) (ro_management x)
    \<and> ((\<forall>c \<in> set (ro_commands x). \<not> takes_the_stream c) \<longrightarrow> only_own cid (rv_management r) (rv_management r'))"
proof -
  have own: "list_all (own_identity cid ip) (ro_commands x)" "only_own cid (rv_management r) (ro_management x)"
    using control_stream_own unfolding assms(1) by blast+
  have "only_own cid (rv_management r) (rv_management r')" if quiet: "\<forall>c \<in> set (ro_commands x). \<not> takes_the_stream c"
  proof -
    have "\<forall>(now, spawned, c) \<in> set cs. \<not> takes_the_stream c"
      using quiet unfolding assms(2) [symmetric] by auto
    then have "only_own cid (ro_management x) (rv_management r')"
      using commands_own [of cid ip cs "r\<lparr>rv_management := ro_management x\<rparr>" e] own(1) by (simp add: assms(2,3))
    with own(2) show ?thesis
      by (rule only_own_trans)
  qed
  with own show ?thesis
    by blast
qed

text \<open>A second client announces itself, under a wrong name, while another one streams.\<close>

definition sample_hello :: client_hello where
  "sample_hello = \<lparr>ch_device_id = ''d'', ch_user_agent = [], ch_platform = [], ch_language = [], ch_page_session_id = [],
     ch_connection_id = Some ''a'', ch_remote_ip = None\<rparr>"

theorem control_stream_acts_for_itself_witness:
  "let x = handle_control_stream (\<lambda>_. Some (Client_Hello sample_hello)) (\<lambda>_. None) ''b'' ''10.0.0.9'' (\<lambda>_. (NaN, NaN, 5))
        (framed [7]) 6 (rv_management streaming_receiver);
      r' = fold (\<lambda>(now, spawned, c). receiver_step sample_setup (Command now spawned c))
        (map (\<lambda>c. (8, True, c)) (ro_commands x)) (streaming_receiver\<lparr>rv_management := ro_management x\<rparr>)
   in length (ro_commands x) = 2 \<and> only_own ''b'' (rv_management streaming_receiver) (rv_management r')"
proof -
  let ?m = "rv_management streaming_receiver"
  let ?x = "handle_control_stream (\<lambda>_. Some (Client_Hello sample_hello)) (\<lambda>_. None) ''b'' ''10.0.0.9'' (\<lambda>_. (NaN, NaN, 5))
        (framed [7]) 6 ?m"
  have "read_messages MAX_CONTROL_MESSAGE_BYTES (framed [7]) = [[7]]"
    using control.read_all [of "[[7]]"] by (simp add: legal_message_def limits u32_max_def)
  moreover have "\<not> fst (connection_closed 6 ''b'' ?m)"
    by (simp add: streaming_receiver_def connection_closed_def Let_def sender_id_def start_def new_stream_def sample_client_def)
  then obtain m' where "connection_closed 6 ''b'' ?m = (False, m')"
    by (cases "connection_closed 6 ''b'' ?m") simp
  ultimately have x: "ro_commands ?x = [Get_Status, Client_Hello (sample_hello\<lparr>ch_connection_id := Some ''b'', ch_remote_ip := Some ''10.0.0.9''\<rparr>)]"
    by (simp add: handle_control_stream_def is_ui_request_def timed_messages_def route_control_payload_def Let_def split: prod.split)
  show ?thesis
    using control_stream_acts_for_itself [OF refl _ refl, of "map (\<lambda>c. (8, True, c)) (ro_commands ?x)" "\<lambda>_. Some (Client_Hello sample_hello)"
        "\<lambda>_. None" "''b''" "''10.0.0.9''" "\<lambda>_. (NaN, NaN, 5)" "framed [7]" 6 streaming_receiver sample_setup]
    by (simp add: Let_def x comp_def del: receiver_step.simps fold_simps)
qed

text \<open>
  Administrative commands need no administrator: a control message of any admitted client that parses
  as a restart or a shutdown is forwarded as it is, ends the session of whoever is streaming and makes the
  receiver leave its loop.
\<close>

theorem any_client_can_stop_the_receiver:
  assumes "parse payload = Some Restart_Receiver \<or> parse payload = Some (Shutdown reason)"
  shows "\<not> rv_running (control_message e spawned parse reading cid ip payload r)
    \<and> mg_stream (rv_management (control_message e spawned parse reading cid ip payload r)) = None"
  using assms by (auto simp: control_message_def route_control_payload_def stop_session_def Let_def split: prod.split)

theorem any_client_can_stop_the_receiver_witness:
  "\<not> rv_running (control_message sample_setup True (\<lambda>_. Some (Shutdown ''bye'')) (NaN, NaN, 9) ''wt-2'' ''10.0.0.7''
      [0] streaming_receiver)"
  using any_client_can_stop_the_receiver [of "\<lambda>_. Some (Shutdown ''bye'')" "[0]" "''bye''"] by simp

text \<open>
  The page server's WebSocket asks for no pairing: whoever sends a first request of the WebSocket kind
  and then a text that parses as a shutdown or a restart ends the session of whoever is streaming and the receiver
  itself; no code, token or origin is looked at, and the request need not even ask for an upgrade if its bytes
  contain \<open>/ws\<close> or \<open>/control\<close>.
\<close>

theorem page_socket_needs_no_pairing:
  assumes "take HTTP_TLS_BUFFER_BYTES bytes \<noteq> []"
    and "str_contains ''/ws'' (lossy (take HTTP_TLS_BUFFER_BYTES bytes))"
    and "parse txt = Some Restart_Receiver \<or> parse txt = Some (Shutdown reason)"
    and "r' = fold (\<lambda>c. receiver_step e (Command now spawned c)) (handle_websocket_connection parse [Ws_Text txt]) r"
  shows "(\<exists>s. handle_tls_connection lossy lower page cert_hash settings bytes = Web_Socket s)
    \<and> \<not> rv_running r' \<and> mg_stream (rv_management r') = None"
  using assms by (auto simp: handle_tls_connection_def is_websocket_request_def Let_def handle_websocket_connection_def
      stop_session_def split: prod.split)

theorem page_socket_needs_no_pairing_witness:
  "\<not> rv_running (fold (\<lambda>c. receiver_step sample_setup (Command 9 True c))
      (handle_websocket_connection (\<lambda>_. Some (Shutdown ''bye'')) [Ws_Text ''{}'']) streaming_receiver)"
  by (rule page_socket_needs_no_pairing [where bytes = "[71]" and lossy = "\<lambda>_. ''GET /ws''" and reason = "''bye''"
        and lower = "\<lambda>s. s" and page = "[]" and cert_hash = "[]" and settings = default_settings, OF _ _ _ refl, THEN conjunct2, THEN conjunct1])
    (simp_all add: HTTP_TLS_BUFFER_BYTES_def)

end
