(* ===== verification/Receiver_Ipc.thy ===== *)
theory Receiver_Ipc
  imports Control Pairing
begin

text \<open>
  \<open>src/admin_protocol.rs\<close> and \<open>src/receiver_ipc.rs\<close>: the requests of the manager to the receiver, one per
  connection of a Unix socket.  The JSON form of requests and responses is a parameter.
\<close>

type_synonym u8 = "8 word"

definition PROTOCOL_VERSION :: u8 where "PROTOCOL_VERSION = 1"

datatype receiver_request =
    Ask_Ping u8
  | Ask_Snapshot u8
  | Ask_Stop_Sharing u8
  | Ask_Shutdown u8 string
  | Ask_Pairing_Code u8

fun request_version :: "receiver_request \<Rightarrow> u8" where
  "request_version (Ask_Ping v) = v"
| "request_version (Ask_Snapshot v) = v"
| "request_version (Ask_Stop_Sharing v) = v"
| "request_version (Ask_Shutdown v _) = v"
| "request_version (Ask_Pairing_Code v) = v"

datatype receiver_response =
    Reply_Pong u8 bool
  | Reply_Snapshot u8 bool management_snapshot pairing_snapshot
  | Reply_Pairing_Code u8 string
  | Reply_Ack u8
  | Reply_Error u8 string

text \<open>One request, read as a line and answered: the response, the commands put into the receiver's queue, and the pairing
  state, which a reading may expire.\<close>

definition answer_request ::
  "(string \<Rightarrow> receiver_request option) \<Rightarrow> instant \<Rightarrow> bool \<Rightarrow> string \<Rightarrow> management \<Rightarrow> pairing_data
   \<Rightarrow> receiver_response \<times> control_command list \<times> pairing_data" where
  "answer_request parse now ready line m d =
     (case parse (trim line) of
        None \<Rightarrow> (Reply_Error PROTOCOL_VERSION ''invalid_request'', [], d)
      | Some request \<Rightarrow>
        if request_version request \<noteq> PROTOCOL_VERSION
        then (Reply_Error PROTOCOL_VERSION ''unsupported_version'', [], d)
        else case request of
          Ask_Ping _ \<Rightarrow> (Reply_Pong PROTOCOL_VERSION ready, [], d)
        | Ask_Snapshot _ \<Rightarrow>
          (case snapshot now d of (p, d) \<Rightarrow> (Reply_Snapshot PROTOCOL_VERSION ready (management_snapshot_of now m) p, [], d))
        | Ask_Stop_Sharing _ \<Rightarrow> (Reply_Ack PROTOCOL_VERSION, [Admin_Stop], d)
        | Ask_Shutdown _ reason \<Rightarrow> (Reply_Ack PROTOCOL_VERSION, [Shutdown reason], d)
        | Ask_Pairing_Code _ \<Rightarrow>
          (case snapshot now d of (p, d) \<Rightarrow>
             (case code p of Some c \<Rightarrow> (Reply_Pairing_Code PROTOCOL_VERSION c, [], d)
              | None \<Rightarrow> (Reply_Error PROTOCOL_VERSION ''pairing_code_unavailable'', [], d))))"

text \<open>A connection that sends \<open>sent\<close>: when its line is no text the handler ends with an error, without a response.\<close>

definition ipc_handle ::
  "(string \<Rightarrow> receiver_request option) \<Rightarrow> instant \<Rightarrow> bool \<Rightarrow> string \<Rightarrow> management \<Rightarrow> pairing_data
   \<Rightarrow> receiver_response option \<times> control_command list \<times> pairing_data" where
  "ipc_handle parse now ready sent m d =
     (case read_line sent of None \<Rightarrow> (None, [], d)
      | Some line \<Rightarrow> (case answer_request parse now ready line m d of (r, cs, d) \<Rightarrow> (Some r, cs, d)))"

end
