(* ===== verification/Redact.thy ===== *)
theory Redact
  imports Config
begin

text \<open>
  \<open>redact\<close> of \<open>src/operational_log.rs\<close>: the texts that must not reach the journal.  The search for each marker
  goes on behind what was just replaced, so a marker is a recursion on the rest of the text.
\<close>

section \<open>The operation\<close>

text \<open>\<open>s.find(p)\<close> and \<open>s.replace(p, by)\<close> for a pattern that is not empty.\<close>

fun str_find :: "string \<Rightarrow> string \<Rightarrow> nat option" where
  "str_find p [] = (if p = [] then Some 0 else None)"
| "str_find p (c # cs) = (if starts_with (c # cs) p then Some 0 else map_option Suc (str_find p cs))"

lemma str_find_here: "str_find p (p @ c) = Some 0"
proof (cases "p @ c")
  case (Cons x xs)
  have "starts_with (p @ c) p"
    by (auto simp: starts_with_iff)
  then show ?thesis
    by (simp add: Cons)
qed simp

lemma str_find_Some: "str_find p s = Some i \<Longrightarrow> \<exists>c. s = take i s @ p @ c \<and> i + length p \<le> length s"
proof (induction s arbitrary: i)
  case (Cons x s)
  show ?case
  proof (cases "starts_with (x # s) p")
    case True
    then obtain t where t: "x # s = p @ t"
      by (auto simp: starts_with_iff)
    have "length (x # s) = length p + length t"
      unfolding t by simp
    moreover have "i = 0"
      using Cons.prems True by simp
    ultimately show ?thesis
      by (intro exI [of _ t]) (simp add: t)
  next
    case False
    then obtain j where j: "str_find p s = Some j" "i = Suc j"
      using Cons.prems by auto
    then show ?thesis
      using Cons.IH [OF j(1)] by auto
  qed
qed (simp split: if_splits)

lemma str_find_first: "str_find p (a @ p @ c) = Some i \<Longrightarrow> i \<le> length a"
  by (induction a arbitrary: i) (auto simp: str_find_here split: if_splits)

lemma str_find_None: "str_find p (a @ p @ c) \<noteq> None"
  by (induction a) (simp_all add: str_find_here)

function str_replace :: "string \<Rightarrow> string \<Rightarrow> string \<Rightarrow> string" where
  "str_replace p by_text s =
     (if p = [] then s
      else case str_find p s of None \<Rightarrow> s
      | Some i \<Rightarrow> take i s @ by_text @ str_replace p by_text (drop (i + length p) s))"
  by auto
termination
proof (relation "measure (\<lambda>(p, _, s). length s)")
  show "((p, by_text, drop (i + length p) s), (p, by_text, s)) \<in> measure (\<lambda>(p, _, s). length s)"
    if "p \<noteq> []" "str_find p s = Some i" for p by_text s i
    using that str_find_Some [OF that(2)] by (cases p) auto
qed simp

declare str_replace.simps [simp del]

definition REDACTED :: string where
  "REDACTED = ''[REDACTED]''"

definition SECRET_NAMES :: "string list" where
  "SECRET_NAMES = [''PAIRING_CODE_FIXED'', ''PAIRING_REGISTRATION_SECRET'', ''PAIRING_TOKEN_PRIVATE_KEY'',
     ''CLOUDFLARE_API_TOKEN'']"

definition MARKERS :: "string list" where
  "MARKERS = [''?code='', ''&code='', ''?token='', ''&token='', ''signature='']"

definition redact_secret :: "environment \<Rightarrow> string \<Rightarrow> string \<Rightarrow> string" where
  "redact_secret env name s =
     (case env name of None \<Rightarrow> s
      | Some secret \<Rightarrow> if secret \<noteq> [] then str_replace secret REDACTED s else s)"

text \<open>The value behind a marker ends before the next of these.\<close>

definition ends_value :: "char \<Rightarrow> bool" where
  "ends_value c \<longleftrightarrow> c = CHR ''&'' \<or> c = CHR '' '' \<or> c = CHR 0x22"

definition skip_value :: "string \<Rightarrow> string" where
  "skip_value s = dropWhile (\<lambda>c. \<not> ends_value c) s"

function redact_marker :: "string \<Rightarrow> string \<Rightarrow> string" where
  "redact_marker m s =
     (if m = [] then s
      else case str_find m (to_ascii_lowercase s) of None \<Rightarrow> s
      | Some i \<Rightarrow> take (i + length m) s @ REDACTED @ redact_marker m (skip_value (drop (i + length m) s)))"
  by auto
termination
proof (relation "measure (\<lambda>(m, s). length s)")
  show "((m, skip_value (drop (i + length m) s)), (m, s)) \<in> measure (\<lambda>(m, s). length s)"
    if "m \<noteq> []" "str_find m (to_ascii_lowercase s) = Some i" for m s i
    using that str_find_Some [OF that(2)] length_dropWhile_le [of "\<lambda>c. \<not> ends_value c" "drop (i + length m) s"]
    by (cases m) (auto simp: skip_value_def to_ascii_lowercase_def)
qed simp

declare redact_marker.simps [simp del]

definition one_line :: "string \<Rightarrow> string" where
  "one_line s = map (\<lambda>c. if c = CHR 0x0D \<or> c = CHR 0x0A then CHR '' '' else c) s"

definition redact :: "environment \<Rightarrow> string \<Rightarrow> string" where
  "redact env input = fold redact_marker MARKERS (fold (redact_secret env) SECRET_NAMES (one_line input))"

section \<open>What is left behind a marker\<close>

text \<open>The replacement stands where a value would, and nothing of a value behind it: the text ends there, or goes on with a
  character that ends a value.\<close>

definition value_removed :: "string \<Rightarrow> bool" where
  "value_removed c \<longleftrightarrow> (\<exists>d. c = REDACTED @ d \<and> (d = [] \<or> ends_value (hd d)))"

text \<open>Every occurrence of \<open>m\<close>, in upper or lower case, is followed by the replacement alone.\<close>

definition hidden :: "string \<Rightarrow> string \<Rightarrow> bool" where
  "hidden m s \<longleftrightarrow> (\<forall>a b c. s = a @ b @ c \<and> to_ascii_lowercase b = m \<longrightarrow> value_removed c)"

text \<open>Such a marker shares no character with the replacement where it matters: it has no bracket, and it ends
  in a character that the replacement lacks.\<close>

definition marker :: "string \<Rightarrow> bool" where
  "marker m \<longleftrightarrow> m \<noteq> [] \<and> CHR ''['' \<notin> set m \<and> CHR '']'' \<notin> set m \<and> last m = CHR ''=''"

lemma markers: "list_all marker MARKERS"
  by (simp add: MARKERS_def marker_def)

lemma hidden_suffix: "hidden m (x @ y) \<Longrightarrow> hidden m y"
  unfolding hidden_def by (metis append_assoc)

lemma lower_append [simp]: "to_ascii_lowercase (a @ b) = to_ascii_lowercase a @ to_ascii_lowercase b"
  by (simp add: to_ascii_lowercase_def)

lemma lower_length [simp]: "length (to_ascii_lowercase s) = length s"
  by (simp add: to_ascii_lowercase_def)

lemma lower_last: "b \<noteq> [] \<Longrightarrow> last (to_ascii_lowercase b) = ascii_lower (last b)"
  by (simp add: to_ascii_lowercase_def last_map)

lemma lower_mem: "c \<in> set b \<Longrightarrow> ascii_lower c \<in> set (to_ascii_lowercase b)"
  by (simp add: to_ascii_lowercase_def)

lemma lower_fixed: "ascii_lower (CHR ''['') = CHR ''[''" "ascii_lower (CHR '']'') = CHR '']''"
  by code_simp+

lemma lower_redacted: "c \<in> set REDACTED \<Longrightarrow> ascii_lower c \<noteq> CHR ''=''"
proof -
  have "list_all (\<lambda>c. ascii_lower c \<noteq> CHR ''='') REDACTED"
    by code_simp
  then show "c \<in> set REDACTED \<Longrightarrow> ascii_lower c \<noteq> CHR ''=''"
    by (simp add: list_all_iff)
qed

text \<open>An occurrence in a text with a replacement in it lies before the replacement or behind it.\<close>

lemma occurrence_apart:
  assumes "marker m" and "x @ REDACTED @ y = a @ b @ c" and "to_ascii_lowercase b = m"
  shows "length (a @ b) \<le> length x \<or> length (x @ REDACTED) \<le> length a"
proof (rule ccontr)
  let ?n = "length x" and ?k = "length REDACTED"
  assume "\<not> ?thesis"
  then have lt: "?n < length a + length b" "length a < ?n + ?k"
    by auto
  have at: "b ! (j - length a) = REDACTED ! (j - ?n)" if "length a \<le> j" "j < length a + length b" "?n \<le> j" "j < ?n + ?k" for j
  proof -
    have "(a @ b @ c) ! j = b ! (j - length a)"
      using that by (auto simp: nth_append)
    moreover have "(x @ REDACTED @ y) ! j = REDACTED ! (j - ?n)"
      using that by (auto simp: nth_append)
    ultimately show ?thesis
      using assms(2) by simp
  qed
  have low: "ascii_lower d \<in> set m" if "d \<in> set b" for d
    using lower_mem [OF that] assms(3) by simp
  have ends: "REDACTED ! 0 = CHR ''[''" "REDACTED ! (?k - 1) = CHR '']''" "?k = 10"
    by (simp_all add: REDACTED_def)
  consider "length a \<le> ?n" | "?n < length a" "?n + ?k \<le> length a + length b" | "?n < length a" "length a + length b < ?n + ?k"
    by linarith
  then show False
  proof cases
    case 1
    then have "b ! (?n - length a) = CHR ''[''"
      using at [of ?n] lt ends by simp
    moreover have "b ! (?n - length a) \<in> set b"
      using 1 lt by (intro nth_mem) linarith
    ultimately show False
      using low lower_fixed assms(1) by (force simp: marker_def)
  next
    case 2
    then have "b ! (?n + ?k - 1 - length a) = CHR '']''"
      using at [of "?n + ?k - 1"] lt ends by simp
    moreover have "b ! (?n + ?k - 1 - length a) \<in> set b"
      using 2 lt by (intro nth_mem) linarith
    ultimately show False
      using low lower_fixed assms(1) by (force simp: marker_def)
  next
    case 3
    have ne: "b \<noteq> []"
      using assms(1,3) by (auto simp: marker_def to_ascii_lowercase_def)
    have pos: "0 < length b"
      using ne by simp
    have "b ! (length a + length b - 1 - length a) = REDACTED ! (length a + length b - 1 - ?n)"
      by (rule at) (use 3 pos in linarith)+
    then have "last b = REDACTED ! (length a + length b - 1 - ?n)"
      using ne by (simp add: last_conv_nth)
    moreover have "length a + length b - 1 - ?n < ?k"
      using 3 by linarith
    ultimately have "last b \<in> set REDACTED"
      by simp
    then show False
      using lower_redacted lower_last [OF ne] assms(1,3) by (auto simp: marker_def)
  qed
qed

section \<open>One marker\<close>

lemma marker_found:
  assumes "m \<noteq> []" and "str_find m (to_ascii_lowercase s) = Some i"
  obtains a b t where "s = a @ b @ t" "length a = i" "to_ascii_lowercase b = m"
    "redact_marker m s = a @ b @ REDACTED @ redact_marker m (skip_value t)" "length t < length s"
    "\<forall>a' b' c. s = a' @ b' @ c \<and> to_ascii_lowercase b' = m \<longrightarrow> i \<le> length a'"
proof -
  obtain r where r: "to_ascii_lowercase s = take i (to_ascii_lowercase s) @ m @ r" "i + length m \<le> length s"
    using str_find_Some [OF assms(2)] by auto
  let ?a = "take i s" and ?b = "take (length m) (drop i s)" and ?t = "drop (i + length m) s"
  have s: "s = ?a @ ?b @ ?t"
    by (metis append_take_drop_id drop_drop add.commute)
  have "take (length m) (drop i (to_ascii_lowercase s)) = m"
    by (subst r(1)) (use r(2) in simp)
  then have b: "to_ascii_lowercase ?b = m"
    by (simp add: to_ascii_lowercase_def take_map drop_map)
  have "redact_marker m s = take (i + length m) s @ REDACTED @ redact_marker m (skip_value ?t)"
    using assms by (subst redact_marker.simps) simp
  moreover have "take (i + length m) s = ?a @ ?b"
    by (simp add: take_add)
  moreover have "\<forall>a' b' c. s = a' @ b' @ c \<and> to_ascii_lowercase b' = m \<longrightarrow> i \<le> length a'"
    using str_find_first assms(2) by fastforce
  ultimately show thesis
    using that [of ?a ?b ?t] s b r(2) assms(1) by (cases m) auto
qed

lemma marker_absent:
  assumes "str_find m (to_ascii_lowercase s) = None"
  shows "hidden m s"
  unfolding hidden_def
proof (intro allI impI, elim conjE)
  fix a b c
  assume "s = a @ b @ c" and "to_ascii_lowercase b = m"
  then have "str_find m (to_ascii_lowercase s) \<noteq> None"
    using str_find_None [of m "to_ascii_lowercase a" "to_ascii_lowercase c"] by simp
  then show "value_removed c"
    using assms by contradiction
qed

lemma skip_value_suffix: "\<exists>v. t = v @ skip_value t"
  by (metis skip_value_def takeWhile_dropWhile_id)

lemma skip_value_end: "skip_value t = [] \<or> ends_value (hd (skip_value t))"
  using hd_dropWhile [of "\<lambda>c. \<not> ends_value c" t] by (auto simp: skip_value_def)

text \<open>Hiding values leaves the first character as it is.\<close>

lemma redact_marker_hd:
  assumes "m \<noteq> []"
  shows "(redact_marker m s = [] \<longleftrightarrow> s = []) \<and> (s \<noteq> [] \<longrightarrow> hd (redact_marker m s) = hd s)"
proof (cases "str_find m (to_ascii_lowercase s)")
  case None
  then show ?thesis
    by (simp add: redact_marker.simps [of m s])
next
  case (Some i)
  then obtain a b t where "s = a @ b @ t" "to_ascii_lowercase b = m" "redact_marker m s = a @ b @ REDACTED @ redact_marker m (skip_value t)"
    using marker_found [OF assms] by metis
  moreover from this have "b \<noteq> []"
    using assms by (auto simp: to_ascii_lowercase_def)
  ultimately show ?thesis
    by (cases a) simp_all
qed

lemma replaced_value: "m \<noteq> [] \<Longrightarrow> value_removed (REDACTED @ redact_marker m (skip_value t))"
  using redact_marker_hd [of m "skip_value t"] skip_value_end [of t] by (auto simp: value_removed_def)

lemma length_skip_value: "length (skip_value t) \<le> length t"
  by (simp add: skip_value_def length_dropWhile_le)

lemma append_split_left:
  assumes "x @ y = a @ c" and "length a \<le> length x"
  shows "\<exists>e. x = a @ e \<and> c = e @ y"
proof -
  from assms(1) obtain us where "x = a @ us \<and> us @ y = c \<or> x @ us = a \<and> y = us @ c"
    by (auto simp: append_eq_append_conv2)
  then show ?thesis
    using assms(2) by auto
qed

text \<open>If what precedes and what follows a replacement is in order, so is the whole.\<close>

lemma hidden_join:
  assumes "marker m" and "hidden m y"
    and "\<And>a b c. x = a @ b @ c \<Longrightarrow> to_ascii_lowercase b = m \<Longrightarrow> value_removed (c @ REDACTED @ y)"
  shows "hidden m (x @ REDACTED @ y)"
  unfolding hidden_def
proof (intro allI impI, elim conjE)
  fix a b c
  assume eq: "x @ REDACTED @ y = a @ b @ c" and b: "to_ascii_lowercase b = m"
  from occurrence_apart [OF assms(1) eq b] show "value_removed c"
  proof
    assume "length (a @ b) \<le> length x"
    then obtain e where "x = a @ b @ e" "c = e @ REDACTED @ y"
      using append_split_left [of x "REDACTED @ y" "a @ b" c] eq by auto
    then show ?thesis
      using assms(3) [of a b e] b by auto
  next
    assume "length (x @ REDACTED) \<le> length a"
    then obtain e where "y = e @ b @ c"
      using append_split_left [of a "b @ c" "x @ REDACTED" y] eq by auto
    then show ?thesis
      using assms(2) b by (auto simp: hidden_def)
  qed
qed

lemma redact_marker_hides:
  assumes "marker m"
  shows "hidden m (redact_marker m s)"
proof (induction "length s" arbitrary: s rule: less_induct)
  case less
  have ne: "m \<noteq> []"
    using assms by (simp add: marker_def)
  show ?case
  proof (cases "str_find m (to_ascii_lowercase s)")
    case None
    then show ?thesis
      using ne marker_absent by (subst redact_marker.simps) simp
  next
    case (Some i)
    obtain a b t where d: "s = a @ b @ t" "length a = i" "to_ascii_lowercase b = m"
        "redact_marker m s = a @ b @ REDACTED @ redact_marker m (skip_value t)" "length t < length s"
        "\<forall>a' b' c. s = a' @ b' @ c \<and> to_ascii_lowercase b' = m \<longrightarrow> i \<le> length a'"
      using marker_found [OF ne Some] by metis
    have "length (skip_value t) < length s"
      using length_skip_value [of t] d(5) by linarith
    then have y: "hidden m (redact_marker m (skip_value t))"
      by (rule less)
    have "value_removed (c @ REDACTED @ redact_marker m (skip_value t))"
      if "a @ b = a' @ b' @ c" "to_ascii_lowercase b' = m" for a' b' c
    proof -
      have "s = a' @ b' @ (c @ t)"
        using d(1) that(1) by (metis append_assoc)
      then have "i \<le> length a'"
        using d(6) that(2) by blast
      moreover have "length b' = length b"
        using that(2) d(3) lower_length by metis
      moreover have "length a + length b = length a' + length b' + length c"
        using arg_cong [OF that(1), of length] by simp
      ultimately have "c = []"
        using d(2) by simp
      then show ?thesis
        using replaced_value [OF ne] by simp
    qed
    then show ?thesis
      using hidden_join [OF assms y, of "a @ b"] d(4) by simp
  qed
qed

text \<open>Hiding the values of one marker does not expose those of another.\<close>

lemma redact_marker_keeps:
  assumes "marker m" and "marker m'" and "hidden m' s"
  shows "hidden m' (redact_marker m s)"
  using assms(3)
proof (induction "length s" arbitrary: s rule: less_induct)
  case less
  have ne: "m \<noteq> []"
    using assms by (simp add: marker_def)
  show ?case
  proof (cases "str_find m (to_ascii_lowercase s)")
    case None
    then show ?thesis
      using ne less.prems by (subst redact_marker.simps) simp
  next
    case (Some i)
    obtain a b t where d: "s = a @ b @ t" "to_ascii_lowercase b = m"
        "redact_marker m s = a @ b @ REDACTED @ redact_marker m (skip_value t)" "length t < length s"
      using marker_found [OF ne Some] by metis
    have len: "length (skip_value t) < length s"
      using length_skip_value [of t] d(4) by linarith
    obtain v where "t = v @ skip_value t"
      using skip_value_suffix by blast
    then have "hidden m' (skip_value t)"
      using less.prems d(1) hidden_suffix [of m' "a @ b @ v" "skip_value t"] by (metis append_assoc)
    then have y: "hidden m' (redact_marker m (skip_value t))"
      by (rule less.hyps [OF len])
    have "value_removed (c @ REDACTED @ redact_marker m (skip_value t))"
      if x: "a @ b = a' @ b' @ c" "to_ascii_lowercase b' = m'" for a' b' c
    proof (cases "c = []")
      case True
      then show ?thesis
        using replaced_value [OF ne] by simp
    next
      case False
      have "s = a' @ b' @ (c @ t)"
        using d(1) x(1) by (metis append_assoc)
      then have "value_removed (c @ t)"
        using less.prems x(2) unfolding hidden_def by blast
      then obtain e where e: "c @ t = REDACTED @ e" "e = [] \<or> ends_value (hd e)"
        by (auto simp: value_removed_def)
      have b: "b \<noteq> []"
        using d(2) ne by (auto simp: to_ascii_lowercase_def)
      have "last c = last (a @ b)"
        using x(1) False by simp
      then have "ascii_lower (last c) = CHR ''=''"
        using b assms(1) d(2) lower_last [OF b] by (simp add: marker_def)
      then have "last c \<notin> set REDACTED"
        using lower_redacted by blast
      moreover have "last c \<in> set REDACTED" if short: "length c \<le> length REDACTED"
      proof -
        obtain f where "REDACTED = c @ f"
          using append_split_left [OF e(1) [symmetric] short] by blast
        then show ?thesis
          using last_in_set [OF False] by (metis UnI1 set_append)
      qed
      ultimately have "length REDACTED < length c"
        by linarith
      then obtain f where f: "c = REDACTED @ f" "e = f @ t" "f \<noteq> []"
        using append_split_left [OF e(1)] by auto
      then show ?thesis
        using e(2) by (auto simp: value_removed_def)
    qed
    then show ?thesis
      using hidden_join [OF assms(2) y, of "a @ b"] d(3) by simp
  qed
qed

lemma fold_markers_keep: "list_all marker ms \<Longrightarrow> marker m \<Longrightarrow> hidden m s \<Longrightarrow> hidden m (fold redact_marker ms s)"
  by (induction ms arbitrary: s) (simp_all add: redact_marker_keeps)

lemma fold_markers_hide: "list_all marker ms \<Longrightarrow> m \<in> set ms \<Longrightarrow> hidden m (fold redact_marker ms s)"
  by (induction ms arbitrary: s) (auto simp: fold_markers_keep redact_marker_hides list_all_iff)

section \<open>Property\<close>

text \<open>
  Property C22. No credential of an authenticated URL reaches the journal: in a redacted text every occurrence of
  \<open>?code=\<close>, \<open>&code=\<close>, \<open>?token=\<close>, \<open>&token=\<close> and \<open>signature=\<close>, in any case, is followed by \<open>[REDACTED]\<close>, and
  behind that nothing of the value is left: the text ends there or goes on with the \<open>&\<close>, blank or quotation mark that ended
  the value.  Hiding the value of one marker never exposes the value of another.
\<close>

theorem redaction_hides_credentials:
  assumes "m \<in> set MARKERS" and "redact env input = a @ b @ c" and "to_ascii_lowercase b = m"
  shows "\<exists>d. c = REDACTED @ d \<and> (d = [] \<or> hd d \<in> {CHR ''&'', CHR '' '', CHR 0x22})"
proof -
  have "value_removed c"
    using fold_markers_hide [OF markers assms(1)] assms(2,3) by (auto simp: hidden_def redact_def)
  then show ?thesis
    by (simp add: value_removed_def ends_value_def)
qed

theorem redaction_hides_credentials_witness:
  "redact (\<lambda>_. None) ''/?Code=AB12 x'' = ''/'' @ ''?Code='' @ ''[REDACTED] x''
   \<and> (\<exists>d. ''[REDACTED] x'' = REDACTED @ d \<and> (d = [] \<or> hd d \<in> {CHR ''&'', CHR '' '', CHR 0x22}))"
proof
  show r: "redact (\<lambda>_. None) ''/?Code=AB12 x'' = ''/'' @ ''?Code='' @ ''[REDACTED] x''"
    by code_simp
  show "\<exists>d. ''[REDACTED] x'' = REDACTED @ d \<and> (d = [] \<or> hd d \<in> {CHR ''&'', CHR '' '', CHR 0x22})"
    by (rule redaction_hides_credentials [OF _ r, where m = "''?code=''"]) (simp add: MARKERS_def, code_simp)
qed

end
