(* ===== verification/Oplog.thy ===== *)
theory Oplog
  imports Redact
begin

text \<open>
  \<open>src/operational_log.rs\<close>: the manager's event journal.  The disk is the text of each segment and of each
  incident file; what it does next is part of the state: every session with the disk (open, write, sync) takes
  one outcome from a list, and all goes well when the list is empty.  The JSON form of an event is a parameter.
  A rotation that fails leaves the segments as they were.
\<close>

section \<open>State\<close>

definition SEGMENT_BYTES :: nat where [limits]: "SEGMENT_BYTES = 8 * 1024 * 1024"
definition SEGMENT_COUNT :: nat where [limits]: "SEGMENT_COUNT = 4"
definition RECENT_LIMIT :: nat where [limits]: "RECENT_LIMIT = 2000"

record operational_event =
  oe_timestamp_unix_ms :: nat
  oe_severity :: string
  oe_category :: string
  oe_message :: string
  oe_receiver_generation :: nat

text \<open>\<open>io_written\<close> is how many of the lines reach the file before a write fails; \<open>None\<close> if none fails.\<close>

record io_outcome =
  io_rotated :: bool
  io_opened :: bool
  io_written :: "nat option"
  io_synced :: bool

definition io_well :: io_outcome where
  "io_well = \<lparr>io_rotated = True, io_opened = True, io_written = None, io_synced = True\<rparr>"

record oplog =
  ol_segments :: "string option list"
  ol_incidents :: "string option list"
  ol_recent :: "operational_event list"
  ol_healthy :: bool
  ol_pending_since_sync :: bool
  ol_aggregates :: "(string \<times> nat \<times> nat) list"
  ol_pending :: "string list"
  ol_disk :: "io_outcome list"

definition next_io :: "oplog \<Rightarrow> io_outcome \<times> oplog" where
  "next_io s = (case ol_disk s of [] \<Rightarrow> (io_well, s) | x # xs \<Rightarrow> (x, s\<lparr>ol_disk := xs\<rparr>))"

text \<open>The library that turns an event into a line and back.\<close>

record event_codec =
  ec_encode :: "operational_event \<Rightarrow> string"
  ec_decode :: "string \<Rightarrow> operational_event option"

section \<open>Rotation\<close>

definition rename_segment :: "nat \<Rightarrow> nat \<Rightarrow> string option list \<Rightarrow> string option list" where
  "rename_segment i j segs = (case segs ! i of None \<Rightarrow> segs | Some t \<Rightarrow> segs[j := Some t, i := None])"

text \<open>The three counters of \<open>prune_segments\<close> and what of one event's category they allow.\<close>

record kept =
  kp_sessions :: nat
  kp_connections :: nat
  kp_general :: nat

definition keep_event :: "nat \<Rightarrow> operational_event \<Rightarrow> kept \<Rightarrow> bool \<times> kept" where
  "keep_event cutoff x k =
     (if oe_timestamp_unix_ms x < cutoff then (False, k)
      else if oe_category x = ''stream_summary'' then
        let k = k\<lparr>kp_sessions := kp_sessions k + 1\<rparr> in (kp_sessions k \<le> 10000, k)
      else if starts_with (oe_category x) ''connection'' then
        let k = k\<lparr>kp_connections := kp_connections k + 1\<rparr> in (kp_connections k \<le> 10000, k)
      else let k = k\<lparr>kp_general := kp_general k + 1\<rparr> in (kp_general k \<le> 2000, k))"

fun retain_events :: "nat \<Rightarrow> operational_event list \<Rightarrow> kept \<Rightarrow> operational_event list \<times> kept" where
  "retain_events cutoff [] k = ([], k)"
| "retain_events cutoff (x # xs) k =
     (let (keep, k) = keep_event cutoff x k; (ys, k) = retain_events cutoff xs k
      in ((if keep then x # ys else ys), k))"

definition parse_segment :: "event_codec \<Rightarrow> string \<Rightarrow> operational_event list option" where
  "parse_segment codec text =
     (let es = map (ec_decode codec) (str_lines text) in if None \<in> set es then None else Some (map the es))"

definition journal_lines :: "event_codec \<Rightarrow> operational_event list \<Rightarrow> string" where
  "journal_lines codec es = concat (map (\<lambda>x. ec_encode codec x @ [CHR 0x0A]) es)"

fun prune_all :: "event_codec \<Rightarrow> nat \<Rightarrow> string option list \<Rightarrow> kept \<Rightarrow> string option list" where
  "prune_all codec cutoff [] k = []"
| "prune_all codec cutoff (seg # segs) k =
     (case seg of None \<Rightarrow> None # prune_all codec cutoff segs k
      | Some text \<Rightarrow>
        (case parse_segment codec text of None \<Rightarrow> Some text # prune_all codec cutoff segs k
         | Some es \<Rightarrow>
           (case retain_events cutoff (rev es) k of (kept, k) \<Rightarrow>
              Some (journal_lines codec (rev kept)) # prune_all codec cutoff segs k)))"

definition prune_segments :: "event_codec \<Rightarrow> nat \<Rightarrow> string option list \<Rightarrow> string option list" where
  "prune_segments codec now segs =
     prune_all codec (now - 30 * 24 * 60 * 60 * 1000) segs \<lparr>kp_sessions = 0, kp_connections = 0, kp_general = 0\<rparr>"

definition rotate_segments :: "event_codec \<Rightarrow> nat \<Rightarrow> string option list \<Rightarrow> string option list" where
  "rotate_segments codec now segs =
     (let segs = segs[SEGMENT_COUNT - 1 := None];
          segs = fold (\<lambda>i. rename_segment i (i + 1)) (rev [0..<SEGMENT_COUNT - 1]) segs
      in prune_segments codec now (segs[0 := Some []]))"

definition rotate_if_needed :: "event_codec \<Rightarrow> nat \<Rightarrow> string option list \<Rightarrow> string option list" where
  "rotate_if_needed codec now segs =
     (if (case segs ! 0 of None \<Rightarrow> 0 | Some t \<Rightarrow> length t) < SEGMENT_BYTES then segs
      else rotate_segments codec now segs)"

section \<open>Writing\<close>

definition append_journal :: "string list \<Rightarrow> string option list \<Rightarrow> string option list" where
  "append_journal ls segs = segs[0 := Some ((case segs ! 0 of None \<Rightarrow> [] | Some t \<Rightarrow> t) @ concat ls)]"

text \<open>Rotate, open, write \<open>ls\<close>: whether it worked, the segments, and whether the lines were taken off the
  queue (the \<open>drain\<close> is dropped with all it still holds when a write fails).\<close>

definition write_lines ::
  "event_codec \<Rightarrow> nat \<Rightarrow> io_outcome \<Rightarrow> string list \<Rightarrow> string option list \<Rightarrow> bool \<times> bool \<times> string option list" where
  "write_lines codec now io ls segs =
     (if \<not> io_rotated io then (False, False, segs)
      else
        let segs = rotate_if_needed codec now segs
        in if \<not> io_opened io then (False, False, segs)
           else case io_written io of
                  None \<Rightarrow> (True, True, append_journal ls segs)
                | Some n \<Rightarrow> (False, True, append_journal (take n ls) segs))"

definition flush_pending :: "event_codec \<Rightarrow> nat \<Rightarrow> oplog \<Rightarrow> bool \<times> oplog" where
  "flush_pending codec now s =
     (if ol_pending s = [] then (True, s)
      else
        let (io, s) = next_io s;
            (ok, drained, segs) = write_lines codec now io (ol_pending s) (ol_segments s)
        in (ok, s\<lparr>ol_segments := segs, ol_pending := (if drained then [] else ol_pending s)\<rparr>))"

definition write_critical :: "event_codec \<Rightarrow> nat \<Rightarrow> string \<Rightarrow> oplog \<Rightarrow> bool \<times> oplog" where
  "write_critical codec now line s =
     (case flush_pending codec now s of
        (False, s) \<Rightarrow> (False, s)
      | (True, s) \<Rightarrow>
        let (io, s) = next_io s; (ok, _, segs) = write_lines codec now io [line, [CHR 0x0A]] (ol_segments s)
        in (ok \<and> io_synced io, s\<lparr>ol_segments := segs\<rparr>))"

definition push_recent :: "operational_event \<Rightarrow> oplog \<Rightarrow> oplog" where
  "push_recent x s = s\<lparr>ol_recent := push_bounded RECENT_LIMIT x (ol_recent s)\<rparr>"

definition append_event :: "event_codec \<Rightarrow> nat \<Rightarrow> bool \<Rightarrow> operational_event \<Rightarrow> oplog \<Rightarrow> oplog" where
  "append_event codec now critical x s =
     (let encoded = ec_encode codec x;
          (ok, s) = (if critical then write_critical codec now encoded s
             else (True, s\<lparr>ol_pending := ol_pending s @ [encoded @ [CHR 0x0A]], ol_pending_since_sync := True\<rparr>))
      in push_recent x (s\<lparr>ol_healthy := ok\<rparr>))"

section \<open>Events\<close>

definition is_aggregated :: "string \<Rightarrow> string \<Rightarrow> bool" where
  "is_aggregated severity category \<longleftrightarrow>
     category = ''security_rejected'' \<or> category = ''pairing_rejected'' \<or> category = ''cloud_token_rejected''
     \<or> starts_with category ''cloud'' \<and> severity \<noteq> ''info''"

definition AGGREGATE_WINDOW_MS :: nat where [limits]: "AGGREGATE_WINDOW_MS = 60000"

definition summary_of :: "nat \<Rightarrow> nat \<Rightarrow> string \<Rightarrow> nat \<Rightarrow> nat \<Rightarrow> operational_event" where
  "summary_of now generation key started count =
     \<lparr>oe_timestamp_unix_ms = now, oe_severity = ''warn'', oe_category = ''failure_aggregate'',
      oe_message = key @ '' count='' @ nat_to_string count @ '' window_started='' @ nat_to_string started,
      oe_receiver_generation = generation\<rparr>"

text \<open>Aggregates that are at least a minute old leave the map; those of more than one event leave a summary.\<close>

definition is_expired :: "nat \<Rightarrow> string \<times> nat \<times> nat \<Rightarrow> bool" where
  "is_expired now a \<longleftrightarrow> now - fst (snd a) \<ge> AGGREGATE_WINDOW_MS"

definition expired_summaries :: "nat \<Rightarrow> nat \<Rightarrow> (string \<times> nat \<times> nat) list \<Rightarrow> operational_event list" where
  "expired_summaries now generation aggregates =
     map (\<lambda>(key, started, count). summary_of now generation key started count)
       (filter (\<lambda>(key, started, count). count > 1) (filter (is_expired now) aggregates))"

definition event_key :: "operational_event \<Rightarrow> string" where
  "event_key x = oe_category x @ '' '' @ oe_message x"

definition log_event ::
  "event_codec \<Rightarrow> environment \<Rightarrow> nat \<Rightarrow> string \<Rightarrow> string \<Rightarrow> string \<Rightarrow> nat \<Rightarrow> bool \<Rightarrow> oplog \<Rightarrow> oplog" where
  "log_event codec env now severity category message generation critical s =
     (let x = \<lparr>oe_timestamp_unix_ms = now, oe_severity = severity, oe_category = category,
                oe_message = redact env message, oe_receiver_generation = generation\<rparr>;
          summaries = expired_summaries now generation (ol_aggregates s);
          s = s\<lparr>ol_aggregates := filter (\<lambda>a. \<not> is_expired now a) (ol_aggregates s)\<rparr>;
          append = (\<lambda>critical xs s. fold (append_event codec now critical) xs s)
      in if is_aggregated severity category then
           (case map_of (ol_aggregates s) (event_key x) of
              Some (started, count) \<Rightarrow>
                if now - started < AGGREGATE_WINDOW_MS
                then append False summaries
                       (s\<lparr>ol_aggregates := AList.update (event_key x) (started, saturating_add_u32 count 1) (ol_aggregates s)\<rparr>)
                else append critical (summaries @ [x])
                       (s\<lparr>ol_aggregates := AList.update (event_key x) (now, 1) (ol_aggregates s)\<rparr>)
            | None \<Rightarrow> append critical (summaries @ [x])
                       (s\<lparr>ol_aggregates := AList.update (event_key x) (now, 1) (ol_aggregates s)\<rparr>))
         else append critical (summaries @ [x]) s)"

definition sync_log :: "event_codec \<Rightarrow> nat \<Rightarrow> oplog \<Rightarrow> oplog" where
  "sync_log codec now s =
     (case flush_pending codec now s of
        (False, s) \<Rightarrow> s\<lparr>ol_healthy := False\<rparr>
      | (True, s) \<Rightarrow>
        if \<not> ol_pending_since_sync s then s
        else let (io, s) = next_io s
             in if io_opened io \<and> io_synced io then s\<lparr>ol_pending_since_sync := False, ol_healthy := True\<rparr>
                else s\<lparr>ol_healthy := False\<rparr>)"

definition flush_log :: "event_codec \<Rightarrow> nat \<Rightarrow> oplog \<Rightarrow> oplog" where
  "flush_log codec now s =
     (case flush_pending codec now s of (ok, s) \<Rightarrow> if ok then s else s\<lparr>ol_healthy := False\<rparr>)"

definition recent_events :: "nat \<Rightarrow> oplog \<Rightarrow> operational_event list" where
  "recent_events lines s = drop (length (ol_recent s) - min lines RECENT_LIMIT) (ol_recent s)"

text \<open>The four incident files shift by one; the newest holds the redacted excerpt.\<close>

definition persist_incident_excerpt :: "environment \<Rightarrow> string \<Rightarrow> oplog \<Rightarrow> oplog" where
  "persist_incident_excerpt env excerpt s =
     (let (io, s) = next_io s
      in if \<not> io_rotated io then s\<lparr>ol_healthy := False\<rparr>
         else
           let files = fold (\<lambda>i. rename_segment i (i + 1)) (rev [0..<3]) (ol_incidents s)
           in if \<not> io_opened io then s\<lparr>ol_incidents := files, ol_healthy := False\<rparr>
              else if io_written io = None \<and> io_synced io
              then s\<lparr>ol_incidents := files[0 := Some (redact env excerpt)]\<rparr>
              else s\<lparr>ol_incidents := files[0 := Some (if io_written io = None then redact env excerpt else [])],
                     ol_healthy := False\<rparr>)"

section \<open>Opening\<close>

definition recovered_events :: "event_codec \<Rightarrow> string option list \<Rightarrow> operational_event list" where
  "recovered_events codec segs =
     fold (\<lambda>x xs. push_bounded RECENT_LIMIT x xs)
       (concat (map (\<lambda>seg. case seg of None \<Rightarrow> [] | Some text \<Rightarrow>
          map the (filter (\<lambda>x. x \<noteq> None) (map (ec_decode codec) (str_lines text)))) (rev segs))) []"

text \<open>\<open>rposition\<close>: the index of the last match.\<close>

definition rposition :: "('a \<Rightarrow> bool) \<Rightarrow> 'a list \<Rightarrow> nat option" where
  "rposition p xs = map_option (\<lambda>i. length xs - 1 - i) (position p (rev xs))"

definition recovered_generation :: "operational_event list \<Rightarrow> nat option" where
  "recovered_generation recent =
     (let last_start = rposition (\<lambda>x. oe_category x = ''stream_start'') recent;
          last_end = rposition (\<lambda>x. oe_category x = ''stream_stop'' \<or> oe_category x = ''stream_summary'') recent
      in case last_start of None \<Rightarrow> None
         | Some start \<Rightarrow>
           if (case last_end of None \<Rightarrow> True | Some e \<Rightarrow> start > e)
           then Some (oe_receiver_generation (recent ! start)) else None)"

definition open_log ::
  "event_codec \<Rightarrow> environment \<Rightarrow> nat \<Rightarrow> string option list \<Rightarrow> string option list \<Rightarrow> io_outcome list \<Rightarrow> oplog" where
  "open_log codec env now segs incidents disk =
     (let recent = recovered_events codec segs;
          s = \<lparr>ol_segments = segs, ol_incidents = incidents, ol_recent = recent, ol_healthy = True,
                ol_pending_since_sync = False, ol_aggregates = [], ol_pending = [], ol_disk = disk\<rparr>
      in case recovered_generation recent of None \<Rightarrow> s
         | Some g \<Rightarrow> log_event codec env now ''error'' ''stream_stop'' ''unclean_shutdown'' g True s)"

end
