(* ===== verification/Supervisor.thy ===== *)
theory Supervisor
  imports Receiver_Ipc Oplog
begin

text \<open>
  \<open>src/supervisor.rs\<close>: the manager's loop that starts the receiver, watches it over the IPC socket, restarts it
  with a growing delay and copies its events into the journal.  What the outside does at a tick (the result of
  spawning, of asking for the exit status and of the snapshot request) is an argument of the tick.
\<close>

section \<open>State\<close>

definition STARTUP_DEADLINE :: duration where "STARTUP_DEADLINE = from_secs 30"
definition HEARTBEAT_DEADLINE :: duration where "HEARTBEAT_DEADLINE = from_secs 10"
definition STABLE_RESET :: duration where "STABLE_RESET = from_secs 300"
definition RING_BYTES :: nat where "RING_BYTES = 256 * 1024"

text \<open>The fields of \<open>Inner\<close> and the local variables of \<open>run_supervisor\<close> (the child handle, of which only its
  presence matters, and two instants), the journal, and the reasons for which a child was told to end.\<close>

record supervisor =
  sv_manager_started :: instant
  sv_receiver_started :: "instant option"
  sv_receiver_state :: string
  sv_receiver_generation :: nat
  sv_receiver_pid :: "u32 option"
  sv_restart_count :: nat
  sv_consecutive_failures :: nat
  sv_next_retry :: "instant option"
  sv_last_failure :: "string option"
  sv_configuration_error :: "string option"
  sv_settings :: receiver_settings
  sv_management :: "management_snapshot option"
  sv_pairing :: pairing_snapshot
  sv_ring :: string
  sv_seen_events :: nat
  sv_seen_sessions :: "nat list"
  sv_child :: bool
  sv_startup_at :: instant
  sv_last_heartbeat :: instant
  sv_log :: oplog
  sv_terminated :: "string list"

record manager_setup =
  ms_codec :: event_codec
  ms_env :: environment

definition journal ::
  "manager_setup \<Rightarrow> nat \<Rightarrow> string \<Rightarrow> string \<Rightarrow> string \<Rightarrow> nat \<Rightarrow> bool \<Rightarrow> supervisor \<Rightarrow> supervisor" where
  "journal w unix_ms severity category message generation critical s =
     s\<lparr>sv_log := log_event (ms_codec w) (ms_env w) unix_ms severity category message generation critical (sv_log s)\<rparr>"

definition unavailable_pairing :: pairing_snapshot where
  "unavailable_pairing = \<lparr>code = None, local_status = ''UNAVAILABLE'', cloud_status = ''UNAVAILABLE'', cloud_ip = None\<rparr>"

text \<open>\<open>start\<close>: the settings as loaded, or those of the environment and the error.\<close>

definition start_supervisor ::
  "manager_setup \<Rightarrow> config_error + receiver_settings \<Rightarrow> (config_error \<Rightarrow> string) \<Rightarrow> oplog \<Rightarrow> instant \<Rightarrow> supervisor" where
  "start_supervisor w loaded show_error oplog now =
     (let (settings, configuration_error) = (case loaded of
            Inr x \<Rightarrow> (x, None) | Inl e \<Rightarrow> (from_environment (ms_env w), Some (show_error e)))
      in \<lparr>sv_manager_started = now, sv_receiver_started = None,
          sv_receiver_state = (if configuration_error \<noteq> None then ''configuration_error'' else ''starting''),
          sv_receiver_generation = 0, sv_receiver_pid = None, sv_restart_count = 0, sv_consecutive_failures = 0,
          sv_next_retry = None, sv_last_failure = None, sv_configuration_error = configuration_error,
          sv_settings = settings, sv_management = Some (management_snapshot_of now (new_management now)),
          sv_pairing = unavailable_pairing, sv_ring = [], sv_seen_events = 0, sv_seen_sessions = [],
          sv_child = False, sv_startup_at = now, sv_last_heartbeat = now, sv_log = oplog, sv_terminated = []\<rparr>)"

section \<open>Failures and restarts\<close>

definition backoff :: "nat \<Rightarrow> duration" where
  "backoff attempt = from_secs
     (if attempt \<le> 1 then 1 else if attempt = 2 then 2 else if attempt = 3 then 4 else if attempt = 4 then 8
      else if attempt = 5 then 16 else 30)"

record exit_status =
  xs_signal :: "int option"
  xs_code :: "int option"

definition format_exit :: "exit_status \<Rightarrow> string" where
  "format_exit st =
     (case xs_signal st of Some n \<Rightarrow> ''receiver exited by signal '' @ int_to_string n
      | None \<Rightarrow> ''receiver exited with code '' @ int_to_string (case xs_code st of Some c \<Rightarrow> c | None \<Rightarrow> -1))"

definition classify_exit :: "string \<Rightarrow> exit_status \<Rightarrow> string" where
  "classify_exit excerpt st =
     (if str_contains ''panicked at'' excerpt then ''receiver panic; '' @ format_exit st
      else if str_contains ''GStreamer'' excerpt \<and> str_contains ''error'' (to_ascii_lowercase excerpt)
      then ''receiver GStreamer failure; '' @ format_exit st
      else format_exit st)"

definition as_secs :: "duration \<Rightarrow> nat" where
  "as_secs d = d div 1000000000"

definition schedule_failure ::
  "manager_setup \<Rightarrow> instant \<Rightarrow> nat \<Rightarrow> string \<Rightarrow> string \<Rightarrow> supervisor \<Rightarrow> supervisor" where
  "schedule_failure w now unix_ms context reason s =
     (let s = s\<lparr>sv_log := persist_incident_excerpt (ms_env w) (sv_ring s) (sv_log s)\<rparr>;
          failures = saturating_add_u32 (sv_consecutive_failures s) 1;
          delay = backoff failures;
          s = s\<lparr>sv_receiver_pid := None, sv_receiver_started := None, sv_receiver_state := ''backoff'',
                sv_consecutive_failures := failures, sv_restart_count := sv_restart_count s + 1,
                sv_next_retry := Some (now + delay), sv_last_failure := Some reason\<rparr>
      in journal w unix_ms ''error'' ''receiver_failure''
           (reason @ ''; retry in '' @ nat_to_string (as_secs delay) @ ''s; '' @ context)
           (sv_receiver_generation s) True s)"

definition schedule_requested_restart :: "manager_setup \<Rightarrow> instant \<Rightarrow> nat \<Rightarrow> string \<Rightarrow> supervisor \<Rightarrow> supervisor" where
  "schedule_requested_restart w now unix_ms reason s =
     (let s = s\<lparr>sv_receiver_pid := None, sv_receiver_started := None, sv_receiver_state := ''restarting'',
                sv_restart_count := sv_restart_count s + 1, sv_next_retry := Some now\<rparr>
      in journal w unix_ms ''info'' ''receiver_restart_requested'' (''receiver restart reason='' @ reason)
           (sv_receiver_generation s) False s)"

definition spawn_receiver :: "manager_setup \<Rightarrow> instant \<Rightarrow> nat \<Rightarrow> u32 option \<Rightarrow> supervisor \<Rightarrow> supervisor" where
  "spawn_receiver w now unix_ms pid s =
     (let s = s\<lparr>sv_receiver_generation := sv_receiver_generation s + 1, sv_receiver_pid := pid,
                sv_receiver_started := Some now, sv_seen_events := 0, sv_seen_sessions := [],
                sv_receiver_state := ''starting'', sv_next_retry := None\<rparr>
      in journal w unix_ms ''info'' ''receiver_start''
           (''receiver generation='' @ nat_to_string (sv_receiver_generation s) @ '' pid=''
            @ word_to_string (case pid of None \<Rightarrow> 0 | Some p \<Rightarrow> p))
           (sv_receiver_generation s) False s)"

text \<open>\<open>terminate_child\<close>: a request, five seconds, a signal; \<open>forced\<close> when the process is still there after it.\<close>

definition terminate_child :: "manager_setup \<Rightarrow> nat \<Rightarrow> bool \<Rightarrow> string \<Rightarrow> supervisor \<Rightarrow> supervisor" where
  "terminate_child w unix_ms forced reason s =
     (let s = s\<lparr>sv_terminated := sv_terminated s @ [reason]\<rparr>
      in if forced then journal w unix_ms ''error'' ''receiver_forced_kill''
              (''receiver process group force-killed reason='' @ reason) (sv_receiver_generation s) True s
         else s)"

section \<open>A snapshot of the receiver\<close>

text \<open>Which of its events are new, by position, and which of its sessions, by id.\<close>

definition seen_so_far :: "management_snapshot \<Rightarrow> supervisor \<Rightarrow> nat" where
  "seen_so_far m s = (if length (sp_events m) < sv_seen_events s then 0 else sv_seen_events s)"

definition new_events :: "management_snapshot \<Rightarrow> supervisor \<Rightarrow> event_record list" where
  "new_events m s = drop (seen_so_far m s) (sp_events m)"

definition new_sessions :: "management_snapshot \<Rightarrow> supervisor \<Rightarrow> session_record list" where
  "new_sessions m s = filter (\<lambda>x. sr_id x \<notin> set (sv_seen_sessions s)) (sp_history m)"

definition cloud_transition :: "pairing_snapshot \<Rightarrow> supervisor \<Rightarrow> string option" where
  "cloud_transition p s =
     (if cloud_status (sv_pairing s) \<noteq> cloud_status p \<or> cloud_ip (sv_pairing s) \<noteq> cloud_ip p
      then Some (''state='' @ cloud_status p @ '' lan_address=''
             @ (case cloud_ip p of None \<Rightarrow> ''unavailable'' | Some ip \<Rightarrow> ip))
      else None)"

text \<open>\<open>{:.2}\<close> of a number.\<close>

fun fixed2 :: "f64 \<Rightarrow> string" where
  "fixed2 NaN = ''NaN''"
| "fixed2 (Infinity s) = (if s then ''-inf'' else ''inf'')"
| "fixed2 (Finite s q) =
     (let n = nat (round_half_even (q * 100))
      in (if s then ''-'' else []) @ nat_to_string (n div 100) @ ''.''
         @ nat_to_string (n mod 100 div 10) @ nat_to_string (n mod 10))"

definition session_summary :: "session_record \<Rightarrow> string" where
  "session_summary x =
     ''session='' @ nat_to_string (sr_id x)
     @ '' reason='' @ (case sr_end_reason x of None \<Rightarrow> ''unknown'' | Some r \<Rightarrow> r)
     @ '' duration='' @ fixed1 (sr_duration_sec x) @ ''s frames='' @ nat_to_string (sr_frames x)
     @ '' bytes='' @ nat_to_string (sr_bytes x) @ '' average_mbps='' @ fixed2 (sr_average_bitrate_mbps x)
     @ '' peak_mbps='' @ fixed2 (sr_peak_bitrate_mbps x) @ '' sequence_gaps='' @ nat_to_string (sr_sequence_gaps x)
     @ '' ingest_latency_p50_ms='' @ fixed1 (sr_latency_p50_ms x)
     @ '' ingest_latency_p95_ms='' @ fixed1 (sr_latency_p95_ms x)
     @ '' ingest_latency_max_ms='' @ fixed1 (sr_latency_max_ms x)"

text \<open>The state after the block under the lock.\<close>

definition note_snapshot ::
  "instant \<Rightarrow> bool \<Rightarrow> management_snapshot \<Rightarrow> pairing_snapshot \<Rightarrow> supervisor \<Rightarrow> supervisor" where
  "note_snapshot now ready m p s = s\<lparr>sv_last_heartbeat := now, sv_seen_events := length (sp_events m),
     sv_seen_sessions := sv_seen_sessions s @ map sr_id (sp_history m), sv_management := Some m, sv_pairing := p,
     sv_receiver_state := (if ready \<and> sv_receiver_state s \<noteq> ''ready'' then ''ready'' else sv_receiver_state s),
     sv_consecutive_failures :=
       (if (case sv_receiver_started s of None \<Rightarrow> False | Some t \<Rightarrow> now - t \<ge> STABLE_RESET) then 0
        else sv_consecutive_failures s)\<rparr>"

definition accept_snapshot ::
  "manager_setup \<Rightarrow> instant \<Rightarrow> nat \<Rightarrow> bool \<Rightarrow> management_snapshot \<Rightarrow> pairing_snapshot \<Rightarrow> supervisor \<Rightarrow> supervisor" where
  "accept_snapshot w now unix_ms ready m p s =
     (let events = new_events m s; sessions = new_sessions m s; transition = cloud_transition p s;
          became_ready = (ready \<and> sv_receiver_state s \<noteq> ''ready'');
          s = note_snapshot now ready m p s;
          generation = sv_receiver_generation s;
          s = fold (\<lambda>x. journal w unix_ms (ev_level x) (ev_kind x) (ev_message x) generation (ev_level x = ''error'')) events s;
          s = (case transition of None \<Rightarrow> s
               | Some t \<Rightarrow> journal w unix_ms ''info'' ''cloud_registration'' t generation False s);
          s = fold (\<lambda>x. journal w unix_ms ''info'' ''stream_summary'' (session_summary x) generation False) sessions s
      in if became_ready
         then journal w unix_ms ''info'' ''receiver_ready''
                (''receiver ready after '' @ nat_to_string ((now - sv_startup_at s) div 1000000) @ '' ms'')
                (sv_receiver_generation s) False s
         else s)"

section \<open>The loop\<close>

datatype wait_result = Still_Running | Exited exit_status | Wait_Failed string

text \<open>One second's view of the outside.\<close>

record tick_view =
  tk_now :: instant
  tk_unix_ms :: nat
  tk_spawned :: "string + u32 option"
  tk_wait :: wait_result
  tk_reply :: "receiver_response option"
  tk_forced :: bool
  tk_context :: string

definition retry_ready :: "instant \<Rightarrow> supervisor \<Rightarrow> bool" where
  "retry_ready now s = (case sv_next_retry s of None \<Rightarrow> True | Some deadline \<Rightarrow> deadline \<le> now)"

definition tick_spawn :: "manager_setup \<Rightarrow> tick_view \<Rightarrow> supervisor \<Rightarrow> supervisor" where
  "tick_spawn w v s =
     (if \<not> sv_child s \<and> sv_configuration_error s = None \<and> retry_ready (tk_now v) s
      then case tk_spawned v of
             Inr pid \<Rightarrow> (spawn_receiver w (tk_now v) (tk_unix_ms v) pid s)\<lparr>sv_child := True,
                 sv_startup_at := tk_now v, sv_last_heartbeat := tk_now v\<rparr>
           | Inl error \<Rightarrow> schedule_failure w (tk_now v) (tk_unix_ms v) (tk_context v) (''startup failure: '' @ error) s
      else s)"

definition tick_watch :: "manager_setup \<Rightarrow> tick_view \<Rightarrow> supervisor \<Rightarrow> supervisor" where
  "tick_watch w v s =
     (case tk_wait v of
        Exited st \<Rightarrow> schedule_failure w (tk_now v) (tk_unix_ms v) (tk_context v) (classify_exit (sv_ring s) st)
            (s\<lparr>sv_child := False\<rparr>)
      | Wait_Failed error \<Rightarrow> schedule_failure w (tk_now v) (tk_unix_ms v) (tk_context v) (''wait failure: '' @ error)
            (s\<lparr>sv_child := False\<rparr>)
      | Still_Running \<Rightarrow>
        (case tk_reply v of
           Some (Reply_Snapshot _ ready m p) \<Rightarrow> accept_snapshot w (tk_now v) (tk_unix_ms v) ready m p s
         | _ \<Rightarrow>
           if tk_now v - sv_startup_at s > STARTUP_DEADLINE
           then terminate_child w (tk_unix_ms v) (tk_forced v) ''startup_timeout''
                  (journal w (tk_unix_ms v) ''error'' ''receiver_startup_timeout''
                    ''receiver did not become ready within 30 seconds'' (sv_receiver_generation s) True s)
           else if tk_now v - sv_last_heartbeat s > HEARTBEAT_DEADLINE
           then terminate_child w (tk_unix_ms v) (tk_forced v) ''heartbeat_loss''
                  (journal w (tk_unix_ms v) ''error'' ''receiver_unresponsive''
                    ''receiver heartbeat missing for 10 seconds'' (sv_receiver_generation s) True s)
           else s))"

definition tick_manager :: "manager_setup \<Rightarrow> tick_view \<Rightarrow> supervisor \<Rightarrow> supervisor" where
  "tick_manager w v s = (let s = tick_spawn w v s in if sv_child s then tick_watch w v s else s)"

definition handle_restart :: "manager_setup \<Rightarrow> instant \<Rightarrow> nat \<Rightarrow> bool \<Rightarrow> string \<Rightarrow> supervisor \<Rightarrow> supervisor" where
  "handle_restart w now unix_ms forced reason s =
     schedule_requested_restart w now unix_ms reason
       (if sv_child s then terminate_child w unix_ms forced reason (s\<lparr>sv_child := False\<rparr>) else s)"

definition handle_stop_sharing :: "manager_setup \<Rightarrow> nat \<Rightarrow> supervisor \<Rightarrow> supervisor" where
  "handle_stop_sharing w unix_ms s =
     journal w unix_ms ''info'' ''administrative_stop'' ''active sharing stop requested'' (sv_receiver_generation s) False s"

text \<open>A line that the receiver prints.\<close>

definition push_output :: "string \<Rightarrow> supervisor \<Rightarrow> supervisor" where
  "push_output line s = s\<lparr>sv_ring := fold (push_bounded RING_BYTES) (line @ [CHR 0x0A]) (sv_ring s)\<rparr>"

section \<open>The handle of the portal\<close>

definition is_ready :: "supervisor \<Rightarrow> bool" where
  "is_ready s \<longleftrightarrow> sv_receiver_state s = ''ready''"

definition is_streaming :: "supervisor \<Rightarrow> bool" where
  "is_streaming s \<longleftrightarrow> (case sv_management s of None \<Rightarrow> False | Some m \<Rightarrow> sp_active_stream m \<noteq> None)"

text \<open>\<open>restart\<close> and \<open>stop_sharing\<close> only put a command into the queue; the first returns the generation to wait for.\<close>

definition restart_target :: "supervisor \<Rightarrow> nat" where
  "restart_target s = sv_receiver_generation s + 1"

definition stop_sharing :: "supervisor \<Rightarrow> string + unit" where
  "stop_sharing s = (if \<not> is_ready s then Inl ''receiver unavailable'' else Inr ())"

text \<open>\<open>persisted\<close> is the outcome of writing the document.\<close>

definition apply_settings ::
  "manager_setup \<Rightarrow> nat \<Rightarrow> (string + unit) \<Rightarrow> receiver_settings \<Rightarrow> supervisor \<Rightarrow> (string + bool) \<times> supervisor" where
  "apply_settings w unix_ms persisted updated s =
     (case validate updated of
        Inl e \<Rightarrow> (Inl e, s)
      | Inr _ \<Rightarrow>
        if updated = sv_settings s \<and> sv_configuration_error s = None then (Inr False, s)
        else case persisted of
               Inl e \<Rightarrow> (Inl e, s)
             | Inr _ \<Rightarrow>
               let s = s\<lparr>sv_settings := updated, sv_configuration_error := None\<rparr>
               in (Inr True, journal w unix_ms ''info'' ''configuration_persisted''
                     ''receiver configuration atomically replaced'' (sv_receiver_generation s) True s))"

record watchdog_snapshot =
  wd_manager_uptime_sec :: nat
  wd_receiver_state :: string
  wd_receiver_generation :: nat
  wd_receiver_pid :: "u32 option"
  wd_receiver_uptime_sec :: "nat option"
  wd_restart_count :: nat
  wd_consecutive_failures :: nat
  wd_next_retry_sec :: "nat option"
  wd_last_failure :: "string option"
  wd_logging_healthy :: bool
  wd_configuration_error :: "string option"

definition watchdog :: "instant \<Rightarrow> supervisor \<Rightarrow> watchdog_snapshot" where
  "watchdog now s = \<lparr>wd_manager_uptime_sec = as_secs (now - sv_manager_started s), wd_receiver_state = sv_receiver_state s, wd_receiver_generation = sv_receiver_generation s,
     wd_receiver_pid = sv_receiver_pid s,
     wd_receiver_uptime_sec = map_option (\<lambda>t. as_secs (now - t)) (sv_receiver_started s),
     wd_restart_count = sv_restart_count s, wd_consecutive_failures = sv_consecutive_failures s,
     wd_next_retry_sec = map_option (\<lambda>t. as_secs (t - now)) (sv_next_retry s),
     wd_last_failure = sv_last_failure s, wd_logging_healthy = ol_healthy (sv_log s),
     wd_configuration_error = sv_configuration_error s\<rparr>"

text \<open>What can happen to the manager.\<close>

datatype manager_event =
    Manager_Tick tick_view
  | Restart_Request instant nat bool string
  | Stop_Request nat
  | Output_Line string
  | Apply_Settings nat "string + unit" receiver_settings
  | Journal_Flush nat
  | Journal_Sync nat

fun manager_step :: "manager_setup \<Rightarrow> manager_event \<Rightarrow> supervisor \<Rightarrow> supervisor" where
  "manager_step w (Manager_Tick v) s = tick_manager w v s"
| "manager_step w (Restart_Request now unix_ms forced reason) s = handle_restart w now unix_ms forced reason s"
| "manager_step w (Stop_Request unix_ms) s = handle_stop_sharing w unix_ms s"
| "manager_step w (Output_Line line) s = push_output line s"
| "manager_step w (Apply_Settings unix_ms persisted updated) s = snd (apply_settings w unix_ms persisted updated s)"
| "manager_step w (Journal_Flush unix_ms) s = s\<lparr>sv_log := flush_log (ms_codec w) unix_ms (sv_log s)\<rparr>"
| "manager_step w (Journal_Sync unix_ms) s = s\<lparr>sv_log := sync_log (ms_codec w) unix_ms (sv_log s)\<rparr>"

end
