(* ===== verification/Oplog_Correct.thy ===== *)
theory Oplog_Correct
  imports Oplog
begin

text \<open>
  What the operational journal promises: it holds the newest 2000 events, a burst of identical rejections costs
  one entry and one summary with their number, and what happens when the disk fails.
\<close>

section \<open>What an event changes\<close>

lemma next_io_fields [simp]:
  "ol_recent (snd (next_io s)) = ol_recent s" "ol_aggregates (snd (next_io s)) = ol_aggregates s"
  "ol_pending (snd (next_io s)) = ol_pending s" "ol_segments (snd (next_io s)) = ol_segments s"
  by (simp_all add: next_io_def split: list.split)

lemma flush_fields [simp]:
  "ol_recent (snd (flush_pending codec now s)) = ol_recent s"
  "ol_aggregates (snd (flush_pending codec now s)) = ol_aggregates s"
  by (simp_all add: flush_pending_def Let_def prod.case_eq_if)

lemma critical_fields [simp]:
  "ol_recent (snd (write_critical codec now ln s)) = ol_recent s"
  "ol_aggregates (snd (write_critical codec now ln s)) = ol_aggregates s"
proof -
  obtain ok s' where f: "flush_pending codec now s = (ok, s')"
    by fastforce
  have s': "ol_recent s' = ol_recent s" "ol_aggregates s' = ol_aggregates s"
    using flush_fields [of codec now s] by (simp_all add: f)
  show "ol_recent (snd (write_critical codec now ln s)) = ol_recent s"
    "ol_aggregates (snd (write_critical codec now ln s)) = ol_aggregates s"
    by (cases ok; simp add: write_critical_def f Let_def prod.case_eq_if s')+
qed

lemma append_event_fields [simp]:
  "ol_recent (append_event codec now critical x s) = push_bounded RECENT_LIMIT x (ol_recent s)"
  "ol_aggregates (append_event codec now critical x s) = ol_aggregates s"
  by (simp_all add: append_event_def push_recent_def Let_def prod.case_eq_if)

lemma append_events_fields:
  "ol_recent (fold (append_event codec now critical) xs s) = fold (push_bounded RECENT_LIMIT) xs (ol_recent s)"
  "ol_aggregates (fold (append_event codec now critical) xs s) = ol_aggregates s"
  by (induction xs arbitrary: s) simp_all

interpretation recent_log: bounded_log push_recent ol_recent RECENT_LIMIT
  by unfold_locales (simp add: push_recent_def push_bounded_def)

section \<open>A burst of rejections\<close>

definition entry_of :: "environment \<Rightarrow> nat \<Rightarrow> string \<Rightarrow> string \<Rightarrow> string \<Rightarrow> nat \<Rightarrow> operational_event" where
  "entry_of env now severity category message generation =
     \<lparr>oe_timestamp_unix_ms = now, oe_severity = severity, oe_category = category,
      oe_message = redact env message, oe_receiver_generation = generation\<rparr>"

lemma entry_key: "event_key (entry_of env now sev cat msg g) = cat @ '' '' @ redact env msg"
  by (simp add: event_key_def entry_of_def)

lemma first_rejection:
  assumes "is_aggregated sev cat" and "ol_aggregates s = []"
  shows "ol_aggregates (log_event codec env now sev cat msg g critical s) = [(cat @ '' '' @ redact env msg, now, 1)]"
    and "ol_recent (log_event codec env now sev cat msg g critical s)
      = push_bounded RECENT_LIMIT (entry_of env now sev cat msg g) (ol_recent s)"
  using assms by (simp_all add: log_event_def Let_def expired_summaries_def event_key_def entry_of_def)

lemma further_rejection:
  assumes "is_aggregated sev cat" and "ol_aggregates s = [(cat @ '' '' @ redact env msg, started, n)]"
    and "now - started < AGGREGATE_WINDOW_MS" and "n < u32_max"
  shows "ol_aggregates (log_event codec env now sev cat msg g critical s) = [(cat @ '' '' @ redact env msg, started, Suc n)]
    \<and> ol_recent (log_event codec env now sev cat msg g critical s) = ol_recent s"
  using assms by (simp add: log_event_def Let_def expired_summaries_def event_key_def is_expired_def
      saturating_add_u32_def)

lemma further_rejections:
  assumes "is_aggregated sev cat" and "ol_aggregates s = [(cat @ '' '' @ redact env msg, started, n)]"
    and "\<forall>t \<in> set ts. t - started < AGGREGATE_WINDOW_MS" and "n + length ts \<le> u32_max"
  shows "ol_aggregates (fold (\<lambda>t. log_event codec env t sev cat msg g critical) ts s)
      = [(cat @ '' '' @ redact env msg, started, n + length ts)]
    \<and> ol_recent (fold (\<lambda>t. log_event codec env t sev cat msg g critical) ts s) = ol_recent s"
  using assms(2-4)
proof (induction ts arbitrary: s n)
  case (Cons t ts)
  have "ol_aggregates (log_event codec env t sev cat msg g critical s) = [(cat @ '' '' @ redact env msg, started, Suc n)]
      \<and> ol_recent (log_event codec env t sev cat msg g critical s) = ol_recent s"
    using Cons.prems by (intro further_rejection [OF assms(1)]) auto
  then show ?case
    using Cons.IH [of "log_event codec env t sev cat msg g critical s" "Suc n"] Cons.prems by simp
qed simp

lemma after_the_window:
  assumes "\<not> is_aggregated sev' cat'" and "ol_aggregates s = [(key, started, n)]"
    and "AGGREGATE_WINDOW_MS \<le> now - started" and "1 < n"
  shows "ol_recent (log_event codec env now sev' cat' msg' g' critical' s)
    = push_bounded RECENT_LIMIT (entry_of env now sev' cat' msg' g')
        (push_bounded RECENT_LIMIT (summary_of now g' key started n) (ol_recent s))"
  using assms by (simp add: log_event_def Let_def expired_summaries_def is_expired_def append_events_fields entry_of_def)

text \<open>
  A burst of identical rejections is counted, not stored: \<open>k\<close> equal security, pairing or token
  rejections within a minute of the first leave one event in the journal's memory, and the first other event a
  minute later is preceded by one summary that gives their number \<open>k\<close> and when they began.
\<close>

theorem rejection_burst_is_counted:
  assumes "is_aggregated sev cat" and "\<not> is_aggregated sev' cat'" and "ol_aggregates s = []"
    and "ts \<noteq> []" and "\<forall>t \<in> set ts. t - t0 < AGGREGATE_WINDOW_MS" and "AGGREGATE_WINDOW_MS \<le> now - t0"
    and "length ts < u32_max" and "length (ol_recent s) + 3 \<le> RECENT_LIMIT"
  shows "ol_recent (log_event codec env now sev' cat' msg' g' critical'
        (fold (\<lambda>t. log_event codec env t sev cat msg g critical) (t0 # ts) s))
    = ol_recent s @ [entry_of env t0 sev cat msg g,
        summary_of now g' (cat @ '' '' @ redact env msg) t0 (Suc (length ts)),
        entry_of env now sev' cat' msg' g']"
proof -
  let ?s1 = "log_event codec env t0 sev cat msg g critical s"
  let ?s2 = "fold (\<lambda>t. log_event codec env t sev cat msg g critical) ts ?s1"
  have r1: "ol_recent ?s1 = ol_recent s @ [entry_of env t0 sev cat msg g]"
    using first_rejection(2) [OF assms(1,3)] assms(8) by (simp add: push_bounded_fits)
  have s2: "ol_aggregates ?s2 = [(cat @ '' '' @ redact env msg, t0, 1 + length ts)] \<and> ol_recent ?s2 = ol_recent ?s1"
    using assms(5,7) by (intro further_rejections [OF assms(1) first_rejection(1) [OF assms(1,3)]]) auto
  have "1 < 1 + length ts"
    using assms(4) by simp
  then show ?thesis
    using after_the_window [OF assms(2) conjunct1 [OF s2] assms(6)] s2 r1 assms(8)
    by (simp add: push_bounded_fits)
qed

definition sample_codec :: event_codec where
  "sample_codec = \<lparr>ec_encode = oe_message, ec_decode = (\<lambda>_. None)\<rparr>"

definition empty_log :: oplog where
  "empty_log = \<lparr>ol_segments = [None, None, None, None], ol_incidents = [None, None, None, None], ol_recent = [],
     ol_healthy = True, ol_pending_since_sync = False, ol_aggregates = [], ol_pending = [], ol_disk = []\<rparr>"

theorem rejection_burst_is_counted_witness:
  "map oe_category (ol_recent (log_event sample_codec (\<lambda>_. None) 70000 ''info'' ''receiver_ready'' ''ok'' 1 False
      (fold (\<lambda>t. log_event sample_codec (\<lambda>_. None) t ''warn'' ''pairing_rejected'' ''peer'' 1 False) [5, 90, 4000] empty_log)))
   = [''pairing_rejected'', ''failure_aggregate'', ''receiver_ready'']"
  using rejection_burst_is_counted [of "''warn''" "''pairing_rejected''" "''info''" "''receiver_ready''" empty_log
      "[90, 4000]" 5 70000 sample_codec "\<lambda>_. None" "''ok''" 1 False "''peer''" 1 False]
  by (simp add: is_aggregated_def empty_log_def limits u32_max_def entry_of_def summary_of_def)

section \<open>When the disk fails\<close>

text \<open>
  A failing disk loses events and is soon reported as healthy: when a write breaks off after \<open>n\<close> of
  the pending lines, the queue is empty afterwards, so the remaining lines are never written, and the next
  ordinary event marks the journal as healthy again without having written anything.
\<close>

theorem failed_flush_loses_events_and_is_masked:
  assumes "ol_pending s \<noteq> []" and "ol_disk s = io # rest"
    and "io_rotated io" and "io_opened io" and "io_written io = Some n"
    and "\<not> is_aggregated severity category"
    and "s1 = flush_log codec now s" and "s2 = log_event codec env now' severity category message g False s1"
  shows "\<not> ol_healthy s1 \<and> ol_pending s1 = []
    \<and> ol_segments s1 = append_journal (take n (ol_pending s)) (rotate_if_needed codec now (ol_segments s))
    \<and> ol_healthy s2 \<and> ol_segments s2 = ol_segments s1"
proof -
  have s1: "\<not> ol_healthy s1 \<and> ol_pending s1 = []
      \<and> ol_segments s1 = append_journal (take n (ol_pending s)) (rotate_if_needed codec now (ol_segments s))"
    using assms(1-5) by (simp add: assms(7) flush_log_def flush_pending_def next_io_def write_lines_def Let_def)
  have quiet: "ol_segments (fold (append_event codec now' False) xs t) = ol_segments t" for xs t
    by (induction xs arbitrary: t) (simp_all add: append_event_def push_recent_def)
  have "ol_healthy s2 \<and> ol_segments s2 = ol_segments s1"
    using assms(6) quiet by (simp add: assms(8) log_event_def Let_def append_event_def push_recent_def)
  then show ?thesis
    using s1 by blast
qed

definition failing_log :: oplog where
  "failing_log = empty_log\<lparr>ol_pending := [''a'', ''b'', ''c''],
     ol_disk := [\<lparr>io_rotated = True, io_opened = True, io_written = Some 1, io_synced = True\<rparr>]\<rparr>"

theorem failed_flush_loses_events_and_is_masked_witness:
  "ol_healthy (log_event sample_codec (\<lambda>_. None) 9 ''info'' ''receiver_ready'' ''ok'' 1 False (flush_log sample_codec 8 failing_log))
   \<and> ol_segments (flush_log sample_codec 8 failing_log) = [Some ''a'', None, None, None]"
  using failed_flush_loses_events_and_is_masked [of failing_log _ "[]" 1 "''info''" "''receiver_ready''"
      "flush_log sample_codec 8 failing_log" sample_codec 8
      "log_event sample_codec (\<lambda>_. None) 9 ''info'' ''receiver_ready'' ''ok'' 1 False (flush_log sample_codec 8 failing_log)"
      "\<lambda>_. None" 9 "''ok''" 1]
  by (simp add: failing_log_def is_aggregated_def rotate_if_needed_def append_journal_def empty_log_def limits)

section \<open>Rotation\<close>

text \<open>A rotation drops the oldest segment, shifts the others and starts an empty one, before it prunes.\<close>

lemma rotate_shifts:
  "rotate_segments codec now [Some a, s1, s2, s3] = prune_segments codec now [Some [], Some a, s1, s2]"
  by (simp add: rotate_segments_def limits rename_segment_def upt_rec Let_def split: option.split)

end
