(* ===== verification/Supervisor_Correct.thy ===== *)
theory Supervisor_Correct
  imports Supervisor Oplog_Correct Management_Correct
begin

text \<open>
  What the manager promises: its state stays consistent, a receiver that is gone is started again within thirty
  seconds, and two places where it does not do what it says: the copying of events and the startup deadline.
\<close>

section \<open>Fields\<close>

lemma journal_fields [simp]:
  "sv_child (journal w u sev cat msg g c s) = sv_child s"
  "sv_receiver_started (journal w u sev cat msg g c s) = sv_receiver_started s"
  "sv_receiver_state (journal w u sev cat msg g c s) = sv_receiver_state s"
  "sv_receiver_generation (journal w u sev cat msg g c s) = sv_receiver_generation s"
  "sv_receiver_pid (journal w u sev cat msg g c s) = sv_receiver_pid s"
  "sv_next_retry (journal w u sev cat msg g c s) = sv_next_retry s"
  "sv_ring (journal w u sev cat msg g c s) = sv_ring s"
  "sv_configuration_error (journal w u sev cat msg g c s) = sv_configuration_error s"
  "sv_seen_events (journal w u sev cat msg g c s) = sv_seen_events s"
  "sv_terminated (journal w u sev cat msg g c s) = sv_terminated s"
  "sv_consecutive_failures (journal w u sev cat msg g c s) = sv_consecutive_failures s"
  "sv_startup_at (journal w u sev cat msg g c s) = sv_startup_at s"
  "sv_last_heartbeat (journal w u sev cat msg g c s) = sv_last_heartbeat s"
  "sv_management (journal w u sev cat msg g c s) = sv_management s"
  "sv_restart_count (journal w u sev cat msg g c s) = sv_restart_count s"
  by (simp_all add: journal_def)

text \<open>The part of the state that a snapshot's events and sessions leave alone.\<close>

definition core :: "supervisor \<Rightarrow> supervisor" where
  "core s = s\<lparr>sv_log := undefined\<rparr>"

lemma core_fields:
  assumes "core s = core t"
  shows "sv_child s = sv_child t" "sv_receiver_started s = sv_receiver_started t"
    "sv_receiver_state s = sv_receiver_state t" "sv_receiver_generation s = sv_receiver_generation t"
    "sv_receiver_pid s = sv_receiver_pid t" "sv_next_retry s = sv_next_retry t" "sv_ring s = sv_ring t"
    "sv_configuration_error s = sv_configuration_error t" "sv_seen_events s = sv_seen_events t"
    "sv_terminated s = sv_terminated t" "sv_management s = sv_management t"
    "sv_consecutive_failures s = sv_consecutive_failures t" "sv_restart_count s = sv_restart_count t"
  using assms by (cases s; cases t; simp add: core_def)+

lemma core_journal [simp]: "core (journal w u sev cat msg g c s) = core s"
  by (simp add: core_def journal_def)

lemma core_fold: "(\<And>x s. core (f x s) = core s) \<Longrightarrow> core (fold f xs s) = core s"
  by (induction xs arbitrary: s) simp_all

lemma core_accept: "core (accept_snapshot w now u ready m p s) = core (note_snapshot now ready m p s)"
  by (simp add: accept_snapshot_def Let_def core_fold split: option.split)

lemmas accept_fields = core_fields [OF core_accept]

lemma schedule_failure_fields [simp]:
  "sv_child (schedule_failure w now u x r s) = sv_child s"
  "sv_receiver_started (schedule_failure w now u x r s) = None"
  "sv_receiver_state (schedule_failure w now u x r s) = ''backoff''"
  "sv_receiver_generation (schedule_failure w now u x r s) = sv_receiver_generation s"
  "sv_receiver_pid (schedule_failure w now u x r s) = None"
  "sv_next_retry (schedule_failure w now u x r s) = Some (now + backoff (saturating_add_u32 (sv_consecutive_failures s) 1))"
  "sv_ring (schedule_failure w now u x r s) = sv_ring s"
  "sv_configuration_error (schedule_failure w now u x r s) = sv_configuration_error s"
  "sv_management (schedule_failure w now u x r s) = sv_management s"
  "sv_consecutive_failures (schedule_failure w now u x r s) = saturating_add_u32 (sv_consecutive_failures s) 1"
  "sv_restart_count (schedule_failure w now u x r s) = sv_restart_count s + 1"
  by (simp_all add: schedule_failure_def Let_def)

lemma terminate_fields [simp]:
  "core (terminate_child w u forced r s) = core (s\<lparr>sv_terminated := sv_terminated s @ [r]\<rparr>)"
  by (simp add: terminate_child_def Let_def)

lemmas terminated_fields = core_fields [OF terminate_fields]

section \<open>The journal in the manager\<close>

definition journal_bounded :: "supervisor \<Rightarrow> bool" where
  "journal_bounded s \<longleftrightarrow> length (ol_recent (sv_log s)) \<le> RECENT_LIMIT"

lemma fold_push_bounded: "length ys \<le> cap \<Longrightarrow> length (fold (push_bounded cap) xs ys) \<le> cap"
  by (induction xs arbitrary: ys) (simp_all add: length_push_bounded)

lemma log_event_bounded:
  "length (ol_recent l) \<le> RECENT_LIMIT \<Longrightarrow> length (ol_recent (log_event codec env now sev cat msg g c l)) \<le> RECENT_LIMIT"
  by (simp add: log_event_def Let_def append_events_fields fold_push_bounded length_push_bounded split: option.split)

lemma journal_keeps_bound: "journal_bounded s \<Longrightarrow> journal_bounded (journal w u sev cat msg g c s)"
  by (simp add: journal_bounded_def journal_def log_event_bounded)

lemma fold_keeps: "(\<And>x s. P s \<Longrightarrow> P (f x s)) \<Longrightarrow> P s \<Longrightarrow> P (fold f xs s)"
  by (induction xs arbitrary: s) simp_all

lemma accept_keeps_bound: "journal_bounded s \<Longrightarrow> journal_bounded (accept_snapshot w now u ready m p s)"
proof -
  assume "journal_bounded s"
  then have "journal_bounded (note_snapshot now ready m p s)"
    by (simp add: journal_bounded_def note_snapshot_def)
  then show ?thesis
    by (auto simp: accept_snapshot_def Let_def split: option.split intro!: journal_keeps_bound fold_keeps [where P = journal_bounded])
qed

lemma incident_recent [simp]: "ol_recent (persist_incident_excerpt env x l) = ol_recent l"
  by (simp add: persist_incident_excerpt_def Let_def prod.case_eq_if)

lemma failure_keeps_bound: "journal_bounded s \<Longrightarrow> journal_bounded (schedule_failure w now u x r s)"
  by (simp add: schedule_failure_def Let_def journal_keeps_bound journal_bounded_def [of "_\<lparr>sv_next_retry := _\<rparr>"]
      journal_bounded_def)
     (simp add: journal_def log_event_bounded)

lemma terminate_keeps_bound: "journal_bounded s \<Longrightarrow> journal_bounded (terminate_child w u forced r s)"
  by (simp add: terminate_child_def Let_def journal_bounded_def journal_def log_event_bounded)

section \<open>The invariant\<close>

definition no_child_states :: "string set" where
  "no_child_states = {''starting'', ''configuration_error'', ''backoff'', ''restarting''}"

text \<open>\<open>T\<close> bounds the instants at which events have happened.\<close>

definition supervisor_ok :: "instant \<Rightarrow> supervisor \<Rightarrow> bool" where
  "supervisor_ok T s \<longleftrightarrow>
     (sv_child s \<longrightarrow> sv_receiver_started s \<noteq> None \<and> sv_next_retry s = None
        \<and> sv_receiver_state s \<in> {''starting'', ''ready''} \<and> 0 < sv_receiver_generation s)
     \<and> (\<not> sv_child s \<longrightarrow> sv_receiver_started s = None \<and> sv_receiver_pid s = None \<and> sv_receiver_state s \<in> no_child_states)
     \<and> (\<forall>d. sv_next_retry s = Some d \<longrightarrow> d \<le> T + from_secs 30)
     \<and> length (sv_ring s) \<le> RING_BYTES \<and> journal_bounded s"

fun event_time :: "manager_event \<Rightarrow> instant" where
  "event_time (Manager_Tick v) = tk_now v"
| "event_time (Restart_Request now _ _ _) = now"
| "event_time _ = 0"

lemma backoff_le: "backoff n \<le> from_secs 30"
  by (simp add: backoff_def from_secs_def)

lemma ready_states: "''ready'' \<notin> no_child_states" "''backoff'' \<in> no_child_states" "''restarting'' \<in> no_child_states"
  by (simp_all add: no_child_states_def)

lemma failure_ok:
  assumes "supervisor_ok T s" and "now \<le> T" and "\<not> sv_child s"
  shows "supervisor_ok T (schedule_failure w now u x r s)"
  using assms add_mono [OF assms(2) backoff_le] by (simp add: supervisor_ok_def failure_keeps_bound ready_states)

lemma failure_of_child_ok:
  assumes "supervisor_ok T s" and "now \<le> T"
  shows "supervisor_ok T (schedule_failure w now u x r (s\<lparr>sv_child := False\<rparr>))"
  using assms add_mono [OF assms(2) backoff_le] failure_keeps_bound [of "s\<lparr>sv_child := False\<rparr>"]
  by (simp add: supervisor_ok_def ready_states journal_bounded_def)

lemma spawned_ok:
  assumes "supervisor_ok T s"
  shows "supervisor_ok T ((spawn_receiver w now u pid s)\<lparr>sv_child := True, sv_startup_at := a, sv_last_heartbeat := b\<rparr>)"
  using assms by (simp add: supervisor_ok_def spawn_receiver_def Let_def journal_bounded_def)
    (simp add: journal_def log_event_bounded)

lemma tick_spawn_ok: "supervisor_ok T s \<Longrightarrow> tk_now v \<le> T \<Longrightarrow> supervisor_ok T (tick_spawn w v s)"
  by (auto simp: tick_spawn_def failure_ok spawned_ok split: sum.split)

lemma accept_ok:
  assumes "supervisor_ok T s" and "sv_child s"
  shows "supervisor_ok T (accept_snapshot w now u ready m p s)"
  using assms accept_keeps_bound [of s] by (simp add: supervisor_ok_def accept_fields) (simp add: note_snapshot_def)

lemma terminate_ok: "supervisor_ok T s \<Longrightarrow> supervisor_ok T (terminate_child w u forced r s)"
  by (simp add: supervisor_ok_def terminated_fields terminate_keeps_bound)

lemma journal_ok: "supervisor_ok T s \<Longrightarrow> supervisor_ok T (journal w u sev cat msg g c s)"
  by (simp add: supervisor_ok_def journal_keeps_bound)

lemma tick_watch_ok:
  assumes "supervisor_ok T s" and "sv_child s" and "tk_now v \<le> T"
  shows "supervisor_ok T (tick_watch w v s)"
proof (cases "tk_wait v")
  case Still_Running
  then show ?thesis
    using assms(1,2)
    by (simp add: tick_watch_def terminate_ok journal_ok accept_ok split: option.split receiver_response.split)
qed (use assms failure_of_child_ok in \<open>simp_all add: tick_watch_def\<close>)

lemma restart_ok:
  assumes "supervisor_ok T s" and "now \<le> T"
  shows "supervisor_ok T (handle_restart w now u forced reason s)"
  using assms terminate_keeps_bound [of "s\<lparr>sv_child := False\<rparr>"]
  by (simp add: handle_restart_def schedule_requested_restart_def Let_def supervisor_ok_def terminated_fields
      ready_states journal_bounded_def) (auto simp: journal_def log_event_bounded)

lemma manager_step_ok:
  assumes "supervisor_ok T s" and "event_time e \<le> T"
  shows "supervisor_ok T (manager_step w e s)"
proof (cases e)
  case (Manager_Tick v)
  then show ?thesis
    using assms tick_spawn_ok [of T s v w] tick_watch_ok [of T "tick_spawn w v s" v w]
    by (simp add: tick_manager_def Let_def)
next
  case (Restart_Request now u forced reason)
  then show ?thesis
    using assms restart_ok by simp
next
  case (Stop_Request u)
  then show ?thesis
    using assms journal_ok by (simp add: handle_stop_sharing_def)
next
  case (Output_Line line)
  then show ?thesis
    using assms by (simp add: push_output_def supervisor_ok_def fold_push_bounded journal_bounded_def
        length_push_bounded)
next
  case (Apply_Settings u persisted updated)
  then show ?thesis
    using assms by (auto simp: apply_settings_def supervisor_ok_def journal_bounded_def Let_def journal_def
        log_event_bounded split: sum.split)
next
  case (Journal_Flush u)
  then show ?thesis
    using assms by (simp add: supervisor_ok_def journal_bounded_def flush_log_def prod.case_eq_if)
next
  case (Journal_Sync u)
  obtain ok l where f: "flush_pending (ms_codec w) u (sv_log s) = (ok, l)"
    by fastforce
  have "ol_recent l = ol_recent (sv_log s)"
    using flush_fields(1) [of "ms_codec w" u "sv_log s"] by (simp add: f)
  then have "ol_recent (sync_log (ms_codec w) u (sv_log s)) = ol_recent (sv_log s)"
    by (cases ok) (simp_all add: sync_log_def f Let_def prod.case_eq_if)
  then show ?thesis
    using assms Journal_Sync by (simp add: supervisor_ok_def journal_bounded_def)
qed

interpretation manager: invariant_machine "manager_step w" "supervisor_ok T" "\<lambda>e. event_time e \<le> T"
  by unfold_locales (rule manager_step_ok)

lemma manager_start_ok:
  assumes "length (ol_recent l) \<le> RECENT_LIMIT"
  shows "supervisor_ok T (start_supervisor w loaded show_error l now)"
  using assms by (simp add: start_supervisor_def supervisor_ok_def no_child_states_def journal_bounded_def
      split: sum.split)

section \<open>Properties\<close>

text \<open>
  Property C23. The manager's state stays consistent under any sequence of ticks, requests, output and settings: a
  child exists exactly with a start time, no scheduled retry and the state starting or ready; without one there is
  no process id and the state says why; a retry is never scheduled more than thirty seconds ahead; the output ring
  holds at most 256 KiB and the journal's memory at most 2000 events.
\<close>

theorem manager_always_consistent:
  assumes "length (ol_recent l) \<le> RECENT_LIMIT" and "\<forall>e \<in> set es. event_time e \<le> T"
  shows "supervisor_ok T (fold (manager_step w) es (start_supervisor w loaded show_error l now))"
  using manager.run_inv [OF manager_start_ok [OF assms(1)]] assms(2) by (simp add: list_all_iff)

definition sample_manager :: manager_setup where
  "sample_manager = \<lparr>ms_codec = sample_codec, ms_env = (\<lambda>_. None)\<rparr>"

definition sample_tick :: "instant \<Rightarrow> string + u32 option \<Rightarrow> wait_result \<Rightarrow> receiver_response option \<Rightarrow> tick_view" where
  "sample_tick now spawned w reply = \<lparr>tk_now = now, tk_unix_ms = 0, tk_spawned = spawned, tk_wait = w,
     tk_reply = reply, tk_forced = False, tk_context = []\<rparr>"

definition sample_supervisor :: supervisor where
  "sample_supervisor = start_supervisor sample_manager (Inr default_settings) (\<lambda>_. []) empty_log 0"

theorem manager_always_consistent_witness:
  "supervisor_ok (from_secs 2) (fold (manager_step sample_manager)
      [Manager_Tick (sample_tick 0 (Inl ''no file'') Still_Running None),
       Manager_Tick (sample_tick (from_secs 1) (Inr (Some 7)) Still_Running None)] sample_supervisor)"
  unfolding sample_supervisor_def
  by (rule manager_always_consistent) (simp_all add: empty_log_def sample_tick_def from_secs_def)

text \<open>
  Property C24. A receiver that is gone comes back: whatever happened up to the instant \<open>T\<close>, if there is no child
  and no configuration error, the tick at any instant at least thirty seconds later at which a process can be
  spawned leaves a running child of the next generation.
\<close>

theorem receiver_is_started_again:
  assumes "length (ol_recent l) \<le> RECENT_LIMIT" and "\<forall>e \<in> set es. event_time e \<le> T"
    and "s = fold (manager_step w) es (start_supervisor w loaded show_error l now)"
    and "\<not> sv_child s" and "sv_configuration_error s = None"
    and "T + from_secs 30 \<le> tk_now v" and "tk_spawned v = Inr pid" and "tk_wait v = Still_Running"
  shows "sv_child (manager_step w (Manager_Tick v) s)
    \<and> sv_receiver_generation (manager_step w (Manager_Tick v) s) = sv_receiver_generation s + 1
    \<and> sv_next_retry (manager_step w (Manager_Tick v) s) = None"
proof -
  have "supervisor_ok T s"
    using manager.run_inv [OF manager_start_ok [OF assms(1)]] assms(2) by (simp add: assms(3) list_all_iff)
  then have "retry_ready (tk_now v) s"
    using assms(6) by (auto simp: retry_ready_def supervisor_ok_def split: option.split)
  then have spawned: "tick_spawn w v s = (spawn_receiver w (tk_now v) (tk_unix_ms v) pid s)\<lparr>sv_child := True,
      sv_startup_at := tk_now v, sv_last_heartbeat := tk_now v\<rparr>"
    using assms(4,5,7) by (simp add: tick_spawn_def)
  let ?t = "(spawn_receiver w (tk_now v) (tk_unix_ms v) pid s)\<lparr>sv_child := True,
      sv_startup_at := tk_now v, sv_last_heartbeat := tk_now v\<rparr>"
  have "tick_watch w v ?t = ?t \<or> (\<exists>ready m p. tick_watch w v ?t = accept_snapshot w (tk_now v) (tk_unix_ms v) ready m p ?t)"
    using assms(8) by (simp add: tick_watch_def split: option.split receiver_response.split) blast
  moreover have "sv_child ?t" "sv_receiver_generation ?t = sv_receiver_generation s + 1" "sv_next_retry ?t = None"
    by (simp_all add: spawn_receiver_def Let_def)
  moreover have "manager_step w (Manager_Tick v) s = tick_watch w v ?t"
    by (simp add: tick_manager_def spawned)
  ultimately show ?thesis
    by (elim disjE exE) (simp_all only: accept_fields note_snapshot_def, simp_all)
qed

theorem receiver_is_started_again_witness:
  "sv_child (manager_step sample_manager (Manager_Tick (sample_tick (from_secs 40) (Inr (Some 7)) Still_Running None))
     (manager_step sample_manager (Manager_Tick (sample_tick 0 (Inl ''no file'') Still_Running None)) sample_supervisor))"
proof (rule receiver_is_started_again [where T = 0 and l = empty_log
      and es = "[Manager_Tick (sample_tick 0 (Inl ''no file'') Still_Running None)]", THEN conjunct1])
  show "manager_step sample_manager (Manager_Tick (sample_tick 0 (Inl ''no file'') Still_Running None)) sample_supervisor
      = fold (manager_step sample_manager) [Manager_Tick (sample_tick 0 (Inl ''no file'') Still_Running None)]
          (start_supervisor sample_manager (Inr default_settings) (\<lambda>_. []) empty_log 0)"
    by (simp add: sample_supervisor_def)
qed (simp_all add: empty_log_def sample_tick_def from_secs_def tick_manager_def tick_spawn_def sample_supervisor_def
    start_supervisor_def retry_ready_def)

text \<open>
  The manager stops copying the receiver's events once their ring is full: it takes as new those
  behind the number it has seen, and that number and the length of the ring are then both 2000 for good.  Whatever
  events the receiver records after such a snapshot, the next snapshot holds the last 2000 of the old and the later ones, in
  order, and none of them is new.
\<close>

lemma full_ring_events:
  assumes "length (mg_events m) = MAX_EVENTS"
  shows "length (mg_events (fold (\<lambda>(t, level, kind, message). event t level kind message) xs m)) = MAX_EVENTS
    \<and> map ev_message (mg_events (fold (\<lambda>(t, level, kind, message). event t level kind message) xs m))
      = drop (length xs) (map ev_message (mg_events m) @ map (\<lambda>(t, level, kind, message). message) xs)"
  using assms
proof (induction xs arbitrary: m)
  case (Cons x xs)
  obtain t l k msg where x: "x = (t, l, k, msg)"
    by (cases x)
  obtain e es where e: "mg_events m = e # es"
    using Cons.prems by (cases "mg_events m") (simp_all add: limits)
  then have "map ev_message (mg_events (event t l k msg m)) = map ev_message es @ [msg]"
      "length (mg_events (event t l k msg m)) = MAX_EVENTS"
    using Cons.prems by (simp_all add: event_def push_event_def push_bounded_def pop_front_over_drop)
  then show ?case
    using Cons.IH [of "event t l k msg m"] by (simp add: x e)
qed simp

theorem full_event_ring_is_no_longer_copied:
  assumes "length (mg_events m) = MAX_EVENTS"
    and "s1 = accept_snapshot w now unix_ms ready (management_snapshot_of now m) p s"
    and "m' = fold (\<lambda>(t, level, kind, message). event t level kind message) xs m"
  shows "new_events (management_snapshot_of now' m') s1 = []
    \<and> map ev_message (sp_events (management_snapshot_of now' m'))
      = drop (length xs) (map ev_message (mg_events m) @ map (\<lambda>(t, level, kind, message). message) xs)"
proof -
  have "sv_seen_events s1 = MAX_EVENTS"
    by (simp add: assms(1,2) accept_fields note_snapshot_def management_snapshot_of_def)
  then show ?thesis
    using full_ring_events [OF assms(1), of xs] by (simp add: new_events_def seen_so_far_def management_snapshot_of_def assms(3))
qed

definition full_ring :: management where
  "full_ring = (new_management 0)\<lparr>mg_events := replicate MAX_EVENTS
     \<lparr>ev_elapsed_sec = Finite False 0, ev_level = ''info'', ev_kind = ''tick'', ev_message = []\<rparr>\<rparr>"

theorem full_event_ring_is_no_longer_copied_witness:
  "new_events (management_snapshot_of 9 (event 8 ''error'' ''stream_stop'' ''crash'' full_ring))
     (accept_snapshot sample_manager 7 7 True (management_snapshot_of 7 full_ring) unavailable_pairing sample_supervisor) = []"
  using full_event_ring_is_no_longer_copied [of full_ring _ sample_manager 7 7 True unavailable_pairing sample_supervisor
      "event 8 ''error'' ''stream_stop'' ''crash'' full_ring" "[(8, ''error'', ''stream_stop'', ''crash'')]" 9]
  by (simp add: full_ring_def)

text \<open>
  The startup deadline applies to the wrong receivers: a receiver that is ready and older than thirty
  seconds is terminated as failing to start at the first request it does not answer, however recent its last
  heartbeat; and one that answers but never becomes ready is not terminated at any age.
\<close>

theorem startup_deadline_hits_ready_receivers:
  assumes "sv_child s" and "tk_wait v = Still_Running" and "tk_now v - sv_startup_at s > STARTUP_DEADLINE"
  shows "(is_ready s \<and> tk_reply v = None \<longrightarrow>
      sv_terminated (manager_step w (Manager_Tick v) s) = sv_terminated s @ [''startup_timeout''])
    \<and> (\<forall>ver m p. tk_reply v = Some (Reply_Snapshot ver False m p) \<longrightarrow>
      sv_terminated (manager_step w (Manager_Tick v) s) = sv_terminated s)"
  using assms by (simp add: tick_manager_def tick_spawn_def tick_watch_def terminated_fields accept_fields note_snapshot_def)

definition ready_supervisor :: supervisor where
  "ready_supervisor = sample_supervisor\<lparr>sv_child := True, sv_receiver_state := ''ready'', sv_startup_at := 0,
     sv_last_heartbeat := from_secs 60\<rparr>"

theorem startup_deadline_hits_ready_receivers_witness:
  "sv_terminated (manager_step sample_manager
      (Manager_Tick (sample_tick (from_secs 61) (Inl []) Still_Running None)) ready_supervisor) = [''startup_timeout'']"
proof -
  have "is_ready ready_supervisor"
    by (simp add: is_ready_def ready_supervisor_def)
  then show ?thesis
    using startup_deadline_hits_ready_receivers [of ready_supervisor "sample_tick (from_secs 61) (Inl []) Still_Running None"]
    by (simp add: ready_supervisor_def sample_tick_def STARTUP_DEADLINE_def from_secs_def sample_supervisor_def
        start_supervisor_def)
qed

end
