(* ===== verification/Supervisor_Lifecycle.thy ===== *)
theory Supervisor_Lifecycle
  imports Supervisor_Correct
begin

text \<open>
  The manager as a small machine: the phases a receiver goes through and three counters.  Every step of the manager
  is a sequence of steps of that machine, so what holds of the machine holds of the manager.
\<close>

section \<open>The abstract machine\<close>

datatype phase = Resting | Booting | Serving | Waiting | Restarting

record life =
  lf_phase :: phase
  lf_generation :: nat
  lf_failures :: nat
  lf_restarts :: nat

definition running :: "life \<Rightarrow> bool" where
  "running l \<longleftrightarrow> lf_phase l \<in> {Booting, Serving}"

inductive life_step :: "life \<Rightarrow> life \<Rightarrow> bool" where
  launch: "\<not> running l \<Longrightarrow> life_step l (l\<lparr>lf_phase := Booting, lf_generation := lf_generation l + 1\<rparr>)"
| fails: "life_step l (l\<lparr>lf_phase := Waiting, lf_failures := saturating_add_u32 (lf_failures l) 1, lf_restarts := lf_restarts l + 1\<rparr>)"
| answers: "lf_phase l = Booting \<Longrightarrow> life_step l (l\<lparr>lf_phase := Serving\<rparr>)"
| settles: "running l \<Longrightarrow> life_step l (l\<lparr>lf_failures := 0\<rparr>)"
| restart: "life_step l (l\<lparr>lf_phase := Restarting, lf_restarts := lf_restarts l + 1\<rparr>)"

inductive_simps life_step_iff: "life_step l l'"

abbreviation life_steps :: "life \<Rightarrow> life \<Rightarrow> bool" where
  "life_steps \<equiv> life_step\<^sup>*\<^sup>*"

lemmas one_step = r_into_rtranclp [where r = life_step]

text \<open>Every launch but the first is paid for by a restart; failures are restarts.\<close>

definition life_ok :: "life \<Rightarrow> bool" where
  "life_ok l \<longleftrightarrow> lf_failures l \<le> lf_restarts l
     \<and> lf_generation l \<le> lf_restarts l + (if running l then 1 else 0)"

lemma life_step_ok: "life_step l l' \<Longrightarrow> life_ok l \<Longrightarrow> life_ok l'"
  by (auto simp: life_step_iff life_ok_def running_def saturating_add_u32_def split: if_splits)

lemma life_steps_ok: "life_steps l l' \<Longrightarrow> life_ok l \<Longrightarrow> life_ok l'"
  by (induction rule: rtranclp_induct) (auto intro: life_step_ok)

lemma life_steps_generation: "life_steps l l' \<Longrightarrow> lf_generation l \<le> lf_generation l' \<and> lf_restarts l \<le> lf_restarts l'"
  by (induction rule: rtranclp_induct) (auto simp: life_step_iff)

section \<open>The manager implements it\<close>

definition life_of :: "supervisor \<Rightarrow> life" where
  "life_of s = \<lparr>lf_phase = (if sv_child s then (if is_ready s then Serving else Booting)
       else if sv_receiver_state s = ''backoff'' then Waiting
       else if sv_receiver_state s = ''restarting'' then Restarting else Resting),
     lf_generation = sv_receiver_generation s, lf_failures = sv_consecutive_failures s, lf_restarts = sv_restart_count s\<rparr>"

lemma life_of_core:
  assumes "core s = core t"
  shows "life_of s = life_of t"
  unfolding life_of_def is_ready_def core_fields [OF assms] ..

lemma life_of_journal [simp]: "life_of (journal w u sev cat msg g c s) = life_of s"
  by (rule life_of_core) simp

lemma life_of_terminate [simp]: "life_of (terminate_child w u forced r s) = life_of s"
proof -
  have "life_of (terminate_child w u forced r s) = life_of (s\<lparr>sv_terminated := sv_terminated s @ [r]\<rparr>)"
    by (rule life_of_core) simp
  then show ?thesis
    by (simp add: life_of_def is_ready_def)
qed

lemma running_life [simp]: "running (life_of s) \<longleftrightarrow> sv_child s"
  by (simp add: life_of_def running_def)

lemma failure_refines: "life_steps (life_of s) (life_of (schedule_failure w now u x r (s\<lparr>sv_child := False\<rparr>)))"
proof -
  have "life_of (schedule_failure w now u x r (s\<lparr>sv_child := False\<rparr>)) = (life_of s)\<lparr>lf_phase := Waiting,
      lf_failures := saturating_add_u32 (lf_failures (life_of s)) 1, lf_restarts := lf_restarts (life_of s) + 1\<rparr>"
    by (simp add: life_of_def)
  then show ?thesis
    using one_step [OF fails [of "life_of s"]] by simp
qed

lemma spawn_refines: "life_steps (life_of s) (life_of (tick_spawn w v s))"
proof (cases "\<not> sv_child s \<and> sv_configuration_error s = None \<and> retry_ready (tk_now v) s")
  case True
  then have same: "s\<lparr>sv_child := False\<rparr> = s"
    by simp
  have "life_of ((spawn_receiver w (tk_now v) (tk_unix_ms v) pid s)\<lparr>sv_child := True, sv_startup_at := tk_now v,
      sv_last_heartbeat := tk_now v\<rparr>) = (life_of s)\<lparr>lf_phase := Booting, lf_generation := lf_generation (life_of s) + 1\<rparr>" for pid
    by (simp add: life_of_def spawn_receiver_def Let_def is_ready_def)
  then show ?thesis
    using True one_step [OF launch [of "life_of s"]] failure_refines [of s, unfolded same]
    by (simp add: tick_spawn_def split: sum.split)
next
  case False
  then have "tick_spawn w v s = s"
    unfolding tick_spawn_def by (rule if_not_P)
  then show ?thesis
    by simp
qed

text \<open>A snapshot may make a booting receiver serve, and forget the failures of a running one.\<close>

lemma accept_refines:
  assumes "sv_child s" and "sv_receiver_state s \<in> {''starting'', ''ready''}"
  shows "life_steps (life_of s) (life_of (accept_snapshot w now u ready m p s))"
proof -
  define l where "l = (if ready \<and> \<not> is_ready s then (life_of s)\<lparr>lf_phase := Serving\<rparr> else life_of s)"
  have "life_steps (life_of s) l"
    using assms one_step [OF answers [of "life_of s"]] by (auto simp: l_def life_of_def)
  moreover have "running l"
    using assms by (simp add: l_def running_def life_of_def)
  then have "life_steps l (l\<lparr>lf_failures := 0\<rparr>)"
    by (intro one_step settles)
  moreover have "life_of (note_snapshot now ready m p s) = l \<or> life_of (note_snapshot now ready m p s) = l\<lparr>lf_failures := 0\<rparr>"
    using assms by (simp add: l_def life_of_def note_snapshot_def is_ready_def)
  ultimately show ?thesis
    unfolding life_of_core [OF core_accept] by (auto intro: rtranclp_trans)
qed

lemma watch_refines:
  assumes "supervisor_ok T s" and "sv_child s"
  shows "life_steps (life_of s) (life_of (tick_watch w v s))"
  using assms accept_refines [of s] failure_refines [of s]
  by (auto simp: tick_watch_def supervisor_ok_def split: wait_result.split option.split receiver_response.split)

lemma restart_refines: "life_steps (life_of s) (life_of (handle_restart w now u forced r s))"
proof -
  define t where "t = (if sv_child s then terminate_child w u forced r (s\<lparr>sv_child := False\<rparr>) else s)"
  have t: "\<not> sv_child t" "sv_receiver_generation t = sv_receiver_generation s"
      "sv_consecutive_failures t = sv_consecutive_failures s" "sv_restart_count t = sv_restart_count s"
    by (simp_all add: t_def terminated_fields)
  have "handle_restart w now u forced r s = schedule_requested_restart w now u r t"
    by (simp add: handle_restart_def t_def)
  then have "life_of (handle_restart w now u forced r s)
      = (life_of s)\<lparr>lf_phase := Restarting, lf_restarts := lf_restarts (life_of s) + 1\<rparr>"
    by (simp add: schedule_requested_restart_def Let_def) (simp add: life_of_def t)
  then show ?thesis
    using one_step [OF restart [of "life_of s"]] by simp
qed

lemma manager_step_refines:
  assumes "supervisor_ok T s" and "event_time e \<le> T"
  shows "life_steps (life_of s) (life_of (manager_step w e s))"
proof (cases e)
  case (Manager_Tick v)
  then have "supervisor_ok T (tick_spawn w v s)"
    using assms tick_spawn_ok by simp
  then have "life_steps (life_of (tick_spawn w v s)) (life_of (tick_manager w v s))"
    using watch_refines by (simp add: tick_manager_def Let_def)
  then show ?thesis
    using spawn_refines [of s w v] Manager_Tick by (auto intro: rtranclp_trans)
next
  case (Restart_Request now u forced reason)
  then show ?thesis
    by (simp add: restart_refines)
next
  case (Apply_Settings u persisted updated)
  have "life_of (s\<lparr>sv_settings := x, sv_configuration_error := y\<rparr>) = life_of s" for x y
    by (simp add: life_of_def is_ready_def)
  then show ?thesis
    using Apply_Settings by (simp add: apply_settings_def Let_def split: sum.split)
qed (simp_all add: handle_stop_sharing_def, simp_all add: push_output_def life_of_def is_ready_def)

interpretation lifecycle:
  refined_machine "manager_step w" "supervisor_ok T" "\<lambda>e. event_time e \<le> T" life_of life_step
  by unfold_locales (rule manager_step_refines)

section \<open>Properties\<close>

text \<open>
  Property C28. The manager refines a machine of five phases: seen through \<open>life_of\<close>, any run of it (ticks, requests,
  output, settings) is a run of \<open>life_step\<close>, so a receiver is launched only when none runs, serves only after booting,
  and forgets its failures only while it runs; and by the invariant of the small machine the number of processes ever
  launched is at most one more than the restarts the portal shows, and the failures in a row are at most those.
\<close>

theorem manager_refines_lifecycle:
  assumes "length (ol_recent l) \<le> RECENT_LIMIT" and "\<forall>e \<in> set es. event_time e \<le> T"
    and "s0 = start_supervisor w loaded show_error l now"
  shows "life_step\<^sup>*\<^sup>* (life_of s0) (life_of (fold (manager_step w) es s0))
    \<and> sv_receiver_generation (fold (manager_step w) es s0) \<le> sv_restart_count (fold (manager_step w) es s0) + 1
    \<and> sv_consecutive_failures (fold (manager_step w) es s0) \<le> sv_restart_count (fold (manager_step w) es s0)"
proof -
  have steps: "life_steps (life_of s0) (life_of (fold (manager_step w) es s0))"
    using lifecycle.run_simulates [OF manager_start_ok [OF assms(1)]] assms(2) by (simp add: assms(3) list_all_iff)
  have "life_ok (life_of s0)"
    by (simp add: assms(3) start_supervisor_def life_ok_def life_of_def Let_def prod.case_eq_if)
  then have "life_ok (life_of (fold (manager_step w) es s0))"
    using life_steps_ok [OF steps] by simp
  then show ?thesis
    using steps by (simp add: life_ok_def) (simp add: life_of_def split: if_splits)
qed

theorem manager_refines_lifecycle_witness:
  "life_step\<^sup>*\<^sup>* (life_of sample_supervisor) (life_of (fold (manager_step sample_manager)
      [Manager_Tick (sample_tick 0 (Inr (Some 7)) Still_Running None),
       Restart_Request (from_secs 1) 0 False ''manual_restart'',
       Manager_Tick (sample_tick (from_secs 2) (Inr (Some 8)) Still_Running None)] sample_supervisor))"
  unfolding sample_supervisor_def
  by (rule manager_refines_lifecycle [where T = "from_secs 2" and l = empty_log and w = sample_manager
        and loaded = "Inr default_settings" and show_error = "\<lambda>_. []" and now = 0, THEN conjunct1])
    (simp_all add: empty_log_def sample_tick_def from_secs_def)

end
