(* ===== verification/Admin.thy ===== *)
theory Admin
  imports Http_Server Supervisor Discovery
begin

text \<open>
  \<open>src/admin.rs\<close> and \<open>src/update.rs\<close>: the portal of the manager.  A request is read, checked and answered; what
  it asks of the supervisor and of the updater is a list of commands.  The parsers of the JSON bodies, the
  outcome of writing the settings file and of placing an update request are arguments.
\<close>

definition MAX_REQUEST_BYTES :: nat where [limits]: "MAX_REQUEST_BYTES = 16 * 1024"

section \<open>Editable settings\<close>

record editable_settings =
  ed_port :: u16
  ed_webtransport_port :: u16
  ed_http_port :: u16
  ed_drm_connector_id :: string
  ed_drm_plane_id :: string
  ed_idle_dashboard :: bool
  ed_idle_dashboard_mode :: string
  ed_idle_timeout_sec :: u64
  ed_sender_liveness_timeout_sec :: u64
  ed_udp_buffer_size_mb :: u64
  ed_pairing_code_ttl_sec :: u64
  ed_local_pairing_code_required :: bool
  ed_cloud_discovery_enabled :: bool

definition apply_to :: "editable_settings \<Rightarrow> receiver_settings \<Rightarrow> receiver_settings" where
  "apply_to x s = s\<lparr>port := ed_port x, webtransport_port := ed_webtransport_port x, http_port := ed_http_port x,
     drm_connector_id := ed_drm_connector_id x, drm_plane_id := ed_drm_plane_id x,
     idle_dashboard := ed_idle_dashboard x, idle_dashboard_mode := ed_idle_dashboard_mode x,
     idle_timeout_sec := ed_idle_timeout_sec x, sender_liveness_timeout_sec := ed_sender_liveness_timeout_sec x,
     udp_buffer_size_mb := ed_udp_buffer_size_mb x, pairing_code_ttl_sec := ed_pairing_code_ttl_sec x,
     local_pairing_code_required := ed_local_pairing_code_required x,
     cloud_discovery_enabled := ed_cloud_discovery_enabled x\<rparr>"

definition editable_from :: "receiver_settings \<Rightarrow> bool option \<Rightarrow> editable_settings" where
  "editable_from s cloud = \<lparr>ed_port = port s, ed_webtransport_port = webtransport_port s, ed_http_port = http_port s,
     ed_drm_connector_id = drm_connector_id s, ed_drm_plane_id = drm_plane_id s,
     ed_idle_dashboard = idle_dashboard s, ed_idle_dashboard_mode = idle_dashboard_mode s,
     ed_idle_timeout_sec = idle_timeout_sec s, ed_sender_liveness_timeout_sec = sender_liveness_timeout_sec s,
     ed_udp_buffer_size_mb = udp_buffer_size_mb s, ed_pairing_code_ttl_sec = pairing_code_ttl_sec s,
     ed_local_pairing_code_required = local_pairing_code_required s,
     ed_cloud_discovery_enabled = (case cloud of None \<Rightarrow> cloud_discovery_enabled s | Some b \<Rightarrow> b)\<rparr>"

section \<open>Reading a request\<close>

text \<open>\<open>read_header\<close>: read until the blank line.  \<open>chunks\<close> are what the reads return; an empty one is the end.\<close>

fun find_blank_line :: "byte list \<Rightarrow> nat option" where
  "find_blank_line (a # b # c # d # r) =
     (if [a, b, c, d] = [0x0D, 0x0A, 0x0D, 0x0A] then Some 0 else map_option Suc (find_blank_line (b # c # d # r)))"
| "find_blank_line _ = None"

datatype 'a reading = Got 'a | Refused string | Closed_Early

fun read_header :: "byte list \<Rightarrow> byte list list \<Rightarrow> (nat \<times> byte list \<times> byte list list) reading" where
  "read_header request chunks =
     (case find_blank_line request of
        Some i \<Rightarrow> Got (i, request, chunks)
      | None \<Rightarrow>
        if length request \<ge> MAX_REQUEST_BYTES then Refused ''413 Payload Too Large''
        else (case chunks of [] \<Rightarrow> Closed_Early
              | chunk # more_chunks \<Rightarrow> if chunk = [] then Closed_Early else read_header (request @ chunk) more_chunks))"

declare read_header.simps [simp del]

fun read_body :: "nat \<Rightarrow> byte list \<Rightarrow> byte list list \<Rightarrow> byte list" where
  "read_body wanted request [] = request"
| "read_body wanted request (chunk # chunks) =
     (if length request < wanted \<and> chunk \<noteq> [] then read_body wanted (request @ chunk) chunks else request)"

fun header_fields :: "string list \<Rightarrow> (string \<Rightarrow> string option) \<Rightarrow> string \<Rightarrow> string option" where
  "header_fields [] h = h"
| "header_fields (line # ls) h =
     header_fields ls (case split_once CHR '':'' line of None \<Rightarrow> h
       | Some (name, v) \<Rightarrow> h(to_ascii_lowercase (trim name) \<mapsto> trim v))"

record admin_request =
  rq_method :: string
  rq_path :: string
  rq_headers :: "string \<Rightarrow> string option"
  rq_body :: "byte list"

definition tail_lines :: "string list \<Rightarrow> string list" where
  "tail_lines ls = (case ls of [] \<Rightarrow> [] | _ # r \<Rightarrow> r)"

definition read_request :: "(byte list \<Rightarrow> string) \<Rightarrow> byte list list \<Rightarrow> admin_request reading" where
  "read_request lossy chunks =
     (case chunks of [] \<Rightarrow> Closed_Early
      | first_chunk # chunks \<Rightarrow>
        if first_chunk = [] then Closed_Early
        else case read_header first_chunk chunks of
          Refused e \<Rightarrow> Refused e
        | Closed_Early \<Rightarrow> Closed_Early
        | Got (header_end, request, chunks) \<Rightarrow>
          let ls = str_lines (lossy (take header_end request));
              headers = header_fields (tail_lines ls) Map.empty;
              len = (case headers ''content-length'' of None \<Rightarrow> 0
                | Some v \<Rightarrow> (case parse_uint u64_max v of None \<Rightarrow> 0 | Some n \<Rightarrow> n))
          in if len > MAX_REQUEST_BYTES then Refused ''413 Payload Too Large''
             else
               let body_start = header_end + 4; request = read_body (body_start + len) request chunks
               in if length request < body_start + len then Refused ''400 Bad Request''
                  else
                    let parts = split_whitespace (first_text ls)
                    in Got \<lparr>rq_method = nth_text 0 parts,
                            rq_path = (if length parts > 1 then parts ! 1 else ''/''),
                            rq_headers = headers, rq_body = take len (drop body_start request)\<rparr>)"

section \<open>Checks\<close>

definition names_host :: "string \<Rightarrow> string \<Rightarrow> bool" where
  "names_host host v \<longleftrightarrow> v = ''https://'' @ host \<or> v = ''http://'' @ host
     \<or> starts_with v (''https://'' @ host @ ''/'') \<or> starts_with v (''http://'' @ host @ ''/'')"

definition request_is_same_origin :: "(string \<Rightarrow> string option) \<Rightarrow> bool" where
  "request_is_same_origin headers =
     (if (case headers ''sec-fetch-site'' of None \<Rightarrow> False | Some v \<Rightarrow> eq_ignore_ascii_case v ''cross-site'') then False
      else case headers ''host'' of None \<Rightarrow> False
      | Some host \<Rightarrow> list_all (\<lambda>name. case headers name of None \<Rightarrow> True | Some v \<Rightarrow> names_host host v) [''origin'', ''referer''])"

definition is_json_content :: "(string \<Rightarrow> string option) \<Rightarrow> bool" where
  "is_json_content headers =
     (case headers ''content-type'' of None \<Rightarrow> False
      | Some v \<Rightarrow> eq_ignore_ascii_case (trim (first_text (split_on CHR '';'' v))) ''application/json'')"

section \<open>Answers\<close>

datatype reply_body =
    Page | Snapshot_Json | Update_Json | Text string | Log_Json nat | Diagnostics
  | Ok_Json | Target_Json nat | Settings_Json bool nat | Error_Json string | Detail_Json string | Missing_Json "string list"

record admin_reply =
  ar_status :: string
  ar_body :: reply_body

datatype manager_command = Ask_Stop | Ask_Restart string | Ask_Update string | Save_Settings receiver_settings

text \<open>The outside of a request: the JSON readers of the four kinds of bodies, whether settings can be written,
  whether the updater takes a request, whether diagnostics can be built, what cloud provisioning lacks.\<close>

record portal =
  po_restart_body :: "byte list \<Rightarrow> bool option"
  po_update_body :: "byte list \<Rightarrow> bool option"
  po_settings_body :: "byte list \<Rightarrow> (editable_settings \<times> bool) option"
  po_cloud_body :: "byte list \<Rightarrow> (bool \<times> bool) option"
  po_saves :: bool
  po_updater :: bool
  po_diagnostics :: bool
  po_missing :: "string list"

definition answer :: "string \<Rightarrow> reply_body \<Rightarrow> admin_reply" where
  "answer st b = \<lparr>ar_status = st, ar_body = b\<rparr>"

text \<open>\<open>update::request\<close>: only the two known actions reach the updater.\<close>

definition update_request :: "bool \<Rightarrow> string \<Rightarrow> string + unit" where
  "update_request available action =
     (if action \<noteq> ''check'' \<and> action \<noteq> ''apply'' then Inl ''invalid update action''
      else if \<not> available then Inl ''host updater unavailable'' else Inr ())"

definition request_update :: "portal \<Rightarrow> string \<Rightarrow> admin_reply \<times> manager_command list" where
  "request_update p action =
     (case update_request (po_updater p) action of
        Inr _ \<Rightarrow> (answer ''202 Accepted'' Ok_Json, [Ask_Update action])
      | Inl _ \<Rightarrow> (answer ''503 Service Unavailable'' (Error_Json ''updater_unavailable''), []))"

text \<open>\<open>s.split("lines=")\<close>: the text behind the first \<open>lines=\<close>, up to the next one.\<close>

definition log_lines :: "string \<Rightarrow> nat" where
  "log_lines path =
     (let v = (case str_find ''lines='' path of None \<Rightarrow> None
            | Some i \<Rightarrow>
              let r = drop (i + 6) path; r = (case str_find ''lines='' r of None \<Rightarrow> r | Some j \<Rightarrow> take j r)
              in parse_uint u64_max (first_text (split_on CHR ''&'' r)))
      in min 2000 (max 1 (case v of None \<Rightarrow> 200 | Some n \<Rightarrow> n)))"

definition handle_get :: "portal \<Rightarrow> supervisor \<Rightarrow> admin_request \<Rightarrow> admin_reply option" where
  "handle_get p s q =
     (let path = rq_path q
      in if rq_method q \<noteq> ''GET'' then None
         else if path = ''/'' \<or> path = ''/index.html'' then Some (answer ''200 OK'' Page)
         else if path = ''/api/snapshot'' then Some (answer ''200 OK'' Snapshot_Json)
         else if path = ''/api/update'' then Some (answer ''200 OK'' Update_Json)
         else if path = ''/health/manager'' then Some (answer ''200 OK'' (Text ''OK''))
         else if path = ''/health''
         then Some (if is_ready s then answer ''200 OK'' (Text ''OK'')
                    else answer ''503 Service Unavailable'' (Text ''RECEIVER UNAVAILABLE''))
         else if starts_with path ''/api/logs?'' then Some (answer ''200 OK'' (Log_Json (log_lines path)))
         else if path = ''/api/logs/download''
         then Some (if \<not> request_is_same_origin (rq_headers q) then answer ''403 Forbidden'' (Error_Json ''cross_origin'')
                    else if po_diagnostics p then answer ''200 OK'' Diagnostics
                    else answer ''500 Internal Server Error'' (Error_Json ''diagnostic_export_failed''))
         else None)"

definition handle_restart_request :: "portal \<Rightarrow> supervisor \<Rightarrow> byte list \<Rightarrow> admin_reply \<times> manager_command list" where
  "handle_restart_request p s body =
     (case po_restart_body p body of
        None \<Rightarrow> (answer ''400 Bad Request'' (Error_Json ''invalid_json''), [])
      | Some confirmed \<Rightarrow>
        if \<not> confirmed then (answer ''409 Conflict'' (Error_Json ''restart_confirmation_required''), [])
        else (answer ''202 Accepted'' (Target_Json (restart_target s)), [Ask_Restart ''manual_restart'']))"

definition handle_update_apply :: "portal \<Rightarrow> supervisor \<Rightarrow> byte list \<Rightarrow> admin_reply \<times> manager_command list" where
  "handle_update_apply p s body =
     (case po_update_body p body of
        None \<Rightarrow> (answer ''400 Bad Request'' (Error_Json ''invalid_json''), [])
      | Some confirmed \<Rightarrow>
        if \<not> confirmed then (answer ''409 Conflict'' (Error_Json ''update_confirmation_required''), [])
        else if is_streaming s then (answer ''409 Conflict'' (Error_Json ''stream_active''), [])
        else request_update p ''apply'')"

definition settings_request :: "portal \<Rightarrow> supervisor \<Rightarrow> string \<Rightarrow> byte list \<Rightarrow> (editable_settings \<times> bool) option" where
  "settings_request p s path body =
     (if path = ''/api/settings/cloud''
      then map_option (\<lambda>(enabled, confirm). (editable_from (sv_settings s) (Some enabled), confirm)) (po_cloud_body p body)
      else po_settings_body p body)"

definition handle_settings ::
  "portal \<Rightarrow> supervisor \<Rightarrow> string \<Rightarrow> byte list \<Rightarrow> admin_reply \<times> manager_command list" where
  "handle_settings p s path body =
     (let current = sv_settings s
      in case settings_request p s path body of
        None \<Rightarrow> (answer ''400 Bad Request'' (Error_Json ''invalid_json''), [])
      | Some (edited, confirm) \<Rightarrow>
        let updated = apply_to edited current
        in case validate updated of
             Inl detail \<Rightarrow> (answer ''422 Unprocessable Entity'' (Detail_Json detail), [])
           | Inr _ \<Rightarrow>
             if cloud_discovery_enabled updated \<and> \<not> cloud_discovery_enabled current \<and> po_missing p \<noteq> []
             then (answer ''422 Unprocessable Entity'' (Missing_Json (po_missing p)), [])
             else if updated = current \<and> sv_configuration_error s = None
             then (answer ''200 OK'' (Settings_Json False (sv_receiver_generation s)), [])
             else if \<not> confirm then (answer ''409 Conflict'' (Error_Json ''restart_confirmation_required''), [])
             else if \<not> po_saves p
             then (answer ''500 Internal Server Error'' (Error_Json ''settings_persist_failed''), [])
             else (answer ''202 Accepted'' (Settings_Json True (restart_target s)),
                   [Save_Settings updated, Ask_Restart ''settings_restart'']))"

definition handle_stop_request :: "supervisor \<Rightarrow> admin_reply \<times> manager_command list" where
  "handle_stop_request s =
     (case stop_sharing s of
        Inr _ \<Rightarrow> (answer ''202 Accepted'' Ok_Json, [Ask_Stop])
      | Inl _ \<Rightarrow> (answer ''503 Service Unavailable'' (Error_Json ''receiver_unavailable''), []))"

definition handle_admin_request :: "portal \<Rightarrow> supervisor \<Rightarrow> admin_request \<Rightarrow> admin_reply \<times> manager_command list" where
  "handle_admin_request p s q =
     (case handle_get p s q of
        Some r \<Rightarrow> (r, [])
      | None \<Rightarrow>
        let meth = rq_method q; path = rq_path q; body = rq_body q
        in if (meth = ''POST'' \<or> meth = ''PUT'') \<and> \<not> request_is_same_origin (rq_headers q)
           then (answer ''403 Forbidden'' (Error_Json ''cross_origin''), [])
           else if (meth = ''POST'' \<or> meth = ''PUT'') \<and> \<not> is_json_content (rq_headers q)
           then (answer ''415 Unsupported Media Type'' (Error_Json ''application_json_required''), [])
           else if meth = ''POST'' \<and> path = ''/api/stream/stop'' then handle_stop_request s
           else if meth = ''POST'' \<and> path = ''/api/watchdog/restart'' then handle_restart_request p s body
           else if meth = ''POST'' \<and> path = ''/api/update/check'' then request_update p ''check''
           else if meth = ''POST'' \<and> path = ''/api/update/apply'' then handle_update_apply p s body
           else if meth = ''PUT'' \<and> (path = ''/api/settings'' \<or> path = ''/api/settings/cloud'')
           then handle_settings p s path body
           else (answer ''404 Not Found'' (Text ''Not Found''), []))"

section \<open>The portal's WebSocket\<close>

text \<open>A request whose first bytes ask for an upgrade is handed over before any check; the messages of the
  browser then count only for their text.\<close>

definition is_portal_websocket :: "(byte list \<Rightarrow> string) \<Rightarrow> byte list \<Rightarrow> bool" where
  "is_portal_websocket lossy first_chunk \<longleftrightarrow> str_contains ''upgrade: websocket'' (to_ascii_lowercase (lossy first_chunk))"

fun portal_messages :: "supervisor \<Rightarrow> ws_message list \<Rightarrow> manager_command list" where
  "portal_messages s [] = []"
| "portal_messages s (Ws_Text text # ms) =
     (if str_contains ''stop'' text \<and> is_ok (stop_sharing s) then Ask_Stop # portal_messages s ms else portal_messages s ms)"
| "portal_messages s (Ws_Close # ms) = []"
| "portal_messages s (Ws_Error # ms) = portal_messages s ms"
| "portal_messages s (Ws_Other # ms) = portal_messages s ms"

text \<open>\<open>handle_http\<close>: \<open>chunks\<close> are what the reads of the connection return, \<open>ms\<close> the messages of the browser if the
  connection is upgraded.\<close>

datatype portal_outcome =
    Ended | Refusal string | Answered admin_reply "manager_command list" | Upgraded "manager_command list"

definition handle_http ::
  "(byte list \<Rightarrow> string) \<Rightarrow> portal \<Rightarrow> supervisor \<Rightarrow> byte list list \<Rightarrow> ws_message list \<Rightarrow> portal_outcome" where
  "handle_http lossy p s chunks ms =
     (if chunks = [] \<or> hd chunks = [] then Ended
      else if is_portal_websocket lossy (hd chunks) then Upgraded (portal_messages s ms)
      else case read_request lossy chunks of
        Closed_Early \<Rightarrow> Ended
      | Refused e \<Rightarrow> Refusal e
      | Got q \<Rightarrow> (case handle_admin_request p s q of (r, cs) \<Rightarrow> Answered r cs))"

text \<open>The portal's own \<open>PrefixStream\<close>.\<close>

definition poll_read_portal :: "nat \<Rightarrow> prefix_stream \<Rightarrow> byte list \<times> prefix_stream" where
  "poll_read_portal room s =
     (case px_prefix s of
        Some prefix \<Rightarrow>
          let count = min (length prefix) room
          in (take count prefix, s\<lparr>px_prefix := (if count < length prefix then Some (drop count prefix) else None)\<rparr>)
      | None \<Rightarrow> read_inner room s)"

text \<open>The portal's Unix socket: a line that is no text gets no reply.\<close>

definition socket_reply :: "(string + string) \<Rightarrow> string \<Rightarrow> string option" where
  "socket_reply pairing_code sent =
     (case read_line sent of None \<Rightarrow> None
      | Some request \<Rightarrow>
        Some ((case (if trim request = ''pairing-code'' then pairing_code else Inl ''invalid admin command'') of
           Inr c \<Rightarrow> c | Inl e \<Rightarrow> ''ERROR '' @ e) @ [CHR 0x0A]))"

text \<open>The client side: what \<open>llrdc-management admin pairing-code\<close> makes of a reply.\<close>

definition client_result :: "string \<Rightarrow> string + string" where
  "client_result reply =
     (if \<not> valid_utf8 reply then Inl ''invalid utf-8 sequence''
      else let response = trim reply
      in case strip_prefix ''ERROR '' response of Some e \<Rightarrow> Inl e
         | None \<Rightarrow> if length response \<noteq> 4 \<or> \<not> list_all is_ascii_alphanumeric response
                   then Inl ''manager returned invalid pairing code'' else Inr response)"

definition run_client :: "string option \<Rightarrow> bool \<Rightarrow> string \<Rightarrow> string + string" where
  "run_client command has_extra_arguments reply =
     (if command \<noteq> Some ''pairing-code'' \<or> has_extra_arguments
      then Inl ''usage: llrdc-management admin pairing-code'' else client_result reply)"

section \<open>The listener and the response\<close>

text \<open>Where \<open>run_server\<close> binds.\<close>

definition portal_bind :: "receiver_settings \<Rightarrow> string + string \<times> u16" where
  "portal_bind s =
     (if trim (admin_bind_address s) = []
      then Inl ''management bind address is required; refusing wildcard bind''
      else Inr (admin_bind_address s, admin_port s))"

definition portal_response :: "string \<Rightarrow> string \<Rightarrow> byte list \<Rightarrow> string option \<Rightarrow> string" where
  "portal_response st content_type body extra =
     ''HTTP/1.1 '' @ st @ crlf @ ''Content-Type: '' @ content_type @ crlf
     @ ''Content-Length: '' @ nat_to_string (length body) @ crlf @ ''Cache-Control: no-store'' @ crlf
     @ (case extra of None \<Rightarrow> [] | Some e \<Rightarrow> e) @ ''Connection: close'' @ crlf @ crlf"

end
