(* ===== verification/Admin_Correct.thy ===== *)
theory Admin_Correct
  imports Admin Supervisor_Correct
begin

text \<open>
  What the portal guarantees: which requests reach the supervisor and the updater, that the bytes read ahead are
  given back unchanged by both prefix streams, and that the header loop stops against any client.
\<close>

section \<open>Editable settings\<close>

lemma apply_editable: "apply_to (editable_from s cloud) s
    = s\<lparr>cloud_discovery_enabled := (case cloud of None \<Rightarrow> cloud_discovery_enabled s | Some b \<Rightarrow> b)\<rparr>"
  by (simp add: apply_to_def editable_from_def)

lemma apply_editable_same [simp]: "apply_to (editable_from s None) s = s"
  by (simp add: apply_editable)

section \<open>Bytes read ahead\<close>

text \<open>A source of bytes as its reader uses it: a read takes a front part of what is left, and takes something
  when there is room and something is left.\<close>

locale byte_source =
  fixes read :: "nat \<Rightarrow> 's \<Rightarrow> byte list \<times> 's"
    and left :: "'s \<Rightarrow> byte list"
    and fresh :: "'s \<Rightarrow> bool"
  assumes splits: "fresh s \<Longrightarrow> left s = fst (read room s) @ left (snd (read room s))"
    and fits: "fresh s \<Longrightarrow> length (fst (read room s)) \<le> room"
    and progress: "fresh s \<Longrightarrow> 0 < room \<Longrightarrow> left s \<noteq> [] \<Longrightarrow> fst (read room s) \<noteq> []"
    and stays_fresh: "fresh s \<Longrightarrow> fresh (snd (read room s))"
begin

text \<open>\<open>gather\<close> reads with the rooms given and puts the pieces together.\<close>

fun gather :: "nat list \<Rightarrow> 's \<Rightarrow> byte list" where
  "gather [] s = []"
| "gather (room # rooms) s = fst (read room s) @ gather rooms (snd (read room s))"

lemma gather_front: "fresh s \<Longrightarrow> \<exists>rest. left s = gather rooms s @ rest"
proof (induction rooms arbitrary: s)
  case (Cons room rooms)
  then show ?case
    using splits [of s room] stays_fresh [of s room] by (metis append.assoc gather.simps(2))
qed simp

lemma gather_all:
  assumes "fresh s" and "length (left s) \<le> length rooms" and "\<forall>room \<in> set rooms. 0 < room"
  shows "gather rooms s = left s"
  using assms
proof (induction rooms arbitrary: s)
  case (Cons room rooms)
  have split: "left s = fst (read room s) @ left (snd (read room s))"
    by (rule splits) (rule Cons.prems(1))
  have "length (left (snd (read room s))) \<le> length rooms"
  proof (cases "left s = []")
    case False
    then have "0 < length (fst (read room s))"
      using progress Cons.prems by (simp only: length_greater_0_conv) simp
    moreover have "length (left s) = length (fst (read room s)) + length (left (snd (read room s)))"
      using arg_cong [OF split, of length] by simp
    ultimately show ?thesis
      using Cons.prems(2) by (simp only: list.size)
  qed (use split in simp)
  then show ?case
    using Cons.IH [of "snd (read room s)"] Cons.prems stays_fresh split by simp
qed simp

end

definition pending_bytes :: "prefix_stream \<Rightarrow> byte list" where
  "pending_bytes s = (case px_prefix s of None \<Rightarrow> [] | Some p \<Rightarrow> p) @ px_inner s"

interpretation page_stream: byte_source poll_read pending_bytes "\<lambda>_. True"
  by unfold_locales
    (auto simp: poll_read_def read_inner_def pending_bytes_def split: option.split)

interpretation portal_stream: byte_source poll_read_portal pending_bytes "\<lambda>s. px_prefix s \<noteq> Some []"
  by unfold_locales
    (auto simp: poll_read_portal_def read_inner_def pending_bytes_def Let_def min_def split: option.split if_splits)

text \<open>Both written out as one function each, so that statements do not depend on the locale.\<close>

fun read_all :: "(nat \<Rightarrow> 's \<Rightarrow> byte list \<times> 's) \<Rightarrow> nat list \<Rightarrow> 's \<Rightarrow> byte list" where
  "read_all rd [] s = []"
| "read_all rd (room # rooms) s = (case rd room s of (bs, s) \<Rightarrow> bs @ read_all rd rooms s)"

lemma read_all_page: "read_all poll_read rooms s = page_stream.gather rooms s"
  by (induction rooms arbitrary: s) (simp_all add: prod.case_eq_if)

lemma read_all_portal: "read_all poll_read_portal rooms s = portal_stream.gather rooms s"
  by (induction rooms arbitrary: s) (simp_all add: prod.case_eq_if)

text \<open>
  Reading ahead to recognise a WebSocket loses nothing: through either of the two \<open>PrefixStream\<close>s of
  the code (the page server's, which hands out a whole prefix or cuts it, and the portal's, which copies and keeps
  the rest), a reader sees exactly the bytes of the connection, the first non-empty read \<open>buf\<close> and then \<open>rest\<close>,
  whatever the sizes of its buffers, and the two deliver the same bytes.
\<close>

theorem prefix_streams_are_transparent:
  assumes "buf \<noteq> []" and "\<forall>room \<in> set rooms. 0 < room" and "length (buf @ rest) \<le> length rooms"
  defines "s \<equiv> \<lparr>px_prefix = Some buf, px_inner = rest\<rparr>"
  shows "read_all poll_read rooms s = buf @ rest \<and> read_all poll_read_portal rooms s = buf @ rest"
proof -
  have "pending_bytes s = buf @ rest"
    by (simp add: s_def pending_bytes_def)
  moreover have "px_prefix s \<noteq> Some []"
    using assms(1) by (simp add: s_def)
  ultimately show ?thesis
    using assms(2,3) page_stream.gather_all [of s rooms] portal_stream.gather_all [of s rooms]
    by (simp add: read_all_page read_all_portal)
qed

theorem prefix_streams_are_transparent_witness:
  "read_all poll_read [2, 1, 2, 1, 1] \<lparr>px_prefix = Some [71, 69, 84], px_inner = [32, 47 :: byte]\<rparr> = [71, 69, 84, 32, 47]"
  using prefix_streams_are_transparent [of "[71, 69, 84]" "[2, 1, 2, 1, 1]" "[32, 47]"] by simp

section \<open>The loops that read a request\<close>

lemma blank_line_inside: "find_blank_line bs = Some i \<Longrightarrow> i + 4 \<le> length bs"
  by (induction bs arbitrary: i rule: find_blank_line.induct) (auto split: if_splits)

lemma header_got_inside: "read_header r chunks = Got (i, q, c) \<Longrightarrow> i + 4 \<le> length q"
proof (induction chunks arbitrary: r)
  case Nil
  then show ?case
    by (subst (asm) read_header.simps) (auto split: option.splits if_splits dest: blank_line_inside)
next
  case (Cons chunk chunks)
  then show ?case
    by (subst (asm) (2) read_header.simps) (auto split: option.splits if_splits dest: blank_line_inside)
qed

text \<open>Every read of the header loop needs fewer than the limit and adds a byte.\<close>

lemma header_loop:
  assumes "[] \<notin> set chunks" and "MAX_REQUEST_BYTES \<le> length r + length chunks"
  shows "(\<exists>e. \<forall>extra. read_header r (chunks @ extra) = Refused e)
    \<or> (\<exists>i q c. (\<forall>extra. read_header r (chunks @ extra) = Got (i, q, c @ extra))
         \<and> [] \<notin> set c \<and> length chunks \<le> length c + (MAX_REQUEST_BYTES - length r))"
  using assms
proof (induction chunks arbitrary: r)
  case Nil
  then show ?case
    by (cases "find_blank_line r") (simp_all add: read_header.simps)
next
  case (Cons chunk chunks)
  show ?case
  proof (cases "find_blank_line r = None \<and> length r < MAX_REQUEST_BYTES")
    case False
    then show ?thesis
      using Cons.prems by (cases "find_blank_line r") (simp_all add: read_header.simps [of r])
  next
    case True
    have unroll: "read_header r ((chunk # chunks) @ extra) = read_header (r @ chunk) (chunks @ extra)" for extra
      using True Cons.prems by (subst read_header.simps) auto
    have longer: "Suc (length r) \<le> length (r @ chunk)"
      using Cons.prems by (cases chunk) auto
    then have "MAX_REQUEST_BYTES \<le> length (r @ chunk) + length chunks"
      using Cons.prems(2) by simp
    from Cons.IH [OF _ this] Cons.prems(1) consider
        (refused) e where "\<forall>extra. read_header (r @ chunk) (chunks @ extra) = Refused e"
      | (got) i q c where "\<forall>extra. read_header (r @ chunk) (chunks @ extra) = Got (i, q, c @ extra)"
          "[] \<notin> set c" "length chunks \<le> length c + (MAX_REQUEST_BYTES - length (r @ chunk))"
      by auto
    then show ?thesis
    proof cases
      case got
      then have "length (chunk # chunks) \<le> length c + (MAX_REQUEST_BYTES - length r)"
        using True longer by (simp only: list.size length_append) linarith
      then show ?thesis
        using got unroll by auto
    qed (use unroll in auto)
  qed
qed

lemma body_loop:
  assumes "[] \<notin> set chunks" and "wanted \<le> length r + length chunks"
  shows "read_body wanted r (chunks @ extra) = read_body wanted r chunks \<and> wanted \<le> length (read_body wanted r chunks)"
  using assms
proof (induction chunks arbitrary: r)
  case Nil
  then show ?case
    by (cases extra) auto
next
  case (Cons chunk chunks)
  then have "wanted \<le> length (r @ chunk) + length chunks"
    by (cases chunk) auto
  then show ?case
    using Cons.IH [of "r @ chunk"] Cons.prems(1) by auto
qed

text \<open>
  Property C27. Reading a request ends against any client: once it has sent twice the limit of 16384 non-empty pieces
  and one more, the outcome is decided (a request or a refusal, never waiting for more), whatever it sends after
  them, although neither loop has a timeout; and a request that is read has a body of at most the limit.
\<close>

theorem portal_request_reading_ends:
  assumes "2 * MAX_REQUEST_BYTES < length chunks" and "[] \<notin> set chunks"
  shows "read_request lossy (chunks @ extra) = read_request lossy chunks
    \<and> (case read_request lossy chunks of Closed_Early \<Rightarrow> False | Refused _ \<Rightarrow> True
       | Got q \<Rightarrow> length (rq_body q) \<le> MAX_REQUEST_BYTES)"
proof -
  obtain c0 cs where chunks: "chunks = c0 # cs" and c0: "c0 \<noteq> []" "[] \<notin> set cs"
    using assms by (cases chunks) auto
  have many: "2 * MAX_REQUEST_BYTES \<le> length cs"
    using assms(1) chunks by simp
  then have "MAX_REQUEST_BYTES \<le> length c0 + length cs"
    by linarith
  from header_loop [OF c0(2) this] show ?thesis
  proof (elim disjE exE conjE)
    fix e assume "\<forall>extra. read_header c0 (cs @ extra) = Refused e"
    from spec [OF this, of extra] spec [OF this, of "[]"] show ?thesis
      using c0(1) by (simp add: read_request_def chunks)
  next
    fix i q c
    assume got: "\<forall>extra. read_header c0 (cs @ extra) = Got (i, q, c @ extra)" and c: "[] \<notin> set c"
      and used: "length cs \<le> length c + (MAX_REQUEST_BYTES - length c0)"
    note heads = spec [OF got, of extra] spec [OF got, of "[]", simplified]
    have inside: "i + 4 \<le> length q"
      using header_got_inside heads(2) .
    have left: "MAX_REQUEST_BYTES \<le> length c"
      using many used by linarith
    define h where "h = header_fields (tail_lines (str_lines (lossy (take i q)))) Map.empty"
    define n where "n = (case h ''content-length'' of None \<Rightarrow> 0
       | Some v \<Rightarrow> (case parse_uint u64_max v of None \<Rightarrow> 0 | Some n \<Rightarrow> n))"
    have body: "read_body (i + 4 + n) q (c @ extra) = read_body (i + 4 + n) q c
        \<and> i + 4 + n \<le> length (read_body (i + 4 + n) q c)" if "n \<le> MAX_REQUEST_BYTES"
      by (rule body_loop [OF c]) (use that inside left in linarith)
    show ?thesis
      using c0(1) body
      by (simp add: read_request_def chunks heads Let_def h_def [symmetric] n_def [symmetric])
  qed
qed

theorem portal_request_reading_ends_witness:
  "read_request (\<lambda>_. []) (replicate (2 * MAX_REQUEST_BYTES + 1) [65] @ [[66]])
     = read_request (\<lambda>_. []) (replicate (2 * MAX_REQUEST_BYTES + 1) [65])"
  by (rule portal_request_reading_ends [THEN conjunct1]) simp_all

section \<open>What a request can do\<close>

definition command_allowed :: "portal \<Rightarrow> supervisor \<Rightarrow> admin_request \<Rightarrow> manager_command \<Rightarrow> bool" where
  "command_allowed p s q c =
     (case c of
        Ask_Stop \<Rightarrow> is_ready s
      | Ask_Restart reason \<Rightarrow>
          (if rq_method q = ''POST'' then po_restart_body p (rq_body q) = Some True
           else \<exists>x. settings_request p s (rq_path q) (rq_body q) = Some (x, True))
      | Ask_Update action \<Rightarrow>
          action = ''check'' \<or> (action = ''apply'' \<and> po_update_body p (rq_body q) = Some True \<and> \<not> is_streaming s)
      | Save_Settings x \<Rightarrow>
          is_ok (validate x) \<and> (\<exists>edited. settings_request p s (rq_path q) (rq_body q) = Some (edited, True)
            \<and> x = apply_to edited (sv_settings s))
          \<and> (cloud_discovery_enabled x \<longrightarrow> cloud_discovery_enabled (sv_settings s) \<or> po_missing p = []))"

lemma update_command:
  "c \<in> set (snd (request_update p action)) \<Longrightarrow> c = Ask_Update action \<and> (action = ''check'' \<or> action = ''apply'')"
  by (auto simp: request_update_def update_request_def split: sum.splits if_splits)

lemma apply_command:
  "c \<in> set (snd (handle_update_apply p s body)) \<Longrightarrow>
     c = Ask_Update ''apply'' \<and> po_update_body p body = Some True \<and> \<not> is_streaming s"
  by (auto simp: handle_update_apply_def dest: update_command split: option.splits if_splits)

lemma restart_command:
  "c \<in> set (snd (handle_restart_request p s body)) \<Longrightarrow>
     c = Ask_Restart ''manual_restart'' \<and> po_restart_body p body = Some True"
  by (auto simp: handle_restart_request_def split: option.splits if_splits)

lemma stop_command: "c \<in> set (snd (handle_stop_request s)) \<Longrightarrow> c = Ask_Stop \<and> is_ready s"
  by (auto simp: handle_stop_request_def stop_sharing_def split: sum.splits if_splits)

lemma settings_command:
  assumes "c \<in> set (snd (handle_settings p s path body))"
  shows "\<exists>edited. settings_request p s path body = Some (edited, True)
    \<and> (c = Ask_Restart ''settings_restart''
       \<or> (c = Save_Settings (apply_to edited (sv_settings s)) \<and> is_ok (validate (apply_to edited (sv_settings s)))
          \<and> (cloud_discovery_enabled (apply_to edited (sv_settings s))
               \<longrightarrow> cloud_discovery_enabled (sv_settings s) \<or> po_missing p = [])))"
proof (cases "settings_request p s path body")
  case (Some x)
  obtain edited confirm where x: "x = (edited, confirm)"
    by fastforce
  define updated where "updated = apply_to edited (sv_settings s)"
  show ?thesis
    using assms unfolding handle_settings_def Some x Let_def option.case prod.case updated_def [symmetric]
    by (cases "validate updated") (auto simp: updated_def [symmetric] Some x split: if_splits)
qed (use assms in \<open>simp add: handle_settings_def\<close>)

lemma request_commands_allowed:
  assumes "c \<in> set (snd (handle_admin_request p s q))"
  shows "rq_method q \<in> {''POST'', ''PUT''} \<and> request_is_same_origin (rq_headers q) \<and> is_json_content (rq_headers q)
    \<and> command_allowed p s q c"
proof -
  note d = assms [unfolded handle_admin_request_def Let_def]
  have none: "handle_get p s q = None"
    using d by (cases "handle_get p s q") simp_all
  have gate: "request_is_same_origin (rq_headers q) \<and> is_json_content (rq_headers q) \<and> rq_method q \<in> {''POST'', ''PUT''}"
    using d by (simp add: none split: if_splits)
  show ?thesis
  proof (cases "rq_method q = ''POST''")
    case True
    then show ?thesis
      using d gate
      by (auto simp: none command_allowed_def dest: stop_command restart_command update_command apply_command split: if_splits)
  next
    case False
    then show ?thesis
      using d gate by (auto simp: none command_allowed_def dest!: settings_command split: if_splits)
  qed
qed

lemma stop_sharing_ok: "is_ok (stop_sharing s) \<longleftrightarrow> is_ready s"
  by (simp add: stop_sharing_def is_ok_def)

lemma message_commands:
  "c \<in> set (portal_messages s ms) \<Longrightarrow> c = Ask_Stop \<and> is_ready s \<and> (\<exists>txt. Ws_Text txt \<in> set ms \<and> str_contains ''stop'' txt)"
proof (induction ms)
  case (Cons m ms)
  show ?case
  proof (cases m)
    case (Ws_Text x)
    then show ?thesis
      using Cons by (cases "str_contains ''stop'' x \<and> is_ready s") (auto simp: stop_sharing_ok)
  qed (use Cons in auto)
qed simp

lemma same_origin_iff:
  "request_is_same_origin h \<longleftrightarrow>
     (\<forall>v. h ''sec-fetch-site'' = Some v \<longrightarrow> \<not> eq_ignore_ascii_case v ''cross-site'')
     \<and> (\<exists>host. h ''host'' = Some host \<and> (\<forall>v. h ''origin'' = Some v \<or> h ''referer'' = Some v \<longrightarrow> names_host host v))"
proof (cases "h ''host''")
  case (Some host)
  then show ?thesis
    by (cases "h ''origin''"; cases "h ''referer''"; cases "h ''sec-fetch-site''") (auto simp: request_is_same_origin_def)
qed (simp add: request_is_same_origin_def)

fun portal_commands :: "portal_outcome \<Rightarrow> manager_command list" where
  "portal_commands (Answered r cs) = cs"
| "portal_commands (Upgraded cs) = cs"
| "portal_commands _ = []"

text \<open>
  Property C26. What a connection to the portal can command.  A connection that is not upgraded to a WebSocket reaches the
  supervisor or the updater only through a POST or PUT that names a host, does not say that it comes from another site and has
  no origin or referer of another host (one that has neither header passes), with a JSON body and, for a restart, an update
  or new settings, the confirmation in it; settings are validated and keep cloud discovery off unless it is provisioned, and
  an update is not applied during a stream.  An upgraded connection, of which none of this is asked, can give one command
  only: it can stop the sharing of a ready receiver with a text that contains \<open>stop\<close>.
\<close>

theorem portal_commands_need_confirmation:
  assumes "c \<in> set (portal_commands (handle_http lossy p s chunks ms))"
  shows "\<not> is_portal_websocket lossy (hd chunks)
      \<and> (\<exists>q host. read_request lossy chunks = Got q \<and> rq_method q \<in> {''POST'', ''PUT''} \<and> is_json_content (rq_headers q)
          \<and> rq_headers q ''host'' = Some host
          \<and> (\<forall>v. rq_headers q ''sec-fetch-site'' = Some v \<longrightarrow> \<not> eq_ignore_ascii_case v ''cross-site'')
          \<and> (\<forall>v. rq_headers q ''origin'' = Some v \<or> rq_headers q ''referer'' = Some v \<longrightarrow> names_host host v)
          \<and> command_allowed p s q c)
    \<or> is_portal_websocket lossy (hd chunks) \<and> c = Ask_Stop \<and> is_ready s
      \<and> (\<exists>txt. Ws_Text txt \<in> set ms \<and> str_contains ''stop'' txt)"
proof (cases "is_portal_websocket lossy (hd chunks)")
  case True
  then show ?thesis
    using assms message_commands [of c s ms] by (simp add: handle_http_def split: if_splits)
next
  case False
  then obtain q where q: "read_request lossy chunks = Got q" "c \<in> set (snd (handle_admin_request p s q))"
    using assms by (auto simp: handle_http_def split: if_splits reading.splits prod.splits)
  then show ?thesis
    using request_commands_allowed [OF q(2)] False unfolding same_origin_iff by blast
qed

definition wire_bytes :: "string \<Rightarrow> byte list" where
  "wire_bytes s = map (\<lambda>c. word_of_nat (code_of c)) s"

definition wire_text :: "byte list \<Rightarrow> string" where
  "wire_text bs = map (\<lambda>b. char_of (unat b)) bs"

definition sample_portal :: portal where
  "sample_portal = \<lparr>po_restart_body = (\<lambda>_. Some True), po_update_body = (\<lambda>_. Some True), po_settings_body = (\<lambda>_. None),
     po_cloud_body = (\<lambda>_. None), po_saves = True, po_updater = True, po_diagnostics = True, po_missing = []\<rparr>"

definition sample_headers :: "string \<Rightarrow> string option" where
  "sample_headers = [''host'' \<mapsto> ''tv:9090'', ''origin'' \<mapsto> ''https://tv:9090'', ''content-type'' \<mapsto> ''application/json'']"

definition sample_restart :: admin_request where
  "sample_restart = \<lparr>rq_method = ''POST'', rq_path = ''/api/watchdog/restart'', rq_headers = sample_headers, rq_body = []\<rparr>"

lemma sample_restart_commands:
  "snd (handle_admin_request sample_portal s sample_restart) = [Ask_Restart ''manual_restart'']"
  by (simp add: handle_admin_request_def handle_get_def sample_restart_def sample_headers_def sample_portal_def
      request_is_same_origin_def is_json_content_def handle_restart_request_def names_host_def) code_simp

text \<open>A confirmed restart; the text is given as decoded.\<close>

definition restart_text :: string where
  "restart_text = ''POST /api/watchdog/restart HTTP/1.1'' @ crlf @ ''Host: tv'' @ crlf @ ''Origin: https://tv'' @ crlf
     @ ''Content-Type: application/json'' @ crlf @ crlf"

lemma restart_post_handled:
  "portal_commands (handle_http (\<lambda>_. restart_text) sample_portal sample_supervisor [[0x0D, 0x0A, 0x0D, 0x0A]] [])
     = [Ask_Restart ''manual_restart'']"
  "is_portal_websocket (\<lambda>_. restart_text) [0x0D, 0x0A, 0x0D, 0x0A] = False"
proof -
  let ?b = "[0x0D, 0x0A, 0x0D, 0x0A] :: byte list"
  show w: "is_portal_websocket (\<lambda>_. restart_text) ?b = False"
    by code_simp
  define h where "h = header_fields (tail_lines (str_lines restart_text)) Map.empty"
  have h: "h ''content-length'' = None" "h ''host'' = Some ''tv''" "h ''origin'' = Some ''https://tv''" "h ''referer'' = None"
      "h ''sec-fetch-site'' = None" "h ''content-type'' = Some ''application/json''"
    unfolding h_def by code_simp+
  have line: "split_whitespace (first_text (str_lines restart_text)) = [''POST'', ''/api/watchdog/restart'', ''HTTP/1.1'']"
    by code_simp
  have q: "read_request (\<lambda>_. restart_text) [?b]
      = Got \<lparr>rq_method = ''POST'', rq_path = ''/api/watchdog/restart'', rq_headers = h, rq_body = []\<rparr>"
    by (simp add: read_request_def read_header.simps Let_def h h_def [symmetric] line nth_text_def)
  have "is_json_content h"
    unfolding is_json_content_def h by simp code_simp
  moreover have "request_is_same_origin h"
    by (simp add: request_is_same_origin_def h names_host_def)
  ultimately show "portal_commands (handle_http (\<lambda>_. restart_text) sample_portal sample_supervisor [?b] [])
     = [Ask_Restart ''manual_restart'']"
    by (simp add: handle_http_def w q handle_admin_request_def handle_get_def handle_restart_request_def sample_portal_def)
qed

theorem portal_commands_need_confirmation_witness:
  "\<exists>q host. read_request (\<lambda>_. restart_text) [[0x0D, 0x0A, 0x0D, 0x0A]] = Got q \<and> rq_method q \<in> {''POST'', ''PUT''}
     \<and> rq_headers q ''host'' = Some host
     \<and> command_allowed sample_portal sample_supervisor q (Ask_Restart ''manual_restart'')"
  using portal_commands_need_confirmation [of "Ask_Restart ''manual_restart''" "\<lambda>_. restart_text" sample_portal sample_supervisor
      "[[0x0D, 0x0A, 0x0D, 0x0A]]" "[]"]
  unfolding restart_post_handled list.sel by auto

section \<open>The portal's WebSocket\<close>

text \<open>
  The check of the origin does not cover the portal's WebSocket: a first piece that asks for an upgrade
  is handed over whatever its other headers say, so a page of any other site whose script opens the socket and sends
  a text containing \<open>stop\<close> ends the sharing of a ready receiver, a command that the same page is refused as a POST.
\<close>

theorem socket_skips_origin_check:
  assumes "first_chunk \<noteq> []" and "str_contains ''upgrade: websocket'' (to_ascii_lowercase (lossy first_chunk))"
    and "is_ready s" and "str_contains ''stop'' txt"
    and "rq_method q = ''POST''" and "rq_path q = ''/api/stream/stop''" and "\<not> request_is_same_origin (rq_headers q)"
  shows "handle_http lossy p s (first_chunk # chunks) [Ws_Text txt, Ws_Close] = Upgraded [Ask_Stop]
    \<and> handle_admin_request p s q = (answer ''403 Forbidden'' (Error_Json ''cross_origin''), [])"
  using assms by (simp add: handle_http_def is_portal_websocket_def stop_sharing_def handle_admin_request_def handle_get_def)

definition cross_site_headers :: "string \<Rightarrow> string option" where
  "cross_site_headers = [''host'' \<mapsto> ''tv:9090'', ''sec-fetch-site'' \<mapsto> ''cross-site'', ''content-type'' \<mapsto> ''application/json'']"

theorem socket_skips_origin_check_witness:
  "handle_http wire_text sample_portal ready_supervisor [wire_bytes ''GET / Upgrade: WebSocket Sec-Fetch-Site: cross-site'']
     [Ws_Text ''stop'', Ws_Close] = Upgraded [Ask_Stop]"
proof -
  let ?first = "wire_bytes ''GET / Upgrade: WebSocket Sec-Fetch-Site: cross-site''"
  let ?post = "\<lparr>rq_method = ''POST'', rq_path = ''/api/stream/stop'', rq_headers = cross_site_headers, rq_body = []\<rparr>"
  have upgrade: "?first \<noteq> []" "str_contains ''upgrade: websocket'' (to_ascii_lowercase (wire_text ?first))"
    by (simp add: wire_bytes_def) code_simp
  have stop: "is_ready ready_supervisor" "str_contains ''stop'' ''stop''"
    by (simp add: is_ready_def ready_supervisor_def) code_simp
  have cross: "\<not> request_is_same_origin (rq_headers ?post)"
    by (simp add: request_is_same_origin_def cross_site_headers_def eq_ignore_ascii_case_def)
  show ?thesis
    using socket_skips_origin_check [of ?first wire_text ready_supervisor "''stop''" ?post sample_portal "[]", OF upgrade stop _ _ cross]
    by simp
qed

section \<open>Updates during a crash loop\<close>

text \<open>The manager's steps at which no snapshot arrives.\<close>

fun no_snapshot :: "manager_event \<Rightarrow> bool" where
  "no_snapshot (Manager_Tick v) = (case tk_reply v of Some (Reply_Snapshot _ _ _ _) \<Rightarrow> False | _ \<Rightarrow> True)"
| "no_snapshot _ = True"

lemma step_keeps_management:
  assumes "no_snapshot e"
  shows "sv_management (manager_step w e s) = sv_management s"
proof (cases e)
  case (Manager_Tick v)
  have "sv_management (tick_spawn w v s) = sv_management s"
    by (simp add: tick_spawn_def spawn_receiver_def Let_def split: sum.split)
  moreover have "sv_management (tick_watch w v t) = sv_management t" for t
    using assms Manager_Tick
    by (simp add: tick_watch_def terminated_fields split: wait_result.split option.splits receiver_response.splits)
  ultimately show ?thesis
    by (simp add: Manager_Tick tick_manager_def Let_def)
next
  case (Restart_Request now u forced reason)
  then show ?thesis
    by (simp add: handle_restart_def schedule_requested_restart_def Let_def terminated_fields)
next
  case (Apply_Settings u persisted updated)
  then show ?thesis
    by (simp add: apply_settings_def Let_def split: sum.split)
qed (simp_all add: handle_stop_sharing_def push_output_def)

lemma run_keeps_management:
  "\<forall>e \<in> set es. no_snapshot e \<Longrightarrow> sv_management (fold (manager_step w) es s) = sv_management s"
  by (induction es arbitrary: s) (simp_all add: step_keeps_management)

text \<open>
  A receiver that crashes during a stream locks the update: the manager keeps the last snapshot, so as
  long as no new snapshot arrives, however often the receiver is started and dies, the portal takes the dead stream
  for active and refuses every confirmed request to apply an update, also one that would repair the receiver.
\<close>

theorem crashed_stream_blocks_updates:
  assumes "is_streaming s" and "\<forall>e \<in> set es. no_snapshot e"
    and "rq_method q = ''POST''" and "rq_path q = ''/api/update/apply''"
    and "request_is_same_origin (rq_headers q)" and "is_json_content (rq_headers q)"
    and "po_update_body p (rq_body q) = Some True"
  shows "handle_admin_request p (fold (manager_step w) es s) q
    = (answer ''409 Conflict'' (Error_Json ''stream_active''), [])"
proof -
  have "is_streaming (fold (manager_step w) es s)"
    using assms(1) run_keeps_management [OF assms(2)] by (simp add: is_streaming_def)
  then show ?thesis
    using assms(3-7) by (simp add: handle_admin_request_def handle_get_def handle_update_apply_def)
qed

definition sample_apply :: admin_request where
  "sample_apply = \<lparr>rq_method = ''POST'', rq_path = ''/api/update/apply'', rq_headers = sample_headers, rq_body = []\<rparr>"

text \<open>A stream is shared, the receiver dies and cannot be started any more.\<close>

theorem crashed_stream_blocks_updates_witness:
  "let s = ready_supervisor\<lparr>sv_management := Some (management_snapshot_of 9 (start 5 sample_config None (new_management 0)))\<rparr>;
       gone = Manager_Tick (sample_tick (from_secs 2) (Inl ''no such file'') (Exited \<lparr>xs_signal = Some 11, xs_code = None\<rparr>) None)
   in handle_admin_request sample_portal (fold (manager_step sample_manager) [gone, gone, gone] s) sample_apply
     = (answer ''409 Conflict'' (Error_Json ''stream_active''), [])"
proof -
  let ?s = "ready_supervisor\<lparr>sv_management := Some (management_snapshot_of 9 (start 5 sample_config None (new_management 0)))\<rparr>"
  let ?gone = "Manager_Tick (sample_tick (from_secs 2) (Inl ''no such file'') (Exited \<lparr>xs_signal = Some 11, xs_code = None\<rparr>) None)"
  have "is_streaming ?s"
    by (simp add: is_streaming_def management_snapshot_of_def start_def Let_def)
  moreover have "\<forall>e \<in> set [?gone, ?gone, ?gone]. no_snapshot e"
    by (simp add: sample_tick_def)
  moreover have "request_is_same_origin (rq_headers sample_apply)"
    by (simp add: request_is_same_origin_def sample_apply_def sample_headers_def names_host_def)
  moreover have "is_json_content (rq_headers sample_apply)"
    unfolding is_json_content_def sample_apply_def sample_headers_def by simp code_simp
  ultimately show ?thesis
    using crashed_stream_blocks_updates [of ?s "[?gone, ?gone, ?gone]" sample_apply sample_portal sample_manager]
    by (simp add: Let_def sample_apply_def sample_portal_def)
qed

end
