(* ===== verification/Http_Correct.thy ===== *)
theory Http_Correct
  imports Http_Server
begin

text \<open>
  The redirect of the page server: whatever a client sends, the answer has the lines it is meant to have and no
  others.
\<close>

section \<open>Parts of a text\<close>

text \<open>In UTF-8 an ASCII character is one byte: no continuation follows it.\<close>

definition ascii_alone :: "string \<Rightarrow> bool" where
  "ascii_alone s \<longleftrightarrow> (\<forall>xs a b ys. s = xs @ a # b # ys \<longrightarrow> code_of a < 128 \<longrightarrow> \<not> is_cont b)"

definition part_of :: "string \<Rightarrow> string \<Rightarrow> bool" where
  "part_of s t \<longleftrightarrow> (\<exists>xs ys. t = xs @ s @ ys)"

lemma part_refl [simp]: "part_of s s"
  by (auto simp: part_of_def intro: exI [of _ "[]"])

lemma part_trans: "part_of s t \<Longrightarrow> part_of t u \<Longrightarrow> part_of s u"
  by (auto simp: part_of_def) (metis append.assoc)

lemma part_set: "part_of s t \<Longrightarrow> set s \<subseteq> set t"
  by (auto simp: part_of_def)

lemma part_ascii_alone: "part_of s t \<Longrightarrow> ascii_alone t \<Longrightarrow> ascii_alone s"
  unfolding part_of_def ascii_alone_def by (metis append.assoc append_Cons)

lemma part_front: "t = s @ ys \<Longrightarrow> part_of s t" and part_back: "t = xs @ s \<Longrightarrow> part_of s t"
  by (auto simp: part_of_def intro: exI [of _ "[]"])

lemma split_on_part: "p \<in> set (split_on d s) \<Longrightarrow> part_of p s"
proof (induction s arbitrary: p)
  case (Cons c cs)
  obtain q qs where q: "split_on d cs = q # qs"
    by (cases "split_on d cs") simp_all
  have "\<exists>ys. cs = q @ ys"
    using q by (induction cs arbitrary: q qs) (auto split: if_splits list.splits)
  moreover have "part_of r cs \<Longrightarrow> part_of r (c # cs)" for r
    by (rule part_trans) (auto intro: part_back [of _ "[c]"])
  ultimately show ?case
    using Cons q by (auto simp: split: if_splits intro: part_front)
qed simp

lemma strip_cr_part: "part_of (strip_cr l) l"
  by (auto simp: strip_cr_def intro: part_front [OF append_butlast_last_id [symmetric]])

lemma line_part: "l \<in> set (str_lines s) \<Longrightarrow> part_of l s"
  by (auto simp: str_lines_def Let_def dest: in_set_butlastD split: if_splits
      intro: part_trans [OF strip_cr_part] split_on_part split_on_part [OF last_in_set])

lemma trim_part: "part_of (trim s) s"
proof -
  have "s = concat (takeWhile starts_ws (chars_of s)) @ trim_start s"
    unfolding trim_start_def concat_append [symmetric] takeWhile_dropWhile_id by simp
  then have "part_of (trim_start s) s"
    by (rule part_back)
  moreover have "t = trim_end t @ concat (rev (takeWhile starts_ws (rev (chars_of t))))" for t
    unfolding trim_end_def concat_append [symmetric] rev_append [symmetric] takeWhile_dropWhile_id by simp
  then have "part_of (trim s) (trim_start s)"
    unfolding trim_def by (rule part_front)
  ultimately show ?thesis
    using part_trans by blast
qed

section \<open>Line ends\<close>

definition line_ends :: "char set" where
  "line_ends = {CHR 0x0D, CHR 0x0A}"

lemma line_end_code: "c \<in> line_ends \<Longrightarrow> code_of c = 13 \<or> code_of c = 10"
  by (auto simp: line_ends_def code_of_def)

lemma ascii_head:
  "g \<in> set (chars_of s) \<Longrightarrow> c \<in> set g \<Longrightarrow> code_of c < 128 \<Longrightarrow> \<exists>t. g = c # t"
  by (induction s rule: chars_of.induct) (auto simp: is_cont_def dest!: set_takeWhileD)

lemma ascii_alone_Cons: "ascii_alone (a # b # ys) \<Longrightarrow> code_of a < 128 \<Longrightarrow> \<not> is_cont b"
  unfolding ascii_alone_def by (metis append_Nil)

lemma ascii_text_alone: "list_all (\<lambda>c. code_of c < 128) s \<Longrightarrow> ascii_alone s"
  by (auto simp: ascii_alone_def is_cont_def)

lemma ascii_char:
  "ascii_alone s \<Longrightarrow> g \<in> set (chars_of s) \<Longrightarrow> c \<in> set g \<Longrightarrow> code_of c < 128 \<Longrightarrow> g = [c]"
proof (induction s rule: chars_of.induct)
  case (2 c0 cs)
  have rest: "ascii_alone (dropWhile is_cont cs)"
    by (rule part_ascii_alone [OF part_back [of "c0 # cs" "c0 # takeWhile is_cont cs"] 2(2)]) simp
  show ?case
  proof (cases "g \<in> set (chars_of (dropWhile is_cont cs))")
    case False
    then have g: "g = c0 # takeWhile is_cont cs"
      using 2(3) by simp
    then have c: "c = c0"
      using 2(4,5) by (auto simp: is_cont_def dest: set_takeWhileD)
    then have "takeWhile is_cont cs = []"
      using 2(2,5) by (cases cs) (auto dest: ascii_alone_Cons)
    then show ?thesis
      using g c by simp
  qed (use 2 rest in blast)
qed simp

lemma no_control_no_line_end:
  assumes "ascii_alone h" and "\<not> list_ex is_control (chars_of h)"
  shows "set h \<inter> line_ends = {}"
proof -
  have False if "c \<in> set h" and "c \<in> line_ends" for c
  proof -
    have "c \<in> (\<Union>g \<in> set (chars_of h). set g)"
      using that(1) by (simp only: set_concat [symmetric] concat_chars_of)
    then obtain g where g: "g \<in> set (chars_of h)" "c \<in> set g"
      by blast
    then have "g = [c]"
      using line_end_code [OF that(2)] by (intro ascii_char [OF assms(1)]) auto
    then have "is_control g"
      using line_end_code [OF that(2)] by (auto simp: is_control_def)
    then show False
      using g(1) assms(2) by (simp add: list_ex_iff)
  qed
  then show ?thesis
    by blast
qed

lemma token_clean:
  assumes "\<forall>g \<in> set gs. \<not> starts_ws g \<longrightarrow> set g \<inter> line_ends = {}" and "set acc \<inter> line_ends = {}"
    and "p \<in> set (split_tokens gs acc)"
  shows "set p \<inter> line_ends = {}"
  using assms by (induction gs acc rule: split_tokens.induct) (auto split: if_splits)

lemma word_clean:
  assumes "p \<in> set (split_whitespace s)"
  shows "set p \<inter> line_ends = {}"
proof -
  have "starts_ws g" if g: "g \<in> set (chars_of s)" "c \<in> set g" and c: "c \<in> line_ends" for g c
  proof -
    obtain t where "g = c # t"
      using ascii_head [OF g] line_end_code [OF c] by auto
    then show ?thesis
      using line_end_code [OF c] by (auto simp: starts_ws_def ws_len_def)
  qed
  then have "\<forall>g \<in> set (chars_of s). \<not> starts_ws g \<longrightarrow> set g \<inter> line_ends = {}"
    by (metis disjoint_iff)
  then show ?thesis
    by (rule token_clean [OF _ _ assms [unfolded split_whitespace_def]]) simp
qed

lemma digits_clean: "set (nat_to_string n) \<inter> line_ends = {}"
  using nat_to_string_digits line_end_code by (fastforce simp: is_ascii_digit_def)

section \<open>The redirect\<close>

lemma host_header_part: "host_header ls = Some v \<Longrightarrow> \<exists>l \<in> set ls. part_of v l"
proof (induction ls)
  case (Cons l ls)
  show ?case
  proof (cases "split_once CHR '':'' l")
    case (Some ab)
    then have "l = (fst ab @ [CHR '':'']) @ snd ab"
      using split_once_Some [of "CHR '':''" l "fst ab" "snd ab"] by simp
    then have "part_of (trim (snd ab)) l"
      using part_trans [OF trim_part part_back] by blast
    then show ?thesis
      using Cons Some by (cases ab) (auto split: if_splits)
  qed (use Cons in auto)
qed simp

lemma split_lines:
  "set a \<inter> line_ends = {} \<Longrightarrow> str_lines (a @ crlf @ t) = a # str_lines t"
proof -
  assume "set a \<inter> line_ends = {}"
  then have "split_on (CHR 0x0A) ((a @ [CHR 0x0D]) @ CHR 0x0A # t) = (a @ [CHR 0x0D]) # split_on (CHR 0x0A) t"
    by (intro split_on_append) (auto simp: line_ends_def)
  then show ?thesis
    by (simp add: str_lines_def Let_def crlf_def strip_cr_def)
qed

lemma location_clean:
  assumes "ascii_alone (lossy buf)"
  shows "set (https_redirect_location lossy buf https_port) \<inter> line_ends = {}"
proof -
  let ?ls = "str_lines (lossy buf)" and ?parts = "split_whitespace (first_text (str_lines (lossy buf)))"
  define path where "path = (if length ?parts > 1 \<and> starts_with (?parts ! 1) ''/'' then ?parts ! 1 else ''/'')"
  define host where "host = (case host_header ?ls of None \<Rightarrow> ''localhost''
      | Some h \<Rightarrow> if h \<noteq> [] \<and> \<not> list_ex is_control (chars_of h) then h else ''localhost'')"
  have path: "set path \<inter> line_ends = {}"
    using word_clean [of "?parts ! 1" "first_text ?ls"] by (auto simp: path_def line_ends_def)
  have host: "set host \<inter> line_ends = {}"
  proof (cases "host_header ?ls")
    case (Some h)
    then have "ascii_alone h"
      using host_header_part line_part part_trans part_ascii_alone assms by blast
    then show ?thesis
      using no_control_no_line_end Some by (auto simp: host_def line_ends_def)
  qed (auto simp: host_def line_ends_def)
  have "set (redirect_authority host https_port) \<inter> line_ends = {}"
    using host digits_clean [of "unat https_port"]
    by (auto simp: redirect_authority_def word_to_string_def line_ends_def)
  moreover have "https_redirect_location lossy buf https_port = ''https://'' @ redirect_authority host https_port @ path"
    unfolding https_redirect_location_def Let_def path_def host_def ..
  ultimately show ?thesis
    using path by (auto simp: line_ends_def)
qed

text \<open>
  The redirect cannot be used to inject headers: whatever bytes a client sends instead of a TLS
  handshake, the response to a non-empty request has its five lines and the empty one, and the only line with text
  of the client is \<open>Location\<close>, which holds no line end.  The standard library's decoding is relied on for one
  fact: in the text it returns no continuation byte follows an ASCII byte.
\<close>

theorem redirect_has_no_injected_lines:
  assumes "ascii_alone (lossy (take HTTP_REQUEST_BUFFER_BYTES bytes))" and "bytes \<noteq> []"
  shows "\<exists>location response. redirect_http_to_https lossy bytes https_port = Redirected response
    \<and> location = https_redirect_location lossy (take HTTP_REQUEST_BUFFER_BYTES bytes) https_port
    \<and> set location \<inter> line_ends = {}
    \<and> str_lines response = [''HTTP/1.1 308 Permanent Redirect'', ''Location: '' @ location, ''Content-Length: 0'',
        ''Cache-Control: no-store'', ''Connection: close'', []]"
proof -
  let ?location = "https_redirect_location lossy (take HTTP_REQUEST_BUFFER_BYTES bytes) https_port"
  have clean: "set ?location \<inter> line_ends = {}"
    by (rule location_clean) (rule assms(1))
  have shape: "redirect_response ?location = ''HTTP/1.1 308 Permanent Redirect'' @ crlf @ (''Location: '' @ ?location) @ crlf
      @ ''Content-Length: 0'' @ crlf @ ''Cache-Control: no-store'' @ crlf @ ''Connection: close'' @ crlf @ [] @ crlf @ []"
    by (simp only: redirect_response_def append.assoc append_Nil append_Nil2)
  have "str_lines (redirect_response ?location) = [''HTTP/1.1 308 Permanent Redirect'', ''Location: '' @ ?location, ''Content-Length: 0'',
        ''Cache-Control: no-store'', ''Connection: close'', []]"
    unfolding shape using clean by (subst split_lines, simp add: line_ends_def)+ (simp add: str_lines_def)
  then show ?thesis
    using clean assms(2) by (simp add: redirect_http_to_https_def HTTP_REQUEST_BUFFER_BYTES_def)
qed

theorem redirect_has_no_injected_lines_witness:
  "\<exists>response. redirect_http_to_https (\<lambda>_. ''GET /?pair=1 HTTP/1.1'') [71] 8080 = Redirected response
     \<and> length (str_lines response) = 6"
proof -
  have ascii: "ascii_alone ''GET /?pair=1 HTTP/1.1''"
    by (rule ascii_text_alone) code_simp
  obtain location response where "redirect_http_to_https (\<lambda>_. ''GET /?pair=1 HTTP/1.1'') [71] 8080 = Redirected response"
      and lines: "str_lines response = [''HTTP/1.1 308 Permanent Redirect'', ''Location: '' @ location,
        ''Content-Length: 0'', ''Cache-Control: no-store'', ''Connection: close'', []]"
    using redirect_has_no_injected_lines [OF ascii, of "[71]" 8080] by blast
  moreover have "length (str_lines response) = 6"
    unfolding lines by simp
  ultimately show ?thesis
    by blast
qed

end
