(* ===== verification/Drm_Kms.thy ===== *)
theory Drm_Kms
  imports Config_Limits Rust_Std Rust_Float
begin

text \<open>
  \<open>src/drm_kms.rs\<close>: what the EDID of a display says and which of its modes is chosen.  The kernel's answers
  (connectors, their modes, the EDID bytes) are arguments.  Numbers read from the EDID are at most twelve bits
  wide, so the sums, products and casts of the code stay inside 32 bits and are natural numbers here.
\<close>

section \<open>Timings\<close>

text \<open>Width, height and refresh rate.\<close>

type_synonym display_timing = "nat \<times> nat \<times> nat"

definition edid_at :: "byte list \<Rightarrow> nat \<Rightarrow> nat" where
  "edid_at bs i = unat (bs ! i)"

definition byte_slice :: "nat \<Rightarrow> nat \<Rightarrow> byte list \<Rightarrow> byte list" where
  "byte_slice a b bs = take (b - a) (drop a bs)"

definition EDID_MAGIC :: "byte list" where
  "EDID_MAGIC = [0x00, 0xFF, 0xFF, 0xFF, 0xFF, 0xFF, 0xFF, 0x00]"

definition pixel_clock :: "byte list \<Rightarrow> nat" where
  "pixel_clock block = (edid_at block 0 + 256 * edid_at block 1) * 10000"

text \<open>\<open>low | ((shared & 0xF0) << 4)\<close> and \<open>low | ((shared & 0x0F) << 8)\<close>.\<close>

definition with_high_nibble :: "nat \<Rightarrow> nat \<Rightarrow> nat" where
  "with_high_nibble low shared = low + 256 * (shared div 16)"

definition with_low_nibble :: "nat \<Rightarrow> nat \<Rightarrow> nat" where
  "with_low_nibble low shared = low + 256 * (shared mod 16)"

definition h_active :: "byte list \<Rightarrow> nat" where
  "h_active block = with_high_nibble (edid_at block 2) (edid_at block 4)"
definition h_blank :: "byte list \<Rightarrow> nat" where
  "h_blank block = with_low_nibble (edid_at block 3) (edid_at block 4)"
definition v_active :: "byte list \<Rightarrow> nat" where
  "v_active block = with_high_nibble (edid_at block 5) (edid_at block 7)"
definition v_blank :: "byte list \<Rightarrow> nat" where
  "v_blank block = with_low_nibble (edid_at block 6) (edid_at block 7)"

definition refresh_rate :: "nat \<Rightarrow> nat \<Rightarrow> nat" where
  "refresh_rate clock pixels = min u32_max (f64_round_to_nat (f64_div (f64_of_nat clock) (f64_of_nat pixels)))"

definition parse_detailed_timing :: "byte list \<Rightarrow> display_timing option" where
  "parse_detailed_timing block =
     (if length block < 18 then None
      else if pixel_clock block = 0 then None
      else
        let h_total = h_active block + h_blank block; v_total = v_active block + v_blank block
        in if h_active block = 0 \<or> v_active block = 0 \<or> h_total = 0 \<or> v_total = 0 then None
           else Some (h_active block, v_active block, refresh_rate (pixel_clock block) (h_total * v_total)))"

section \<open>Name\<close>

definition DESCRIPTORS :: "nat list" where
  "DESCRIPTORS = [54, 72, 90, 108]"

definition is_edid :: "byte list \<Rightarrow> bool" where
  "is_edid bytes \<longleftrightarrow> length bytes \<ge> 128 \<and> take 8 bytes = EDID_MAGIC"

text \<open>\<open>trim_matches\<close> with newline, carriage return, NUL and space.\<close>

definition name_padding :: "char \<Rightarrow> bool" where
  "name_padding c \<longleftrightarrow> code_of c \<in> {10, 13, 0, 32}"

definition trim_name :: "string \<Rightarrow> string" where
  "trim_name s = rev (dropWhile name_padding (rev (dropWhile name_padding s)))"

fun descriptor_name :: "(byte list \<Rightarrow> string) \<Rightarrow> byte list \<Rightarrow> nat list \<Rightarrow> string option" where
  "descriptor_name lossy bytes [] = None"
| "descriptor_name lossy bytes (offset # offsets) =
     (let block = byte_slice offset (offset + 18) bytes;
          trimmed = trim_name (lossy (byte_slice 5 18 block))
      in if offset + 18 \<le> length bytes \<and> take 4 block = [0, 0, 0, 0xFC] \<and> trimmed \<noteq> [] then Some trimmed
         else descriptor_name lossy bytes offsets)"

text \<open>A letter of the manufacturer's id: five bits, 1 for \<open>A\<close>.\<close>

definition id_letter :: "nat \<Rightarrow> char" where
  "id_letter n = char_of (n + 65 - 1)"

definition manufacturer_name :: "byte list \<Rightarrow> string option" where
  "manufacturer_name bytes =
     (let b8 = edid_at bytes 8; b9 = edid_at bytes 9;
          letters = [id_letter (b8 mod 128 div 4), id_letter (b8 mod 4 * 8 + b9 div 32), id_letter (b9 mod 32)]
      in if list_all is_ascii_alphabetic letters then Some (letters @ '' Display'') else None)"

definition parse_edid_monitor_name :: "(byte list \<Rightarrow> string) \<Rightarrow> byte list \<Rightarrow> string option" where
  "parse_edid_monitor_name lossy bytes =
     (if \<not> is_edid bytes then None
      else case descriptor_name lossy bytes DESCRIPTORS of Some n \<Rightarrow> Some n | None \<Rightarrow> manufacturer_name bytes)"

section \<open>The largest mode\<close>

definition check_mode :: "display_timing \<Rightarrow> display_timing \<Rightarrow> display_timing" where
  "check_mode m best =
     (case m of (w, h, fps) \<Rightarrow> case best of (max_w, max_h, max_fps) \<Rightarrow>
        if w > max_w \<or> (w = max_w \<and> h > max_h) \<or> (w = max_w \<and> h = max_h \<and> fps > max_fps) then m else best)"

text \<open>A timing block as \<open>parse_edid_max_resolution\<close> reads it, in two places, with nested conditions.\<close>

definition check_timing :: "byte list \<Rightarrow> display_timing \<Rightarrow> display_timing" where
  "check_timing block best =
     (if pixel_clock block > 0 then
        let h_total = h_active block + h_blank block; v_total = v_active block + v_blank block
        in if h_active block > 0 \<and> v_active block > 0 \<and> h_total > 0 \<and> v_total > 0
           then check_mode (h_active block, v_active block, refresh_rate (pixel_clock block) (h_total * v_total)) best
           else best
      else best)"

fun check_descriptors :: "byte list \<Rightarrow> nat list \<Rightarrow> display_timing \<Rightarrow> display_timing" where
  "check_descriptors bytes [] best = best"
| "check_descriptors bytes (offset # offsets) best =
     check_descriptors bytes offsets
       (if offset + 18 \<le> length bytes then check_timing (byte_slice offset (offset + 18) bytes) best else best)"

definition vic_mode :: "nat \<Rightarrow> display_timing" where
  "vic_mode vic =
     (if vic = 93 then (3840, 2160, 24) else if vic = 94 then (3840, 2160, 25) else if vic = 95 then (3840, 2160, 30)
      else if vic = 96 then (3840, 2160, 50) else if vic = 97 then (3840, 2160, 60)
      else if vic = 98 then (4096, 2160, 24) else if vic = 99 then (4096, 2160, 25) else if vic = 100 then (4096, 2160, 30)
      else if vic = 101 then (4096, 2160, 50) else if vic = 102 then (4096, 2160, 60)
      else if vic = 103 then (3840, 2160, 24) else if vic = 104 then (3840, 2160, 25) else if vic = 105 then (3840, 2160, 30)
      else if vic = 106 then (3840, 2160, 50) else if vic = 107 then (3840, 2160, 60)
      else if 108 \<le> vic \<and> vic \<le> 110 then (3840, 2160, 60) else if 111 \<le> vic \<and> vic \<le> 113 then (4096, 2160, 60)
      else if 117 \<le> vic \<and> vic \<le> 118 then (3840, 2160, 120) else if 119 \<le> vic \<and> vic \<le> 120 then (4096, 2160, 120)
      else (0, 0, 0))"

fun check_vics :: "byte list \<Rightarrow> display_timing \<Rightarrow> display_timing" where
  "check_vics [] best = best"
| "check_vics (vic_raw # vics) best =
     (case vic_mode (unat vic_raw mod 128) of (w, h, fps) \<Rightarrow>
        check_vics vics (if w > 0 \<and> h > 0 then check_mode (w, h, fps) best else best))"

text \<open>The data blocks of the extension, from \<open>idx\<close> on.\<close>

function check_blocks :: "byte list \<Rightarrow> nat \<Rightarrow> nat \<Rightarrow> display_timing \<Rightarrow> display_timing" where
  "check_blocks ext dtd_end idx best =
     (if idx < dtd_end then
        let tag = edid_at ext idx div 32; len = edid_at ext idx mod 32; idx = idx + 1
        in if idx + len > dtd_end then best
           else check_blocks ext dtd_end (idx + len) (if tag = 2 then check_vics (byte_slice idx (idx + len) ext) best else best)
      else best)"
  by pat_completeness auto
termination
  by (relation "measure (\<lambda>(ext, dtd_end, idx, best). dtd_end - idx)") auto

declare check_blocks.simps [simp del]

function check_timings :: "byte list \<Rightarrow> nat \<Rightarrow> display_timing \<Rightarrow> display_timing" where
  "check_timings ext d_idx best =
     (if d_idx + 18 \<le> 127 then check_timings ext (d_idx + 18) (check_timing (byte_slice d_idx (d_idx + 18) ext) best) else best)"
  by pat_completeness auto
termination
  by (relation "measure (\<lambda>(ext, d_idx, best). 127 - d_idx)") auto

declare check_timings.simps [simp del]

definition has_cta_extension :: "byte list \<Rightarrow> bool" where
  "has_cta_extension bytes \<longleftrightarrow> length bytes \<ge> 256 \<and> bytes ! 128 = 0x02"

definition check_extension :: "byte list \<Rightarrow> display_timing \<Rightarrow> display_timing" where
  "check_extension bytes best =
     (let ext = byte_slice 128 256 bytes;
          dtd_offset = edid_at ext 2;
          dtd_end = (if dtd_offset > 4 \<and> dtd_offset \<le> 127 then dtd_offset else 127)
      in check_timings ext dtd_offset (check_blocks ext dtd_end 4 best))"

definition parse_edid_max_resolution :: "byte list \<Rightarrow> display_timing option" where
  "parse_edid_max_resolution bytes =
     (if \<not> is_edid bytes then None
      else
        let best = check_descriptors bytes DESCRIPTORS (0, 0, 0);
            (max_w, max_h, max_fps) = (if has_cta_extension bytes then check_extension bytes best else best)
        in if max_w > 0 \<and> max_h > 0 then Some (max_w, max_h, max_fps) else None)"

section \<open>The native timing\<close>

fun first_timing :: "byte list \<Rightarrow> nat list \<Rightarrow> display_timing option" where
  "first_timing bytes [] = None"
| "first_timing bytes (offset # offsets) =
     (case parse_detailed_timing (byte_slice offset (offset + 18) bytes) of
        Some t \<Rightarrow> Some t | None \<Rightarrow> first_timing bytes offsets)"

function extension_timing :: "byte list \<Rightarrow> nat \<Rightarrow> display_timing option" where
  "extension_timing ext offset =
     (if offset + 18 \<le> length ext
      then (case parse_detailed_timing (byte_slice offset (offset + 18) ext) of
              Some t \<Rightarrow> Some t | None \<Rightarrow> extension_timing ext (offset + 18))
      else None)"
  by pat_completeness auto
termination
  by (relation "measure (\<lambda>(ext, offset). length ext - offset)") auto

declare extension_timing.simps [simp del]

definition parse_edid_panel_resolution :: "byte list \<Rightarrow> display_timing option" where
  "parse_edid_panel_resolution bytes =
     (if \<not> is_edid bytes then None
      else case first_timing bytes DESCRIPTORS of
        Some t \<Rightarrow> Some t
      | None \<Rightarrow>
        if has_cta_extension bytes then
          let ext = byte_slice 128 256 bytes; dtd_offset = edid_at ext 2
          in extension_timing ext (if dtd_offset > 4 \<and> dtd_offset \<le> 127 then dtd_offset else 127)
        else None)"

section \<open>Modes\<close>

record display_mode =
  dm_width :: nat
  dm_height :: nat
  dm_vrefresh :: nat
  dm_preferred :: bool

definition score_mode :: "display_mode \<Rightarrow> nat" where
  "score_mode m =
     (let area = dm_width m * dm_height m;
          fps_bonus = (if dm_vrefresh m \<ge> 50 then 100000 else if dm_vrefresh m \<ge> 30 then 50000 else 0);
          preferred_bonus = (if dm_preferred m then 100000 else 0)
      in area + fps_bonus + preferred_bonus)"

fun best_mode :: "display_mode list \<Rightarrow> display_mode option \<Rightarrow> nat \<Rightarrow> display_mode option" where
  "best_mode [] best best_score = best"
| "best_mode (m # ms) best best_score =
     (if best = None \<or> score_mode m > best_score then best_mode ms (Some m) (score_mode m)
      else best_mode ms best best_score)"

section \<open>The description of a display\<close>

record edid_info =
  ei_name :: string
  ei_conn_type :: string
  ei_max_res :: string
  ei_panel_res :: string
  ei_max_fps :: nat

definition resolution :: "nat \<Rightarrow> nat \<Rightarrow> string" where
  "resolution w h = nat_to_string w @ ''x'' @ nat_to_string h"

definition default_edid_info :: edid_info where
  "default_edid_info = \<lparr>ei_name = ''HDMI Monitor'', ei_conn_type = ''HDMI-A'',
     ei_max_res = resolution DEFAULT_MAX_WIDTH DEFAULT_MAX_HEIGHT,
     ei_panel_res = resolution DEFAULT_MAX_WIDTH DEFAULT_MAX_HEIGHT, ei_max_fps = DEFAULT_MAX_FPS\<rparr>"

datatype interface = Hdmi_A | Hdmi_B | Display_Port | Other_Interface string

fun interface_name :: "interface \<Rightarrow> string" where
  "interface_name Hdmi_A = ''HDMI-A''"
| "interface_name Hdmi_B = ''HDMI-B''"
| "interface_name Display_Port = ''DisplayPort''"
| "interface_name (Other_Interface s) = s"

fun preferred_size :: "display_mode list \<Rightarrow> nat \<times> nat" where
  "preferred_size [] = (0, 0)"
| "preferred_size (m # ms) = (if dm_preferred m then (dm_width m, dm_height m) else preferred_size ms)"

fun largest_mode :: "display_mode list \<Rightarrow> display_timing \<Rightarrow> display_timing" where
  "largest_mode [] best = best"
| "largest_mode (m # ms) (max_w, max_h, max_fps) =
     (let w = dm_width m; h = dm_height m; fps = dm_vrefresh m;
          (max_w, max_h) = (if w * h > max_w * max_h \<or> (w * h = max_w * max_h \<and> fps > max_fps) then (w, h) else (max_w, max_h))
      in largest_mode ms (max_w, max_h, max fps max_fps))"

definition override_max :: "display_timing option \<Rightarrow> display_timing \<Rightarrow> display_timing" where
  "override_max e best =
     (case e of None \<Rightarrow> best
      | Some (e_w, e_h, e_fps) \<Rightarrow>
        (case best of (max_w, max_h, max_fps) \<Rightarrow>
           let (max_w, max_h) = (if e_w > max_w \<or> (e_w = max_w \<and> e_h > max_h) \<or> (e_w = max_w \<and> e_h = max_h \<and> e_fps > max_fps)
                 then (e_w, e_h) else (max_w, max_h))
           in (max_w, max_h, max e_fps max_fps)))"

definition resolution_or_default :: "nat \<Rightarrow> nat \<Rightarrow> string" where
  "resolution_or_default w h = (if w > 0 \<and> h > 0 then resolution w h else resolution DEFAULT_MAX_WIDTH DEFAULT_MAX_HEIGHT)"

text \<open>\<open>edid\<close> is the connector's EDID property or the first EDID file under \<open>/sys/class/drm\<close>.\<close>

definition extract_edid_info :: "(byte list \<Rightarrow> string) \<Rightarrow> interface \<Rightarrow> display_mode list \<Rightarrow> byte list option \<Rightarrow> edid_info" where
  "extract_edid_info lossy i modes edid =
     (let (panel_w, panel_h) = (case edid of
            None \<Rightarrow> preferred_size modes
          | Some bytes \<Rightarrow> (case parse_edid_panel_resolution bytes of None \<Rightarrow> preferred_size modes | Some (w, h, _) \<Rightarrow> (w, h)));
          (max_w, max_h, max_fps) = override_max (Option.bind edid parse_edid_max_resolution) (largest_mode modes (0, 0, 0));
          (panel_w, panel_h) = (if panel_w = 0 \<or> panel_h = 0 then (max_w, max_h) else (panel_w, panel_h))
      in \<lparr>ei_name = (case Option.bind edid (parse_edid_monitor_name lossy) of None \<Rightarrow> ''HDMI Monitor'' | Some n \<Rightarrow> n),
          ei_conn_type = interface_name i,
          ei_max_res = resolution_or_default max_w max_h,
          ei_panel_res = resolution_or_default panel_w panel_h,
          ei_max_fps = (if max_fps > 0 then max_fps else DEFAULT_MAX_FPS)\<rparr>)"

section \<open>The connector\<close>

text \<open>A connector as the kernel answers for it, with the EDID bytes the lookup would find.\<close>

record connector =
  cn_handle :: nat
  cn_connected :: bool
  cn_interface :: interface
  cn_modes :: "display_mode list"
  cn_edid :: "byte list option"

fun find_hdmi :: "connector list \<Rightarrow> connector option" where
  "find_hdmi [] = None"
| "find_hdmi (c # cs) =
     (if cn_connected c \<and> (cn_interface c = Hdmi_A \<or> cn_interface c = Hdmi_B) then Some c else find_hdmi cs)"

definition autodetect_display_mode ::
  "(byte list \<Rightarrow> string) \<Rightarrow> connector list \<Rightarrow> string + (display_mode \<times> nat \<times> edid_info)" where
  "autodetect_display_mode lossy connectors =
     (case find_hdmi connectors of
        None \<Rightarrow> Inl ''No connected HDMI connector found''
      | Some c \<Rightarrow>
        (case best_mode (cn_modes c) None 0 of
           None \<Rightarrow> Inl ''No mode found for connected HDMI display''
         | Some m \<Rightarrow> Inr (m, cn_handle c, extract_edid_info lossy (cn_interface c) (cn_modes c) (cn_edid c))))"

text \<open>\<open>playback::autodetect_display_info\<close>; no card is the empty list of connectors.\<close>

definition autodetect_display_info ::
  "(byte list \<Rightarrow> string) \<Rightarrow> connector list \<Rightarrow> nat \<times> nat \<times> nat \<times> string \<times> string \<times> edid_info" where
  "autodetect_display_info lossy connectors =
     (case autodetect_display_mode lossy connectors of
        Inr (m, handle, info) \<Rightarrow>
          (dm_width m, dm_height m, dm_vrefresh m, nat_to_string handle,
           ''<0,0,'' @ nat_to_string (dm_width m) @ '','' @ nat_to_string (dm_height m) @ ''>'', info)
      | Inl _ \<Rightarrow>
          (DEFAULT_MAX_WIDTH, DEFAULT_MAX_HEIGHT, DEFAULT_MAX_FPS, DEFAULT_DISPLAY_CONNECTOR_ID,
           ''<0,0,'' @ nat_to_string DEFAULT_MAX_WIDTH @ '','' @ nat_to_string DEFAULT_MAX_HEIGHT @ ''>'', default_edid_info))"

end
