(* ===== verification/Drm_Correct.thy ===== *)
theory Drm_Correct
  imports Drm_Kms "HOL-Library.Product_Lexorder"
begin

text \<open>
  What is read from an EDID and what is made of it: the largest mode is the maximum of everything the EDID
  advertises, an extension without timings is misread, and the choice of a mode follows its area.
\<close>

section \<open>Modes of an EDID\<close>

text \<open>Timings and video codes as lists; modes are compared by width, then height, then rate.\<close>

fun timings_at :: "byte list \<Rightarrow> nat list \<Rightarrow> display_timing list" where
  "timings_at bs [] = []"
| "timings_at bs (i # is) =
     (case parse_detailed_timing (byte_slice i (i + 18) bs) of None \<Rightarrow> timings_at bs is | Some t \<Rightarrow> t # timings_at bs is)"

definition vic_modes :: "byte list \<Rightarrow> display_timing list" where
  "vic_modes vics = filter (\<lambda>m. m \<noteq> (0, 0, 0)) (map (\<lambda>v. vic_mode (unat v mod 128)) vics)"

function video_blocks :: "byte list \<Rightarrow> nat \<Rightarrow> nat \<Rightarrow> byte list list" where
  "video_blocks ext dtd_end idx =
     (let len = edid_at ext idx mod 32
      in if idx < dtd_end \<and> idx + 1 + len \<le> dtd_end
         then (if edid_at ext idx div 32 = 2 then [byte_slice (idx + 1) (idx + 1 + len) ext] else [])
              @ video_blocks ext dtd_end (idx + 1 + len)
         else [])"
  by pat_completeness auto
termination
  by (relation "measure (\<lambda>(ext, dtd_end, idx). dtd_end - idx)") auto

declare video_blocks.simps [simp del]

function timing_starts :: "nat \<Rightarrow> nat list" where
  "timing_starts d = (if d + 18 \<le> 127 then d # timing_starts (d + 18) else [])"
  by pat_completeness auto
termination
  by (relation "measure (\<lambda>d. 127 - d)") auto

declare timing_starts.simps [simp del]

text \<open>Where the code looks for them in an extension: the timings begin at the offset in the third byte, whatever it is, and
  the data blocks end there or, when the offset is no usable one, at the end of the extension.\<close>

definition extension_read :: "byte list \<Rightarrow> display_timing list" where
  "extension_read ext =
     concat (map vic_modes (video_blocks ext (if edid_at ext 2 > 4 \<and> edid_at ext 2 \<le> 127 then edid_at ext 2 else 127) 4))
     @ timings_at ext (timing_starts (edid_at ext 2))"

definition modes_read :: "byte list \<Rightarrow> display_timing list" where
  "modes_read bytes = timings_at bytes DESCRIPTORS
     @ (if has_cta_extension bytes then extension_read (byte_slice 128 256 bytes) else [])"



section \<open>The code takes their maximum\<close>

lemma check_mode_max: "check_mode m best = max best m"
  by (cases m; cases best) (auto simp: check_mode_def max_def)

text \<open>The two readings of a timing block agree.\<close>

lemma check_timing_parse:
  "18 \<le> length block \<Longrightarrow>
     check_timing block best = (case parse_detailed_timing block of None \<Rightarrow> best | Some t \<Rightarrow> max best t)"
  by (simp add: check_timing_def parse_detailed_timing_def check_mode_max Let_def)

lemma length_byte_slice: "b \<le> length bs \<Longrightarrow> length (byte_slice a b bs) = b - a"
  by (simp add: byte_slice_def)

lemma check_descriptors_fold:
  "\<forall>i \<in> set is. i + 18 \<le> length bs \<Longrightarrow> check_descriptors bs is best = fold (\<lambda>t b. max b t) (timings_at bs is) best"
  by (induction "is" arbitrary: best) (auto simp: check_timing_parse length_byte_slice split: option.split)

lemma check_timings_fold:
  "127 \<le> length ext \<Longrightarrow>
     check_timings ext d best = fold (\<lambda>t b. max b t) (timings_at ext (timing_starts d)) best"
proof (induction ext d best rule: check_timings.induct)
  case (1 ext d best)
  show ?case
  proof (cases "d + 18 \<le> 127")
    case True
    have "timing_starts d = d # timing_starts (d + 18)"
      by (subst timing_starts.simps) (rule if_P [OF True])
    moreover have "check_timings ext d best = check_timings ext (d + 18) (check_timing (byte_slice d (d + 18) ext) best)"
      by (subst check_timings.simps) (rule if_P [OF True])
    ultimately show ?thesis
      using 1 True by (simp add: check_timing_parse length_byte_slice split: option.split)
  next
    case False
    have "timing_starts d = []"
      by (subst timing_starts.simps) (simp add: False)
    moreover have "check_timings ext d best = best"
      by (subst check_timings.simps) (rule if_not_P [OF False])
    ultimately show ?thesis
      by simp
  qed
qed

lemma vic_mode_shape: "vic_mode v = (w, h, fps) \<Longrightarrow> (w = 0 \<and> h = 0 \<and> fps = 0) \<or> (0 < w \<and> 0 < h)"
  by (simp add: vic_mode_def split: if_splits)

lemma check_vics_fold: "check_vics vics best = fold (\<lambda>t b. max b t) (vic_modes vics) best"
proof (induction vics arbitrary: best)
  case (Cons v vics)
  obtain w h fps where m: "vic_mode (unat v mod 128) = (w, h, fps)"
    by (cases "vic_mode (unat v mod 128)") auto
  show ?case
    using vic_mode_shape [OF m] Cons by (auto simp: m vic_modes_def check_mode_max)
qed (simp add: vic_modes_def)

lemma check_blocks_fold:
  "check_blocks ext dtd_end idx best
    = fold (\<lambda>t b. max b t) (concat (map vic_modes (video_blocks ext dtd_end idx))) best"
proof (induction ext dtd_end idx best rule: check_blocks.induct)
  case (1 ext dtd_end idx best)
  show ?case
  proof (cases "idx < dtd_end \<and> idx + 1 + edid_at ext idx mod 32 \<le> dtd_end")
    case True
    let ?len = "edid_at ext idx mod 32"
    have "check_blocks ext dtd_end idx best = check_blocks ext dtd_end (idx + 1 + ?len)
        (if edid_at ext idx div 32 = 2 then check_vics (byte_slice (idx + 1) (idx + 1 + ?len) ext) best else best)"
      using True by (subst check_blocks.simps) (simp add: Let_def)
    also have "\<dots> = fold (\<lambda>t b. max b t) (concat (map vic_modes (video_blocks ext dtd_end (idx + 1 + ?len))))
        (if edid_at ext idx div 32 = 2 then check_vics (byte_slice (idx + 1) (idx + 1 + ?len) ext) best else best)"
      using True by (intro 1) auto
    finally show ?thesis
      using True by (subst video_blocks.simps) (simp add: Let_def check_vics_fold)
  next
    case False
    then show ?thesis
      by (subst check_blocks.simps, subst video_blocks.simps) (auto simp: Let_def)
  qed
qed

lemma max_resolution_fold:
  assumes "is_edid bytes"
  shows "parse_edid_max_resolution bytes =
    (case fold (\<lambda>t b. max b t) (modes_read bytes) (0, 0, 0) of (w, h, fps) \<Rightarrow>
       if w > 0 \<and> h > 0 then Some (w, h, fps) else None)"
proof -
  have "check_descriptors bytes DESCRIPTORS (0, 0, 0)
      = fold (\<lambda>t b. max b t) (timings_at bytes DESCRIPTORS) (0, 0, 0)"
    using assms by (intro check_descriptors_fold) (auto simp: is_edid_def DESCRIPTORS_def)
  moreover have "length (byte_slice 128 256 bytes) = 128" if "has_cta_extension bytes"
    using that by (simp add: has_cta_extension_def length_byte_slice)
  then have "check_extension bytes best = fold (\<lambda>t b. max b t) (extension_read (byte_slice 128 256 bytes)) best"
    if "has_cta_extension bytes" for best
    using that by (simp add: check_extension_def Let_def check_blocks_fold check_timings_fold extension_read_def)
  ultimately show ?thesis
    using assms by (simp add: parse_edid_max_resolution_def Let_def modes_read_def)
qed

section \<open>Advertised modes are real\<close>

lemma timing_positive: "parse_detailed_timing b = Some (w, h, fps) \<Longrightarrow> 0 < w \<and> 0 < h"
  by (auto simp: parse_detailed_timing_def Let_def split: if_splits)

lemma timings_at_iff: "t \<in> set (timings_at bs is) \<longleftrightarrow> (\<exists>i \<in> set is. parse_detailed_timing (byte_slice i (i + 18) bs) = Some t)"
  by (induction "is") (auto split: option.split)

lemma read_positive: "(w, h, fps) \<in> set (modes_read bytes) \<Longrightarrow> 0 < w \<and> 0 < h"
  by (auto simp: modes_read_def extension_read_def timings_at_iff vic_modes_def dest: timing_positive vic_mode_shape [OF sym]
      split: if_splits)

lemma fold_max: "fold (\<lambda>t b. max b t) ts b = Max (insert b (set ts))" for b :: "'a :: linorder"
proof (induction ts arbitrary: b)
  case (Cons t ts)
  have "Max (insert b (insert t (set ts))) = max b (Max (insert t (set ts)))"
    by (rule Max_insert) simp_all
  then show ?case
    using Cons by (cases "ts = []") (simp_all add: max.assoc)
qed simp

lemma max_resolution:
  "parse_edid_max_resolution bytes =
     (if is_edid bytes \<and> modes_read bytes \<noteq> [] then Some (Max (set (modes_read bytes))) else None)"
proof (cases "is_edid bytes")
  case True
  note fold = max_resolution_fold [OF True, unfolded fold_max]
  show ?thesis
  proof (cases "modes_read bytes = []")
    case False
    have "Max (insert (0, 0, 0) (set (modes_read bytes))) = max (0, 0, 0) (Max (set (modes_read bytes)))"
      using False by (intro Max_insert) simp_all
    also have "\<dots> = Max (set (modes_read bytes))"
      by (cases "Max (set (modes_read bytes))") (auto simp: max_def)
    finally have max: "Max (insert (0, 0, 0) (set (modes_read bytes))) = Max (set (modes_read bytes))" .
    obtain w h fps where m: "Max (set (modes_read bytes)) = (w, h, fps)"
      by (cases "Max (set (modes_read bytes))") auto
    then have "(w, h, fps) \<in> set (modes_read bytes)"
      using Max_in [of "set (modes_read bytes)"] False by simp
    then show ?thesis
      using True False read_positive by (simp add: fold max m)
  qed (simp add: fold)
qed (simp add: parse_edid_max_resolution_def)

section \<open>Properties\<close>








text \<open>
  An extension that says it has no timings is misread: with 0 in its third byte the loop over timings
  starts at the extension's own header, so the bytes of tag, revision and first data block count as a display mode,
  and the largest width reported is at least 256 times the upper half of the fifth byte, although
  \<open>parse_edid_panel_resolution\<close> rejects the same offset.
\<close>

theorem missing_timings_are_misread:
  assumes "is_edid bytes" and "has_cta_extension bytes" and "bytes ! 130 = 0"
    and "16 \<le> unat (bytes ! 132)" and "bytes ! 133 \<noteq> 0"
  shows "\<exists>w h fps. parse_edid_max_resolution bytes = Some (w, h, fps) \<and> 256 * (unat (bytes ! 132) div 16) \<le> w"
proof -
  let ?ext = "byte_slice 128 256 bytes"
  let ?block = "byte_slice 0 18 ?ext"
  have at: "edid_at ?block i = unat (bytes ! (128 + i))" if "i < 18" for i
    using that assms(2) by (simp add: edid_at_def byte_slice_def has_cta_extension_def)
  have "edid_at ?ext 2 = 0"
    using assms(2,3) by (simp add: edid_at_def byte_slice_def has_cta_extension_def)
  moreover have "0 \<in> set (timing_starts 0)"
    by (subst timing_starts.simps) simp
  moreover have "\<exists>h fps. parse_detailed_timing ?block = Some (256 * (unat (bytes ! 132) div 16), h, fps)"
  proof -
    have "length ?block = 18"
      using assms(2) by (simp add: length_byte_slice has_cta_extension_def)
    moreover have "0 < pixel_clock ?block"
      using assms(2) by (simp add: pixel_clock_def at has_cta_extension_def)
    moreover have "h_active ?block = 256 * (unat (bytes ! 132) div 16)"
      by (simp add: h_active_def with_high_nibble_def at assms(3))
    moreover have "0 < v_active ?block"
      using assms(5) by (simp add: v_active_def with_high_nibble_def at unat_gt_0)
    moreover have "0 < unat (bytes ! 132) div 16"
      using assms(4) by (simp add: div_greater_zero_iff)
    ultimately show ?thesis
      by (simp add: parse_detailed_timing_def Let_def)
  qed
  ultimately obtain h fps where "(256 * (unat (bytes ! 132) div 16), h, fps) \<in> set (modes_read bytes)"
    using assms(2) by (auto simp: modes_read_def extension_read_def timings_at_iff) fastforce
  then have "modes_read bytes \<noteq> []" and "(256 * (unat (bytes ! 132) div 16), h, fps) \<le> Max (set (modes_read bytes))"
    by auto
  moreover have "parse_edid_max_resolution bytes = Some (Max (set (modes_read bytes)))"
    using assms(1) max_resolution [of bytes] calculation(1) by simp
  ultimately show ?thesis
    by (cases "Max (set (modes_read bytes))") (auto simp: less_eq_prod_def)
qed

section \<open>The choice of a mode\<close>

lemma best_mode_some: "best_mode ms (Some b) (score_mode b) = Some m \<Longrightarrow>
    (m = b \<or> m \<in> set ms) \<and> score_mode b \<le> score_mode m \<and> (\<forall>x \<in> set ms. score_mode x \<le> score_mode m)"
  by (induction ms arbitrary: b) (fastforce split: if_splits)+

lemma best_mode_top:
  assumes "best_mode ms None 0 = Some m"
  shows "m \<in> set ms" and "x \<in> set ms \<Longrightarrow> score_mode x \<le> score_mode m"
  using assms by (cases ms; auto dest: best_mode_some)+

lemma best_mode_exists: "ms \<noteq> [] \<Longrightarrow> \<exists>m. best_mode ms None 0 = Some m"
proof -
  have "\<exists>m. best_mode ms (Some b) s = Some m" for ms b s
    by (induction ms arbitrary: b s) auto
  then show "ms \<noteq> [] \<Longrightarrow> \<exists>m. best_mode ms None 0 = Some m"
    by (cases ms) auto
qed

lemma score_bounds:
  "dm_width m * dm_height m \<le> score_mode m \<and> score_mode m \<le> dm_width m * dm_height m + 200000"
  by (simp add: score_mode_def)

text \<open>
  The choice of a display mode: with a connected HDMI connector that lists modes the detection succeeds
  with one of them, and no other has a higher score; since the bonuses for rate and preference make at most 200000,
  the area of the chosen mode is within 200000 pixels of every other, so a preferred mode loses to any mode that is
  larger than that, whatever its rate.
\<close>

theorem chosen_mode_follows_area:
  assumes "find_hdmi connectors = Some c" and "cn_modes c \<noteq> []"
  shows "\<exists>m info. autodetect_display_mode lossy connectors = Inr (m, cn_handle c, info) \<and> m \<in> set (cn_modes c)
    \<and> (\<forall>x \<in> set (cn_modes c). score_mode x \<le> score_mode m)
    \<and> (\<forall>x \<in> set (cn_modes c). dm_width x * dm_height x \<le> dm_width m * dm_height m + 200000)"
proof -
  obtain m where m: "best_mode (cn_modes c) None 0 = Some m"
    using best_mode_exists [OF assms(2)] by blast
  have "dm_width x * dm_height x \<le> dm_width m * dm_height m + 200000" if "x \<in> set (cn_modes c)" for x
    using best_mode_top(2) [OF m that] score_bounds [of x] score_bounds [of m] by linarith
  then show ?thesis
    using best_mode_top [OF m] by (simp add: autodetect_display_mode_def assms(1) m)
qed

text \<open>A 1920x1080 display: one detailed timing, an extension without timings whose first data block is an extended one.\<close>

definition sample_edid :: "byte list" where
  "sample_edid = EDID_MAGIC @ replicate 46 0
     @ [0x02, 0x3A, 0x80, 0x18, 0x71, 0x38, 0x2D, 0x40, 0x58, 0x2C, 0x45, 0, 0, 0, 0, 0, 0, 0x1E] @ replicate 56 0
     @ [0x02, 0x03, 0x00, 0x00, 0xE2, 0x0F, 0x00] @ replicate 121 0"

theorem missing_timings_are_misread_witness:
  "\<exists>w h fps. parse_edid_max_resolution sample_edid = Some (w, h, fps) \<and> 3584 \<le> w"
proof -
  have "is_edid sample_edid" "has_cta_extension sample_edid" "sample_edid ! 130 = 0" "sample_edid ! 132 = 0xE2"
      "sample_edid ! 133 = 0x0F"
    by (simp_all add: sample_edid_def EDID_MAGIC_def is_edid_def has_cta_extension_def nth_append nth_Cons')
  then show ?thesis
    using missing_timings_are_misread [of sample_edid] by simp
qed

theorem chosen_mode_follows_area_witness:
  "let hd = \<lparr>dm_width = 1920, dm_height = 1080, dm_vrefresh = 60, dm_preferred = True\<rparr>;
       uhd = \<lparr>dm_width = 3840, dm_height = 2160, dm_vrefresh = 24, dm_preferred = False\<rparr>;
       c = \<lparr>cn_handle = 54, cn_connected = True, cn_interface = Hdmi_A, cn_modes = [hd, uhd], cn_edid = None\<rparr>
   in \<exists>info. autodetect_display_mode (\<lambda>_. []) [c] = Inr (uhd, 54, info)"
proof -
  let ?hd = "\<lparr>dm_width = 1920, dm_height = 1080, dm_vrefresh = 60, dm_preferred = True\<rparr>"
  let ?uhd = "\<lparr>dm_width = 3840, dm_height = 2160, dm_vrefresh = 24, dm_preferred = False\<rparr>"
  let ?c = "\<lparr>cn_handle = 54, cn_connected = True, cn_interface = Hdmi_A, cn_modes = [?hd, ?uhd], cn_edid = None\<rparr>"
  show ?thesis
    using chosen_mode_follows_area [of "[?c]" ?c "\<lambda>_. []"] by (auto simp: Let_def)
qed

end
