(* ===== verification/Text_Draw.thy ===== *)
theory Text_Draw
  imports Rust_Std "HOL-Library.Signed_Division"
begin

text \<open>
  \<open>src/text.rs\<close>: the glyphs, and characters, strings and the cloud icon drawn into an ARGB buffer.  Coordinates are
  natural numbers: they stay far below the width of \<open>usize\<close> for any buffer that fits in memory.  A character is
  its bytes; the nested loops are the lists of the cells they visit, in the order they visit them.
\<close>

section \<open>Font\<close>

text \<open>The rows of the glyphs from the space to the grave accent, and from the brace to the tilde.\<close>

definition GLYPHS :: "byte list list" where
  "GLYPHS = [
     [0x00, 0x00, 0x00, 0x00, 0x00, 0x00, 0x00, 0x00],
     [0x18, 0x3C, 0x3C, 0x18, 0x18, 0x00, 0x18, 0x00],
     [0x66, 0x66, 0x24, 0x00, 0x00, 0x00, 0x00, 0x00],
     [0x6C, 0x6C, 0xFE, 0x6C, 0xFE, 0x6C, 0x6C, 0x00],
     [0x18, 0x3E, 0x60, 0x3C, 0x06, 0x7C, 0x18, 0x00],
     [0x00, 0x66, 0x6C, 0x18, 0x30, 0x66, 0x46, 0x00],
     [0x3C, 0x66, 0x3C, 0x38, 0x6E, 0x66, 0x3B, 0x00],
     [0x18, 0x18, 0x30, 0x00, 0x00, 0x00, 0x00, 0x00],
     [0x0C, 0x18, 0x30, 0x30, 0x30, 0x18, 0x0C, 0x00],
     [0x30, 0x18, 0x0C, 0x0C, 0x0C, 0x18, 0x30, 0x00],
     [0x00, 0x66, 0x3C, 0xFF, 0x3C, 0x66, 0x00, 0x00],
     [0x00, 0x18, 0x18, 0x7E, 0x18, 0x18, 0x00, 0x00],
     [0x00, 0x00, 0x00, 0x00, 0x00, 0x18, 0x18, 0x30],
     [0x00, 0x00, 0x00, 0xFE, 0x00, 0x00, 0x00, 0x00],
     [0x00, 0x00, 0x00, 0x00, 0x00, 0x18, 0x18, 0x00],
     [0x00, 0x06, 0x0C, 0x18, 0x30, 0x60, 0x00, 0x00],
     [0x3C, 0x66, 0x66, 0x66, 0x66, 0x66, 0x3C, 0x00],
     [0x18, 0x38, 0x18, 0x18, 0x18, 0x18, 0x7E, 0x00],
     [0x3C, 0x66, 0x06, 0x1C, 0x30, 0x60, 0x7E, 0x00],
     [0x3C, 0x66, 0x06, 0x1C, 0x06, 0x66, 0x3C, 0x00],
     [0x0E, 0x1E, 0x36, 0x66, 0x7F, 0x06, 0x0F, 0x00],
     [0x7E, 0x60, 0x7C, 0x06, 0x06, 0x66, 0x3C, 0x00],
     [0x1C, 0x30, 0x60, 0x7C, 0x66, 0x66, 0x3C, 0x00],
     [0x7E, 0x66, 0x0C, 0x18, 0x18, 0x18, 0x18, 0x00],
     [0x3C, 0x66, 0x66, 0x3C, 0x66, 0x66, 0x3C, 0x00],
     [0x3C, 0x66, 0x66, 0x3E, 0x06, 0x0C, 0x38, 0x00],
     [0x00, 0x18, 0x18, 0x00, 0x18, 0x18, 0x00, 0x00],
     [0x00, 0x18, 0x18, 0x00, 0x18, 0x18, 0x30, 0x00],
     [0x06, 0x0C, 0x18, 0x30, 0x18, 0x0C, 0x06, 0x00],
     [0x00, 0x00, 0x7E, 0x00, 0x7E, 0x00, 0x00, 0x00],
     [0x60, 0x30, 0x18, 0x0C, 0x18, 0x30, 0x60, 0x00],
     [0x3C, 0x66, 0x06, 0x0C, 0x18, 0x00, 0x18, 0x00],
     [0x3C, 0x66, 0x6E, 0x6E, 0x60, 0x62, 0x3C, 0x00],
     [0x18, 0x3C, 0x66, 0x66, 0x7E, 0x66, 0x66, 0x00],
     [0x7C, 0x66, 0x66, 0x7C, 0x66, 0x66, 0x7C, 0x00],
     [0x3C, 0x66, 0x60, 0x60, 0x60, 0x66, 0x3C, 0x00],
     [0x78, 0x6C, 0x66, 0x66, 0x66, 0x6C, 0x78, 0x00],
     [0x7E, 0x60, 0x60, 0x7C, 0x60, 0x60, 0x7E, 0x00],
     [0x7E, 0x60, 0x60, 0x7C, 0x60, 0x60, 0x60, 0x00],
     [0x3C, 0x66, 0x60, 0x6E, 0x66, 0x66, 0x3C, 0x00],
     [0x66, 0x66, 0x66, 0x7E, 0x66, 0x66, 0x66, 0x00],
     [0x3E, 0x18, 0x18, 0x18, 0x18, 0x18, 0x3E, 0x00],
     [0x1E, 0x0C, 0x0C, 0x0C, 0x0C, 0x6C, 0x38, 0x00],
     [0x66, 0x6C, 0x78, 0x70, 0x78, 0x6C, 0x66, 0x00],
     [0x60, 0x60, 0x60, 0x60, 0x60, 0x60, 0x7E, 0x00],
     [0x63, 0x77, 0x7F, 0x6B, 0x63, 0x63, 0x63, 0x00],
     [0x66, 0x76, 0x7E, 0x7E, 0x6E, 0x66, 0x66, 0x00],
     [0x3C, 0x66, 0x66, 0x66, 0x66, 0x66, 0x3C, 0x00],
     [0x7C, 0x66, 0x66, 0x7C, 0x60, 0x60, 0x60, 0x00],
     [0x3C, 0x66, 0x66, 0x66, 0x6A, 0x6C, 0x36, 0x00],
     [0x7C, 0x66, 0x66, 0x7C, 0x6C, 0x66, 0x66, 0x00],
     [0x3C, 0x66, 0x60, 0x3C, 0x06, 0x66, 0x3C, 0x00],
     [0x7E, 0x18, 0x18, 0x18, 0x18, 0x18, 0x18, 0x00],
     [0x66, 0x66, 0x66, 0x66, 0x66, 0x66, 0x3C, 0x00],
     [0x66, 0x66, 0x66, 0x66, 0x66, 0x3C, 0x18, 0x00],
     [0x63, 0x63, 0x63, 0x6B, 0x7F, 0x77, 0x63, 0x00],
     [0x66, 0x66, 0x3C, 0x18, 0x3C, 0x66, 0x66, 0x00],
     [0x66, 0x66, 0x66, 0x3C, 0x18, 0x18, 0x18, 0x00],
     [0x7E, 0x06, 0x0C, 0x18, 0x30, 0x60, 0x7E, 0x00],
     [0x3C, 0x30, 0x30, 0x30, 0x30, 0x30, 0x3C, 0x00],
     [0x00, 0x60, 0x30, 0x18, 0x0C, 0x06, 0x00, 0x00],
     [0x3C, 0x0C, 0x0C, 0x0C, 0x0C, 0x0C, 0x3C, 0x00],
     [0x18, 0x3C, 0x66, 0x00, 0x00, 0x00, 0x00, 0x00],
     [0x00, 0x00, 0x00, 0x00, 0x00, 0x00, 0xFF, 0x00],
     [0x30, 0x18, 0x0C, 0x00, 0x00, 0x00, 0x00, 0x00]]"

definition LATE_GLYPHS :: "byte list list" where
  "LATE_GLYPHS = [
     [0x0E, 0x18, 0x18, 0x70, 0x18, 0x18, 0x0E, 0x00],
     [0x18, 0x18, 0x18, 0x00, 0x18, 0x18, 0x18, 0x00],
     [0x70, 0x18, 0x18, 0x0E, 0x18, 0x18, 0x70, 0x00],
     [0x31, 0x6B, 0x46, 0x00, 0x00, 0x00, 0x00, 0x00]]"

definition DEFAULT_GLYPH :: "byte list" where
  "DEFAULT_GLYPH = [0x00, 0x7E, 0x42, 0x42, 0x42, 0x42, 0x7E, 0x00]"

text \<open>Lower case is drawn as upper case.\<close>

definition get_glyph :: "nat \<Rightarrow> byte list" where
  "get_glyph code =
     (if 32 \<le> code \<and> code \<le> 96 then GLYPHS ! (code - 32)
      else if 97 \<le> code \<and> code \<le> 122 then GLYPHS ! (code - 32 - 32)
      else if 123 \<le> code \<and> code \<le> 126 then LATE_GLYPHS ! (code - 123)
      else DEFAULT_GLYPH)"

definition char_number :: "string \<Rightarrow> nat" where
  "char_number g = (if length g = 1 then code_of (hd g) else 128)"

section \<open>Characters\<close>

text \<open>One guarded write.\<close>

definition plot :: "nat \<Rightarrow> nat \<Rightarrow> u32 \<Rightarrow> nat \<times> nat \<Rightarrow> u32 list \<Rightarrow> u32 list" where
  "plot w h color p buf =
     (case p of (x, y) \<Rightarrow>
        if x < w \<and> y < h then let idx = y * w + x in if idx < length buf then buf[idx := color] else buf else buf)"

definition block_cells :: "nat \<Rightarrow> nat \<Rightarrow> nat \<Rightarrow> (nat \<times> nat) list" where
  "block_cells px py scale = [(px + sx, py + sy). sy \<leftarrow> [0..<scale], sx \<leftarrow> [0..<scale]]"

definition glyph_cells :: "nat \<Rightarrow> nat \<Rightarrow> byte list \<Rightarrow> nat \<Rightarrow> (nat \<times> nat) list" where
  "glyph_cells start_x start_y glyph scale =
     concat [block_cells (start_x + col * scale) (start_y + row * scale) scale.
       row \<leftarrow> [0..<8], col \<leftarrow> [0..<8], bit (glyph ! row) (7 - col)]"

text \<open>The slash of the zero, in signed arithmetic.\<close>

definition slash_cells :: "nat \<Rightarrow> nat \<Rightarrow> nat \<Rightarrow> (nat \<times> nat) list" where
  "slash_cells start_x start_y scale =
     (let stroke = int (max scale 1);
          x0 = int (start_x + 2 * scale); y0 = int (start_y + 5 * scale);
          x1 = int (start_x + 6 * scale); y1 = int (start_y + scale);
          steps = max (nat \<bar>x1 - x0\<bar>) (nat \<bar>y1 - y0\<bar>)
      in concat (map (\<lambda>step.
           let center_x = x0 + (x1 - x0) * int step sdiv int (max steps 1);
               center_y = y0 + (y1 - y0) * int step sdiv int (max steps 1);
               top = center_y - stroke sdiv 2; left = center_x - stroke sdiv 2
           in [(nat x, nat y). y \<leftarrow> [top..top + stroke - 1], x \<leftarrow> [left..left + stroke - 1], x \<ge> 0 \<and> y \<ge> 0])
         [0..<Suc steps]))"

definition draw_char_argb ::
  "nat \<Rightarrow> nat \<Rightarrow> nat \<Rightarrow> nat \<Rightarrow> string \<Rightarrow> u32 \<Rightarrow> nat \<Rightarrow> u32 list \<Rightarrow> u32 list" where
  "draw_char_argb w h start_x start_y ch color scale buf =
     (let buf = fold (plot w h color) (glyph_cells start_x start_y (get_glyph (char_number ch)) scale) buf
      in if ch = ''0'' then fold (plot w h color) (slash_cells start_x start_y scale) buf else buf)"

section \<open>Strings\<close>

fun draw_chars :: "nat \<Rightarrow> nat \<Rightarrow> nat \<Rightarrow> nat \<Rightarrow> string list \<Rightarrow> u32 \<Rightarrow> nat \<Rightarrow> u32 list \<Rightarrow> u32 list" where
  "draw_chars w h curr_x y [] color scale buf = buf"
| "draw_chars w h curr_x y (ch # chs) color scale buf =
     draw_chars w h (curr_x + 8 * scale) y chs color scale (draw_char_argb w h curr_x y ch color scale buf)"

definition draw_string_argb :: "nat \<Rightarrow> nat \<Rightarrow> nat \<Rightarrow> nat \<Rightarrow> string \<Rightarrow> u32 \<Rightarrow> nat \<Rightarrow> u32 list \<Rightarrow> u32 list" where
  "draw_string_argb w h x y txt color scale buf = draw_chars w h x y (chars_of txt) color scale buf"

definition char_count :: "string \<Rightarrow> nat" where
  "char_count s = length (chars_of s)"

definition fit_text :: "string \<Rightarrow> nat \<Rightarrow> string" where
  "fit_text txt max_chars =
     (let v = take_chars max_chars txt
      in if char_count txt > max_chars \<and> max_chars > 3 then take_chars (max_chars - 3) v @ ''...'' else v)"

definition draw_fitted_string_argb ::
  "nat \<Rightarrow> nat \<Rightarrow> nat \<Rightarrow> nat \<Rightarrow> string \<Rightarrow> u32 \<Rightarrow> nat \<Rightarrow> nat \<Rightarrow> u32 list \<Rightarrow> u32 list" where
  "draw_fitted_string_argb w h x y txt color scale max_width buf =
     draw_string_argb w h x y (fit_text txt (max_width div max (8 * scale) 1)) color scale buf"

section \<open>The cloud icon\<close>

definition CLOUD :: "string list" where
  "CLOUD = [
     ''00000011000000000000'',
     ''00001111100001100000'',
     ''00011100110011110000'',
     ''00110000011100111000'',
     ''01100000000000111000'',
     ''11000000000000001100'',
     ''11000000000000001110'',
     ''01000000000000001100'',
     ''00111111111111111000'',
     ''00011111111111110000'']"

definition cloud_cells :: "nat \<Rightarrow> nat \<Rightarrow> nat \<Rightarrow> (nat \<times> nat) list" where
  "cloud_cells x y scale =
     concat [block_cells (x + col * scale) (y + row * scale) scale.
       row \<leftarrow> [0..<length CLOUD], col \<leftarrow> [0..<20], CLOUD ! row ! col = CHR ''1'']"

definition draw_cloud_icon_argb :: "nat \<Rightarrow> nat \<Rightarrow> nat \<Rightarrow> nat \<Rightarrow> u32 \<Rightarrow> nat \<Rightarrow> u32 list \<Rightarrow> u32 list" where
  "draw_cloud_icon_argb w h x y color scale buf = fold (plot w h color) (cloud_cells x y scale) buf"

end
