(* ===== verification/Dashboard.thy ===== *)
theory Dashboard
  imports Text_Draw Pairing Net
begin

text \<open>
  The idle dashboard: its layout and drawing (\<open>draw_ip_dashboard_argb\<close> of \<open>src/text.rs\<close>) and the thread that feeds it
  (\<open>src/dashboard.rs\<close>).  The subtractions of the layout do not underflow for screens of at least 252 by 120
  pixels; for those the truncated subtraction of the naturals is the one of the code.
\<close>

section \<open>Layout\<close>

definition dash_scale :: "nat \<Rightarrow> nat" where
  "dash_scale width = max (width div 480) 2"

definition dash_margin :: "nat \<Rightarrow> nat" where
  "dash_margin width = 40 * dash_scale width div 2"

definition box_w :: "nat \<Rightarrow> nat" where
  "box_w width = width - dash_margin width * 2"

definition box_h :: "nat \<Rightarrow> nat \<Rightarrow> nat" where
  "box_h width height = height - dash_margin width * 2"

definition header_h :: "nat \<Rightarrow> nat" where
  "header_h width = 120 * dash_scale width div 2"

definition line_height :: "nat \<Rightarrow> nat" where
  "line_height width = 14 * dash_scale width"

definition clock_x :: "nat \<Rightarrow> string \<Rightarrow> nat" where
  "clock_x width time_str =
     dash_margin width + box_w width - length time_str * 8 * dash_scale width - 20 * dash_scale width div 2"

section \<open>Texts and colours\<close>

definition two_digits :: "nat \<Rightarrow> string" where
  "two_digits n = (if n < 10 then ''0'' @ nat_to_string n else nat_to_string n)"

definition pad_right :: "nat \<Rightarrow> string \<Rightarrow> string" where
  "pad_right n s = s @ replicate (n - char_count s) (CHR '' '')"

definition hdmi_line :: "nat \<Rightarrow> nat \<Rightarrow> nat \<Rightarrow> string" where
  "hdmi_line width height refresh_hz =
     ''HDMI OUTPUT: '' @ nat_to_string width @ ''X'' @ nat_to_string height @ '' @ '' @ nat_to_string refresh_hz @ '' HZ''"

text \<open>The seconds since the epoch, if the clock can be read.\<close>

definition time_string :: "nat option \<Rightarrow> string" where
  "time_string now =
     (case now of None \<Rightarrow> ''00:00:00 UTC''
      | Some secs \<Rightarrow> two_digits (secs div 3600 mod 24) @ '':'' @ two_digits (secs div 60 mod 60) @ '':''
          @ two_digits (secs mod 60) @ '' UTC'')"

definition pairing_url :: "bool \<Rightarrow> (string \<times> string) list \<Rightarrow> string" where
  "pairing_url cloud_enabled ips =
     (if cloud_enabled then ''CAST: HTTPS://CAST.LLRDC.COM''
      else ''OPEN: HTTPS://'' @ (case ips of [] \<Rightarrow> ''RECEIVER-IP'' | (_, ip) # _ \<Rightarrow> ip) @ '':8080'')"

definition status_color :: "string \<Rightarrow> u32" where
  "status_color s =
     (if s = ''READY'' then 0xFF00FF88 else if s = ''DISABLED'' then 0xFF94A3B8
      else if s = ''WAITING'' then 0xFFFFCC00 else 0xFFF87171)"

definition address_line :: "nat \<Rightarrow> string \<Rightarrow> string \<Rightarrow> string" where
  "address_line i iface ip = ''['' @ two_digits (i + 1) @ ''] '' @ pad_right 12 iface @ '' : '' @ ip"

definition address_color :: "string \<Rightarrow> u32" where
  "address_color iface =
     (if starts_with iface ''eth'' \<or> starts_with iface ''wlan'' \<or> starts_with iface ''end'' then 0xFF00FF88
      else if iface = ''lo'' then 0xFFFFCC00 else 0xFF00E5FF)"

section \<open>Drawing\<close>

definition fill_header :: "nat \<Rightarrow> nat \<Rightarrow> u32 list \<Rightarrow> u32 list" where
  "fill_header width height buf =
     (let box_x = dash_margin width; box_y = dash_margin width
      in fold (plot width height 0xFF182232)
           [(x, y). y \<leftarrow> [box_y..<box_y + header_h width], x \<leftarrow> [box_x..<box_x + box_w width]] buf)"

definition is_border :: "nat \<Rightarrow> nat \<Rightarrow> nat \<Rightarrow> nat \<Rightarrow> bool" where
  "is_border width height x y \<longleftrightarrow>
     (let box_x = dash_margin width; box_y = dash_margin width; border_thick = dash_scale width
      in x < box_x + border_thick \<or> x \<ge> box_x + box_w width - border_thick
         \<or> y < box_y + border_thick \<or> y \<ge> box_y + box_h width height - border_thick \<or> y = box_y + header_h width)"

definition draw_border :: "nat \<Rightarrow> nat \<Rightarrow> u32 list \<Rightarrow> u32 list" where
  "draw_border width height buf =
     (let box_x = dash_margin width; box_y = dash_margin width
      in fold (plot width height 0xFF00E5FF)
           [(x, y). y \<leftarrow> [box_y..<box_y + box_h width height], x \<leftarrow> [box_x..<box_x + box_w width], is_border width height x y] buf)"

definition draw_address ::
  "nat \<Rightarrow> nat \<Rightarrow> string option \<Rightarrow> nat \<Rightarrow> string \<times> string \<Rightarrow> nat \<Rightarrow> u32 list \<Rightarrow> u32 list" where
  "draw_address width height cip i a current_y buf =
     (case a of (iface, ip) \<Rightarrow>
        let scale = dash_scale width;
            cloud_connected = (cip = Some ip);
            line_x = dash_margin width + 30 * scale div 2;
            line_width = box_w width - 60 * scale div 2;
            icon_size = 20 * scale; icon_gap = 2 * scale;
            text_width = line_width - (if cloud_connected then icon_size + icon_gap else 0);
            rendered_line = fit_text (address_line i iface ip) (text_width div max (8 * scale) 1);
            buf = draw_string_argb width height line_x current_y rendered_line (address_color iface) scale buf
        in if cloud_connected
           then draw_cloud_icon_argb width height (line_x + char_count rendered_line * 8 * scale + icon_gap) current_y
                  0xFF67E8F9 scale buf
           else buf)"

fun draw_addresses ::
  "nat \<Rightarrow> nat \<Rightarrow> string option \<Rightarrow> nat \<Rightarrow> (string \<times> string) list \<Rightarrow> nat \<Rightarrow> u32 list \<Rightarrow> u32 list" where
  "draw_addresses width height cip i [] current_y buf = buf"
| "draw_addresses width height cip i (a # as) current_y buf =
     (let buf = draw_address width height cip i a current_y buf;
          current_y = current_y + line_height width
      in if current_y + line_height width > dash_margin width + box_h width height - 40 * dash_scale width then buf
         else draw_addresses width height cip (i + 1) as current_y buf)"

text \<open>Where the code stands, and where the list of addresses begins.\<close>

definition content_y :: "nat \<Rightarrow> nat" where
  "content_y width = dash_margin width + header_h width + 30 * dash_scale width div 2"

definition code_scale :: "nat \<Rightarrow> nat" where
  "code_scale width = max (dash_scale width * 2) 2"

definition code_y :: "nat \<Rightarrow> nat" where
  "code_y width = content_y width + line_height width * 2"

definition code_x :: "nat \<Rightarrow> string \<Rightarrow> nat" where
  "code_x width code_value =
     (let code_label_width = char_count ''PAIRING CODE'' * 8 * dash_scale width;
          code_width = char_count code_value * 8 * code_scale width;
          content_x = dash_margin width + 30 * dash_scale width div 2;
          code_gap = 4 * dash_scale width;
          centered_code_x = dash_margin width + (box_w width - code_width) div 2
      in max centered_code_x (content_x + code_label_width + code_gap))"

definition status_y :: "nat \<Rightarrow> nat" where
  "status_y width = code_y width + 10 * code_scale width + line_height width"

definition addresses_y :: "nat \<Rightarrow> nat" where
  "addresses_y width = status_y width + line_height width + line_height width * 2"

definition draw_header_texts :: "nat \<Rightarrow> nat \<Rightarrow> nat \<Rightarrow> nat option \<Rightarrow> u32 list \<Rightarrow> u32 list" where
  "draw_header_texts width height refresh_hz now buf =
     (let scale = dash_scale width; box_x = dash_margin width; box_y = dash_margin width;
          limit = box_w width - 40 * scale;
          buf = draw_fitted_string_argb width height (box_x + 20 * scale div 2)
                  (box_y + (header_h width - 8 * scale) div 2) ''LLrdc Casting // DEVICE IPS'' 0xFFFFFFFF scale limit buf;
          buf = draw_fitted_string_argb width height (box_x + 20 * scale div 2)
                  (box_y + header_h width - 12 * scale) (hdmi_line width height refresh_hz) 0xFF00E5FF scale limit buf
      in draw_fitted_string_argb width height (clock_x width (time_string now))
           (box_y + (header_h width - 8 * scale) div 2) (time_string now) 0xFFFFCC00 scale limit buf)"

definition draw_code :: "nat \<Rightarrow> nat \<Rightarrow> string option \<Rightarrow> u32 list \<Rightarrow> u32 list" where
  "draw_code width height pairing_code buf =
     (let scale = dash_scale width;
          code_value = (case pairing_code of None \<Rightarrow> ''----'' | Some c \<Rightarrow> c);
          code_label_y = code_y width + (8 * (code_scale width - scale)) div 2;
          buf = draw_string_argb width height (dash_margin width + 30 * scale div 2) code_label_y ''PAIRING CODE''
                  0xFFFFCC00 scale buf
      in draw_string_argb width height (code_x width code_value) (code_y width) code_value 0xFFFFCC00 (code_scale width) buf)"

definition draw_status :: "nat \<Rightarrow> nat \<Rightarrow> string \<Rightarrow> string \<Rightarrow> u32 list \<Rightarrow> u32 list" where
  "draw_status width height local_st cloud_st buf =
     (let scale = dash_scale width;
          status_x = dash_margin width + 30 * scale div 2;
          status_column_width = (box_w width - 60 * scale div 2) div 2;
          cloud_status_x = status_x + status_column_width;
          y = status_y width; y' = y + line_height width;
          buf = draw_fitted_string_argb width height status_x y ''LOCAL'' 0xFFFFFFFF scale status_column_width buf;
          buf = draw_fitted_string_argb width height cloud_status_x y ''CLOUD'' 0xFFFFFFFF scale status_column_width buf;
          buf = draw_fitted_string_argb width height status_x y' local_st (status_color local_st) scale status_column_width buf
      in draw_fitted_string_argb width height cloud_status_x y' cloud_st (status_color cloud_st) scale status_column_width buf)"

text \<open>\<open>cloud_enabled\<close> and \<open>now\<close> are read from the configuration and the clock.\<close>

definition draw_ip_dashboard_argb ::
  "bool \<Rightarrow> nat option \<Rightarrow> nat \<Rightarrow> nat \<Rightarrow> nat \<Rightarrow> (string \<times> string) list \<Rightarrow> string option \<Rightarrow> string \<Rightarrow> string \<Rightarrow> string option
     \<Rightarrow> u32 list \<Rightarrow> u32 list" where
  "draw_ip_dashboard_argb cloud_enabled now width height refresh_hz ips pairing_code local_st cloud_st cip buf =
     (let scale = dash_scale width;
          buf = replicate (length buf) 0xFF0E1017;
          buf = fill_header width height buf;
          buf = draw_header_texts width height refresh_hz now buf;
          buf = draw_border width height buf;
          buf = draw_fitted_string_argb width height (dash_margin width + 30 * scale div 2) (content_y width)
                  (pairing_url cloud_enabled ips) 0xFFFFFFFF scale (box_w width - 60 * scale div 2) buf;
          buf = draw_code width height pairing_code buf;
          buf = draw_status width height local_st cloud_st buf
      in draw_addresses width height cip 0 ips (addresses_y width) buf)"

section \<open>Frames\<close>

definition configured_dashboard_codec :: "environment \<Rightarrow> string" where
  "configured_dashboard_codec env =
     (case env ''IDLE_DASHBOARD_MODE'' of None \<Rightarrow> DEFAULT_MODE
      | Some m \<Rightarrow> if m = ''hevc'' \<or> m = ''h265'' then ''hevc'' else DEFAULT_MODE)"

definition raw_dashboard_dimensions :: "u32 \<Rightarrow> u32 \<Rightarrow> u32 \<times> u32" where
  "raw_dashboard_dimensions screen_w screen_h = (screen_w, Bit_Operations.and screen_h (Bit_Operations.not 1))"

text \<open>\<open>bytemuck::cast_slice\<close> on a little-endian machine.\<close>

definition le_bytes :: "u32 \<Rightarrow> byte list" where
  "le_bytes p = map (\<lambda>i. ucast (drop_bit (8 * i) p)) [0..<4]"

text \<open>What both writers push: the pixels of the dashboard for the addresses and the pairing state of the moment.\<close>

definition dashboard_frame ::
  "bool \<Rightarrow> nat option \<Rightarrow> nat \<Rightarrow> nat \<Rightarrow> nat \<Rightarrow> (string \<times> string) list \<Rightarrow> pairing_snapshot \<Rightarrow> string option \<Rightarrow> byte list" where
  "dashboard_frame cloud_enabled now width height vrefresh ips pairing code_shown =
     (let local_st = (if ips = [] then ''NO NET'' else local_status pairing)
      in concat (map le_bytes (draw_ip_dashboard_argb cloud_enabled now width height vrefresh ips code_shown local_st
           (cloud_status pairing) (cloud_ip pairing) (replicate (width * height) 0))))"

section \<open>The feeding thread\<close>

text \<open>The state of the loop: the second of the last frame, the encoder process, and how many frames were pushed
  and encoders started and stopped.\<close>

record feeder =
  fd_last_secs :: nat
  fd_encoder :: bool
  fd_raw_frames :: nat
  fd_encoded_frames :: nat
  fd_spawned :: nat
  fd_dropped :: nat

definition initial_feeder :: feeder where
  "initial_feeder = \<lparr>fd_last_secs = 0, fd_encoder = False, fd_raw_frames = 0, fd_encoded_frames = 0, fd_spawned = 0, fd_dropped = 0\<rparr>"

text \<open>One round: is a stream active, the second it is, and whether an encoder could be started.\<close>

definition feeder_round :: "string \<Rightarrow> bool \<times> nat \<times> bool \<Rightarrow> feeder \<Rightarrow> feeder" where
  "feeder_round codec view s =
     (case view of (active, now_secs, spawns) \<Rightarrow>
        if \<not> active then
          let s = (if codec = ''hevc'' \<and> \<not> fd_encoder s
                   then (if spawns then s\<lparr>fd_encoder := True, fd_spawned := fd_spawned s + 1\<rparr> else s) else s)
          in if now_secs \<noteq> fd_last_secs s then
               let s = s\<lparr>fd_last_secs := now_secs\<rparr>
               in if codec = ''raw'' then s\<lparr>fd_raw_frames := fd_raw_frames s + 1\<rparr>
                  else if fd_encoder s then s\<lparr>fd_encoded_frames := fd_encoded_frames s + 1\<rparr> else s
             else s
        else if fd_encoder s then s\<lparr>fd_encoder := False, fd_dropped := fd_dropped s + 1\<rparr> else s)"

end
