(* ===== verification/Text_Correct.thy ===== *)
theory Text_Correct
  imports Text_Draw
begin

text \<open>
  The drawing of text, pixel by pixel: which cells a glyph, the slash of the zero and a string occupy, and that a
  fitted text stays in the column it is given.
\<close>

section \<open>Painting\<close>

text \<open>\<open>buf'\<close> is \<open>buf\<close> with the pixels of \<open>S\<close> in the colour \<open>c\<close>.\<close>

definition painted :: "nat \<Rightarrow> nat \<Rightarrow> (nat \<times> nat) set \<Rightarrow> u32 \<Rightarrow> u32 list \<Rightarrow> u32 list \<Rightarrow> bool" where
  "painted w h S c buf buf' \<longleftrightarrow> length buf' = length buf
     \<and> (\<forall>x y. x < w \<longrightarrow> y < h \<longrightarrow> y * w + x < length buf \<longrightarrow>
          buf' ! (y * w + x) = (if (x, y) \<in> S then c else buf ! (y * w + x)))"

lemma same_pixel:
  fixes x :: nat
  assumes "x < w" and "x' < w"
  shows "y * w + x = y' * w + x' \<longleftrightarrow> x = x' \<and> y = y'"
proof
  assume eq: "y * w + x = y' * w + x'"
  have "(y * w + x) div w = y" "(y * w + x) mod w = x" "(y' * w + x') div w = y'" "(y' * w + x') mod w = x'"
    using assms by simp_all
  then show "x = x' \<and> y = y'"
    using eq by metis
qed simp

lemma painted_plot: "painted w h {p} c buf (plot w h c p buf)"
  by (cases p) (auto simp: painted_def plot_def Let_def nth_list_update same_pixel)

lemma painted_trans: "painted w h S c a b \<Longrightarrow> painted w h T c b d \<Longrightarrow> painted w h (S \<union> T) c a d"
  by (simp add: painted_def)

lemma painted_nothing: "painted w h {} c a a"
  by (simp add: painted_def)

lemma painted_fold: "painted w h (set cells) c buf (fold (plot w h c) cells buf)"
proof (induction cells arbitrary: buf)
  case (Cons p cells)
  then show ?case
    using painted_trans [OF painted_plot Cons] by simp
qed (simp add: painted_nothing)

lemma painted_length: "painted w h S c a b \<Longrightarrow> length b = length a"
  by (simp add: painted_def)

section \<open>Cells\<close>

lemma block_cells_iff: "(a, b) \<in> set (block_cells px py s) \<longleftrightarrow> px \<le> a \<and> a < px + s \<and> py \<le> b \<and> b < py + s"
proof
  assume r: "px \<le> a \<and> a < px + s \<and> py \<le> b \<and> b < py + s"
  then have "b - py < s" "a - px < s" "(a, b) = (px + (a - px), py + (b - py))"
    by auto
  then show "(a, b) \<in> set (block_cells px py s)"
    unfolding block_cells_def by (simp add: image_iff) (metis atLeastLessThan_iff le0)
qed (auto simp: block_cells_def)

definition rectangle :: "nat \<Rightarrow> nat \<Rightarrow> nat \<Rightarrow> nat \<Rightarrow> (nat \<times> nat) set" where
  "rectangle x y w h = {x..<x + w} \<times> {y..<y + h}"

lemma eighth: "(k::nat) < 8 \<Longrightarrow> k * s + s \<le> 8 * s"
  using mult_le_mono1 [of "Suc k" 8 s] by simp

lemma glyph_cellE:
  assumes "(a, b) \<in> set (glyph_cells x y g s)"
  obtains row col where "row < 8" "col < 8" "bit (g ! row) (7 - col)" "x + col * s \<le> a" "a < x + col * s + s"
    "y + row * s \<le> b" "b < y + row * s + s"
  using assms by (auto simp: glyph_cells_def block_cells_iff)

lemma glyph_cells_inside: "set (glyph_cells x y g s) \<subseteq> rectangle x y (8 * s) (8 * s)"
proof (rule subrelI)
  fix a b assume "(a, b) \<in> set (glyph_cells x y g s)"
  then obtain row col where r: "row < 8" "col < 8" and ab: "x + col * s \<le> a" "a < x + col * s + s"
      "y + row * s \<le> b" "b < y + row * s + s"
    by (rule glyph_cellE)
  have "a < x + 8 * s" "b < y + 8 * s"
    using ab eighth [OF r(1), of s] eighth [OF r(2), of s] by linarith+
  then show "(a, b) \<in> rectangle x y (8 * s) (8 * s)"
    using ab by (simp add: rectangle_def)
qed

lemma glyph_corner:
  assumes "row < 8" and "col < 8" and "0 < s"
  shows "(x + col * s, y + row * s) \<in> set (glyph_cells x y g s) \<longleftrightarrow> bit (g ! row) (7 - col)"
proof
  assume "(x + col * s, y + row * s) \<in> set (glyph_cells x y g s)"
  then obtain r c where rc: "bit (g ! r) (7 - c)" "c * s \<le> col * s" "col * s < c * s + s" "r * s \<le> row * s" "row * s < r * s + s"
    by (elim glyph_cellE) auto
  have "c \<le> col" "r \<le> row"
    using rc(2,4) assms(3) by simp_all
  moreover have "col * s < Suc c * s" "row * s < Suc r * s"
    using rc(3,5) by simp_all
  then have "col < Suc c" "row < Suc r"
    using mult_less_cancel2 by blast+
  ultimately show "bit (g ! row) (7 - col)"
    using rc(1) by (simp add: le_antisym less_Suc_eq_le)
next
  assume "bit (g ! row) (7 - col)"
  then show "(x + col * s, y + row * s) \<in> set (glyph_cells x y g s)"
    using assms unfolding glyph_cells_def
    by (simp add: set_concat) (intro bexI [of _ row] bexI [of _ col], simp_all add: block_cells_iff)
qed

text \<open>The slash, for a positive scale.\<close>

lemma slash_centre:
  assumes "0 < s"
  shows "int s sdiv 2 = int (s div 2)" "4 * int s * int k sdiv (4 * int s) = int k"
    "- (4 * int s) * int k sdiv (4 * int s) = - int k"
  using assms by (auto simp: signed_divide_int_def sgn_mult abs_mult zdiv_int)

lemma slash_cells_eq:
  assumes "0 < s"
  shows "slash_cells x y s = concat (map (\<lambda>k.
      [(nat u, nat v). v \<leftarrow> [int (y + 5 * s) - int k - int (s div 2)..int (y + 5 * s) - int k - int (s div 2) + int s - 1],
         u \<leftarrow> [int (x + 2 * s) + int k - int (s div 2)..int (x + 2 * s) + int k - int (s div 2) + int s - 1],
         u \<ge> 0 \<and> v \<ge> 0]) [0..<Suc (4 * s)])"
proof -
  have e: "int (x + 6 * s) - int (x + 2 * s) = 4 * int s" "int (y + s) - int (y + 5 * s) = - (4 * int s)"
    "max s 1 = s" "max (4 * s) 1 = 4 * s"
    using assms by simp_all
  have n: "max (nat \<bar>4 * int s\<bar>) (nat \<bar>- (4 * int s)\<bar>) = 4 * s" "int (4 * s) = 4 * int s"
    by simp_all
  show ?thesis
    unfolding slash_cells_def Let_def e n slash_centre [OF assms] add_uminus_conv_diff ..
qed

lemma slash_cells_set:
  assumes "0 < s"
  shows "set (slash_cells x y s) = (\<Union>k \<in> {..4 * s}. {(a, b). x + 2 * s + k \<le> a + s div 2 \<and> a + s div 2 < x + 3 * s + k
    \<and> y + 5 * s \<le> b + k + s div 2 \<and> b + k + s div 2 < y + 6 * s})"
proof -
  have k: "set [0..<Suc (4 * s)] = {..4 * s}"
    by auto
  have "set [(nat u, nat v). v \<leftarrow> [int (y + 5 * s) - int k - int (s div 2)..int (y + 5 * s) - int k - int (s div 2) + int s - 1],
         u \<leftarrow> [int (x + 2 * s) + int k - int (s div 2)..int (x + 2 * s) + int k - int (s div 2) + int s - 1],
         u \<ge> 0 \<and> v \<ge> 0] = {(a, b). x + 2 * s + k \<le> a + s div 2 \<and> a + s div 2 < x + 3 * s + k
    \<and> y + 5 * s \<le> b + k + s div 2 \<and> b + k + s div 2 < y + 6 * s}" (is "set ?cs = ?S") for k
  proof (intro set_eqI iffI)
    fix p assume "p \<in> set ?cs"
    then obtain u v where p: "p = (nat u, nat v)" and "u \<ge> 0" "v \<ge> 0"
      and "int (y + 5 * s) - int k - int (s div 2) \<le> v" "v \<le> int (y + 5 * s) - int k - int (s div 2) + int s - 1"
        "int (x + 2 * s) + int k - int (s div 2) \<le> u" "u \<le> int (x + 2 * s) + int k - int (s div 2) + int s - 1"
      by (auto split: if_splits)
    then show "p \<in> ?S"
      unfolding p mem_Collect_eq prod.case by linarith
  next
    fix p assume "p \<in> ?S"
    then obtain a b where p: "p = (a, b)" and "x + 2 * s + k \<le> a + s div 2" "a + s div 2 < x + 3 * s + k"
        "y + 5 * s \<le> b + k + s div 2" "b + k + s div 2 < y + 6 * s"
      by auto
    then have b: "int b \<in> {int (y + 5 * s) - int k - int (s div 2)..int (y + 5 * s) - int k - int (s div 2) + int s - 1}"
        and a: "int a \<in> {int (x + 2 * s) + int k - int (s div 2)..int (x + 2 * s) + int k - int (s div 2) + int s - 1}"
      by auto
    show "p \<in> set ?cs"
      unfolding p set_concat set_map set_upto image_image
      by (rule UN_I [OF b], rule UN_I [OF a]) simp
  qed
  then show ?thesis
    unfolding slash_cells_eq [OF assms] set_concat set_map k by simp
qed

lemma slash_cells_inside: "0 < s \<Longrightarrow> set (slash_cells x y s) \<subseteq> rectangle x y (8 * s) (8 * s)"
  by (auto simp: slash_cells_set rectangle_def)

lemma slash_middle: "0 < s \<Longrightarrow> (x + 4 * s, y + 3 * s) \<in> set (slash_cells x y s)"
  by (auto simp: slash_cells_set intro!: bexI [of _ "2 * s"])

definition char_cells :: "nat \<Rightarrow> nat \<Rightarrow> string \<Rightarrow> nat \<Rightarrow> (nat \<times> nat) set" where
  "char_cells x y ch scale = set (glyph_cells x y (get_glyph (char_number ch)) scale)
     \<union> (if ch = ''0'' then set (slash_cells x y scale) else {})"

fun text_cells :: "nat \<Rightarrow> nat \<Rightarrow> string list \<Rightarrow> nat \<Rightarrow> (nat \<times> nat) set" where
  "text_cells x y [] scale = {}"
| "text_cells x y (ch # chs) scale = char_cells x y ch scale \<union> text_cells (x + 8 * scale) y chs scale"

lemma painted_char: "painted w h (char_cells x y ch scale) c buf (draw_char_argb w h x y ch c scale buf)"
  unfolding draw_char_argb_def char_cells_def Let_def using painted_trans [OF painted_fold painted_fold] painted_fold
  by simp

lemma painted_chars: "painted w h (text_cells x y chs scale) c buf (draw_chars w h x y chs c scale buf)"
proof (induction chs arbitrary: x buf)
  case (Cons ch chs)
  then show ?case
    using painted_trans [OF painted_char Cons] by simp
qed (simp add: painted_nothing)

lemma painted_string: "painted w h (text_cells x y (chars_of txt) scale) c buf (draw_string_argb w h x y txt c scale buf)"
  by (simp add: draw_string_argb_def painted_chars)

lemma painted_fitted:
  "painted w h (text_cells x y (chars_of (fit_text txt (max_width div max (8 * scale) 1))) scale) c buf
     (draw_fitted_string_argb w h x y txt c scale max_width buf)"
  by (simp add: draw_fitted_string_argb_def painted_string)

section \<open>Extent\<close>

lemma char_cells_inside: "0 < s \<Longrightarrow> char_cells x y ch s \<subseteq> rectangle x y (8 * s) (8 * s)"
  using glyph_cells_inside slash_cells_inside by (auto simp: char_cells_def)

lemma text_cells_inside: "0 < s \<Longrightarrow> text_cells x y chs s \<subseteq> rectangle x y (8 * s * length chs) (8 * s)"
proof (induction chs arbitrary: x)
  case (Cons ch chs)
  have "rectangle x y (8 * s) (8 * s) \<subseteq> rectangle x y (8 * s * length (ch # chs)) (8 * s)"
    by (auto simp: rectangle_def)
  moreover have "rectangle (x + 8 * s) y (8 * s * length chs) (8 * s) \<subseteq> rectangle x y (8 * s * length (ch # chs)) (8 * s)"
    by (auto simp: rectangle_def)
  ultimately show ?case
    using Cons char_cells_inside [of s x y ch] by (simp only: text_cells.simps) blast
qed simp

section \<open>Characters of a cut text\<close>

lemma chars_of_append: "t = [] \<or> \<not> is_cont (hd t) \<Longrightarrow> chars_of (s @ t) = chars_of s @ chars_of t"
proof (induction s rule: chars_of.induct)
  case (2 c cs)
  have "takeWhile is_cont (cs @ t) = takeWhile is_cont cs" "dropWhile is_cont (cs @ t) = dropWhile is_cont cs @ t"
    using 2(2) by (cases "\<forall>x \<in> set cs. is_cont x"; cases t;
        auto simp: takeWhile_append dropWhile_append takeWhile_eq_all_conv [THEN iffD2])+
  then show ?case
    using 2 by simp
qed simp

lemma chars_of_one: "\<forall>x \<in> set ts. is_cont x \<Longrightarrow> chars_of (c # ts) = [c # ts]"
proof -
  assume "\<forall>x \<in> set ts. is_cont x"
  then have "takeWhile is_cont ts = ts" "dropWhile is_cont ts = []"
    by simp_all
  then show ?thesis
    by (simp only: chars_of.simps)
qed

lemma chars_of_take: "chars_of (concat (take n (chars_of s))) = take n (chars_of s)"
proof (induction s arbitrary: n rule: chars_of.induct)
  case (2 c cs)
  show ?case
  proof (cases n)
    case (Suc k)
    let ?rest = "concat (take k (chars_of (dropWhile is_cont cs)))"
    have rest: "?rest = [] \<or> \<not> is_cont (hd ?rest)"
    proof (cases "dropWhile is_cont cs")
      case (Cons d ds)
      then have "\<not> is_cont d"
        using hd_dropWhile [of is_cont cs] by auto
      then show ?thesis
        by (cases k) (simp_all add: Cons)
    next
      case Nil
      show ?thesis
        unfolding Nil by simp
    qed
    have one: "chars_of (c # takeWhile is_cont cs) = [c # takeWhile is_cont cs]"
      by (rule chars_of_one) (blast dest: set_takeWhileD)
    have "chars_of ((c # takeWhile is_cont cs) @ ?rest) = chars_of (c # takeWhile is_cont cs) @ chars_of ?rest"
      using rest by (rule chars_of_append)
    then have "chars_of ((c # takeWhile is_cont cs) @ ?rest) = [c # takeWhile is_cont cs] @ take k (chars_of (dropWhile is_cont cs))"
      unfolding one 2 .
    moreover have "concat (take n (chars_of (c # cs))) = (c # takeWhile is_cont cs) @ ?rest"
      by (simp add: Suc)
    ultimately show ?thesis
      by (simp only: Suc chars_of.simps take_Suc_Cons append_Cons append_Nil)
  qed simp
qed simp

lemma char_count_take: "char_count (take_chars n s) = min n (char_count s)"
  by (simp add: char_count_def take_chars_def chars_of_take min.commute)

lemma char_count_fit: "char_count (fit_text txt n) \<le> n"
proof -
  have "chars_of ''...'' = [''.'', ''.'', ''.'']"
    by code_simp
  then have "char_count (s @ ''...'') = char_count s + 3" for s
    unfolding char_count_def by (subst chars_of_append) (simp_all add: is_cont_def code_of_def)
  then show ?thesis
    by (auto simp: fit_text_def Let_def char_count_take)
qed

section \<open>Property\<close>

text \<open>
  A fitted text stays in its column: whatever the text, every pixel outside the rectangle of
  \<open>max_width\<close> by one line of glyphs keeps its colour, the slash through zeros included, and the buffer keeps its size.
\<close>

theorem fitted_text_stays_in_column:
  assumes "0 < scale" and "px < w" and "py < h" and "py * w + px < length buf"
    and "\<not> (x \<le> px \<and> px < x + max_width \<and> y \<le> py \<and> py < y + 8 * scale)"
  shows "draw_fitted_string_argb w h x y txt color scale max_width buf ! (py * w + px) = buf ! (py * w + px)
    \<and> length (draw_fitted_string_argb w h x y txt color scale max_width buf) = length buf"
proof -
  let ?n = "max_width div max (8 * scale) 1"
  let ?cells = "text_cells x y (chars_of (fit_text txt ?n)) scale"
  have "8 * scale * length (chars_of (fit_text txt ?n)) \<le> 8 * scale * ?n"
    using char_count_fit [of "txt" "?n"] by (intro mult_le_mono2) (simp add: char_count_def)
  also have "\<dots> \<le> max_width"
    using assms(1) by (simp add: max_def)
  finally have "?cells \<subseteq> rectangle x y max_width (8 * scale)"
    using text_cells_inside [OF assms(1), of x y "chars_of (fit_text txt ?n)"] by (auto simp: rectangle_def)
  then have "(px, py) \<notin> ?cells"
    using assms(5) by (auto simp: rectangle_def)
  then show ?thesis
    using painted_fitted [of w h x y "txt" max_width scale color buf] assms(2-4) by (simp add: painted_def)
qed

theorem fitted_text_stays_in_column_witness:
  "draw_fitted_string_argb 32 16 0 0 ''100%'' 7 1 24 (replicate 512 0) ! (3 * 32 + 24) = 0"
  using fitted_text_stays_in_column [of 1 24 32 3 16 "replicate 512 0" 0 24 0 "''100%''" 7] by simp

end
