(* ===== verification/Dashboard_Correct.thy ===== *)
theory Dashboard_Correct
  imports Dashboard Text_Correct
begin

text \<open>
  What the idle screen shows: the picture determines the pairing code, and on the common screens it lists one of the
  device's addresses whatever their number.  The feeding thread pushes at most one frame per second.
\<close>

section \<open>Layout\<close>

lemma scale_ge: "2 \<le> dash_scale w"
  by (simp add: dash_scale_def)

lemma scale_cases: "dash_scale w = w div 480 \<or> dash_scale w = 2"
  by (simp add: dash_scale_def max_def)

lemma layout:
  "dash_margin w = 20 * dash_scale w" "header_h w = 60 * dash_scale w" "content_y w = 95 * dash_scale w"
  "code_scale w = 2 * dash_scale w" "code_y w = 123 * dash_scale w" "status_y w = 157 * dash_scale w"
  "addresses_y w = 199 * dash_scale w" "box_w w = w - 40 * dash_scale w" "box_h w h = h - 40 * dash_scale w"
  "line_height w = 14 * dash_scale w"
  using scale_ge [of w]
  by (simp_all add: dash_margin_def header_h_def content_y_def code_scale_def code_y_def status_y_def addresses_y_def
      box_w_def box_h_def line_height_def)

lemma scale_fits: "480 \<le> w \<Longrightarrow> 240 * dash_scale w \<le> w"
  using div_times_less_eq_dividend [of w 480] scale_cases [of w] by linarith

text \<open>On such a screen nothing is subtracted from less.\<close>

lemma no_underflow:
  assumes "252 \<le> w" and "60 * dash_scale w \<le> h"
  shows "dash_margin w * 2 \<le> w" "dash_margin w * 2 \<le> h"
    "12 * 8 * dash_scale w + 20 * dash_scale w div 2 \<le> dash_margin w + box_w w"
    "40 * dash_scale w \<le> dash_margin w + box_h w h"
proof -
  have "126 * dash_scale w \<le> w"
    using assms(1) div_times_less_eq_dividend [of w 480] scale_cases [of w] by linarith
  then show "dash_margin w * 2 \<le> w" "dash_margin w * 2 \<le> h"
    "12 * 8 * dash_scale w + 20 * dash_scale w div 2 \<le> dash_margin w + box_w w"
    "40 * dash_scale w \<le> dash_margin w + box_h w h"
    using assms(2) by (simp_all add: layout)
qed

section \<open>Glyphs of codes\<close>

definition letter_glyph :: "char \<Rightarrow> byte list" where
  "letter_glyph a = get_glyph (char_number [a])"

lemma letters_distinct: "distinct (map letter_glyph (filter (\<lambda>a. a \<noteq> CHR ''0'') PAIRING_CODE_ALPHABET))"
  by code_simp

lemma glyph_rows: "\<forall>a \<in> set PAIRING_CODE_ALPHABET. length (letter_glyph a) = 8"
  by code_simp

lemma zero_differs: "\<forall>b \<in> set (filter (\<lambda>b. b \<noteq> CHR ''0'' \<and> b \<noteq> CHR ''O'') PAIRING_CODE_ALPHABET).
    \<exists>row \<in> set [0..<8]. \<exists>col \<in> set [0..<8].
      bit (letter_glyph (CHR ''0'') ! row) (7 - col) \<and> \<not> bit (letter_glyph b ! row) (7 - col)"
  by code_simp

lemma oh_differs: "\<not> bit (letter_glyph (CHR ''O'') ! 3) 3"
  by code_simp

lemma letter_corner:
  assumes "row < 8" and "col < 8" and "0 < s" and "bit (letter_glyph a ! row) (7 - col)"
  shows "(x + col * s, y + row * s) \<in> char_cells x y [a] s"
  using assms by (simp add: char_cells_def glyph_corner letter_glyph_def)

lemma letter_no_corner:
  assumes "row < 8" and "col < 8" and "0 < s" and "\<not> bit (letter_glyph a ! row) (7 - col)" and "a \<noteq> CHR ''0''"
  shows "(x + col * s, y + row * s) \<notin> char_cells x y [a] s"
  using assms by (simp add: char_cells_def glyph_corner letter_glyph_def)

text \<open>Two characters of the alphabet never cover the same cells.\<close>

lemma zero_cells_differ:
  assumes "b \<in> set PAIRING_CODE_ALPHABET" and "b \<noteq> CHR ''0''" and "0 < s"
  shows "\<exists>p. p \<in> char_cells x y [CHR ''0''] s \<and> p \<notin> char_cells x y [b] s"
proof (cases "b = CHR ''O''")
  case True
  have "(x + 4 * s, y + 3 * s) \<in> char_cells x y [CHR ''0''] s"
    using slash_middle [OF assms(3)] by (simp add: char_cells_def)
  moreover have "(x + 4 * s, y + 3 * s) \<notin> char_cells x y [b] s"
    using letter_no_corner [of 3 4 s b x y] oh_differs True assms(2,3) by simp
  ultimately show ?thesis
    by blast
next
  case False
  then obtain row col where "row < 8" "col < 8" "bit (letter_glyph (CHR ''0'') ! row) (7 - col)"
      "\<not> bit (letter_glyph b ! row) (7 - col)"
    using zero_differs assms(1,2) by auto
  then show ?thesis
    using letter_corner letter_no_corner assms(2,3) by blast
qed

lemma other_cells_differ:
  assumes "a \<in> set PAIRING_CODE_ALPHABET" and "b \<in> set PAIRING_CODE_ALPHABET" and "a \<noteq> b"
    and "a \<noteq> CHR ''0''" and "b \<noteq> CHR ''0''" and "0 < s"
  shows "char_cells x y [a] s \<noteq> char_cells x y [b] s"
proof -
  have "letter_glyph a \<noteq> letter_glyph b"
    using letters_distinct assms(1-5) by (auto simp: distinct_map inj_on_def)
  then obtain row where row: "row < 8" "letter_glyph a ! row \<noteq> letter_glyph b ! row"
    using glyph_rows assms(1,2) by (metis nth_equalityI)
  then obtain k where k: "k < 8" "bit (letter_glyph a ! row) k \<noteq> bit (letter_glyph b ! row) k"
    using bit_word_eqI [of "letter_glyph a ! row" "letter_glyph b ! row"] by auto
  have k7: "7 - k < 8" "7 - (7 - k) = k"
    using k(1) by auto
  have "(x + (7 - k) * s, y + row * s) \<in> char_cells x y [a] s \<longleftrightarrow> bit (letter_glyph a ! row) k"
      "(x + (7 - k) * s, y + row * s) \<in> char_cells x y [b] s \<longleftrightarrow> bit (letter_glyph b ! row) k"
    using letter_corner [of row "7 - k" s] letter_no_corner [of row "7 - k" s] row(1) k7 assms(4-6) by metis+
  then show ?thesis
    using k(2) by blast
qed

lemma cells_differ:
  assumes "a \<in> set PAIRING_CODE_ALPHABET" and "b \<in> set PAIRING_CODE_ALPHABET" and "a \<noteq> b" and "0 < s"
  shows "char_cells x y [a] s \<noteq> char_cells x y [b] s"
  using zero_cells_differ [of b s x y] zero_cells_differ [of a s x y] other_cells_differ [of a b s x y] assms by blast

text \<open>In the column of one character a string has the cells of that character.\<close>

lemma cell_of_column:
  assumes "i < length chs" and "0 < s" and "p \<in> rectangle (x + 8 * s * i) y (8 * s) (8 * s)"
  shows "p \<in> text_cells x y chs s \<longleftrightarrow> p \<in> char_cells (x + 8 * s * i) y (chs ! i) s"
  using assms
proof (induction chs arbitrary: x i)
  case (Cons ch chs)
  show ?case
  proof (cases i)
    case 0
    then have "p \<notin> text_cells (x + 8 * s) y chs s"
      using Cons.prems text_cells_inside [of s "x + 8 * s" y chs] by (auto simp: rectangle_def)
    then show ?thesis
      by (simp add: 0)
  next
    case (Suc j)
    then have p: "p \<in> rectangle (x + 8 * s + 8 * s * j) y (8 * s) (8 * s)"
      using Cons.prems by (simp add: algebra_simps)
    then have "p \<notin> char_cells x y ch s"
      using Cons.prems(2) char_cells_inside [of s x y ch] by (auto simp: rectangle_def)
    then show ?thesis
      using Cons.IH [OF _ Cons.prems(2) p] Cons.prems(1) Suc by (simp add: algebra_simps)
  qed
qed simp

lemma ascii_chars: "\<forall>c \<in> set s. \<not> is_cont c \<Longrightarrow> chars_of s = map (\<lambda>c. [c]) s"
proof (induction s)
  case (Cons c cs)
  then have "takeWhile is_cont cs = []" "dropWhile is_cont cs = cs"
    by (cases cs; simp)+
  then show ?case
    using Cons by simp
qed simp

lemma code_chars: "set c \<subseteq> set PAIRING_CODE_ALPHABET \<Longrightarrow> chars_of c = map (\<lambda>a. [a]) c"
proof -
  have "list_all (\<lambda>c. \<not> is_cont c) PAIRING_CODE_ALPHABET"
    by code_simp
  then show "set c \<subseteq> set PAIRING_CODE_ALPHABET \<Longrightarrow> chars_of c = map (\<lambda>a. [a]) c"
    by (intro ascii_chars) (auto simp: list_all_iff)
qed

section \<open>Drawing below a line\<close>

text \<open>\<open>same_above\<close>: nothing changed above the row \<open>t\<close>; \<open>same_below\<close>: nothing from the row \<open>t\<close> on.\<close>

definition same_above :: "nat \<Rightarrow> nat \<Rightarrow> nat \<Rightarrow> u32 list \<Rightarrow> u32 list \<Rightarrow> bool" where
  "same_above w h t a b \<longleftrightarrow> length b = length a
     \<and> (\<forall>x y. x < w \<longrightarrow> y < h \<longrightarrow> y < t \<longrightarrow> y * w + x < length a \<longrightarrow> b ! (y * w + x) = a ! (y * w + x))"

lemma same_above_trans: "same_above w h t a b \<Longrightarrow> same_above w h t b c \<Longrightarrow> same_above w h t a c"
  by (simp add: same_above_def)

lemma same_above_refl: "same_above w h t a a"
  by (simp add: same_above_def)

lemma painted_above: "painted w h S c a b \<Longrightarrow> \<forall>(x, y) \<in> S. t \<le> y \<Longrightarrow> same_above w h t a b"
  by (fastforce simp: painted_def same_above_def)

lemma text_rows: "0 < s \<Longrightarrow> t \<le> y \<Longrightarrow> \<forall>(a, b) \<in> text_cells x y chs s. t \<le> b"
  using text_cells_inside [of s x y chs] by (auto simp: rectangle_def)

lemma fitted_above: "0 < s \<Longrightarrow> t \<le> y \<Longrightarrow> same_above w h t buf (draw_fitted_string_argb w h x y txt c s m buf)"
  by (rule painted_above [OF painted_fitted]) (rule text_rows)

lemma string_above: "0 < s \<Longrightarrow> t \<le> y \<Longrightarrow> same_above w h t buf (draw_string_argb w h x y txt c s buf)"
  by (rule painted_above [OF painted_string]) (rule text_rows)

lemma cloud_above: "t \<le> y \<Longrightarrow> same_above w h t buf (draw_cloud_icon_argb w h x y c s buf)"
  unfolding draw_cloud_icon_argb_def
  by (rule painted_above [OF painted_fold]) (auto simp: cloud_cells_def block_cells_iff)

lemma address_above: "t \<le> y \<Longrightarrow> same_above w h t buf (draw_address w h cip i a y buf)"
  using scale_ge [of w]
  by (auto simp: draw_address_def Let_def split: prod.split intro!: string_above same_above_trans [OF string_above cloud_above])

lemma addresses_above: "t \<le> y \<Longrightarrow> same_above w h t buf (draw_addresses w h cip i as y buf)"
proof (induction as arbitrary: i y buf)
  case (Cons a as)
  have step: "same_above w h t buf (draw_address w h cip i a y buf)"
    by (rule address_above) (rule Cons.prems)
  show ?case
    using step same_above_trans [OF step Cons.IH [of "y + line_height w"]] Cons.prems by (simp add: Let_def)
qed (simp add: same_above_refl)

lemma status_above: "t \<le> status_y w \<Longrightarrow> same_above w h t buf (draw_status w h l c buf)"
  unfolding draw_status_def Let_def using scale_ge [of w]
  by (intro same_above_trans [OF same_above_trans [OF same_above_trans [OF fitted_above fitted_above] fitted_above] fitted_above])
    simp_all

section \<open>The picture before the code\<close>

definition before_code ::
  "bool \<Rightarrow> nat option \<Rightarrow> nat \<Rightarrow> nat \<Rightarrow> nat \<Rightarrow> (string \<times> string) list \<Rightarrow> u32 list \<Rightarrow> u32 list" where
  "before_code cloud_enabled now w h hz ips buf =
     (let s = dash_scale w;
          buf = draw_border w h (draw_header_texts w h hz now (fill_header w h (replicate (length buf) 0xFF0E1017)));
          buf = draw_fitted_string_argb w h (dash_margin w + 30 * s div 2) (content_y w)
                  (pairing_url cloud_enabled ips) 0xFFFFFFFF s (box_w w - 60 * s div 2) buf
      in draw_string_argb w h (dash_margin w + 30 * s div 2) (code_y w + (8 * (code_scale w - s)) div 2) ''PAIRING CODE''
           0xFFFFCC00 s buf)"

lemma dashboard_parts:
  "draw_ip_dashboard_argb cloud_enabled now w h hz ips (Some c) l cl cip buf =
     draw_addresses w h cip 0 ips (addresses_y w) (draw_status w h l cl
       (draw_string_argb w h (code_x w c) (code_y w) c 0xFFFFCC00 (code_scale w) (before_code cloud_enabled now w h hz ips buf)))"
  by (simp add: draw_ip_dashboard_argb_def draw_code_def before_code_def Let_def)

text \<open>A pixel that no operation on a list of lit pixels or texts has painted gold.\<close>

definition plain :: "nat \<Rightarrow> nat \<Rightarrow> nat \<Rightarrow> nat \<Rightarrow> u32 list \<Rightarrow> bool" where
  "plain w h x y buf \<longleftrightarrow> x < w \<and> y < h \<and> length buf = w * h \<and> buf ! (y * w + x) \<noteq> 0xFFFFCC00"

lemma pixel_in_range: "x < w \<Longrightarrow> y < h \<Longrightarrow> y * w + x < w * h" for x :: nat
proof -
  assume "x < w" and "y < h"
  then have "y * w + x < Suc y * w" and "Suc y * w \<le> h * w"
    by (simp, intro mult_le_mono1) simp
  then show ?thesis
    by (simp add: mult.commute)
qed

lemma plain_painted:
  assumes "plain w h x y a" and "painted w h S c a b" and "c \<noteq> 0xFFFFCC00 \<or> (x, y) \<notin> S"
  shows "plain w h x y b"
  using assms pixel_in_range [of x w y h] by (auto simp: plain_def painted_def)

lemma plain_text:
  assumes "plain w h x y a" and "0 < s" and "y < v \<or> v + 8 * s \<le> y"
  shows "plain w h x y (draw_fitted_string_argb w h u v txt c s m a)"
proof (rule plain_painted [OF assms(1) painted_fitted], rule disjI2)
  show "(x, y) \<notin> text_cells u v (chars_of (fit_text txt (m div max (8 * s) 1))) s"
    using text_cells_inside [OF assms(2), of u v] assms(3) by (fastforce simp: rectangle_def)
qed

text \<open>The area of the code, right of its label, is free of gold before the code is drawn.\<close>

lemma code_area_plain:
  assumes "x < w" and "y < h" and "length buf = w * h" and "135 * dash_scale w \<le> x" and "123 * dash_scale w \<le> y"
  shows "plain w h x y (before_code cloud_enabled now w h hz ips buf)"
proof -
  let ?s = "dash_scale w"
  have s: "0 < ?s"
    using scale_ge [of w] by simp
  have "plain w h x y (replicate (length buf) 0xFF0E1017)"
    using assms pixel_in_range [of x w y h] by (simp add: plain_def)
  then have "plain w h x y (fill_header w h (replicate (length buf) 0xFF0E1017))"
    unfolding fill_header_def Let_def by (rule plain_painted [OF _ painted_fold]) simp
  then have "plain w h x y (draw_header_texts w h hz now (fill_header w h (replicate (length buf) 0xFF0E1017)))"
  proof -
    have rows: "20 * ?s + (60 * ?s - 8 * ?s) div 2 + 8 * ?s \<le> y" "20 * ?s + 60 * ?s - 12 * ?s + 8 * ?s \<le> y"
      using assms(5) by linarith+
    assume "plain w h x y (fill_header w h (replicate (length buf) 0xFF0E1017))"
    then show ?thesis
      unfolding draw_header_texts_def Let_def layout
      by (rule plain_text [OF plain_text [OF plain_text]]) (simp_all only: s rows simp_thms)
  qed
  then have "plain w h x y (draw_border w h (draw_header_texts w h hz now (fill_header w h (replicate (length buf) 0xFF0E1017))))"
    unfolding draw_border_def Let_def by (rule plain_painted [OF _ painted_fold]) simp
  then have url: "plain w h x y (draw_fitted_string_argb w h (dash_margin w + 30 * ?s div 2) (content_y w)
      (pairing_url cloud_enabled ips) 0xFFFFFFFF ?s (box_w w - 60 * ?s div 2)
      (draw_border w h (draw_header_texts w h hz now (fill_header w h (replicate (length buf) 0xFF0E1017)))))"
    using s assms(5) by (intro plain_text) (auto simp: layout)
  define cs where "cs = chars_of ''PAIRING CODE''"
  have label: "length cs = 12"
    unfolding cs_def by code_simp
  have "(x, y) \<notin> text_cells (20 * ?s + 30 * ?s div 2) v cs ?s" for v
  proof
    assume "(x, y) \<in> text_cells (20 * ?s + 30 * ?s div 2) v cs ?s"
    then have "x < 20 * ?s + 30 * ?s div 2 + 8 * ?s * 12"
      using text_cells_inside [OF s, of "20 * ?s + 30 * ?s div 2" v cs] by (auto simp: rectangle_def label)
    then show False
      using assms(4) by linarith
  qed
  then show ?thesis
    unfolding before_code_def Let_def
    by (intro plain_painted [OF url painted_string] disjI2) (simp only: layout cs_def not_False_eq_True)
qed

lemma code_x_eq:
  assumes "char_count c = 4"
  shows "code_x w c = max (20 * dash_scale w + (w - 40 * dash_scale w - 64 * dash_scale w) div 2) (135 * dash_scale w)"
proof -
  have "char_count ''PAIRING CODE'' = 12"
    by code_simp
  then show ?thesis
    by (simp only: code_x_def Let_def layout assms) simp
qed

lemma code_x_fits:
  assumes "480 \<le> w"
  shows "max (20 * dash_scale w + (w - 40 * dash_scale w - 64 * dash_scale w) div 2) (135 * dash_scale w) + 64 * dash_scale w \<le> w"
  using scale_fits [OF assms] by (simp add: max_def) linarith

text \<open>In the picture a pixel of the code's area is gold exactly in the cells of the code.\<close>

lemma code_pixel:
  assumes "x < w" and "y < h" and "length buf = w * h" and "135 * dash_scale w \<le> x" and "123 * dash_scale w \<le> y"
    and "y < 157 * dash_scale w"
  shows "draw_ip_dashboard_argb cloud_enabled now w h hz ips (Some c) l cl cip buf ! (y * w + x) = 0xFFFFCC00
    \<longleftrightarrow> (x, y) \<in> text_cells (code_x w c) (code_y w) (chars_of c) (code_scale w)"
proof -
  let ?before = "before_code cloud_enabled now w h hz ips buf"
  let ?drawn = "draw_string_argb w h (code_x w c) (code_y w) c 0xFFFFCC00 (code_scale w) ?before"
  note plain = code_area_plain [OF assms(1-5), of cloud_enabled now hz ips]
  note range = pixel_in_range [OF assms(1,2)]
  have "?drawn ! (y * w + x) = 0xFFFFCC00 \<longleftrightarrow> (x, y) \<in> text_cells (code_x w c) (code_y w) (chars_of c) (code_scale w)"
    using painted_string [of w h "code_x w c" "code_y w" c "code_scale w" "0xFFFFCC00" "?before"] plain range
    by (simp add: painted_def plain_def)
  moreover have "same_above w h (157 * dash_scale w) ?drawn
      (draw_ip_dashboard_argb cloud_enabled now w h hz ips (Some c) l cl cip buf)"
    unfolding dashboard_parts by (intro same_above_trans [OF status_above addresses_above]) (simp_all add: layout)
  moreover have "length ?drawn = w * h"
    using painted_string plain painted_length by (metis plain_def)
  ultimately show ?thesis
    using assms(1,2,6) range by (simp add: same_above_def)
qed

text \<open>Two codes differ in a cell of the area of one character.\<close>

lemma differing_cell:
  assumes "length c = 4" and "set c \<subseteq> set PAIRING_CODE_ALPHABET" and "length d = 4" and "set d \<subseteq> set PAIRING_CODE_ALPHABET"
    and "c \<noteq> d" and "0 < s"
  shows "\<exists>p \<in> rectangle X Y (32 * s) (8 * s). p \<in> text_cells X Y (chars_of c) s \<longleftrightarrow> p \<notin> text_cells X Y (chars_of d) s"
proof -
  obtain i where i: "i < 4" "c ! i \<noteq> d ! i"
    using assms(1,3,5) by (metis nth_equalityI)
  let ?x = "X + 8 * s * i"
  have "char_cells ?x Y [c ! i] s \<noteq> char_cells ?x Y [d ! i] s"
    using i assms(1-4,6) by (intro cells_differ) (auto dest: nth_mem)
  then obtain p where p: "p \<in> char_cells ?x Y [c ! i] s \<longleftrightarrow> p \<notin> char_cells ?x Y [d ! i] s"
    by auto
  have at: "p \<in> rectangle ?x Y (8 * s) (8 * s)"
    using p char_cells_inside [OF assms(6), of ?x Y] by blast
  have bound: "8 * s * i + 8 * s \<le> 32 * s"
    using mult_le_mono2 [of "Suc i" 4 "8 * s"] i(1) by simp
  have "p \<in> rectangle X Y (32 * s) (8 * s)"
  proof (cases p)
    case (Pair x y)
    then have cell: "X + 8 * s * i \<le> x" "x < X + 8 * s * i + 8 * s" "Y \<le> y" "y < Y + 8 * s"
      using at by (simp_all add: rectangle_def)
    have "X \<le> x" "x < X + 32 * s"
      using cell(1,2) bound by linarith+
    then show ?thesis
      using Pair cell(3,4) by (simp add: rectangle_def)
  qed
  moreover have "p \<in> text_cells X Y (chars_of e) s \<longleftrightarrow> p \<in> char_cells ?x Y [e ! i] s"
    if "length e = 4" "set e \<subseteq> set PAIRING_CODE_ALPHABET" for e
    using cell_of_column [of i "chars_of e" s p X Y] at i(1) assms(6) that by (simp add: code_chars)
  ultimately show ?thesis
    using p assms(1-4) by blast
qed

section \<open>Properties\<close>

text \<open>
  Property C29. The picture determines the pairing code: on a screen at least 480 wide and 139 units of the text scale
  high, two different codes of four letters of the alphabet give different pictures, whatever else is shown; zero and
  O differ by the slash, nothing later is drawn over the code and nothing gold is beneath it.
\<close>

theorem picture_determines_code:
  assumes "480 \<le> w" and "139 * dash_scale w \<le> h" and "length buf = w * h"
    and "length c = PAIRING_CODE_LENGTH" and "set c \<subseteq> set PAIRING_CODE_ALPHABET"
    and "length d = PAIRING_CODE_LENGTH" and "set d \<subseteq> set PAIRING_CODE_ALPHABET" and "c \<noteq> d"
  shows "draw_ip_dashboard_argb cloud_enabled now w h hz ips (Some c) l cl cip buf
    \<noteq> draw_ip_dashboard_argb cloud_enabled now w h hz ips (Some d) l cl cip buf"
proof
  let ?s = "dash_scale w"
  assume same: "draw_ip_dashboard_argb cloud_enabled now w h hz ips (Some c) l cl cip buf
    = draw_ip_dashboard_argb cloud_enabled now w h hz ips (Some d) l cl cip buf"
  have four: "length c = 4" "length d = 4" and s: "0 < 2 * ?s"
    using assms(4,6) scale_ge [of w] by (simp_all add: limits)
  have X: "code_x w d = code_x w c" "135 * ?s \<le> code_x w c" "code_x w c + 64 * ?s \<le> w"
    using code_x_eq code_chars assms(5,7) four code_x_fits [OF assms(1)] by (simp_all add: char_count_def)
  obtain x y where at: "(x, y) \<in> rectangle (code_x w c) (123 * ?s) (32 * (2 * ?s)) (8 * (2 * ?s))"
    and cell: "(x, y) \<in> text_cells (code_x w c) (123 * ?s) (chars_of c) (2 * ?s)
      \<longleftrightarrow> (x, y) \<notin> text_cells (code_x w c) (123 * ?s) (chars_of d) (2 * ?s)"
    using differing_cell [OF four(1) assms(5) four(2) assms(7,8) s] by force
  have "x < w" "y < h" "135 * ?s \<le> x" "123 * ?s \<le> y" "y < 157 * ?s"
    using at X(2,3) assms(2) s by (simp_all add: rectangle_def)
  then show False
    using same cell code_pixel [of x w y h buf] assms(3) X(1) by (metis layout(4,5))
qed

lemma picture_sizes: "dash_scale 1920 = 4" "dash_scale 3840 = 8"
  by (simp_all add: dash_scale_def)

theorem picture_determines_code_witness:
  "draw_ip_dashboard_argb True None 1920 1080 60 [] (Some ''A0BC'') ''READY'' ''READY'' None (replicate (1920 * 1080) 0)
   \<noteq> draw_ip_dashboard_argb True None 1920 1080 60 [] (Some ''AOBC'') ''READY'' ''READY'' None (replicate (1920 * 1080) 0)"
  by (rule picture_determines_code) (simp_all add: picture_sizes limits)

text \<open>
  The screen lists one address: when the height is less than 287 units of the text scale, as on 1920x1080
  and 3840x2160, the list ends after its first line, so a device with several addresses shows the same picture as
  one that has only the first of them, although the title announces the device's addresses.
\<close>

theorem screen_lists_one_address:
  assumes "h < 287 * dash_scale w"
  shows "draw_ip_dashboard_argb cloud_enabled now w h hz (a # more_ips) c l cl cip buf
    = draw_ip_dashboard_argb cloud_enabled now w h hz [a] c l cl cip buf"
proof -
  have "addresses_y w + line_height w + line_height w > dash_margin w + box_h w h - 40 * dash_scale w"
    using assms scale_ge [of w] unfolding layout by linarith
  then have "draw_addresses w h cip 0 (a # more_ips) (addresses_y w) b = draw_addresses w h cip 0 [a] (addresses_y w) b" for b
    by (simp add: Let_def)
  moreover have "pairing_url cloud_enabled (a # more_ips) = pairing_url cloud_enabled [a]"
    by (simp add: pairing_url_def)
  ultimately show ?thesis
    by (simp only: draw_ip_dashboard_argb_def Let_def)
qed

theorem screen_lists_one_address_witness:
  "\<forall>b. draw_ip_dashboard_argb True None 1920 1080 60 [(''eth0'', ''10.0.0.7''), (''wlan0'', ''10.0.0.8'')] None ''READY'' ''READY'' None b
   = draw_ip_dashboard_argb True None 1920 1080 60 [(''eth0'', ''10.0.0.7'')] None ''READY'' ''READY'' None b
   \<and> draw_ip_dashboard_argb True None 3840 2160 30 [(''eth0'', ''10.0.0.7''), (''wlan0'', ''10.0.0.8'')] None ''READY'' ''READY'' None b
   = draw_ip_dashboard_argb True None 3840 2160 30 [(''eth0'', ''10.0.0.7'')] None ''READY'' ''READY'' None b"
  by (intro allI conjI screen_lists_one_address) (simp_all add: picture_sizes)

section \<open>The feeding thread\<close>

text \<open>Frames never outnumber the seconds seen, and there is at most one encoder, running only between streams.\<close>

fun second_changes :: "nat \<Rightarrow> (bool \<times> nat \<times> bool) list \<Rightarrow> nat" where
  "second_changes prev [] = 0"
| "second_changes prev ((active, now_secs, spawns) # views) =
     (if \<not> active \<and> now_secs \<noteq> prev then Suc (second_changes now_secs views) else second_changes prev views)"

lemma feeder_paced:
  "fd_raw_frames (fold (feeder_round codec) views s) + fd_encoded_frames (fold (feeder_round codec) views s)
     \<le> fd_raw_frames s + fd_encoded_frames s + second_changes (fd_last_secs s) views"
proof (induction views arbitrary: s)
  case (Cons v views)
  obtain active now_secs spawns where v: "v = (active, now_secs, spawns)"
    by (cases v) auto
  show ?case
    using Cons.IH [of "feeder_round codec v s"] by (auto simp: v feeder_round_def Let_def split: if_splits)
qed simp

lemma feeder_encoders:
  "fd_spawned s = fd_dropped s + (if fd_encoder s then 1 else 0) \<Longrightarrow>
   fd_spawned (feeder_round codec v s) = fd_dropped (feeder_round codec v s) + (if fd_encoder (feeder_round codec v s) then 1 else 0)"
  by (cases v) (auto simp: feeder_round_def Let_def)

end
