(* ===== verification/Cert.thy ===== *)
theory Cert
  imports Config Supervisor
begin

text \<open>
  \<open>src/cert.rs\<close> and the certificate loop of \<open>src/bin/llrdc-management.rs\<close>: when the TLS certificate is replaced, and
  in which order its two files are.  A certificate is the key it is for and the second it ends; the key, the X.509
  encoding and the clock are outside.
\<close>

definition NOT_BEFORE_OFFSET_DAYS :: int where [limits]: "NOT_BEFORE_OFFSET_DAYS = 1"
definition NOT_AFTER_OFFSET_DAYS :: int where [limits]: "NOT_AFTER_OFFSET_DAYS = 13"

section \<open>Where\<close>

text \<open>\<open>get_cert_dir\<close>: \<open>makes\<close> says whether a directory can be created, \<open>there\<close> whether it exists.\<close>

definition get_cert_dir :: "environment \<Rightarrow> (string \<Rightarrow> bool) \<Rightarrow> (string \<Rightarrow> bool) \<Rightarrow> string" where
  "get_cert_dir env makes there =
     (case env ''CERTS_DIR'' of
        Some dir \<Rightarrow> if makes dir then dir
          else if there DEFAULT_CERTS_DIR \<or> makes DEFAULT_CERTS_DIR then DEFAULT_CERTS_DIR else ''.''
      | None \<Rightarrow> if there DEFAULT_CERTS_DIR \<or> makes DEFAULT_CERTS_DIR then DEFAULT_CERTS_DIR else ''.'')"

definition get_cert_and_key_paths :: "environment \<Rightarrow> (string \<Rightarrow> bool) \<Rightarrow> (string \<Rightarrow> bool) \<Rightarrow> string \<times> string" where
  "get_cert_and_key_paths env makes there =
     (get_cert_dir env makes there @ ''/cert.pem'', get_cert_dir env makes there @ ''/key.pem'')"

section \<open>Files\<close>

record certificate =
  ct_key :: nat
  ct_not_before :: int
  ct_not_after :: int

text \<open>A file that cannot be read or holds no certificate is \<open>Unusable\<close>.\<close>

datatype cert_file = Unusable | Holds certificate

record cert_store =
  cf_cert :: "cert_file option"
  cf_key :: "nat option"
  cf_cert_new :: "cert_file option"
  cf_key_new :: "nat option"

definition is_cert_valid :: "int \<Rightarrow> cert_file option \<Rightarrow> bool" where
  "is_cert_valid now_secs f =
     (case f of None \<Rightarrow> False
      | Some Unusable \<Rightarrow> False
      | Some (Holds c) \<Rightarrow> \<not> now_secs + int VALIDITY_REFRESH_BUFFER_SEC \<ge> ct_not_after c)"

definition fresh_certificate :: "int \<Rightarrow> nat \<Rightarrow> certificate" where
  "fresh_certificate now_secs key = \<lparr>ct_key = key, ct_not_before = now_secs - NOT_BEFORE_OFFSET_DAYS * 86400,
     ct_not_after = now_secs + NOT_AFTER_OFFSET_DAYS * 86400\<rparr>"

datatype cert_op =
    Write_Cert_New certificate | Write_Key_New nat | Sync_Cert_New | Sync_Key_New | Mode_Cert_New | Mode_Key_New
  | Rename_Key | Rename_Cert | Sync_Directory

fun apply_op :: "cert_op \<Rightarrow> cert_store \<Rightarrow> cert_store" where
  "apply_op (Write_Cert_New c) s = s\<lparr>cf_cert_new := Some (Holds c)\<rparr>"
| "apply_op (Write_Key_New k) s = s\<lparr>cf_key_new := Some k\<rparr>"
| "apply_op Rename_Key s = s\<lparr>cf_key := cf_key_new s, cf_key_new := None\<rparr>"
| "apply_op Rename_Cert s = s\<lparr>cf_cert := cf_cert_new s, cf_cert_new := None\<rparr>"
| "apply_op _ s = s"

definition identity_ops :: "int \<Rightarrow> nat \<Rightarrow> cert_op list" where
  "identity_ops now_secs key =
     [Write_Cert_New (fresh_certificate now_secs key), Write_Key_New key, Sync_Cert_New, Sync_Key_New,
      Mode_Cert_New, Mode_Key_New, Rename_Key, Rename_Cert, Sync_Directory]"

definition need_generate :: "int \<Rightarrow> cert_store \<Rightarrow> bool" where
  "need_generate now_secs s \<longleftrightarrow> \<not> is_cert_valid now_secs (cf_cert s) \<or> cf_key s = None"

text \<open>\<open>get_or_create_identity\<close> up to the loading of the two files; \<open>steps\<close> is how many file operations are done
  before an error or a crash ends it.\<close>

definition get_or_create_identity :: "int \<Rightarrow> nat \<Rightarrow> nat \<Rightarrow> cert_store \<Rightarrow> cert_store" where
  "get_or_create_identity now_secs key steps s =
     (if need_generate now_secs s then fold apply_op (take steps (identity_ops now_secs key)) s else s)"

definition lower_hex :: "nat \<Rightarrow> char" where
  "lower_hex n = (if n < 10 then char_of (48 + n) else char_of (87 + n))"

definition extract_cert_hash_hex :: "byte list option \<Rightarrow> string" where
  "extract_cert_hash_hex hash =
     (case hash of None \<Rightarrow> []
      | Some bs \<Rightarrow> concat (map (\<lambda>b. [lower_hex (unat b div 16), lower_hex (unat b mod 16)]) bs))"

section \<open>Rotation\<close>

text \<open>One hour of the loop: if the certificate runs out it is replaced, and the restart of the receiver is asked for
  only when all file operations were done and the new files load (\<open>loads\<close>); the flag is whether it was.\<close>

definition rotate_hourly :: "int \<Rightarrow> nat \<Rightarrow> nat \<Rightarrow> bool \<Rightarrow> cert_store \<Rightarrow> cert_store \<times> bool" where
  "rotate_hourly now_secs key steps loads s =
     (if is_cert_valid now_secs (cf_cert s) then (s, False)
      else (get_or_create_identity now_secs key steps s, steps \<ge> length (identity_ops now_secs key) \<and> loads))"

end
