(* ===== verification/Cert_Correct.thy ===== *)
theory Cert_Correct
  imports Cert
begin

text \<open>
  The certificate files: what a rotation that breaks off leaves behind, and what the next start makes of it.
\<close>

section \<open>After a prefix of the operations\<close>

lemma cert_after:
  "cf_cert (fold apply_op (take steps (identity_ops now key)) s)
     = (if steps \<le> 7 then cf_cert s else Some (Holds (fresh_certificate now key)))"
proof -
  have "steps \<in> {0, 1, 2, 3, 4, 5, 6, 7, 8} \<or> 9 \<le> steps"
    by auto
  then show ?thesis
    by (auto simp: identity_ops_def)
qed

lemma key_after:
  "cf_key (fold apply_op (take steps (identity_ops now key)) s) = (if steps \<le> 6 then cf_key s else Some key)"
proof -
  have "steps \<in> {0, 1, 2, 3, 4, 5, 6, 7, 8} \<or> 9 \<le> steps"
    by auto
  then show ?thesis
    by (auto simp: identity_ops_def)
qed

lemma valid_earlier: "is_cert_valid later f \<Longrightarrow> now \<le> later \<Longrightarrow> is_cert_valid now f"
  by (auto simp: is_cert_valid_def split: option.splits cert_file.splits)

lemma fresh_valid: "is_cert_valid now (Some (Holds (fresh_certificate now key)))"
  by (simp add: is_cert_valid_def fresh_certificate_def limits)

definition matching :: "cert_store \<Rightarrow> bool" where
  "matching s \<longleftrightarrow> (\<exists>c. cf_cert s = Some (Holds c) \<and> cf_key s = Some (ct_key c))"

lemma complete_matching:
  "need_generate now s \<Longrightarrow> matching (get_or_create_identity now key 9 s)
     \<and> is_cert_valid now (cf_cert (get_or_create_identity now key 9 s))"
  by (simp add: get_or_create_identity_def matching_def cert_after key_after fresh_valid) (simp add: fresh_certificate_def)

section \<open>Properties\<close>

text \<open>
  Property C31. A rotation may break off anywhere: from a store whose certificate, while it is valid, belongs to the
  key beside it, a start that stops after any number of its file operations and a complete start at a later second
  leave a valid certificate with its own key, although the two files are renamed one after the other.
\<close>

theorem interrupted_rotation_is_repaired:
  assumes "is_cert_valid now (cf_cert s) \<longrightarrow> matching s" and "now \<le> later"
    and "s' = get_or_create_identity later key' 9 (get_or_create_identity now key steps s)"
  shows "matching s' \<and> is_cert_valid later (cf_cert s')"
proof -
  let ?t = "get_or_create_identity now key steps s"
  have "matching ?t" if "\<not> need_generate later ?t"
  proof (cases "need_generate now s \<and> 8 \<le> steps")
    case True
    then show ?thesis
      by (simp add: get_or_create_identity_def matching_def cert_after key_after) (simp add: fresh_certificate_def)
  next
    case False
    then have cert: "cf_cert ?t = cf_cert s"
      by (auto simp: get_or_create_identity_def cert_after)
    then have "matching s"
      using that assms(1,2) valid_earlier by (auto simp: need_generate_def)
    moreover have "is_cert_valid now (cf_cert s)"
      using that assms(2) valid_earlier cert by (auto simp: need_generate_def)
    ultimately have "\<not> need_generate now s"
      by (auto simp: need_generate_def matching_def)
    then show ?thesis
      using \<open>matching s\<close> by (simp add: get_or_create_identity_def)
  qed
  then show ?thesis
    using complete_matching [of later ?t key'] assms(3)
    by (cases "need_generate later ?t") (auto simp: get_or_create_identity_def [of later] need_generate_def)
qed

definition expired_store :: cert_store where
  "expired_store = \<lparr>cf_cert = Some (Holds \<lparr>ct_key = 1, ct_not_before = 0, ct_not_after = 1209600\<rparr>), cf_key = Some 1,
     cf_cert_new = None, cf_key_new = None\<rparr>"

theorem interrupted_rotation_is_repaired_witness:
  "matching (get_or_create_identity 1200000 3 9 (get_or_create_identity 1200000 2 7 expired_store))"
  by (rule interrupted_rotation_is_repaired [of 1200000 expired_store 1200000, OF _ _ refl, THEN conjunct1])
    (simp_all add: expired_store_def matching_def)

text \<open>The hypothesis is needed: a valid certificate whose key is gone is replaced too, and a break between the two
  renames leaves it beside the new key, which later starts then take as they are until it runs out.\<close>

lemma lost_key_leaves_mismatch:
  assumes "cf_cert s = Some (Holds c)" and "is_cert_valid now (cf_cert s)" and "cf_key s = None" and "key \<noteq> ct_key c"
    and "is_cert_valid later (cf_cert s)"
  shows "get_or_create_identity later key' steps (get_or_create_identity now key 7 s) = get_or_create_identity now key 7 s
    \<and> \<not> matching (get_or_create_identity now key 7 s)"
  using assms by (simp add: get_or_create_identity_def need_generate_def matching_def cert_after key_after)

end
