(* ===== verification/Bitstream.thy ===== *)
theory Bitstream
  imports Reassembly Config Management
begin

text \<open>
  \<open>src/v4l2_decoder.rs\<close>, the diagnostics behind the reassembly: \<open>validate_access_unit_bitstream\<close> scans a finished
  access unit for Annex B start codes and names the NAL units behind them, and \<open>process_udp_chunk\<close> prints the
  delivery rate.  Indexing a vector out of its range panics: the scan is \<open>None\<close> then.  That the scan equals a
  reference that looks at every offset is proved here.
\<close>

unbundle bit_operations_syntax

section \<open>NAL units\<close>

definition nal_type :: "string \<Rightarrow> byte \<Rightarrow> byte" where
  "nal_type codec header_byte =
     (if codec = ''hevc'' then drop_bit 1 header_byte AND 0x3f else header_byte AND 0x1f)"

definition nal_name :: "string \<Rightarrow> byte \<Rightarrow> string" where
  "nal_name codec t =
     (if codec = ''hevc'' \<and> t = 32 then ''VPS''
      else if codec = ''hevc'' \<and> t = 33 then ''SPS''
      else if codec = ''hevc'' \<and> t = 34 then ''PPS''
      else if codec = ''hevc'' \<and> t = 35 then ''AUD''
      else if codec = ''hevc'' \<and> (t = 19 \<or> t = 20) then ''IDR''
      else if codec = ''hevc'' \<and> t = 21 then ''CRA''
      else if codec = ''hevc'' \<and> (t = 0 \<or> t = 1) then ''P-SLICE''
      else if codec = ''h264'' \<and> t = 7 then ''SPS''
      else if codec = ''h264'' \<and> t = 8 then ''PPS''
      else if codec = ''h264'' \<and> t = 9 then ''AUD''
      else if codec = ''h264'' \<and> t = 5 then ''IDR''
      else if codec = ''h264'' \<and> t = 1 then ''P-SLICE''
      else ''NAL'')"

definition nal_label :: "string \<Rightarrow> byte \<Rightarrow> string" where
  "nal_label codec t = nal_name codec t @ ''('' @ word_to_string t @ '')''"

section \<open>The scan\<close>

text \<open>\<open>buf[i] == a && buf[i+1] == b && ...\<close>: the comparison stops at the first difference, and an index that is
  reached has to be in range.\<close>

fun bytes_at :: "byte list \<Rightarrow> nat \<Rightarrow> byte list \<Rightarrow> bool option" where
  "bytes_at buf i [] = Some True"
| "bytes_at buf i (x # xs) =
     (if i < length buf then (if buf ! i = x then bytes_at buf (Suc i) xs else Some False) else None)"

function scan_nals :: "string \<Rightarrow> byte list \<Rightarrow> nat \<Rightarrow> bool \<Rightarrow> string list \<Rightarrow> (bool \<times> string list) option" where
  "scan_nals codec buf i has_start_code nal_types =
     (if i \<le> length buf - 4 then
        case bytes_at buf i [0, 0, 0, 1] of None \<Rightarrow> None
        | Some is_start_4 \<Rightarrow>
          (case bytes_at buf i [0, 0, 1] of None \<Rightarrow> None
           | Some is_start_3 \<Rightarrow>
             if is_start_4 \<or> is_start_3 then
               let header_offset = (if is_start_4 then i + 4 else i + 3)
               in scan_nals codec buf header_offset True
                    (if header_offset < length buf
                     then nal_types @ [nal_label codec (nal_type codec (buf ! header_offset))] else nal_types)
             else scan_nals codec buf (i + 1) has_start_code nal_types)
      else Some (has_start_code, nal_types))"
  by pat_completeness auto
termination
  by (relation "measure (\<lambda>(codec, buf, i, has_start_code, nal_types). length buf + 1 - i)") auto

declare scan_nals.simps [simp del] bytes_at.simps [simp del]

section \<open>The report\<close>

definition is_keyframe :: "string list \<Rightarrow> bool" where
  "is_keyframe nal_types \<longleftrightarrow> list_ex (\<lambda>t. starts_with t ''IDR'' \<or> starts_with t ''CRA'') nal_types"

definition has_vps :: "string list \<Rightarrow> bool" where
  "has_vps nal_types \<longleftrightarrow> list_ex (\<lambda>t. starts_with t ''VPS'') nal_types"

fun join_with :: "string \<Rightarrow> string list \<Rightarrow> string" where
  "join_with sep [] = []"
| "join_with sep [x] = x"
| "join_with sep (x # y # xs) = x @ sep @ join_with sep (y # xs)"

definition is_reported :: "video_frame \<Rightarrow> bool \<Rightarrow> string list \<Rightarrow> bool" where
  "is_reported f has_start_code nal_types \<longleftrightarrow>
     vf_seq f = 1 \<or> vf_seq f mod 60 = 0 \<or> \<not> has_start_code
     \<or> is_keyframe nal_types \<and> vf_codec f = ''hevc'' \<and> \<not> has_vps nal_types"

definition validator_line :: "instant \<Rightarrow> video_frame \<Rightarrow> bool \<Rightarrow> string list \<Rightarrow> string" where
  "validator_line now f has_start_code nal_types =
     ''[BITSTREAM VALIDATOR] seq='' @ word_to_string (vf_seq f) @ '' (''
     @ (if is_keyframe nal_types then ''KEYFRAME'' else ''DELTA'') @ '', ''
     @ word_to_string (vf_width f) @ ''x'' @ word_to_string (vf_height f) @ '', ''
     @ nat_to_string (length (vf_access_unit f)) @ ''B, reassembly=''
     @ nat_to_string ((now - vf_first_packet_at f) div 1000) @ ''us) | NALs: [''
     @ join_with '', '' nal_types @ ''] | ValidStartCode: '' @ (if has_start_code then ''YES'' else ''NO'')"

text \<open>What is printed about a frame: \<open>None\<close> if the scan panics, and nothing unless diagnostics are enabled.\<close>

definition validate_access_unit_bitstream :: "environment \<Rightarrow> instant \<Rightarrow> video_frame \<Rightarrow> string list option" where
  "validate_access_unit_bitstream env now f =
     (if \<not> codec_diagnostics_enabled env then Some []
      else
        let buf = vf_access_unit f
        in if length buf < 4
           then Some [''[BITSTREAM ERROR] seq='' @ word_to_string (vf_seq f) @ '' access unit length too short (''
                      @ nat_to_string (length buf) @ '' bytes)'']
           else case scan_nals (vf_codec f) buf 0 False [] of None \<Rightarrow> None
                | Some (has_start_code, nal_types) \<Rightarrow>
                  Some (if is_reported f has_start_code nal_types
                        then [validator_line now f has_start_code nal_types] else []))"

definition PERCENT_SCALE :: f64 where [limits]: "PERCENT_SCALE = Finite False 100"

text \<open>The rate over all frames so far, printed for the first and each sixtieth one; \<open>completed_count as f64\<close> rounds.\<close>

definition delivery_rate :: "u64 \<Rightarrow> u64 \<Rightarrow> f64" where
  "delivery_rate completed_count total_attempts =
     (if total_attempts > 0
      then f64_mul (f64_div (f64_of_nat (unat completed_count)) (f64_of_nat (unat total_attempts))) PERCENT_SCALE
      else PERCENT_SCALE)"

definition integrity_line :: "reassembly \<Rightarrow> string" where
  "integrity_line s =
     (let completed_count = stats_completed s; timeout_cnt = stats_dropped_timeout s; evicted_cnt = stats_dropped_evicted s
      in ''[FRAME INTEGRITY] Completed='' @ word_to_string completed_count
         @ '' DroppedTimeout='' @ word_to_string timeout_cnt @ '' Evicted='' @ word_to_string evicted_cnt
         @ '' TotalChunks='' @ word_to_string (stats_chunks s) @ '' DeliveryRate=''
         @ fixed1 (delivery_rate completed_count (completed_count + timeout_cnt + evicted_cnt)) @ ''%'')"

definition reports_integrity :: "environment \<Rightarrow> reassembly \<Rightarrow> bool" where
  "reports_integrity env s \<longleftrightarrow>
     codec_diagnostics_enabled env \<and> (stats_completed s = 1 \<or> stats_completed s mod 60 = 0)"

section \<open>The reference\<close>

text \<open>Every offset with the three bytes of a start code and a byte behind them.\<close>

definition start_code_at :: "byte list \<Rightarrow> nat \<Rightarrow> bool" where
  "start_code_at buf p \<longleftrightarrow> buf ! p = 0 \<and> buf ! (p + 1) = 0 \<and> buf ! (p + 2) = 1"

definition nal_offsets :: "nat \<Rightarrow> byte list \<Rightarrow> nat list" where
  "nal_offsets i buf = filter (start_code_at buf) [i..<length buf - 3]"

definition nal_labels :: "string \<Rightarrow> nat \<Rightarrow> byte list \<Rightarrow> string list" where
  "nal_labels codec i buf = map (\<lambda>p. nal_label codec (nal_type codec (buf ! (p + 3)))) (nal_offsets i buf)"

text \<open>A long start code in the last four bytes has no NAL unit behind it, but counts as one.\<close>

definition ends_in_start_code :: "byte list \<Rightarrow> bool" where
  "ends_in_start_code buf \<longleftrightarrow> drop (length buf - 4) buf = [0, 0, 0, 1]"

definition valid_start_code :: "byte list \<Rightarrow> bool" where
  "valid_start_code buf \<longleftrightarrow> nal_offsets 0 buf \<noteq> [] \<or> ends_in_start_code buf"

lemma offsets_end: "length buf - 3 \<le> i \<Longrightarrow> nal_offsets i buf = []"
  by (simp add: nal_offsets_def)

lemma offsets_skip: "\<not> start_code_at buf i \<Longrightarrow> nal_offsets i buf = nal_offsets (Suc i) buf"
  by (cases "i < length buf - 3") (simp_all add: nal_offsets_def upt_conv_Cons)

lemma offsets_take: "start_code_at buf i \<Longrightarrow> i < length buf - 3 \<Longrightarrow> nal_offsets i buf = i # nal_offsets (Suc i) buf"
  by (simp add: nal_offsets_def upt_conv_Cons)

lemma offsets_short:
  assumes "start_code_at buf i" and "i < length buf - 3"
  shows "nal_offsets i buf = i # nal_offsets (i + 3) buf"
proof -
  have "\<not> start_code_at buf (Suc i)" "\<not> start_code_at buf (Suc (Suc i))"
    using assms(1) by (auto simp: start_code_at_def)
  then show ?thesis
    using assms by (simp add: offsets_take offsets_skip numeral_3_eq_3)
qed

lemma offsets_long:
  assumes "buf ! i = 0" and "start_code_at buf (i + 1)"
  shows "nal_offsets i buf = (if i + 4 < length buf then [i + 1] else []) @ nal_offsets (i + 4) buf"
proof -
  have "\<not> start_code_at buf i"
    using assms by (auto simp: start_code_at_def)
  then have "nal_offsets i buf = nal_offsets (i + 1) buf"
    by (simp add: offsets_skip)
  moreover have "nal_offsets (i + 1) buf = (i + 1) # nal_offsets (i + 1 + 3) buf" if "i + 4 < length buf"
    using assms(2) that by (intro offsets_short) auto
  ultimately show ?thesis
    by (auto simp: offsets_end add.commute)
qed

lemma four_bytes:
  assumes "i + 4 \<le> length buf"
  shows "bytes_at buf i [0, 0, 0, 1] = Some (buf ! i = 0 \<and> start_code_at buf (i + 1))"
    and "bytes_at buf i [0, 0, 1] = Some (start_code_at buf i)"
  using assms by (simp_all add: start_code_at_def bytes_at.simps)

lemma ends_iff:
  assumes "4 \<le> length buf"
  shows "ends_in_start_code buf \<longleftrightarrow> buf ! (length buf - 4) = 0 \<and> start_code_at buf (length buf - 3)"
proof -
  define n where "n = length buf - 4"
  have n: "length buf = n + 4" "length buf - 3 = n + 1"
    using assms by (simp_all add: n_def)
  have "drop n buf = [buf ! n, buf ! (n + 1), buf ! (n + 2), buf ! (n + 3)]"
    using n by (intro nth_equalityI) (auto simp: less_Suc_eq numeral_eq_Suc)
  then show ?thesis
    by (simp add: ends_in_start_code_def start_code_at_def n n_def [symmetric] numeral_eq_Suc)
qed

text \<open>The loop from any offset on.\<close>

lemma scan_from:
  assumes "4 \<le> length buf"
  shows "scan_nals codec buf i h ts =
    Some (h \<or> nal_offsets i buf \<noteq> [] \<or> i + 4 \<le> length buf \<and> ends_in_start_code buf, ts @ nal_labels codec i buf)"
proof (induction "length buf + 1 - i" arbitrary: i h ts rule: less_induct)
  case less
  note scan = scan_nals.simps [of codec buf i h ts]
  show ?case
  proof (cases "i + 4 \<le> length buf")
    case False
    then have "\<not> i \<le> length buf - 4"
      using assms by simp
    then show ?thesis
      using False by (simp add: scan offsets_end nal_labels_def)
  next
    case room: True
    then have inside: "i \<le> length buf - 4"
      by simp
    have next_offset: "scan_nals codec buf (i + k) h' ts' =
        Some (h' \<or> nal_offsets (i + k) buf \<noteq> [] \<or> i + k + 4 \<le> length buf \<and> ends_in_start_code buf,
          ts' @ nal_labels codec (i + k) buf)" if "0 < k" for k h' ts'
      using less.hyps [of "i + k"] room that by simp
    have last_offset: "length buf - 4 = i" "length buf - 3 = i + 1" if "i + 4 = length buf"
      using that by simp_all
    consider (long) "buf ! i = 0" "start_code_at buf (i + 1)" | (short) "start_code_at buf i" "\<not> start_code_at buf (i + 1)"
      | (no_code) "\<not> start_code_at buf i" "\<not> (buf ! i = 0 \<and> start_code_at buf (i + 1))"
      by (auto simp: start_code_at_def)
    then show ?thesis
    proof cases
      case long
      then have "i + 4 < length buf \<or> ends_in_start_code buf"
        using room last_offset ends_iff [OF assms] by (cases "i + 4 = length buf") simp_all
      then show ?thesis
        using long room inside next_offset [of 4 True]
        by (auto simp: scan four_bytes offsets_long nal_labels_def add.commute Let_def)
    next
      case short
      then show ?thesis
        using room inside next_offset [of 3 True] offsets_short [OF short(1)]
        by (simp add: scan four_bytes nal_labels_def Let_def)
    next
      case no_code
      then have "i + 4 = length buf \<Longrightarrow> \<not> ends_in_start_code buf"
        using last_offset ends_iff [OF assms] by auto
      then have "ends_in_start_code buf \<Longrightarrow> i + 1 + 4 \<le> length buf"
        using room by (cases "i + 4 = length buf") auto
      then show ?thesis
        using no_code room inside next_offset [of 1 h ts] offsets_skip [OF no_code(1)]
        by (auto simp: scan four_bytes nal_labels_def)
    qed
  qed
qed

lemma hevc_labels:
  "starts_with (nal_label ''hevc'' t) ''IDR'' \<or> starts_with (nal_label ''hevc'' t) ''CRA'' \<longleftrightarrow> t \<in> {19, 20, 21}"
  "starts_with (nal_label ''hevc'' t) ''VPS'' \<longleftrightarrow> t = 32"
  by (auto simp: nal_label_def nal_name_def)

lemma hevc_kinds:
  "is_keyframe (nal_labels ''hevc'' i buf) \<longleftrightarrow> (\<exists>p \<in> set (nal_offsets i buf). nal_type ''hevc'' (buf ! (p + 3)) \<in> {19, 20, 21})"
  "has_vps (nal_labels ''hevc'' i buf) \<longleftrightarrow> (\<exists>p \<in> set (nal_offsets i buf). nal_type ''hevc'' (buf ! (p + 3)) = 32)"
  by (simp_all only: is_keyframe_def has_vps_def nal_labels_def list_ex_iff set_map bex_simps hevc_labels)

section \<open>Property\<close>

text \<open>
  Property C32. The diagnostic scan never indexes past the end and finds what a look at every offset finds: with
  diagnostics enabled, for every frame the report is produced, and on an access unit of at least four bytes the NAL
  units named are exactly those behind the start codes, in order.  A frame is reported exactly if it is the first or a
  sixtieth, has no start code, or is an HEVC key frame (a NAL unit of type 19, 20 or 21) without a VPS (type 32).
\<close>

theorem bitstream_scan_is_complete:
  assumes "codec_diagnostics_enabled env" and "4 \<le> length (vf_access_unit f)"
  shows "scan_nals (vf_codec f) (vf_access_unit f) 0 False []
      = Some (valid_start_code (vf_access_unit f), nal_labels (vf_codec f) 0 (vf_access_unit f))
    \<and> (\<exists>lines. validate_access_unit_bitstream env now f = Some lines
        \<and> (lines \<noteq> [] \<longleftrightarrow> vf_seq f = 1 \<or> vf_seq f mod 60 = 0 \<or> \<not> valid_start_code (vf_access_unit f)
            \<or> vf_codec f = ''hevc''
              \<and> (\<exists>p \<in> set (nal_offsets 0 (vf_access_unit f)).
                    nal_type ''hevc'' (vf_access_unit f ! (p + 3)) \<in> {19, 20, 21})
              \<and> (\<forall>p \<in> set (nal_offsets 0 (vf_access_unit f)).
                    nal_type ''hevc'' (vf_access_unit f ! (p + 3)) \<noteq> 32)))"
proof -
  note scan = scan_from [OF assms(2), of "vf_codec f" 0 False "[]"]
  then have "scan_nals (vf_codec f) (vf_access_unit f) 0 False []
      = Some (valid_start_code (vf_access_unit f), nal_labels (vf_codec f) 0 (vf_access_unit f))"
    using assms(2) by (simp add: valid_start_code_def)
  then show ?thesis
    using assms by (cases "vf_codec f = ''hevc''") (simp_all add: validate_access_unit_bitstream_def is_reported_def hevc_kinds Let_def)
qed

definition sample_nals :: video_frame where
  "sample_nals = (stop_frame 0)\<lparr>vf_seq := 7, vf_codec := ''hevc'', vf_access_unit := [0, 0, 0, 1, 0x26, 1, 0, 0, 1, 2]\<rparr>"

theorem bitstream_scan_is_complete_witness:
  "\<exists>lines. validate_access_unit_bitstream [''LLRDC_CODEC_DIAGNOSTICS'' \<mapsto> ''1''] 0 sample_nals = Some lines \<and> lines \<noteq> []"
proof -
  have "codec_diagnostics_enabled [''LLRDC_CODEC_DIAGNOSTICS'' \<mapsto> ''1'']" "4 \<le> length (vf_access_unit sample_nals)"
    by code_simp+
  moreover have "nal_offsets 0 (vf_access_unit sample_nals) = [1, 6]" "vf_codec sample_nals = ''hevc''"
      "nal_type ''hevc'' (vf_access_unit sample_nals ! 4) = 19" "nal_type ''hevc'' (vf_access_unit sample_nals ! 9) = 1"
    by code_simp+
  ultimately show ?thesis
    using bitstream_scan_is_complete [of _ sample_nals 0] by auto
qed

end
