(* ===== verification/Session.thy ===== *)
theory Session
  imports Casting_System
begin

text \<open>
  \<open>src/webtransport_server.rs\<close>: what \<open>run_server_with_identity\<close> reads from the environment and starts, the
  companion UDP listener, and the \<open>select!\<close> loop of \<open>handle_connection\<close> with its pauses.  Which arm the loop takes,
  and when, is an argument; the QUIC library makes all three arms fail once a connection is closed.
\<close>

section \<open>Starting the server\<close>

text \<open>The key of the token verifier: from the environment, or from the file it names; \<open>parse_key\<close> accepts a PEM text.\<close>

definition verifier_from_environment ::
  "(string \<Rightarrow> bool) \<Rightarrow> (string \<Rightarrow> string option) \<Rightarrow> environment \<Rightarrow> token_verifier option" where
  "verifier_from_environment parse_key read_file env =
     (case env ''RECEIVER_ID'' of None \<Rightarrow> None
      | Some rid \<Rightarrow>
        (case (case env ''PAIRING_TOKEN_PUBLIC_KEY'' of Some pem \<Rightarrow> Some pem
               | None \<Rightarrow> read_file (case env ''PAIRING_TOKEN_PUBLIC_KEY_FILE'' of Some p \<Rightarrow> p
                   | None \<Rightarrow> DEFAULT_PAIRING_PUBLIC_KEY_FILE)) of
           None \<Rightarrow> None
         | Some pem \<Rightarrow> if parse_key pem then Some \<lparr>tv_receiver_id = rid, tv_seen = []\<rparr> else None))"

text \<open>The environment decides by the first variable that is set, whether or not it is a number.\<close>

definition first_set :: "environment \<Rightarrow> string \<Rightarrow> string \<Rightarrow> string option" where
  "first_set env a b = (case env a of Some v \<Rightarrow> Some v | None \<Rightarrow> env b)"

definition parsed_or :: "string option \<Rightarrow> 'a::len word \<Rightarrow> 'a word" where
  "parsed_or text fallback =
     (case text \<bind> parse_uint (2 ^ LENGTH('a) - 1) of Some n \<Rightarrow> word_of_nat n | None \<Rightarrow> fallback)"

lemma parsed_word [simp]: "parsed_or (Some (word_to_string w)) d = w"
  by (simp add: parsed_or_def)

record server_start =
  st_wt_port :: u16
  st_udp :: "(u16 \<times> nat option) option"
  st_idle_timeout_sec :: u64
  st_verifier :: "token_verifier option"

text \<open>\<open>idle_fits\<close> says which idle timeouts (in seconds) the QUIC library can encode, \<open>endpoint_binds\<close> and \<open>udp_binds\<close> on
  which ports its endpoint and the socket of the UDP listener can be opened; \<open>settings\<close> are those of
  \<open>config::settings()\<close>, which decide about cloud discovery.  Without its socket the listener ends silently; with it,
  it asks for the receive buffer if the size can be expressed.\<close>

definition run_server_with_identity ::
  "(nat \<Rightarrow> bool) \<Rightarrow> (u16 \<Rightarrow> bool) \<Rightarrow> (u16 \<Rightarrow> bool) \<Rightarrow> (string \<Rightarrow> bool) \<Rightarrow> (string \<Rightarrow> string option)
   \<Rightarrow> receiver_settings \<Rightarrow> environment \<Rightarrow> string + server_start" where
  "run_server_with_identity idle_fits endpoint_binds udp_binds parse_key read_file settings env =
     (let wt_port = env_or env ''WEBTRANSPORT_PORT'' (word_of_nat DEFAULT_WEBTRANSPORT_PORT);
          udp_port = parsed_or (first_set env ''BOARD_PORT'' ''UDP_PORT'') (word_of_nat DEFAULT_BOARD_PORT);
          buf_mb = parsed_or (env ''UDP_BUFFER_SIZE_MB'') (word_of_nat DEFAULT_UDP_BUFFER_SIZE_MB :: u64);
          idle_timeout_sec = parsed_or (env ''IDLE_TIMEOUT_SEC'') (word_of_nat DEFAULT_IDLE_TIMEOUT_SEC)
      in if \<not> idle_fits (unat idle_timeout_sec) then Inl ''invalid idle timeout''
         else if \<not> endpoint_binds wt_port then Inl ''port not available''
         else Inr \<lparr>st_wt_port = wt_port,
                st_udp = (if udp_binds udp_port then Some (udp_port, udp_receive_buffer_bytes (unat buf_mb)) else None),
                st_idle_timeout_sec = idle_timeout_sec,
                st_verifier = (if cloud_discovery_enabled settings
                   then verifier_from_environment parse_key read_file env else None)\<rparr>)"

text \<open>The UDP listener: each datagram, cut to the buffer, goes to the reassembly.\<close>

definition udp_listener :: "(instant \<times> f64 \<times> byte list) list \<Rightarrow> receiver_event list" where
  "udp_listener arrivals = map (\<lambda>(now, clock, bs). Packet now clock (take DATAGRAM_BUFFER_BYTES bs)) arrivals"

section \<open>A session\<close>

datatype session_arm =
    Uni_Stream "nat \<Rightarrow> instant \<times> f64" "byte list"
  | Uni_Closed
  | Bi_Stream "byte list"
  | Bi_Closed
  | Session_Datagram f64 "byte list"
  | Datagram_Failed

text \<open>The instant the loop has reached, the streams it handed to tasks, and what it sent to the receiver itself.\<close>

record session =
  se_now :: instant
  se_open :: bool
  se_media :: "((nat \<Rightarrow> instant \<times> f64) \<times> byte list) list"
  se_control :: "byte list list"
  se_events :: "receiver_event list"

definition new_session :: "instant \<Rightarrow> session" where
  "new_session now = \<lparr>se_now = now, se_open = True, se_media = [], se_control = [], se_events = []\<rparr>"

fun session_arm_step :: "string \<Rightarrow> session_arm \<Rightarrow> session \<Rightarrow> session" where
  "session_arm_step cid (Uni_Stream readings bs) s = s\<lparr>se_media := se_media s @ [(readings, bs)]\<rparr>"
| "session_arm_step cid Uni_Closed s = s\<lparr>se_open := False, se_events := se_events s @ session_end (se_now s) cid\<rparr>"
| "session_arm_step cid (Bi_Stream bs) s = s\<lparr>se_control := se_control s @ [bs]\<rparr>"
| "session_arm_step cid Bi_Closed s = s"
| "session_arm_step cid (Session_Datagram clock payload) s =
     (if payload \<noteq> [] then s\<lparr>se_events := se_events s @ [Packet (se_now s) clock payload]\<rparr> else s)"
| "session_arm_step cid Datagram_Failed s = s\<lparr>se_now := se_now s + from_secs DATAGRAM_ERROR_RETRY_SEC\<rparr>"

text \<open>One round: an arm that is ready at \<open>t\<close> is taken then, or as soon as the loop is back.\<close>

definition session_round :: "string \<Rightarrow> instant \<times> session_arm \<Rightarrow> session \<Rightarrow> session" where
  "session_round cid turn s =
     (if se_open s then session_arm_step cid (snd turn) (s\<lparr>se_now := max (fst turn) (se_now s)\<rparr>) else s)"

definition is_packet :: "receiver_event \<Rightarrow> bool" where
  "is_packet ev \<longleftrightarrow> (case ev of Packet _ _ p \<Rightarrow> p \<noteq> [] | _ \<Rightarrow> False)"

text \<open>While it is open a session has sent only packets; when it has ended, its ending once, after them.\<close>

definition session_ok :: "string \<Rightarrow> session \<Rightarrow> bool" where
  "session_ok cid s \<longleftrightarrow>
     (\<exists>ps. list_all is_packet ps \<and> se_events s = ps @ (if se_open s then [] else session_end (se_now s) cid))"

lemma session_round_ok: "session_ok cid s \<Longrightarrow> session_ok cid (session_round cid turn s)"
proof (cases "se_open s")
  case True
  moreover assume "session_ok cid s"
  ultimately obtain ps where ps: "list_all is_packet ps" "se_events s = ps"
    by (auto simp: session_ok_def)
  show ?thesis
  proof (cases "snd turn")
    case (Session_Datagram clock payload)
    then show ?thesis
      using True ps unfolding session_ok_def session_round_def
      by (intro exI [of _ "if payload \<noteq> [] then ps @ [Packet (max (fst turn) (se_now s)) clock payload] else ps"])
         (auto simp: is_packet_def)
  qed (use True ps in \<open>auto simp: session_ok_def session_round_def\<close>)
qed (simp add: session_round_def)

interpretation session_machine: invariant_machine "session_round cid" "session_ok cid" "\<lambda>_. True" for cid
  by unfold_locales (rule session_round_ok)

lemma new_session_ok: "session_ok cid (new_session now)"
  by (simp add: session_ok_def new_session_def)

section \<open>The arms of a closed connection\<close>

definition is_failure :: "instant \<times> session_arm \<Rightarrow> bool" where
  "is_failure turn \<longleftrightarrow> snd turn \<in> {Bi_Closed, Datagram_Failed}"

definition datagram_failures :: "(instant \<times> session_arm) list \<Rightarrow> nat" where
  "datagram_failures rounds = length (filter (\<lambda>r. snd r = Datagram_Failed) rounds)"

lemma failures_wait:
  assumes "se_open s" and "list_all is_failure rounds" and "\<forall>r \<in> set rounds. fst r \<le> se_now s"
  shows "fold (session_round cid) rounds s
    = s\<lparr>se_now := se_now s + datagram_failures rounds * from_secs DATAGRAM_ERROR_RETRY_SEC\<rparr>"
  using assms
proof (induction rounds arbitrary: s)
  case (Cons r rounds)
  let ?D = "from_secs DATAGRAM_ERROR_RETRY_SEC"
  from Cons.prems consider "snd r = Bi_Closed" | "snd r = Datagram_Failed"
    by (auto simp: is_failure_def)
  then show ?case
  proof cases
    case 1
    then show ?thesis
      using Cons by (simp add: session_round_def datagram_failures_def max_def)
  next
    case 2
    then have "session_round cid r s = s\<lparr>se_now := se_now s + ?D\<rparr>"
      using Cons.prems by (simp add: session_round_def max_def)
    moreover have "\<forall>r \<in> set rounds. fst r \<le> se_now s + ?D"
      using Cons.prems(3) by (auto intro: trans_le_add1)
    ultimately show ?thesis
      using 2 Cons.prems Cons.IH [of "s\<lparr>se_now := se_now s + ?D\<rparr>"] by (simp add: datagram_failures_def)
  qed
qed (simp add: datagram_failures_def)

section \<open>Properties\<close>

text \<open>
  A session ends once: whatever arms its loop takes, it has sent the receiver the non-empty datagrams in
  order and, if and only if it has ended, one stop frame and one notice of its own connection after them.
\<close>

theorem sessions_end_once:
  "\<exists>ps. list_all is_packet ps
     \<and> (let s = fold (session_round cid) rounds (new_session now)
        in se_events s = ps @ (if se_open s then [] else session_end (se_now s) cid)
           \<and> (se_open s \<longleftrightarrow> Uni_Closed \<notin> snd ` set rounds))"
proof -
  have "se_open (fold (session_round cid) rounds s) \<longleftrightarrow> se_open s \<and> Uni_Closed \<notin> snd ` set rounds" for s
  proof (induction rounds arbitrary: s)
    case (Cons r rounds)
    have "se_open (session_round cid r s) \<longleftrightarrow> se_open s \<and> snd r \<noteq> Uni_Closed"
      by (cases "snd r") (simp_all add: session_round_def)
    then show ?case
      using Cons.IH [of "session_round cid r s"] by auto
  qed simp
  moreover have "session_ok cid (fold (session_round cid) rounds (new_session now))"
    by (rule session_machine.run_inv) (simp_all add: new_session_ok list_all_iff)
  ultimately show ?thesis
    by (auto simp: session_ok_def Let_def new_session_def)
qed

text \<open>
  A disconnect can go unnoticed for hours: once a connection is closed every arm is ready with an error,
  and each time the loop happens to take the datagram arm it sleeps for an hour.  After \<open>n\<close> such arms nothing has been
  sent, and the stop frame and the notice that end the stream carry an instant \<open>n\<close> hours after the close.
\<close>

theorem closed_session_lingers:
  assumes "se_open s" and "list_all is_failure rounds" and "\<forall>r \<in> set rounds. fst r \<le> se_now s" and "t \<le> se_now s"
  shows "se_open (fold (session_round cid) rounds s) \<and> se_events (fold (session_round cid) rounds s) = se_events s
    \<and> se_events (fold (session_round cid) (rounds @ [(t, Uni_Closed)]) s)
      = se_events s @ session_end (se_now s + datagram_failures rounds * from_secs 3600) cid"
  using failures_wait [OF assms(1-3), of cid] assms(1,4)
  by (simp add: session_round_def DATAGRAM_ERROR_RETRY_SEC_def max_def)

theorem closed_session_lingers_witness:
  "se_events (fold (session_round ''wt-1'') [(5, Bi_Closed), (5, Datagram_Failed), (5, Datagram_Failed), (5, Uni_Closed)]
      (new_session 5)) = session_end (2 * from_secs 3600 + 5) ''wt-1''"
  using closed_session_lingers [of "new_session 5" "[(5, Bi_Closed), (5, Datagram_Failed), (5, Datagram_Failed)]" 5 "''wt-1''"]
  by (simp add: new_session_def is_failure_def datagram_failures_def)

lemma exported [simp]:
  "export_environment s env ''BOARD_PORT'' = Some (word_to_string (port s))"
  "export_environment s env ''WEBTRANSPORT_PORT'' = Some (word_to_string (webtransport_port s))"
  "export_environment s env ''IDLE_TIMEOUT_SEC'' = Some (word_to_string (idle_timeout_sec s))"
  "export_environment s env ''UDP_BUFFER_SIZE_MB'' = Some (word_to_string (udp_buffer_size_mb s))"
  "export_environment s env ''RECEIVER_ID'' = Some (receiver_id s)"
  by (simp_all add: export_environment_def environment_pairs_def)

text \<open>
  Saved settings reach the transport: after the settings are exported to the environment, whatever it held
  before, the server listens on the two configured ports with the configured buffer (none if its size in bytes does not
  fit 64 bits) and idle timeout.  It does not start if the QUIC library cannot encode that timeout or cannot open the
  port, and it has no UDP listener if that port cannot be opened.
\<close>

lemma saved_settings_reach_the_server:
  "case run_server_with_identity idle_fits endpoint_binds udp_binds parse_key read_file s (export_environment s env) of
     Inl e \<Rightarrow> \<not> idle_fits (unat (idle_timeout_sec s)) \<or> \<not> endpoint_binds (webtransport_port s)
   | Inr x \<Rightarrow> idle_fits (unat (idle_timeout_sec s)) \<and> endpoint_binds (webtransport_port s) \<and> st_wt_port x = webtransport_port s
       \<and> st_udp x = (if udp_binds (port s) then Some (port s, udp_receive_buffer_bytes (unat (udp_buffer_size_mb s))) else None)
       \<and> st_idle_timeout_sec x = idle_timeout_sec s
       \<and> (st_verifier x \<noteq> None \<longrightarrow> cloud_discovery_enabled s \<and> tv_receiver_id (the (st_verifier x)) = receiver_id s)"
  by (simp add: run_server_with_identity_def first_set_def verifier_from_environment_def Let_def split: option.splits)

end
