(* ===== verification/Updater.thy ===== *)
theory Updater
  imports Atomic_File
begin

text \<open>
  \<open>src/update.rs\<close>: the requests the manager leaves for the updater of the host, and the status it reads back.  A
  directory of the shared volume is a prefix of paths; the JSON library is a parameter (\<open>parse\<close>).
\<close>

section \<open>Requests\<close>

definition request_name :: "string \<Rightarrow> nat \<Rightarrow> nat \<Rightarrow> string" where
  "request_name action secs nanos = action @ ''-'' @ nat_to_string secs @ ''-'' @ nat_to_string nanos @ ''.request''"

definition request_temporary :: "string \<times> string \<times> nat \<times> nat \<Rightarrow> string" where
  "request_temporary r = (case r of (dir, action, secs, nanos) \<Rightarrow> dir @ ''/.'' @ request_name action secs nanos @ ''.tmp'')"

definition request_target :: "string \<times> string \<times> nat \<times> nat \<Rightarrow> string" where
  "request_target r = (case r of (dir, action, secs, nanos) \<Rightarrow> dir @ ''/'' @ request_name action secs nanos)"

definition request_body :: string where
  "request_body = ''1'' @ [CHR 0x0A]"

text \<open>\<open>fs::write\<close> creates and then writes; \<open>fs::rename\<close> moves.\<close>

definition request_prepare :: "string \<times> string \<times> nat \<times> nat \<Rightarrow> fs_op list" where
  "request_prepare r = [Create_Truncate (request_temporary r), Append_Bytes (request_temporary r) request_body]"

definition request_ops :: "string \<times> string \<times> nat \<times> nat \<Rightarrow> fs_op list" where
  "request_ops r = request_prepare r @ [Rename_File (request_temporary r) (request_target r)]"

text \<open>\<open>clock\<close> is the time since the epoch, \<open>None\<close> before it.\<close>

definition update_request_ops :: "string \<Rightarrow> bool \<Rightarrow> (nat \<times> nat) option \<Rightarrow> string \<Rightarrow> string + fs_op list" where
  "update_request_ops directory is_dir clock action =
     (if action \<noteq> ''check'' \<and> action \<noteq> ''apply'' then Inl ''invalid update action''
      else if \<not> is_dir then Inl ''host updater unavailable''
      else case clock of None \<Rightarrow> Inl ''system clock unavailable''
           | Some (secs, nanos) \<Rightarrow> Inr (request_ops (directory, action, secs, nanos)))"

definition request_dir :: "environment \<Rightarrow> string" where
  "request_dir env = env_string_or env ''LLRDC_UPDATE_REQUEST_DIR'' ''/updates/requests''"

section \<open>Status\<close>

record update_status =
  us_state :: string
  us_current_digest :: "string option"
  us_available_digest :: "string option"
  us_current_version :: "string option"
  us_message :: "string option"
  us_updated_at_unix :: "u64 option"
  us_installed :: bool

definition default_update_status :: "string \<Rightarrow> update_status" where
  "default_update_status build = \<lparr>us_state = ''idle'', us_current_digest = None, us_available_digest = None,
     us_current_version = Some build, us_message = Some ''The host updater is not installed on this device.'',
     us_updated_at_unix = None, us_installed = False\<rparr>"

definition status_file :: "environment \<Rightarrow> string" where
  "status_file env = env_string_or env ''LLRDC_UPDATE_STATUS_FILE'' ''/updates/status/status.json''"

text \<open>An optional field as the derived reader takes it: absent and \<open>null\<close> are \<open>None\<close>, another type is an error.\<close>

definition opt_field :: "(json \<Rightarrow> 'a option) \<Rightarrow> (string \<times> json) list \<Rightarrow> string \<Rightarrow> 'a option option" where
  "opt_field reader fs k =
     (case map_of fs k of None \<Rightarrow> Some None | Some Json_Null \<Rightarrow> Some None | Some j \<Rightarrow> map_option Some (reader j))"

definition read_string :: "json \<Rightarrow> string option" where
  "read_string j = (case j of Json_String v \<Rightarrow> Some v | _ \<Rightarrow> None)"

definition read_u64 :: "json \<Rightarrow> u64 option" where
  "read_u64 j = (case j of Json_Int i \<Rightarrow> if 0 \<le> i \<and> i < 2 ^ 64 then Some (word_of_int i) else None | _ \<Rightarrow> None)"

text \<open>\<open>managed\<close> is the former name of \<open>installed\<close>; an object with both, or with a field twice, is refused.\<close>

definition status_key :: "string \<Rightarrow> string" where
  "status_key k = (if k = ''managed'' then ''installed'' else k)"

definition status_keys :: "string list" where
  "status_keys = [''state'', ''current_digest'', ''available_digest'', ''current_version'', ''message'', ''updated_at_unix'', ''installed'']"

definition status_of_fields :: "(string \<times> json) list \<Rightarrow> update_status option" where
  "status_of_fields fs =
     (if \<not> distinct (map fst fs) then None
      else do {
        st \<leftarrow> json_string fs ''state'';
        cd \<leftarrow> opt_field read_string fs ''current_digest'';
        ad \<leftarrow> opt_field read_string fs ''available_digest'';
        cv \<leftarrow> opt_field read_string fs ''current_version'';
        ms \<leftarrow> opt_field read_string fs ''message'';
        ua \<leftarrow> opt_field read_u64 fs ''updated_at_unix'';
        ins \<leftarrow> json_bool fs ''installed'';
        Some \<lparr>us_state = st, us_current_digest = cd, us_available_digest = ad, us_current_version = cv,
              us_message = ms, us_updated_at_unix = ua, us_installed = ins\<rparr>
      })"

text \<open>A derived reader also takes an array of all fields in order.\<close>

fun status_of_json :: "json \<Rightarrow> update_status option" where
  "status_of_json (Json_Object object) =
     status_of_fields (filter (\<lambda>(k, _). k \<in> set status_keys) (map (\<lambda>(k, v). (status_key k, v)) object))"
| "status_of_json (Json_Array values) =
     (if length values = length status_keys then status_of_fields (zip status_keys values) else None)"
| "status_of_json _ = None"

definition json_option :: "('a \<Rightarrow> json) \<Rightarrow> 'a option \<Rightarrow> json" where
  "json_option f x = (case x of None \<Rightarrow> Json_Null | Some y \<Rightarrow> f y)"

definition json_of_status :: "update_status \<Rightarrow> json" where
  "json_of_status s = Json_Object
     [(''state'', Json_String (us_state s)), (''current_digest'', json_option Json_String (us_current_digest s)),
      (''available_digest'', json_option Json_String (us_available_digest s)),
      (''current_version'', json_option Json_String (us_current_version s)),
      (''message'', json_option Json_String (us_message s)),
      (''updated_at_unix'', json_option (\<lambda>w. Json_Int (uint w)) (us_updated_at_unix s)),
      (''installed'', Json_Bool (us_installed s))]"

definition update_status_of :: "(string \<Rightarrow> json option) \<Rightarrow> string \<Rightarrow> string option \<Rightarrow> update_status" where
  "update_status_of parse build file =
     (case file \<bind> parse \<bind> status_of_json of
        Some s \<Rightarrow> s\<lparr>us_installed := True\<rparr> | None \<Rightarrow> default_update_status build)"

section \<open>What is promised\<close>

interpretation update_file: atomic_publish "\<lambda>_. True" request_temporary request_target request_prepare "\<lambda>_. []" "\<lambda>_. request_body"
proof unfold_locales
  fix r :: "string \<times> string \<times> nat \<times> nat"
  obtain dir action secs nanos where r: "r = (dir, action, secs, nanos)"
    by (cases r) auto
  have "length (request_temporary r) \<noteq> length (request_target r)"
    by (simp add: r request_temporary_def request_target_def)
  then show "request_temporary r \<noteq> request_target r"
    by auto
qed (auto simp: request_prepare_def)

lemma digits_no_dash: "CHR ''-'' \<notin> set (nat_to_string n)" "CHR ''.'' \<notin> set (nat_to_string n)"
  by (auto dest!: nat_to_string_digits simp: ascii_defs)

lemma nat_to_string_inject: "nat_to_string m = nat_to_string n \<longleftrightarrow> m = n"
  by (metis digits_value_to_string)

lemma split_at:
  fixes a b x y :: string
  assumes "d \<notin> set a" and "d \<notin> set b"
  shows "a @ d # x = b @ d # y \<longleftrightarrow> a = b \<and> x = y"
proof
  assume eq: "a @ d # x = b @ d # y"
  have "split_once d (a @ d # x) = Some (a, x)" "split_once d (b @ d # y) = Some (b, y)"
    using assms by (simp_all add: split_once_Some)
  then have "Some (a, x) = Some (b, y)"
    by (rule box_equals [OF arg_cong [OF eq]])
  then show "a = b \<and> x = y"
    by blast
qed blast

lemma request_name_inject:
  assumes "CHR ''-'' \<notin> set a" and "CHR ''-'' \<notin> set b"
  shows "request_name a s n = request_name b t m \<longleftrightarrow> a = b \<and> s = t \<and> n = m"
  using assms by (simp add: request_name_def split_at digits_no_dash nat_to_string_inject)

lemma request_ops_of:
  assumes "update_request_ops dir is_dir (Some (secs, nanos)) action = Inr ops"
  shows "ops = request_ops (dir, action, secs, nanos)" and "action = ''check'' \<or> action = ''apply''"
  using assms by (auto simp: update_request_ops_def split: if_splits)

text \<open>
  Requests to the host updater appear whole and never replace one another: of two requests made at different
  instants or for different actions, whenever the second one is interrupted, the first is there with its whole body, the
  second is as before or whole, and no other file but its temporary one has changed.
\<close>

theorem update_requests_appear_whole:
  assumes "update_request_ops dir d1 (Some (s1, n1)) a1 = Inr ops1" and "update_request_ops dir d2 (Some (s2, n2)) a2 = Inr ops2"
    and "(a1, s1, n1) \<noteq> (a2, s2, n2)"
  shows "\<exists>path1 path2 temporary. path1 \<noteq> path2
    \<and> (let before = fold fs_apply ops1 fs; after = fold fs_apply (take k ops2) before
       in after path1 = Some request_body \<and> after path2 \<in> {before path2, Some request_body}
          \<and> (\<forall>q. q \<notin> {path2, temporary} \<longrightarrow> after q = before q))
    \<and> fold fs_apply ops2 (fold fs_apply ops1 fs) path2 = Some request_body"
proof -
  note one = request_ops_of [OF assms(1)] and two = request_ops_of [OF assms(2)]
  let ?r1 = "(dir, a1, s1, n1)" and ?r2 = "(dir, a2, s2, n2)"
  have "CHR ''-'' \<notin> set a1" "CHR ''-'' \<notin> set a2"
    using one(2) two(2) by auto
  then have apart: "request_target ?r1 \<noteq> request_target ?r2"
    using assms(3) by (simp add: request_target_def request_name_inject)
  have hidden: "request_target ?r1 \<noteq> request_temporary ?r2"
    using one(2) by (auto simp: request_target_def request_temporary_def request_name_def)
  show ?thesis
    using update_file.published [where p = ?r1 and fs = fs]
      update_file.published [where p = ?r2 and fs = "fold fs_apply ops1 fs"]
      update_file.never_partial [where p = ?r2 and n = k and fs = "fold fs_apply ops1 fs"]
      update_file.nothing_else [where p = ?r2 and n = k and fs = "fold fs_apply ops1 fs"]
      apart hidden
    by (intro exI [of _ "request_target ?r1"] exI [of _ "request_target ?r2"] exI [of _ "request_temporary ?r2"])
       (simp add: one(1) two(1) request_ops_def Let_def del: insert_iff, simp)
qed

theorem update_requests_appear_whole_witness:
  "\<exists>path1 path2. path1 \<noteq> path2
     \<and> fold fs_apply (request_ops (''/u'', ''apply'', 2, 0)) (fold fs_apply (request_ops (''/u'', ''check'', 1, 5)) Map.empty) path2
         = Some request_body"
proof -
  have "update_request_ops ''/u'' True (Some (1, 5)) ''check'' = Inr (request_ops (''/u'', ''check'', 1, 5))"
      "update_request_ops ''/u'' True (Some (2, 0)) ''apply'' = Inr (request_ops (''/u'', ''apply'', 2, 0))"
    by (simp_all add: update_request_ops_def)
  from update_requests_appear_whole [OF this, of Map.empty 0] show ?thesis
    by (auto simp: Let_def)
qed

text \<open>
  The status survives its JSON form, under the present and under the former name of the flag.
\<close>

lemma opt_field_option:
  assumes "map_of fs k = Some (json_option f x)" and "\<And>y. reader (f y) = Some y" and "\<And>y. f y \<noteq> Json_Null"
  shows "opt_field reader fs k = Some x"
proof (cases x)
  case (Some a)
  then have "map_of fs k = Some (f a)" "reader (f a) = Some a" "f a \<noteq> Json_Null"
    using assms by (simp_all add: json_option_def)
  then show ?thesis
    by (cases "f a") (simp_all add: opt_field_def Some)
qed (use assms(1) in \<open>simp add: opt_field_def json_option_def\<close>)

lemma read_u64_word: "read_u64 (Json_Int (uint w)) = Some w"
  using uint_lt2p [of w] by (simp add: read_u64_def)

lemma status_fields_read:
  "status_of_fields [(''state'', Json_String (us_state s)), (''current_digest'', json_option Json_String (us_current_digest s)),
      (''available_digest'', json_option Json_String (us_available_digest s)),
      (''current_version'', json_option Json_String (us_current_version s)),
      (''message'', json_option Json_String (us_message s)),
      (''updated_at_unix'', json_option (\<lambda>w. Json_Int (uint w)) (us_updated_at_unix s)),
      (''installed'', Json_Bool (us_installed s))] = Some s"
  by (simp add: status_of_fields_def opt_field_option read_string_def read_u64_word json_string_def json_bool_def)

theorem update_status_roundtrip:
  "status_of_json (json_of_status s) = Some s"
  "status_of_json (Json_Object (map (\<lambda>(k, v). (if k = ''installed'' then ''managed'' else k, v))
     (case json_of_status s of Json_Object fs \<Rightarrow> fs))) = Some s"
  by (simp_all add: json_of_status_def status_keys_def status_key_def status_fields_read)

end
