(* ===== verification/Drm_Card.thy ===== *)
theory Drm_Card
  imports Drm_Kms
begin

text \<open>
  \<open>src/drm_kms.rs\<close>: opening the display card, with the attempts to enable its two capabilities, and the scanout
  inspector.  What the kernel answers is a probe of each card; an error is its text.
\<close>

section \<open>Opening a card\<close>

text \<open>Whether the device file opens, the number of connectors and CRTCs if the resources can be read, and the answers of
  the \<open>i\<close>th attempt to enable universal planes and atomic mode setting.\<close>

record card_probe =
  cp_opens :: bool
  cp_resources :: "(nat \<times> nat) option"
  cp_attempt :: "nat \<Rightarrow> (string + unit) \<times> (string + unit)"

definition is_display_card :: "card_probe \<Rightarrow> bool" where
  "is_display_card c \<longleftrightarrow> cp_opens c
     \<and> (case cp_resources c of None \<Rightarrow> False | Some (connectors, crtcs) \<Rightarrow> connectors > 0 \<and> crtcs > 0)"

text \<open>\<open>if let Err(e) = res1.or(res2) { last_err = Some(e) }\<close>: the second answer counts only when the first is an error.\<close>

definition note_error :: "string + unit \<Rightarrow> string + unit \<Rightarrow> string option \<Rightarrow> string option" where
  "note_error res1 res2 last_err =
     (case (case res1 of Inr x \<Rightarrow> Inr x | Inl _ \<Rightarrow> res2) of Inl e \<Rightarrow> Some e | Inr _ \<Rightarrow> last_err)"

text \<open>The attempts: their outcome and the time slept.\<close>

fun enable_capabilities ::
  "((string + unit) \<times> (string + unit)) list \<Rightarrow> string option \<Rightarrow> (string + unit) \<times> duration" where
  "enable_capabilities [] last_err = (case last_err of Some e \<Rightarrow> Inl e | None \<Rightarrow> Inr (), 0)"
| "enable_capabilities ((res1, res2) # attempts) last_err =
     (if is_ok res1 \<and> is_ok res2 then (Inr (), 0)
      else case enable_capabilities attempts (note_error res1 res2 last_err) of
             (r, slept) \<Rightarrow> (r, from_millis DRM_CONNECT_RETRY_MS + slept))"

definition card_attempts :: "card_probe \<Rightarrow> ((string + unit) \<times> (string + unit)) list" where
  "card_attempts c = map (cp_attempt c) [1..<DRM_CONNECT_ATTEMPTS + 1]"

fun scan_cards :: "(nat \<Rightarrow> card_probe) \<Rightarrow> nat list \<Rightarrow> string + nat" where
  "scan_cards probe [] = Inl ''Could not find an active DRM display card''"
| "scan_cards probe (i # indices) =
     (if is_display_card (probe i) then
        case fst (enable_capabilities (card_attempts (probe i)) None) of Inl e \<Rightarrow> Inl e | Inr _ \<Rightarrow> Inr i
      else scan_cards probe indices)"

definition open_display_card :: "(nat \<Rightarrow> card_probe) \<Rightarrow> string + nat" where
  "open_display_card probe = scan_cards probe [0..<DRM_CARD_SCAN_LIMIT]"

section \<open>The scanout inspector\<close>

text \<open>A CRTC: its handle, and, if it can be read, its mode and framebuffer; \<open>show\<close> prints a handle.\<close>

definition scanout_line :: "(nat \<Rightarrow> string) \<Rightarrow> nat \<times> (display_mode option \<times> nat option) option \<Rightarrow> string list" where
  "scanout_line show crtc =
     (case snd crtc of Some (Some mode, fb) \<Rightarrow>
        [''[LAYER 3 INSPECTOR] Active DRM CRTC '' @ show (fst crtc) @ '' | Resolution: '' @ nat_to_string (dm_width mode)
          @ ''x'' @ nat_to_string (dm_height mode) @ '' @ '' @ nat_to_string (dm_vrefresh mode) @ ''Hz | FB Handle: ''
          @ (case fb of None \<Rightarrow> ''None'' | Some h \<Rightarrow> ''Some('' @ show h @ '')'')]
      | _ \<Rightarrow> [])"

text \<open>\<open>crtcs\<close> are those of the opened card, \<open>None\<close> when its resources cannot be read.\<close>

definition inspect_live_scanout_status ::
  "(nat \<Rightarrow> string) \<Rightarrow> (nat \<Rightarrow> card_probe) \<Rightarrow> (nat \<Rightarrow> (nat \<times> (display_mode option \<times> nat option) option) list option)
   \<Rightarrow> string list option" where
  "inspect_live_scanout_status show probe crtcs =
     (case open_display_card probe of Inl _ \<Rightarrow> Some []
      | Inr i \<Rightarrow> map_option (\<lambda>cs. concat (map (scanout_line show) cs)) (crtcs i))"

section \<open>What opening promises\<close>

text \<open>The outcome of the attempts in closed form.\<close>

definition granted :: "(string + unit) \<times> (string + unit) \<Rightarrow> bool" where
  "granted a \<longleftrightarrow> is_ok (fst a) \<and> is_ok (snd a)"

definition refused :: "(string + unit) \<times> (string + unit) \<Rightarrow> bool" where
  "refused a \<longleftrightarrow> \<not> is_ok (fst a) \<and> \<not> is_ok (snd a)"

lemma note_error_iff: "note_error (fst a) (snd a) e = None \<longleftrightarrow> \<not> refused a \<and> e = None"
  by (auto simp: note_error_def refused_def is_ok_def split: sum.splits)

lemma enable_Cons:
  "enable_capabilities (a # attempts) e =
     (if granted a then (Inr (), 0)
      else map_prod id ((+) (from_millis DRM_CONNECT_RETRY_MS)) (enable_capabilities attempts (note_error (fst a) (snd a) e)))"
  by (cases a) (simp add: granted_def map_prod_def)

declare enable_capabilities.simps(2) [simp del]

lemma enable_ok:
  "is_ok (fst (enable_capabilities attempts e)) \<longleftrightarrow> list_ex granted attempts \<or> (e = None \<and> \<not> list_ex refused attempts)"
proof (induction attempts arbitrary: e)
  case Nil
  then show ?case by (simp split: option.split)
next
  case (Cons a attempts)
  then show ?case
    using note_error_iff [of a e] by (cases "granted a") (simp_all add: enable_Cons, blast)
qed

lemma enable_slept: "snd (enable_capabilities attempts e) \<le> length attempts * from_millis DRM_CONNECT_RETRY_MS"
  by (induction attempts arbitrary: e) (simp_all add: enable_Cons split: option.split)

lemma scan_first:
  "scan_cards probe indices =
     (case List.find (\<lambda>i. is_display_card (probe i)) indices of None \<Rightarrow> Inl ''Could not find an active DRM display card''
      | Some i \<Rightarrow> (case fst (enable_capabilities (card_attempts (probe i)) None) of Inl e \<Rightarrow> Inl e | Inr _ \<Rightarrow> Inr i))"
  by (induction indices) auto

text \<open>
  Which card is opened: the first of the four with a connector and a CRTC decides alone.  It is opened if one
  of ten attempts enables both capabilities, but also if no attempt has both refused: a card that refuses atomic mode
  setting every time is returned as opened.  Only when some attempt has both refused and none succeeds is there an
  error, and then no other card is tried.  The attempts never sleep longer than a second.
\<close>

theorem opened_card_may_lack_atomic:
  assumes "i < DRM_CARD_SCAN_LIMIT" and "is_display_card (probe i)" and "\<forall>j < i. \<not> is_display_card (probe j)"
  shows "(open_display_card probe = Inr i \<longleftrightarrow>
      list_ex granted (card_attempts (probe i)) \<or> \<not> list_ex refused (card_attempts (probe i)))
    \<and> (is_ok (open_display_card probe) \<longrightarrow> open_display_card probe = Inr i)
    \<and> ((\<forall>k. is_ok (fst (cp_attempt (probe i) k)) \<and> \<not> is_ok (snd (cp_attempt (probe i) k))) \<longrightarrow> open_display_card probe = Inr i)
    \<and> snd (enable_capabilities (card_attempts (probe i)) None) \<le> from_secs 1"
proof -
  have "List.find (\<lambda>j. is_display_card (probe j)) [0..<DRM_CARD_SCAN_LIMIT] = Some i"
    using assms by (auto simp: find_Some_iff)
  then have opened: "open_display_card probe
      = (case fst (enable_capabilities (card_attempts (probe i)) None) of Inl e \<Rightarrow> Inl e | Inr _ \<Rightarrow> Inr i)"
    by (simp add: open_display_card_def scan_first)
  have "open_display_card probe = Inr i \<longleftrightarrow>
      list_ex granted (card_attempts (probe i)) \<or> \<not> list_ex refused (card_attempts (probe i))"
    using enable_ok [of "card_attempts (probe i)" None] by (auto simp: opened is_ok_def split: sum.splits)
  moreover have "is_ok (open_display_card probe) \<longrightarrow> open_display_card probe = Inr i"
    by (simp add: opened is_ok_def split: sum.splits)
  moreover have "\<not> list_ex refused (card_attempts (probe i))" if "\<forall>k. is_ok (fst (cp_attempt (probe i) k))"
    using that by (simp add: list_ex_iff refused_def card_attempts_def)
  moreover have "snd (enable_capabilities (card_attempts (probe i)) None) \<le> from_secs 1"
    using enable_slept [of "card_attempts (probe i)" None]
    by (simp add: card_attempts_def limits from_millis_def from_secs_def)
  ultimately show ?thesis
    by blast
qed

definition sample_card :: "nat \<Rightarrow> card_probe" where
  "sample_card i = (if i = 1 then \<lparr>cp_opens = True, cp_resources = Some (2, 1), cp_attempt = (\<lambda>_. (Inr (), Inl ''EINVAL''))\<rparr>
     else \<lparr>cp_opens = True, cp_resources = Some (0, 1), cp_attempt = (\<lambda>_. (Inr (), Inr ()))\<rparr>)"

theorem opened_card_may_lack_atomic_witness:
  "open_display_card sample_card = Inr 1 \<and> \<not> list_ex granted (card_attempts (sample_card 1))"
proof -
  have "is_display_card (sample_card 1)" "\<forall>j < 1. \<not> is_display_card (sample_card j)" "1 < DRM_CARD_SCAN_LIMIT"
    by (simp_all add: sample_card_def is_display_card_def limits)
  note opened = opened_card_may_lack_atomic [OF this(3,1,2)]
  have refuses: "\<forall>k. is_ok (fst (cp_attempt (sample_card 1) k)) \<and> \<not> is_ok (snd (cp_attempt (sample_card 1) k))"
    by (simp add: sample_card_def)
  then have "\<not> list_ex granted (card_attempts (sample_card 1))"
    by (simp add: list_ex_iff granted_def card_attempts_def)
  then show ?thesis
    using opened refuses by blast
qed

end
