(* ===== verification/Admin_Cli.thy ===== *)
theory Admin_Cli
  imports Admin Receiver_Ipc Config_Correct Pairing_Correct
begin

text \<open>
  The chain of \<open>llrdc-management admin pairing-code\<close>: the client of \<open>src/admin.rs\<close> asks the manager over its Unix
  socket, \<open>SupervisorHandle::pairing_code\<close> of \<open>src/supervisor.rs\<close> asks the receiver through
  \<open>receiver_ipc::request\<close>, and \<open>receiver_ipc::handle\<close> answers from the pairing state.  The JSON form of the messages is a
  parameter; that the library reads back what it writes is a hypothesis.
\<close>

section \<open>The IPC client\<close>

record ipc_codec =
  ic_write_request :: "receiver_request \<Rightarrow> string"
  ic_read_request :: "string \<Rightarrow> receiver_request option"
  ic_write_response :: "receiver_response \<Rightarrow> string"
  ic_read_response :: "string \<Rightarrow> receiver_response option"
  ic_bad_response :: string

definition line_end :: string where
  "line_end = [CHR 0x0A]"

text \<open>\<open>socket\<close> is what the other side makes of a line: an error (no connection, a timeout) or the bytes it sends.\<close>

definition ipc_request :: "ipc_codec \<Rightarrow> (string \<Rightarrow> string + string) \<Rightarrow> receiver_request \<Rightarrow> string + receiver_response" where
  "ipc_request codec socket request =
     (case socket (ic_write_request codec request @ line_end) of Inl e \<Rightarrow> Inl e
      | Inr sent \<Rightarrow>
        (case read_line sent of None \<Rightarrow> Inl ''stream did not contain valid UTF-8''
         | Some line \<Rightarrow>
           (case ic_read_response codec (trim line) of None \<Rightarrow> Inl (ic_bad_response codec) | Some r \<Rightarrow> Inr r)))"

definition supervisor_pairing_code :: "ipc_codec \<Rightarrow> (string \<Rightarrow> string + string) \<Rightarrow> string + string" where
  "supervisor_pairing_code codec socket =
     (case ipc_request codec socket (Ask_Pairing_Code PROTOCOL_VERSION) of
        Inr (Reply_Pairing_Code _ c) \<Rightarrow> Inr c
      | Inr (Reply_Error _ c) \<Rightarrow> Inl c
      | Inr _ \<Rightarrow> Inl ''invalid receiver response''
      | Inl error \<Rightarrow> Inl error)"

text \<open>The receiver behind its socket; without a response the connection ends.\<close>

definition receiver_socket ::
  "ipc_codec \<Rightarrow> instant \<Rightarrow> bool \<Rightarrow> management \<Rightarrow> pairing_data \<Rightarrow> string \<Rightarrow> string + string" where
  "receiver_socket codec now ready m d line =
     Inr (case fst (ipc_handle (ic_read_request codec) now ready line m d) of None \<Rightarrow> []
          | Some r \<Rightarrow> ic_write_response codec r @ line_end)"

definition admin_pairing_code ::
  "ipc_codec \<Rightarrow> instant \<Rightarrow> bool \<Rightarrow> management \<Rightarrow> pairing_data \<Rightarrow> string + string" where
  "admin_pairing_code codec now ready m d =
     run_client (Some ''pairing-code'') False
       (case socket_reply (supervisor_pairing_code codec (receiver_socket codec now ready m d)) (''pairing-code'' @ line_end) of
          None \<Rightarrow> [] | Some reply \<Rightarrow> reply)"

section \<open>Conformance\<close>

text \<open>The replies that a request of the present version may get.\<close>

fun reply_conforms :: "receiver_request \<Rightarrow> receiver_response \<Rightarrow> bool" where
  "reply_conforms (Ask_Ping _) (Reply_Pong v _) = (v = PROTOCOL_VERSION)"
| "reply_conforms (Ask_Snapshot _) (Reply_Snapshot v _ _ _) = (v = PROTOCOL_VERSION)"
| "reply_conforms (Ask_Stop_Sharing _) (Reply_Ack v) = (v = PROTOCOL_VERSION)"
| "reply_conforms (Ask_Shutdown _ _) (Reply_Ack v) = (v = PROTOCOL_VERSION)"
| "reply_conforms (Ask_Pairing_Code _) (Reply_Pairing_Code v c) = (v = PROTOCOL_VERSION \<and> is_valid_pairing_code c)"
| "reply_conforms (Ask_Pairing_Code _) (Reply_Error v e) = (v = PROTOCOL_VERSION \<and> e = ''pairing_code_unavailable'')"
| "reply_conforms _ _ = False"

fun request_commands :: "receiver_request \<Rightarrow> control_command list" where
  "request_commands (Ask_Stop_Sharing _) = [Admin_Stop]"
| "request_commands (Ask_Shutdown _ reason) = [Shutdown reason]"
| "request_commands _ = []"

lemma snapshot_ok: "pairing_ok d \<Longrightarrow> pairing_ok (snd (snapshot now d))"
  by (auto simp: snapshot_def pairing_ok_def Let_def)

lemma snapshot_code: "pairing_ok d \<Longrightarrow> code (fst (snapshot now d)) = Some c \<Longrightarrow> is_valid_pairing_code c"
  by (auto simp: snapshot_def pairing_ok_def code_ok_def is_valid_pairing_code_def Let_def split: if_splits)

lemma request_answered:
  assumes "pairing_ok d" and "answer_request parse now ready line m d = (reply, commands, d')"
  shows "pairing_ok d'
    \<and> (case parse (trim line) of
         None \<Rightarrow> reply = Reply_Error PROTOCOL_VERSION ''invalid_request'' \<and> commands = [] \<and> d' = d
       | Some q \<Rightarrow>
         if request_version q \<noteq> PROTOCOL_VERSION
         then reply = Reply_Error PROTOCOL_VERSION ''unsupported_version'' \<and> commands = [] \<and> d' = d
         else reply_conforms q reply \<and> commands = request_commands q)"
  using assms snapshot_ok [OF assms(1), of now] snapshot_code [OF assms(1), of now]
  by (auto simp: answer_request_def split: option.splits if_splits receiver_request.splits prod.splits)

text \<open>
  Property C33. The IPC protocol is typed: from a well-formed pairing state a connection whose line is no UTF-8 text ends
  without a reply and changes nothing, and every other line gets exactly one reply, of the present version; a
  line that is no request, or one of another version, gets its error and changes nothing, and any other request gets a
  reply of its own kind (a pairing code that is four alphanumerics, or the one error that means there is none), puts
  exactly its own command into the receiver's queue and leaves the pairing state well formed.
\<close>

theorem ipc_replies_conform:
  assumes "pairing_ok d" and "ipc_handle parse now ready sent m d = (outcome, commands, d')"
  shows "pairing_ok d'
    \<and> (case read_line sent of
         None \<Rightarrow> outcome = None \<and> commands = [] \<and> d' = d
       | Some line \<Rightarrow>
         (\<exists>reply. outcome = Some reply
           \<and> (case parse (trim line) of
                None \<Rightarrow> reply = Reply_Error PROTOCOL_VERSION ''invalid_request'' \<and> commands = [] \<and> d' = d
              | Some q \<Rightarrow>
                if request_version q \<noteq> PROTOCOL_VERSION
                then reply = Reply_Error PROTOCOL_VERSION ''unsupported_version'' \<and> commands = [] \<and> d' = d
                else reply_conforms q reply \<and> commands = request_commands q)))"
proof (cases "read_line sent")
  case None
  then show ?thesis
    using assms by (simp add: ipc_handle_def)
next
  case (Some line)
  obtain reply where "answer_request parse now ready line m d = (reply, commands, d')" "outcome = Some reply"
    using assms(2) by (auto simp: ipc_handle_def Some split: prod.splits)
  then show ?thesis
    using request_answered [OF assms(1)] by (simp add: Some)
qed

definition sample_published :: pairing_data where
  "sample_published = \<lparr>ps_snapshot = \<lparr>code = Some ''AB12'', local_status = ''READY'', cloud_status = ''DISABLED'', cloud_ip = None\<rparr>,
     expires_at = Some 100, failed_attempts = Map.empty, fixed_code = None, code_required = True\<rparr>"

lemma sample_published_ok: "pairing_ok sample_published"
proof -
  have "code_ok ''AB12''"
    by code_simp
  then show ?thesis
    by (simp add: pairing_ok_def sample_published_def)
qed

definition sample_parse :: "string \<Rightarrow> receiver_request option" where
  "sample_parse s = (if s = ''code'' then Some (Ask_Pairing_Code 1) else None)"

theorem ipc_replies_conform_witness:
  "case ipc_handle sample_parse 0 True ''code'' (new_management 0) sample_published of (outcome, commands, d') \<Rightarrow>
     (\<exists>reply. outcome = Some reply \<and> reply_conforms (Ask_Pairing_Code 1) reply) \<and> commands = [] \<and> pairing_ok d'"
proof -
  obtain outcome commands d' where h: "ipc_handle sample_parse 0 True ''code'' (new_management 0) sample_published = (outcome, commands, d')"
    by (metis prod.exhaust)
  have "trim ''code'' = ''code''" "read_line ''code'' = Some ''code''"
    by code_simp+
  then show ?thesis
    using ipc_replies_conform [OF sample_published_ok h] by (auto simp: h sample_parse_def PROTOCOL_VERSION_def)
qed

section \<open>The whole chain\<close>

text \<open>A line of solid text comes back from \<open>trim\<close> without its end.\<close>

lemma trim_line: "solid v \<Longrightarrow> trim (v @ line_end) = v"
proof -
  assume v: "solid v"
  then obtain c cs where c: "v = c # cs" "graphic c"
    by (cases v) (auto simp: solid_def)
  have "starts_ws line_end" "\<not> is_cont (CHR 0x0A)"
    by code_simp+
  then have "trim_end (v @ line_end) = trim_end v"
    by (simp add: trim_end_def line_end_def chars_of_snoc)
  moreover have "trim_end v = v"
    using solid_trims(1,2) [OF v] by (simp add: trim_def)
  moreover have "trim_start (v @ line_end) = v @ line_end"
    using c by (simp add: trim_start_graphic)
  ultimately show ?thesis
    by (simp add: trim_def)
qed

lemma alphanumeric_graphic: "is_ascii_alphanumeric c \<Longrightarrow> graphic c"
  by (auto simp: graphic_def ascii_defs)

lemma code_solid: "is_valid_pairing_code c \<Longrightarrow> solid c"
  by (auto simp: is_valid_pairing_code_def solid_def limits list_all_iff intro!: alphanumeric_graphic hd_in_set last_in_set)

text \<open>What is relied on of the JSON library: a message it writes is one line of text, without blanks at its ends, that it
  reads back.\<close>

definition one_line_text :: "string \<Rightarrow> bool" where
  "one_line_text v \<longleftrightarrow> solid v \<and> valid_utf8 v \<and> CHR 0x0A \<notin> set v"

definition codec_ok :: "ipc_codec \<Rightarrow> bool" where
  "codec_ok codec \<longleftrightarrow>
     (\<forall>q. q = Ask_Pairing_Code PROTOCOL_VERSION \<longrightarrow>
        one_line_text (ic_write_request codec q) \<and> ic_read_request codec (ic_write_request codec q) = Some q)
     \<and> (\<forall>r. r \<in> {Reply_Error PROTOCOL_VERSION ''pairing_code_unavailable''}
           \<union> Reply_Pairing_Code PROTOCOL_VERSION ` {c. is_valid_pairing_code c} \<longrightarrow>
        one_line_text (ic_write_response codec r) \<and> ic_read_response codec (ic_write_response codec r) = Some r)"

lemma line_read: "one_line_text v \<Longrightarrow> read_line (v @ line_end) = Some (v @ line_end) \<and> trim (v @ line_end) = v"
  using read_whole_line [of v] trim_line [of v] by (simp add: one_line_text_def line_end_def)

lemma code_answered:
  assumes "codec_ok codec" and "pairing_ok d"
  shows "supervisor_pairing_code codec (receiver_socket codec now ready m d)
    = (case code (fst (snapshot now d)) of Some c \<Rightarrow> Inr c | None \<Rightarrow> Inl ''pairing_code_unavailable'')"
proof -
  let ?q = "Ask_Pairing_Code PROTOCOL_VERSION"
  let ?r = "case code (fst (snapshot now d)) of Some c \<Rightarrow> Reply_Pairing_Code PROTOCOL_VERSION c
    | None \<Rightarrow> Reply_Error PROTOCOL_VERSION ''pairing_code_unavailable''"
  have q: "one_line_text (ic_write_request codec ?q)" "ic_read_request codec (ic_write_request codec ?q) = Some ?q"
    using assms(1) by (simp_all add: codec_ok_def)
  have "?r \<in> {Reply_Error PROTOCOL_VERSION ''pairing_code_unavailable''}
      \<union> Reply_Pairing_Code PROTOCOL_VERSION ` {c. is_valid_pairing_code c}"
    using snapshot_code [OF assms(2), of now] by (simp split: option.split)
  then have r: "one_line_text (ic_write_response codec ?r)" "ic_read_response codec (ic_write_response codec ?r) = Some ?r"
    using assms(1) unfolding codec_ok_def by blast+
  have "fst (answer_request (ic_read_request codec) now ready (ic_write_request codec ?q @ line_end) m d) = ?r"
    using line_read [OF q(1)] q(2) by (simp add: answer_request_def split: prod.split option.split)
  then have "fst (ipc_handle (ic_read_request codec) now ready (ic_write_request codec ?q @ line_end) m d) = Some ?r"
    using line_read [OF q(1)] by (auto simp: ipc_handle_def split: prod.split)
  then have "ipc_request codec (receiver_socket codec now ready m d) ?q = Inr ?r"
    using line_read [OF r(1)] r(2) by (simp add: ipc_request_def receiver_socket_def)
  then show ?thesis
    by (simp add: supervisor_pairing_code_def split: option.split)
qed

lemma code_text: "is_valid_pairing_code c \<Longrightarrow> one_line_text c"
  by (auto simp: one_line_text_def code_solid is_valid_pairing_code_def list_all_iff ascii_defs intro!: ascii_utf8)

lemma client_code:
  assumes "is_valid_pairing_code c"
  shows "client_result (c @ line_end) = Inr c"
proof -
  have "strip_prefix ''ERROR '' c = None"
    using assms by (cases "strip_prefix ''ERROR '' c") (auto simp: strip_prefix_Some is_valid_pairing_code_def limits)
  moreover have "valid_utf8 (c @ line_end)"
    using line_read [OF code_text [OF assms]] by (auto simp: read_line_def Let_def split: if_splits)
  ultimately show ?thesis
    using assms by (simp add: client_result_def trim_line code_solid is_valid_pairing_code_def limits)
qed

text \<open>
  The command line prints the code the receiver accepts: from a well-formed pairing state
  \<open>llrdc-management admin pairing-code\<close> ends with the published code if there is one that has not expired, and otherwise
  with the error that none is available, through both sockets and the readers' own checks on every hop.
\<close>

lemma admin_prints_published_code:
  assumes "codec_ok codec" and "pairing_ok d"
  shows "admin_pairing_code codec now ready m d
    = (case code (fst (snapshot now d)) of Some c \<Rightarrow> Inr c | None \<Rightarrow> Inl ''pairing_code_unavailable'')"
proof -
  have "one_line_text ''pairing-code''"
    by code_simp
  then have asked: "socket_reply x (''pairing-code'' @ line_end)
      = Some ((case x of Inr c \<Rightarrow> c | Inl e \<Rightarrow> ''ERROR '' @ e) @ line_end)" for x
    unfolding socket_reply_def line_end_def [symmetric] using line_read by fastforce
  have e: "client_result (''ERROR pairing_code_unavailable'' @ line_end) = Inl ''pairing_code_unavailable''"
    by code_simp
  show ?thesis
    unfolding admin_pairing_code_def run_client_def asked code_answered [OF assms]
    using e snapshot_code [OF assms(2), of now] client_code by (simp split: option.split)
qed

text \<open>A codec for the two kinds of replies and the one request of the chain.\<close>

definition sample_codec :: ipc_codec where
  "sample_codec = \<lparr>ic_write_request = (\<lambda>_. ''code''), ic_read_request = sample_parse,
     ic_write_response = (\<lambda>r. case r of
         Reply_Pairing_Code v c \<Rightarrow> ''P'' @ nat_to_string (unat v) @ '':'' @ c @ ''.''
       | Reply_Error v c \<Rightarrow> ''E'' @ nat_to_string (unat v) @ '':'' @ c @ ''.''
       | _ \<Rightarrow> ''other''),
     ic_read_response = (\<lambda>t. case t of [] \<Rightarrow> None
       | k # r \<Rightarrow> (case split_once CHR '':'' r of None \<Rightarrow> None
           | Some (v, c) \<Rightarrow> map_option (\<lambda>n. if k = CHR ''P'' then Reply_Pairing_Code (word_of_nat n) (butlast c)
               else Reply_Error (word_of_nat n) (butlast c)) (parse_uint 255 v))),
     ic_bad_response = ''bad''\<rparr>"

lemma sample_written:
  assumes "one_line_text c" and "k \<in> {CHR ''P'', CHR ''E''}"
  shows "ic_read_response sample_codec (k # ''1:'' @ c @ ''.'')
      = Some (if k = CHR ''P'' then Reply_Pairing_Code 1 c else Reply_Error 1 c)"
    and "one_line_text (k # ''1:'' @ c @ ''.'')"
proof -
  have "split_once CHR '':'' (''1:'' @ c @ ''.'') = Some (''1'', c @ ''.'')"
    by (auto simp: split_once_Some)
  moreover have "parse_uint 255 ''1'' = Some 1"
    by code_simp
  ultimately show "ic_read_response sample_codec (k # ''1:'' @ c @ ''.'')
      = Some (if k = CHR ''P'' then Reply_Pairing_Code 1 c else Reply_Error 1 c)"
    by (simp add: sample_codec_def)
  have ascii: "valid_utf8 (k # ''1:'')" "valid_utf8 ''.''"
    using assms(2) by (auto intro!: ascii_utf8 simp: code_of_def)
  have "valid_utf8 ((k # ''1:'') @ c @ ''.'')"
    using assms(1) ascii by (intro valid_utf8_append) (simp_all add: one_line_text_def)
  moreover have "graphic k" "graphic (CHR ''.'')" "k \<noteq> CHR 0x0A"
    using assms(2) by (auto simp: graphic_def code_of_def)
  ultimately show "one_line_text (k # ''1:'' @ c @ ''.'')"
    using assms(1) by (simp add: one_line_text_def solid_def)
qed

lemma sample_codec_ok: "codec_ok sample_codec"
proof -
  have one: "nat_to_string 1 = ''1''"
    by code_simp
  have texts: "one_line_text ''code''" "one_line_text ''pairing_code_unavailable''"
    by code_simp+
  have written: "ic_write_response sample_codec (Reply_Pairing_Code 1 c) = CHR ''P'' # ''1:'' @ c @ ''.''"
      "ic_write_response sample_codec (Reply_Error 1 c) = CHR ''E'' # ''1:'' @ c @ ''.''" for c
    by (simp_all add: sample_codec_def one [unfolded One_nat_def])
  have "one_line_text (ic_write_response sample_codec r) \<and> ic_read_response sample_codec (ic_write_response sample_codec r) = Some r"
    if "r \<in> {Reply_Error PROTOCOL_VERSION ''pairing_code_unavailable''}
        \<union> Reply_Pairing_Code PROTOCOL_VERSION ` {c. is_valid_pairing_code c}" for r
    using that sample_written [OF texts(2), of "CHR ''E''"] sample_written [OF code_text, of _ "CHR ''P''"]
    by (auto simp: written PROTOCOL_VERSION_def)
  moreover have "ic_write_request sample_codec q = ''code''"
      "ic_read_request sample_codec ''code'' = Some (Ask_Pairing_Code PROTOCOL_VERSION)" for q
    by (simp_all add: sample_codec_def sample_parse_def PROTOCOL_VERSION_def)
  ultimately show ?thesis
    using texts(1) by (simp add: codec_ok_def)
qed

lemma printed_sample:
  "admin_pairing_code sample_codec 5 True (new_management 0) sample_published = Inr ''AB12''"
  using admin_prints_published_code [OF sample_codec_ok sample_published_ok, of 5 True "new_management 0"]
  by (simp add: snapshot_def sample_published_def)

end
