(* ===== verification/Diagnostics.thy ===== *)
theory Diagnostics
  imports Supervisor Updater Discovery Receiver
begin

text \<open>
  What the manager tells about itself: the JSON snapshot of the portal (\<open>SupervisorHandle::snapshot\<close> of
  \<open>src/supervisor.rs\<close>), the diagnostics archive (\<open>src/operational_log.rs\<close>), and the messages of the
  kernel and of GStreamer that \<open>src/sys_monitor.rs\<close> and \<open>src/playback.rs\<close> pick out.  A JSON value is the value it is made from; its printed form, the ZIP format and the
  Unicode lower-casing are parameters.
\<close>

section \<open>The snapshot of the portal\<close>

definition pairing_code_source :: "environment \<Rightarrow> receiver_settings \<Rightarrow> pairing_snapshot \<Rightarrow> string" where
  "pairing_code_source env settings pairing =
     (if (case env ''PAIRING_CODE_FIXED'' of None \<Rightarrow> False | Some v \<Rightarrow> v \<noteq> []) then ''fixed''
      else if cloud_discovery_enabled settings \<and> cloud_status pairing = ''READY'' then ''cloud'' else ''rotating'')"

record build_info =
  bi_version :: string
  bi_revision :: string
  bi_built_at :: string

record portal_view =
  pv_management :: "management_snapshot option"
  pv_pairing :: pairing_snapshot
  pv_settings :: receiver_settings
  pv_cloud_ready :: bool
  pv_cloud_missing :: "string list"
  pv_cloud_state :: string
  pv_code_source :: string
  pv_watchdog :: watchdog_snapshot
  pv_build :: build_info
  pv_update :: update_status

definition portal_snapshot ::
  "configuration_probe \<Rightarrow> environment \<Rightarrow> build_info \<Rightarrow> update_status \<Rightarrow> instant \<Rightarrow> supervisor \<Rightarrow> portal_view" where
  "portal_snapshot probe env build update now s =
     (let missing = cloud_configuration_missing probe env
      in \<lparr>pv_management = sv_management s, pv_pairing = sv_pairing s, pv_settings = sv_settings s,
          pv_cloud_ready = (missing = []), pv_cloud_missing = missing, pv_cloud_state = cloud_status (sv_pairing s),
          pv_code_source = pairing_code_source env (sv_settings s) (sv_pairing s), pv_watchdog = watchdog now s,
          pv_build = build, pv_update = update\<rparr>)"

section \<open>The diagnostics archive\<close>

definition timeline_line :: "operational_event \<Rightarrow> string" where
  "timeline_line x = nat_to_string (oe_timestamp_unix_ms x) @ '' ['' @ oe_severity x @ ''] '' @ oe_category x
     @ '': '' @ oe_message x @ [CHR 0x0A]"

definition incident_entries :: "environment \<Rightarrow> string option list \<Rightarrow> (string \<times> string) list" where
  "incident_entries env incidents =
     concat (map (\<lambda>i. case incidents ! i of None \<Rightarrow> []
        | Some t \<Rightarrow> [(''crash-excerpts/incident-'' @ nat_to_string i @ ''.txt'', redact env t)]) [0..<4])"

text \<open>The files of the archive in order, for the printed forms of the snapshot and of the settings.\<close>

definition diagnostic_files ::
  "event_codec \<Rightarrow> environment \<Rightarrow> string \<Rightarrow> string \<Rightarrow> string \<Rightarrow> oplog \<Rightarrow> (string \<times> string) list" where
  "diagnostic_files codec env st config crash_excerpt s =
     (let events = recent_events RECENT_LIMIT s
      in [(''events.ndjson'', journal_lines codec events),
          (''incident-timeline.txt'', concat (map timeline_line events)),
          (''status.json'', st),
          (''device-config-redacted.json'', config),
          (''receiver-incident-excerpt.txt'', redact env crash_excerpt)]
         @ incident_entries env (ol_incidents s))"

text \<open>\<open>SupervisorHandle::diagnostic_zip\<close>: the settings are printed as they are; \<open>lossy\<close> decodes the console ring.\<close>

definition diagnostic_zip ::
  "manager_setup \<Rightarrow> (string \<Rightarrow> string) \<Rightarrow> (portal_view \<Rightarrow> string) \<Rightarrow> (receiver_settings \<Rightarrow> string) \<Rightarrow> portal_view
   \<Rightarrow> supervisor \<Rightarrow> (string \<times> string) list" where
  "diagnostic_zip w lossy print_view print_settings view s =
     diagnostic_files (ms_codec w) (ms_env w) (print_view view) (print_settings (sv_settings s)) (lossy (sv_ring s)) (sv_log s)"

section \<open>Messages of the kernel and of GStreamer\<close>

definition contains_any :: "string list \<Rightarrow> string \<Rightarrow> bool" where
  "contains_any ps s \<longleftrightarrow> list_ex (\<lambda>p. str_contains p s) ps"

definition kernel_alert :: "(string \<Rightarrow> string) \<Rightarrow> string \<Rightarrow> string option" where
  "kernel_alert lower line =
     (if contains_any [''rkvdec'', ''v4l2'', ''rockchip-drm''] (lower line)
         \<and> contains_any [''error'', ''fault'', ''failed'', ''corrupt'', ''warn''] (lower line)
      then Some (''[LAYER 1 ALERT] Kernel Driver Event: '' @ line) else None)"

text \<open>The lines that \<open>dmesg -w\<close> delivers; one that cannot be decoded is skipped (\<open>flatten\<close>).\<close>

definition kernel_alerts :: "(string \<Rightarrow> string) \<Rightarrow> string option list \<Rightarrow> string list" where
  "kernel_alerts lower ls =
     concat (map (\<lambda>l. case l of None \<Rightarrow> [] | Some x \<Rightarrow> (case kernel_alert lower x of None \<Rightarrow> [] | Some a \<Rightarrow> [a])) ls)"

text \<open>The same for what GStreamer prints (\<open>start_persistent_playback\<close>); \<open>stamp\<close> is the formatted time since the start.\<close>

definition decoder_alert :: "(string \<Rightarrow> string) \<Rightarrow> string \<Rightarrow> string \<Rightarrow> string option" where
  "decoder_alert lower stamp line =
     (if contains_any [''error'', ''warn'', ''corrupt'', ''missing'', ''drop''] (lower line)
      then Some (''[LAYER 2 ALERT] GStreamer Decoder Event (at '' @ stamp @ ''ms): '' @ line)
      else if contains_any [''resolution changed'', ''colorimetry''] (lower line)
      then Some (''[DECODER CAPS CHANGE] GStreamer (at '' @ stamp @ ''ms): '' @ line) else None)"

text \<open>Real-time scheduling when it is allowed, else a niceness of -10, if that is.\<close>

datatype process_priority = Fifo nat | Nice int | Unchanged

definition elevate_process_priority :: "bool \<Rightarrow> bool \<Rightarrow> process_priority" where
  "elevate_process_priority fifo_allowed nice_allowed =
     (if fifo_allowed then Fifo 20 else if nice_allowed then Nice (-10) else Unchanged)"

section \<open>Properties\<close>

lemma redacted_hidden: "m \<in> set MARKERS \<Longrightarrow> hidden m (redact env t)"
  unfolding redact_def by (rule fold_markers_hide [OF markers])

lemma incident_entry: "(name, text) \<in> set (incident_entries env incidents) \<Longrightarrow> \<exists>t. text = redact env t"
  by (auto simp: incident_entries_def split: option.splits)

text \<open>
  What the archive hides: in every file of it but the event files, the status and the configuration, each
  occurrence of a credential marker is followed by \<open>[REDACTED]\<close>.  The file named \<open>device-config-redacted.json\<close> is the
  printed form of the settings, with nothing redacted.
\<close>

theorem diagnostic_archive_redaction:
  assumes "m \<in> set MARKERS"
  shows "\<forall>(name, text) \<in> set (diagnostic_zip w lossy print_view print_settings view s).
      name \<in> {''events.ndjson'', ''incident-timeline.txt'', ''status.json'', ''device-config-redacted.json''} \<or> hidden m text"
    and "(''device-config-redacted.json'', print_settings (sv_settings s))
      \<in> set (diagnostic_zip w lossy print_view print_settings view s)"
proof -
  have "hidden m (snd x)" if "x \<in> set (incident_entries env incidents)" for x env incidents
    using incident_entry [of "fst x" "snd x" env incidents] that by (auto simp: redacted_hidden [OF assms])
  then show "\<forall>(name, text) \<in> set (diagnostic_zip w lossy print_view print_settings view s).
      name \<in> {''events.ndjson'', ''incident-timeline.txt'', ''status.json'', ''device-config-redacted.json''} \<or> hidden m text"
    unfolding diagnostic_zip_def diagnostic_files_def Let_def ball_simps set_append ball_Un
    by (simp add: redacted_hidden [OF assms] split_beta)
qed (simp add: diagnostic_zip_def diagnostic_files_def Let_def)

text \<open>
  The portal can call a rotating code fixed: a fixed code of white space is no code for the receiver, which draws
  its own, but the portal looks only at whether the variable is empty.
\<close>

theorem blank_fixed_code_is_shown_as_fixed:
  assumes "env ''PAIRING_CODE_FIXED'' = Some v" and "v \<noteq> []" and "trim v = []"
  shows "pairing_code_source env settings pairing = ''fixed''"
    and "\<exists>d. pairing_at_start env settings = Inr d \<and> fixed_code d = None"
  using assms by (simp_all add: pairing_code_source_def pairing_at_start_def with_fixed_code_def Let_def)

end
