(* ===== verification/Startup.thy ===== *)
theory Startup
  imports Session Diagnostics Dashboard Drm_Kms Admin_Correct Config_Correct
begin

text \<open>
  How the two processes start: \<open>main\<close> of \<open>src/main.rs\<close> up to its event loop, and \<open>main\<close> of
  \<open>src/bin/llrdc-management.rs\<close>.  Loading the configuration, the certificate, the display, the GStreamer process and the
  QUIC library are arguments; what is modelled is which settings reach which part.
\<close>

section \<open>The receiver\<close>

text \<open>\<open>config::initialize\<close>: the loaded settings become those of the process and of its environment.\<close>

definition initialize :: "(config_error \<Rightarrow> string) \<Rightarrow> config_error + receiver_settings \<Rightarrow> environment
  \<Rightarrow> string + receiver_settings \<times> environment" where
  "initialize show_error loaded env =
     (case loaded of Inl e \<Rightarrow> Inl (show_error e) | Inr s \<Rightarrow> Inr (s, export_environment s env))"

text \<open>What is outside: whether the certificate loads (the hash of it), the connectors, whether GStreamer starts, what the page
  server finds as certificate and key (\<open>None\<close>: not both files are there) and whether the TLS library takes the pair, on
  which ports the three servers can open their sockets, and the parameters of the transport.\<close>

record start_world =
  sw_identity :: "string + byte list option"
  sw_connectors :: "connector list"
  sw_lossy :: "byte list \<Rightarrow> string"
  sw_spawned :: bool
  sw_page_files :: "((string + byte list list) \<times> (string + byte list)) option"
  sw_pair_ok :: "byte list list \<Rightarrow> byte list \<Rightarrow> bool"
  sw_http_binds :: "u16 \<Rightarrow> bool"
  sw_endpoint_binds :: "u16 \<Rightarrow> bool"
  sw_udp_binds :: "u16 \<Rightarrow> bool"
  sw_idle_fits :: "nat \<Rightarrow> bool"
  sw_parse_key :: "string \<Rightarrow> bool"
  sw_read_file :: "string \<Rightarrow> string option"

text \<open>\<open>run_server\<close> of \<open>src/http_server.rs\<close> up to its accept loop: the port it listens on and whether it offers TLS.  A
  certificate that cannot be read costs only the TLS; a pair that does not fit, or a port that is taken, the server.\<close>

definition page_tls :: "start_world \<Rightarrow> string + bool" where
  "page_tls world =
     (case sw_page_files world of
        Some (Inr certs, Inr key) \<Rightarrow> if sw_pair_ok world certs key then Inr True else Inl ''invalid certificate''
      | _ \<Rightarrow> Inr False)"

definition page_server :: "start_world \<Rightarrow> environment \<Rightarrow> string + u16 \<times> bool" where
  "page_server world env =
     (let http_port = env_or env ''HTTP_PORT'' (word_of_nat DEFAULT_HTTP_PORT)
      in case page_tls world of Inl e \<Rightarrow> Inl e
         | Inr tls \<Rightarrow> if sw_http_binds world http_port then Inr (http_port, tls) else Inl ''port not available'')"

definition transport_server :: "start_world \<Rightarrow> receiver_settings \<Rightarrow> environment \<Rightarrow> string + server_start" where
  "transport_server world =
     run_server_with_identity (sw_idle_fits world) (sw_endpoint_binds world) (sw_udp_binds world) (sw_parse_key world)
       (sw_read_file world)"

text \<open>What has been started when the event loop begins.  The two servers are tasks of their own, whose errors
  are only printed.\<close>

record started =
  sd_settings :: receiver_settings
  sd_pairing :: pairing_data
  sd_registers :: bool
  sd_page :: "string + u16 \<times> bool"
  sd_transport :: "string + server_start"
  sd_setup :: receiver_setup
  sd_receiver :: receiver
  sd_dashboard :: "(u32 \<times> u32) option"

definition idle_dimensions :: "string \<Rightarrow> u32 \<Rightarrow> u32 \<Rightarrow> u32 \<times> u32" where
  "idle_dimensions idle_codec screen_w screen_h =
     (if idle_codec = ''raw'' then raw_dashboard_dimensions screen_w screen_h else (screen_w, screen_h))"

definition start_health :: "u32 \<Rightarrow> u32 \<Rightarrow> u32 \<Rightarrow> edid_info \<Rightarrow> health_snapshot" where
  "start_health screen_w screen_h vrefresh info =
     \<lparr>hs_display_resolution = dims screen_w screen_h, hs_display_fps = vrefresh, hs_panel_resolution = ei_panel_res info,
      hs_edid_name = ei_name info, hs_edid_type = ei_conn_type info, hs_pairing_status = ''READY'',
      hs_cloud_status = ''UNKNOWN'', hs_playback_state = ''idle_dashboard'', hs_reassembly_in_flight = 0,
      hs_dropped_access_units = 0, hs_ignored_media_packets = 0, hs_load_1m = None, hs_load_5m = None, hs_load_15m = None,
      hs_memory_available_mib = None, hs_memory_total_mib = None, hs_soc_temperature_c = None\<rparr>"

definition setup_of :: "environment \<Rightarrow> start_world \<Rightarrow> receiver_setup" where
  "setup_of env world =
     (case autodetect_display_info (sw_lossy world) (sw_connectors world) of (w, h, vrefresh, connector_id, render_rect, info) \<Rightarrow>
        \<lparr>re_env = env, re_screen_w = word_of_nat w, re_screen_h = word_of_nat h, re_vrefresh = word_of_nat vrefresh,
         re_connector = connector_id, re_render_rect = Some render_rect, re_idle_codec = configured_dashboard_codec env,
         re_edid_name = ei_name info, re_edid_type = ei_conn_type info, re_edid_max_res = ei_max_res info,
         re_edid_max_fps = word_of_nat (ei_max_fps info), re_panel_resolution = ei_panel_res info,
         re_idle_timeout_sec = unat (env_or env ''IDLE_TIMEOUT_SEC'' (word_of_nat DEFAULT_IDLE_TIMEOUT_SEC :: u64)),
         re_liveness_timeout_sec =
           unat (env_or env ''SENDER_LIVENESS_TIMEOUT_SEC'' (word_of_nat DEFAULT_SENDER_LIVENESS_TIMEOUT_SEC :: u64))\<rparr>)"

definition start_receiver ::
  "start_world \<Rightarrow> receiver_settings \<Rightarrow> environment \<Rightarrow> instant \<Rightarrow> pairing_data \<Rightarrow> string + started" where
  "start_receiver world settings env now pairing =
     (let setup = setup_of env world;
          idle_codec = configured_dashboard_codec env;
          (idle_w, idle_h) = idle_dimensions idle_codec (re_screen_w setup) (re_screen_h setup);
          info = snd (snd (snd (snd (snd (autodetect_display_info (sw_lossy world) (sw_connectors world))))))
      in case start_persistent_playback env (sw_spawned world) 0 idle_codec (re_connector setup) (re_render_rect setup)
             ''dashboard'' idle_w idle_h of
           None \<Rightarrow> Inl ''pipeline not started''
         | Some engine \<Rightarrow>
           Inr \<lparr>sd_settings = settings, sd_pairing = pairing, sd_registers = cloud_discovery_enabled settings,
             sd_page = page_server world env, sd_transport = transport_server world settings env,
             sd_setup = setup,
             sd_receiver = (let r = initial_receiver engine now in r\<lparr>rv_management := set_health
                 (start_health (re_screen_w setup) (re_screen_h setup) (re_vrefresh setup) info) (rv_management r)\<rparr>),
             sd_dashboard = (if env_bool_or env ''IDLE_DASHBOARD'' True then Some (idle_w, idle_h) else None)\<rparr>)"

text \<open>The transport task holds the only sender of the frame channel.  When it has ended before it served, the channel is
  closed, \<open>rx.recv()\<close> gives \<open>None\<close> and the event loop breaks at its first look at it; with the transport the loop waits
  for a frame.\<close>

definition first_frame_arm :: "started \<Rightarrow> receiver" where
  "first_frame_arm x =
     (case sd_transport x of Inl _ \<Rightarrow> receiver_step (sd_setup x) Channel_Closed (sd_receiver x) | Inr _ \<Rightarrow> sd_receiver x)"

definition receiver_main ::
  "(config_error \<Rightarrow> string) \<Rightarrow> config_error + receiver_settings \<Rightarrow> start_world \<Rightarrow> environment \<Rightarrow> instant \<Rightarrow> string + started" where
  "receiver_main show_error loaded world env now =
     (case initialize show_error loaded env of Inl e \<Rightarrow> Inl e
      | Inr (settings, env) \<Rightarrow>
        (case sw_identity world of Inl e \<Rightarrow> Inl e
         | Inr _ \<Rightarrow>
           (case pairing_at_start env settings of Inl e \<Rightarrow> Inl e
            | Inr pairing \<Rightarrow> start_receiver world settings env now pairing)))"

section \<open>The manager\<close>

datatype manager_run =
    Client "string + string"
  | Manager "string + string \<times> u16" environment

text \<open>\<open>reply\<close> is what the manager's socket answers to the client; \<open>identity\<close> whether a certificate is there or made.  The
  manager sets only the certificate directory in its environment.\<close>

definition management_main ::
  "string list \<Rightarrow> string \<Rightarrow> config_error + receiver_settings \<Rightarrow> (environment \<Rightarrow> bool) \<Rightarrow> environment \<Rightarrow> string + manager_run" where
  "management_main arguments reply loaded identity env =
     (if arguments \<noteq> [] \<and> hd arguments = ''admin'' then
        let rest = tl arguments
        in Inr (Client (run_client (if rest = [] then None else Some (hd rest)) (length rest > 1) reply))
      else
        let settings = (case loaded of Inl _ \<Rightarrow> from_environment env | Inr s \<Rightarrow> s);
            env = env(''CERTS_DIR'' \<mapsto> cert_dir settings)
        in if \<not> identity env then Inl ''certificate unavailable''
           else Inr (Manager (portal_bind (case loaded of Inl _ \<Rightarrow> from_environment env | Inr s \<Rightarrow> s)) env))"

section \<open>What starting promises\<close>

lemma exported_values [simp]:
  "export_environment s env ''HTTP_PORT'' = Some (word_to_string (http_port s))"
  "export_environment s env ''DRM_PLANE_ID'' = Some (drm_plane_id s)"
  "export_environment s env ''IDLE_DASHBOARD'' = Some (bool_to_string (idle_dashboard s))"
  "export_environment s env ''IDLE_DASHBOARD_MODE'' = Some (idle_dashboard_mode s)"
  "export_environment s env ''SENDER_LIVENESS_TIMEOUT_SEC'' = Some (word_to_string (sender_liveness_timeout_sec s))"
  "export_environment s env ''PAIRING_CODE_FIXED'' = env ''PAIRING_CODE_FIXED''"
  "export_environment s env ''PAIRING_WORKER_URL'' = Some (pairing_worker_url s)"
  by (simp_all add: export_environment_def environment_pairs_def)

lemma pairing_start_fields:
  assumes "pairing_at_start env settings = Inr d"
  shows "code_required d = local_pairing_code_required settings"
    and "cloud_discovery_enabled settings \<Longrightarrow> fixed_code d = None"
  using assms by (auto simp: pairing_at_start_def with_fixed_code_def Let_def split: option.splits if_splits)

lemma plane_argument: "''plane-id='' @ env_string_or env ''DRM_PLANE_ID'' DEFAULT_DRM_PLANE_ID
    \<in> set (gst_args env codec connector rect w h)"
  by (simp add: gst_args_def append_kms_sink_args_def Let_def)

lemma setup_fields:
  "re_idle_timeout_sec (setup_of (export_environment s env) world) = unat (idle_timeout_sec s)"
  "re_liveness_timeout_sec (setup_of (export_environment s env) world) = unat (sender_liveness_timeout_sec s)"
  by (simp_all add: setup_of_def split: prod.split)

lemma start_fields:
  assumes "start_receiver world settings env now d = Inr x"
  shows "sd_settings x = settings" "sd_pairing x = d" "sd_registers x = cloud_discovery_enabled settings"
    "sd_page x = page_server world env" "sd_setup x = setup_of env world"
    "sd_transport x = transport_server world settings env"
    "sd_dashboard x \<noteq> None \<longleftrightarrow> env_bool_or env ''IDLE_DASHBOARD'' True"
    "pe_args (rv_engine (sd_receiver x)) = gst_args env (configured_dashboard_codec env) (re_connector (setup_of env world))
       (re_render_rect (setup_of env world))
       (fst (idle_dimensions (configured_dashboard_codec env) (re_screen_w (setup_of env world)) (re_screen_h (setup_of env world))))
       (snd (idle_dimensions (configured_dashboard_codec env) (re_screen_w (setup_of env world)) (re_screen_h (setup_of env world))))"
    "rv_running (sd_receiver x)"
  using assms
  by (auto simp: start_receiver_def start_persistent_playback_def initial_receiver_def Let_def split: prod.splits if_splits)

text \<open>When the page server of a receiver is missing: its certificate and key do not fit, or its port is taken.\<close>

lemma configured_page_server:
  "case page_server world (export_environment s env) of
     Inl _ \<Rightarrow> page_tls world = Inl ''invalid certificate'' \<or> \<not> sw_http_binds world (http_port s)
   | Inr (listening, tls) \<Rightarrow> listening = http_port s \<and> page_tls world = Inr tls"
  by (auto simp: page_server_def page_tls_def Let_def split: sum.splits option.splits)

text \<open>
  Property C35. Once a receiver has started, its parts run with the settings it loaded, whatever the environment held:
  pairing requires a code exactly if configured and has no fixed code beside cloud discovery; the pipeline is on the
  configured plane (which connector it takes is not configurable, see \<open>configured_connector_is_ignored\<close>); the dashboard
  is fed exactly if configured; the event loop has both configured timeouts.  The servers listen on the configured ports,
  the transport with the configured idle timeout and receive buffer.  A server can be missing in these cases only: the page
  server if the TLS library refuses its certificate with its key or its port cannot be opened, the UDP listener if its
  port cannot be opened, and the transport if the QUIC library cannot encode the idle timeout or open the port.  The loop
  survives its first look at the frame channel exactly if there is a transport: without one the whole receiver ends.
\<close>

theorem receiver_starts_as_configured:
  assumes "receiver_main show_error (Inr s) world env now = Inr x"
  shows "sd_settings x = s \<and> code_required (sd_pairing x) = local_pairing_code_required s
    \<and> (sd_registers x \<longleftrightarrow> cloud_discovery_enabled s) \<and> (sd_registers x \<longrightarrow> fixed_code (sd_pairing x) = None)
    \<and> ''plane-id='' @ drm_plane_id s \<in> set (pe_args (rv_engine (sd_receiver x)))
    \<and> (sd_dashboard x \<noteq> None \<longleftrightarrow> idle_dashboard s)
    \<and> re_idle_timeout_sec (sd_setup x) = unat (idle_timeout_sec s)
    \<and> re_liveness_timeout_sec (sd_setup x) = unat (sender_liveness_timeout_sec s)
    \<and> (case sd_page x of
         Inl _ \<Rightarrow> page_tls world = Inl ''invalid certificate'' \<or> \<not> sw_http_binds world (http_port s)
       | Inr (listening, tls) \<Rightarrow> listening = http_port s \<and> page_tls world = Inr tls)
    \<and> (case sd_transport x of
         Inl _ \<Rightarrow> \<not> sw_idle_fits world (unat (idle_timeout_sec s)) \<or> \<not> sw_endpoint_binds world (webtransport_port s)
       | Inr t \<Rightarrow> st_wt_port t = webtransport_port s \<and> st_idle_timeout_sec t = idle_timeout_sec s
         \<and> st_udp t = (if sw_udp_binds world (port s)
             then Some (port s, udp_receive_buffer_bytes (unat (udp_buffer_size_mb s))) else None))
    \<and> (rv_running (first_frame_arm x) \<longleftrightarrow> is_ok (sd_transport x))"
proof -
  let ?env = "export_environment s env"
  obtain d where d: "pairing_at_start ?env s = Inr d" and start: "start_receiver world s ?env now d = Inr x"
    using assms by (auto simp: receiver_main_def initialize_def split: sum.splits)
  note parts = start_fields [OF start]
  have "''plane-id='' @ drm_plane_id s \<in> set (pe_args (rv_engine (sd_receiver x)))"
    unfolding parts(8) using plane_argument [of ?env] by simp
  moreover have "case sd_transport x of
         Inl _ \<Rightarrow> \<not> sw_idle_fits world (unat (idle_timeout_sec s)) \<or> \<not> sw_endpoint_binds world (webtransport_port s)
       | Inr t \<Rightarrow> st_wt_port t = webtransport_port s \<and> st_idle_timeout_sec t = idle_timeout_sec s
         \<and> st_udp t = (if sw_udp_binds world (port s)
             then Some (port s, udp_receive_buffer_bytes (unat (udp_buffer_size_mb s))) else None)"
    using saved_settings_reach_the_server [where s = s and env = env and idle_fits = "sw_idle_fits world"
        and endpoint_binds = "sw_endpoint_binds world" and udp_binds = "sw_udp_binds world"
        and parse_key = "sw_parse_key world" and read_file = "sw_read_file world"]
    unfolding parts(6) transport_server_def by (simp split: sum.splits)
  moreover have "case sd_page x of
         Inl _ \<Rightarrow> page_tls world = Inl ''invalid certificate'' \<or> \<not> sw_http_binds world (http_port s)
       | Inr (listening, tls) \<Rightarrow> listening = http_port s \<and> page_tls world = Inr tls"
    unfolding parts(4) by (rule configured_page_server)
  moreover have "sd_dashboard x \<noteq> None \<longleftrightarrow> idle_dashboard s"
    using parts(7) by simp
  moreover have "rv_running (first_frame_arm x) \<longleftrightarrow> is_ok (sd_transport x)"
    using parts(9) by (simp add: first_frame_arm_def is_ok_def split: sum.split)
  ultimately show ?thesis
    using pairing_start_fields [OF d] by (simp add: parts(1-3,5) setup_fields)
qed

definition sample_world :: start_world where
  "sample_world = \<lparr>sw_identity = Inr None, sw_connectors = [], sw_lossy = (\<lambda>_. []), sw_spawned = True,
     sw_page_files = Some (Inr [[1]], Inr [2]), sw_pair_ok = (\<lambda>_ _. True), sw_http_binds = (\<lambda>p. p \<noteq> 80),
     sw_endpoint_binds = (\<lambda>_. True), sw_udp_binds = (\<lambda>p. p \<noteq> 4434), sw_idle_fits = (\<lambda>n. n \<le> 1000000), sw_parse_key = (\<lambda>_. True), sw_read_file = (\<lambda>_. None)\<rparr>"

lemma sample_start: "\<exists>x. receiver_main show_error (Inr s) sample_world Map.empty 0 = Inr x"
proof -
  have "\<exists>d. pairing_at_start (export_environment s Map.empty) s = Inr d"
    by (simp add: pairing_at_start_def with_fixed_code_def Let_def)
  then show ?thesis
    by (auto simp: receiver_main_def initialize_def start_receiver_def start_persistent_playback_def sample_world_def
        Let_def split_beta)
qed

theorem receiver_starts_as_configured_witness:
  "\<exists>x t. receiver_main (\<lambda>_. []) (Inr default_settings) sample_world Map.empty 0 = Inr x
     \<and> sd_page x = Inr (8080, True) \<and> code_required (sd_pairing x) \<and> sd_transport x = Inr t \<and> st_udp t = None"
proof -
  obtain x where x: "receiver_main (\<lambda>_. []) (Inr default_settings) sample_world Map.empty 0 = Inr x"
    using sample_start by blast
  have "page_tls sample_world = Inr True"
    by (simp add: page_tls_def sample_world_def)
  with receiver_starts_as_configured [OF x]
  have "sd_page x = Inr (8080, True)" "code_required (sd_pairing x)" "\<exists>t. sd_transport x = Inr t \<and> st_udp t = None"
    by (auto simp: default_settings_def limits sample_world_def split: sum.splits)
  with x show ?thesis
    by blast
qed

text \<open>
  The configured connector is ignored: it is validated, saved and exported, but the receiver takes the first connected
  HDMI connector, so two configurations that differ only in it start the same pipeline.
\<close>

lemma other_connector:
  "name \<noteq> ''DRM_CONNECTOR_ID'' \<Longrightarrow>
   export_environment (s\<lparr>drm_connector_id := c\<rparr>) env name = export_environment s env name"
  by (simp add: export_environment_def environment_pairs_def)

theorem configured_connector_is_ignored:
  assumes "receiver_main show_error (Inr s) world env now = Inr x"
    and "receiver_main show_error (Inr (s\<lparr>drm_connector_id := c\<rparr>)) world env now = Inr y"
  shows "pe_args (rv_engine (sd_receiver y)) = pe_args (rv_engine (sd_receiver x))
    \<and> re_connector (sd_setup y) = re_connector (sd_setup x)"
proof -
  let ?t = "s\<lparr>drm_connector_id := c\<rparr>"
  obtain d e where "start_receiver world s (export_environment s env) now d = Inr x"
      "start_receiver world ?t (export_environment ?t env) now e = Inr y"
    using assms by (auto simp: receiver_main_def initialize_def split: sum.splits)
  note parts = start_fields [OF this(1)] start_fields [OF this(2)]
  have "gst_args (export_environment ?t env) codec connector rect w h = gst_args (export_environment s env) codec connector rect w h"
    for codec connector rect w h
    by (simp add: gst_args_def env_string_or_def other_connector)
  moreover have "configured_dashboard_codec (export_environment ?t env) = configured_dashboard_codec (export_environment s env)"
    by (simp add: configured_dashboard_codec_def other_connector)
  moreover have "re_connector (setup_of (export_environment ?t env) world) = re_connector (setup_of (export_environment s env) world)"
      "re_render_rect (setup_of (export_environment ?t env) world) = re_render_rect (setup_of (export_environment s env) world)"
      "re_screen_w (setup_of (export_environment ?t env) world) = re_screen_w (setup_of (export_environment s env) world)"
      "re_screen_h (setup_of (export_environment ?t env) world) = re_screen_h (setup_of (export_environment s env) world)"
    by (simp_all add: setup_of_def split: prod.split)
  ultimately show ?thesis
    by (simp add: parts)
qed

theorem configured_connector_is_ignored_witness:
  "\<exists>x y. receiver_main (\<lambda>_. []) (Inr (default_settings\<lparr>drm_connector_id := ''77''\<rparr>)) sample_world Map.empty 0 = Inr y
     \<and> receiver_main (\<lambda>_. []) (Inr default_settings) sample_world Map.empty 0 = Inr x
     \<and> re_connector (sd_setup y) = re_connector (sd_setup x)"
proof -
  obtain x y where "receiver_main (\<lambda>_. []) (Inr default_settings) sample_world Map.empty 0 = Inr x"
    and "receiver_main (\<lambda>_. []) (Inr (default_settings\<lparr>drm_connector_id := ''77''\<rparr>)) sample_world Map.empty 0 = Inr y"
    using sample_start by blast
  with configured_connector_is_ignored [OF this] show ?thesis
    by blast
qed

text \<open>
  The portal does not see the saved cloud settings: the receiver exports the saved receiver id to its environment
  before it looks for one, the manager looks into an environment that nobody filled.  When that has no receiver id, a valid
  request to turn cloud discovery on is always refused, with that name in its list, although for the receiver it is there.
\<close>

theorem portal_ignores_saved_cloud_settings:
  assumes "management_main [] reply (Inr s) identity env = Inr (Manager listener env')" and "env ''RECEIVER_ID'' = None"
    and "sv_settings m = s" and "\<not> cloud_discovery_enabled s" and "trim (receiver_id s) \<noteq> []"
    and "po_missing p = cloud_configuration_missing probe env'"
    and "settings_request p m path body = Some (edited, confirm)" and "cloud_discovery_enabled (apply_to edited s)"
    and "validate (apply_to edited s) = Inr ()"
  shows "handle_settings p m path body = (answer ''422 Unprocessable Entity'' (Missing_Json (po_missing p)), [])
    \<and> ''receiver_id'' \<in> set (po_missing p)
    \<and> ''receiver_id'' \<notin> set (cloud_configuration_missing probe (export_environment s env))"
proof -
  have "env' ''RECEIVER_ID'' = None"
    using assms(1,2) by (auto simp: management_main_def Let_def split: if_splits)
  then have missing: "''receiver_id'' \<in> set (po_missing p)"
    by (simp add: assms(6) cloud_configuration_missing_def Let_def)
  moreover have "''receiver_id'' \<notin> set (cloud_configuration_missing probe (export_environment s env))"
    using assms(5) by (simp add: cloud_configuration_missing_def Let_def)
  moreover have "po_missing p \<noteq> []"
    using missing by auto
  ultimately show ?thesis
    using assms(3,4,7-9) by (simp add: handle_settings_def Let_def)
qed

definition named_settings :: receiver_settings where
  "named_settings = default_settings\<lparr>receiver_id := ''tv''\<rparr>"

theorem portal_ignores_saved_cloud_settings_witness:
  "\<forall>probe. snd (handle_settings (sample_portal\<lparr>po_cloud_body := (\<lambda>_. Some (True, True)),
        po_missing := cloud_configuration_missing probe [''CERTS_DIR'' \<mapsto> cert_dir named_settings]\<rparr>)
      (sample_supervisor\<lparr>sv_settings := named_settings\<rparr>) ''/api/settings/cloud'' []) = []"
proof
  fix probe
  let ?env = "[''CERTS_DIR'' \<mapsto> cert_dir named_settings]"
  let ?p = "sample_portal\<lparr>po_cloud_body := (\<lambda>_. Some (True, True)), po_missing := cloud_configuration_missing probe ?env\<rparr>"
  let ?m = "sample_supervisor\<lparr>sv_settings := named_settings\<rparr>"
  have valid: "validate (apply_to (editable_from named_settings (Some True)) named_settings) = Inr ()"
    unfolding validate_iff
    by (simp add: settings_valid_def default_settings_def settings_strings_def named_settings_def apply_to_def editable_from_def
        is_single_line_def limits ascii_defs)
  have "management_main [] [] (Inr named_settings) (\<lambda>_. True) Map.empty = Inr (Manager (portal_bind named_settings) ?env)"
    by (simp add: management_main_def)
  moreover have "trim ''tv'' \<noteq> []"
    by code_simp
  moreover have "\<not> cloud_discovery_enabled named_settings" "receiver_id named_settings = ''tv''"
      "settings_request ?p ?m ''/api/settings/cloud'' [] = Some (editable_from named_settings (Some True), True)"
      "cloud_discovery_enabled (apply_to (editable_from named_settings (Some True)) named_settings)"
    by (simp_all add: named_settings_def default_settings_def settings_request_def sample_portal_def apply_to_def
        editable_from_def)
  ultimately show "snd (handle_settings ?p ?m ''/api/settings/cloud'' []) = []"
    using portal_ignores_saved_cloud_settings [where m = ?m and p = ?p and probe = probe and path = "''/api/settings/cloud''"
        and body = "[]" and edited = "editable_from named_settings (Some True)" and confirm = True] valid
    by simp
qed

end
