(* ===== verification/Dashboard_Output.thy ===== *)
theory Dashboard_Output
  imports Dashboard_Correct Receiver_Correct
begin

text \<open>
  \<open>src/dashboard.rs\<close> and \<open>src/playback.rs\<close> together: the queues in front of the GStreamer processes and the threads at
  them, which are the feeder of the dashboard or the reader of its encoder, the event loop, and one writer for each process.
  The threads interleave freely; a call under a lock and a handler of the event loop are one step.
\<close>

section \<open>The encoder\<close>

definition RAW_FRAME_RATE :: string where "RAW_FRAME_RATE = ''1''"
definition ENCODED_KEYFRAME_INTERVAL :: nat where [limits]: "ENCODED_KEYFRAME_INTERVAL = 3600"
definition STDOUT_BUFFER_BYTES :: nat where [limits]: "STDOUT_BUFFER_BYTES = 128 * 1024"

definition encoder_args :: "u32 \<Rightarrow> u32 \<Rightarrow> string list" where
  "encoder_args width height =
     [''-y'', ''-r'', RAW_FRAME_RATE, ''-f'', ''rawvideo'', ''-pixel_format'', ''bgra'', ''-video_size'', dims width height,
      ''-i'', ''-'', ''-c:v'', ''libx265'', ''-preset'', ''ultrafast'', ''-tune'', ''zerolatency'', ''-flush_packets'', ''1'',
      ''-x265-params'', ''keyint='' @ nat_to_string ENCODED_KEYFRAME_INTERVAL @ '':bframes=0:no-scenecut=1'',
      ''-pix_fmt'', ''yuv420p'', ''-f'', ''hevc'', ''-'']"

section \<open>Queues\<close>

text \<open>What is in a queue, by who put it there; a queue is open as long as its writer thread runs.\<close>

datatype piece = Dashboard_Frame "byte list" | Encoder_Chunk "byte list" | Access_Unit playback_buffer

record pipe =
  pp_capacity :: nat
  pp_waiting :: "piece list"
  pp_written :: "piece list"
  pp_open :: bool

definition new_pipe :: "string \<Rightarrow> pipe" where
  "new_pipe norm_codec = \<lparr>pp_capacity = queue_capacity norm_codec, pp_waiting = [], pp_written = [], pp_open = True\<rparr>"

definition has_room :: "pipe \<Rightarrow> bool" where
  "has_room p \<longleftrightarrow> length (pp_waiting p) < pp_capacity p"

text \<open>\<open>try_send\<close>, whose two errors are only printed; and \<open>send\<close>, which waits for room unless the receiving end is gone.\<close>

definition try_send :: "piece \<Rightarrow> pipe \<Rightarrow> pipe" where
  "try_send x p = (if pp_open p \<and> has_room p then p\<lparr>pp_waiting := pp_waiting p @ [x]\<rparr> else p)"

definition can_send :: "pipe \<Rightarrow> bool" where
  "can_send p \<longleftrightarrow> pp_open p \<longrightarrow> has_room p"

definition write_next :: "pipe \<Rightarrow> pipe" where
  "write_next p = (case pp_waiting p of [] \<Rightarrow> p | x # xs \<Rightarrow> p\<lparr>pp_waiting := xs, pp_written := pp_written p @ [x]\<rparr>)"

definition write_fails :: "pipe \<Rightarrow> pipe" where
  "write_fails p = (if pp_waiting p = [] then p else p\<lparr>pp_waiting := [], pp_open := False\<rparr>)"

section \<open>The threads\<close>

text \<open>The event loop, the queue of each process, and the frame the feeder has drawn but not sent.  The counter, which the
  program does not have, is of the dashboard frames sent since the last stream began, while it was active.\<close>

record output_world =
  ow_receiver :: receiver
  ow_pipes :: "nat \<Rightarrow> pipe"
  ow_drawn :: "byte list option"
  ow_late :: nat

definition at_pipe :: "nat \<Rightarrow> (pipe \<Rightarrow> pipe) \<Rightarrow> output_world \<Rightarrow> output_world" where
  "at_pipe i g s = s\<lparr>ow_pipes := (ow_pipes s)(i := g (ow_pipes s i))\<rparr>"

text \<open>\<open>push_frame\<close> sends to the process that the shared writer leads to at that moment.\<close>

definition send_drawn :: "byte list \<Rightarrow> output_world \<Rightarrow> output_world" where
  "send_drawn f s =
     at_pipe (pe_dashboard_writer (rv_engine (ow_receiver s))) (try_send (Dashboard_Frame f))
       (s\<lparr>ow_drawn := None, ow_late := (if rv_streaming_active (ow_receiver s) then ow_late s + 1 else ow_late s)\<rparr>)"

text \<open>A handler of the loop: a reconfiguration opens a new queue, and a frame it plays goes into the engine's.\<close>

definition loop_played :: "receiver_setup \<Rightarrow> receiver_event \<Rightarrow> output_world \<Rightarrow> playback_buffer list" where
  "loop_played e ev s = drop (length (rv_played (ow_receiver s))) (rv_played (receiver_step e ev (ow_receiver s)))"

definition loop_pipes :: "receiver_setup \<Rightarrow> receiver_event \<Rightarrow> output_world \<Rightarrow> nat \<Rightarrow> pipe" where
  "loop_pipes e ev s =
     (let engine = rv_engine (receiver_step e ev (ow_receiver s))
      in if pe_process engine = pe_process (rv_engine (ow_receiver s)) then ow_pipes s
         else (ow_pipes s)(pe_process engine := new_pipe (pe_current_codec engine)))"

definition loop_step :: "receiver_setup \<Rightarrow> receiver_event \<Rightarrow> output_world \<Rightarrow> output_world" where
  "loop_step e ev s =
     (let r = ow_receiver s; r' = receiver_step e ev r
      in fold (\<lambda>b. at_pipe (pe_writer (rv_engine r')) (try_send (Access_Unit b))) (loop_played e ev s)
           (s\<lparr>ow_receiver := r', ow_pipes := loop_pipes e ev s,
              ow_late := (if \<not> rv_streaming_active r \<and> rv_streaming_active r' then 0 else ow_late s)\<rparr>))"

text \<open>A handler that plays a frame waits for room, and the frame counts as played only if the writer takes it.\<close>

definition loop_enabled :: "receiver_setup \<Rightarrow> receiver_event \<Rightarrow> output_world \<Rightarrow> bool" where
  "loop_enabled e ev s \<longleftrightarrow> loop_played e ev s = []
     \<or> (let p = loop_pipes e ev s (pe_writer (rv_engine (receiver_step e ev (ow_receiver s)))) in pp_open p \<and> has_room p)"

inductive output_step :: "receiver_setup \<Rightarrow> nat \<Rightarrow> nat \<Rightarrow> output_world \<Rightarrow> output_world \<Rightarrow> bool"
  for e :: receiver_setup and w h :: nat where
  draws: "re_idle_codec e = ''raw'' \<Longrightarrow> \<not> rv_streaming_active (ow_receiver s) \<Longrightarrow> ow_drawn s = None \<Longrightarrow>
    output_step e w h s (s\<lparr>ow_drawn := Some (dashboard_frame cloud now w h hz ips pairing shown)\<rparr>)"
| sends: "ow_drawn s = Some f \<Longrightarrow> output_step e w h s (send_drawn f s)"
| forwards: "re_idle_codec e = ''hevc'' \<Longrightarrow> c \<noteq> [] \<Longrightarrow> length c \<le> STDOUT_BUFFER_BYTES \<Longrightarrow>
    can_send (ow_pipes s (pe_dashboard_writer (rv_engine (ow_receiver s)))) \<Longrightarrow>
    output_step e w h s (at_pipe (pe_dashboard_writer (rv_engine (ow_receiver s))) (try_send (Encoder_Chunk c)) s)"
| loops: "loop_enabled e ev s \<Longrightarrow> output_step e w h s (loop_step e ev s)"
| writes: "pp_open (ow_pipes s i) \<Longrightarrow> output_step e w h s (at_pipe i write_next s)"
| breaks: "pp_open (ow_pipes s i) \<Longrightarrow> output_step e w h s (at_pipe i write_fails s)"

inductive_cases output_stepE: "output_step e w h s s'"

abbreviation output_steps :: "receiver_setup \<Rightarrow> nat \<Rightarrow> nat \<Rightarrow> output_world \<Rightarrow> output_world \<Rightarrow> bool" where
  "output_steps e w h \<equiv> (output_step e w h)\<^sup>*\<^sup>*"

definition start_output :: "playback_engine \<Rightarrow> instant \<Rightarrow> output_world" where
  "start_output engine now = \<lparr>ow_receiver = initial_receiver engine now,
     ow_pipes = (\<lambda>_. new_pipe (pe_current_codec engine)), ow_drawn = None, ow_late = 0\<rparr>"

section \<open>Bounds\<close>

lemma dashboard_length [simp]:
  "length (draw_ip_dashboard_argb cloud now w h hz ips shown l cl cip buf) = length buf"
proof -
  note lens = painted_length [OF painted_fold] painted_length [OF painted_string] painted_length [OF painted_fitted]
  have cloud: "length (draw_cloud_icon_argb w h x y c s b) = length b" for x y c s b
    unfolding draw_cloud_icon_argb_def by (rule lens(1))
  have address: "length (draw_address w h cip i a y b) = length b" for i a y b
    by (simp add: draw_address_def Let_def lens cloud split: prod.split)
  have "length (draw_addresses w h cip i as y b) = length b" for i as y b
    by (induction as arbitrary: i y b) (simp_all add: address Let_def)
  then show ?thesis
    by (simp add: draw_ip_dashboard_argb_def draw_status_def draw_code_def draw_border_def draw_header_texts_def
        fill_header_def Let_def lens)
qed

lemma frame_length: "length (dashboard_frame cloud now w h hz ips pairing shown) = 4 * (w * h)"
proof -
  have "length (concat (map le_bytes ps)) = 4 * length ps" for ps
    by (induction ps) (simp_all add: le_bytes_def)
  then show ?thesis
    by (simp add: dashboard_frame_def Let_def)
qed

fun whole :: "nat \<Rightarrow> piece \<Rightarrow> bool" where
  "whole n (Dashboard_Frame f) \<longleftrightarrow> length f = n"
| "whole n (Encoder_Chunk c) \<longleftrightarrow> c \<noteq> [] \<and> length c \<le> STDOUT_BUFFER_BYTES"
| "whole n (Access_Unit _) \<longleftrightarrow> True"

definition pipe_ok :: "nat \<Rightarrow> pipe \<Rightarrow> bool" where
  "pipe_ok n p \<longleftrightarrow> pp_capacity p \<le> RAW_QUEUE_CAPACITY \<and> length (pp_waiting p) \<le> pp_capacity p
     \<and> list_all (whole n) (pp_waiting p @ pp_written p)"

lemma pipe_ops [simp]:
  "pipe_ok n (new_pipe c)"
  "pipe_ok n p \<Longrightarrow> whole n x \<Longrightarrow> pipe_ok n (try_send x p)"
  "pipe_ok n p \<Longrightarrow> pipe_ok n (write_next p)"
  "pipe_ok n p \<Longrightarrow> pipe_ok n (write_fails p)"
  by (auto simp: pipe_ok_def new_pipe_def queue_capacity_def try_send_def has_room_def write_next_def write_fails_def limits
      split: list.split)

definition output_ok :: "nat \<Rightarrow> output_world \<Rightarrow> bool" where
  "output_ok n s \<longleftrightarrow> (\<forall>i. pipe_ok n (ow_pipes s i)) \<and> (\<forall>f. ow_drawn s = Some f \<longrightarrow> length f = n)
     \<and> ow_late s + (if rv_streaming_active (ow_receiver s) \<and> ow_drawn s \<noteq> None then 1 else 0) \<le> 1"

lemma at_pipe_fields [simp]:
  "ow_receiver (at_pipe i g s) = ow_receiver s" "ow_drawn (at_pipe i g s) = ow_drawn s"
  "ow_late (at_pipe i g s) = ow_late s"
  "ow_pipes (at_pipe i g s) = (ow_pipes s)(i := g (ow_pipes s i))"
  by (simp_all add: at_pipe_def)

lemma at_pipe_ok: "output_ok n s \<Longrightarrow> (\<And>p. pipe_ok n p \<Longrightarrow> pipe_ok n (g p)) \<Longrightarrow> output_ok n (at_pipe i g s)"
  by (simp add: output_ok_def)

lemma buffers_ok: "output_ok n s \<Longrightarrow> output_ok n (fold (\<lambda>b. at_pipe i (try_send (Access_Unit b))) bs s)"
  by (induction bs arbitrary: s) (simp_all add: at_pipe_ok)

lemma loop_ok: "output_ok n s \<Longrightarrow> output_ok n (loop_step e ev s)"
  unfolding loop_step_def Let_def by (rule buffers_ok) (auto simp: output_ok_def loop_pipes_def Let_def)

lemma output_step_ok: "output_step e w h s s' \<Longrightarrow> output_ok (4 * (w * h)) s \<Longrightarrow> output_ok (4 * (w * h)) s'"
proof (induction rule: output_step.induct)
  case (sends s f)
  then show ?case
    unfolding send_drawn_def by (intro at_pipe_ok) (auto simp: output_ok_def split: if_splits)
qed (simp_all add: at_pipe_ok loop_ok, simp add: output_ok_def frame_length)

lemma output_steps_ok: "output_steps e w h s s' \<Longrightarrow> output_ok (4 * (w * h)) s \<Longrightarrow> output_ok (4 * (w * h)) s'"
  by (induction rule: rtranclp_induct) (auto intro: output_step_ok)

lemma start_output_ok: "output_ok n (start_output engine now)"
  by (simp add: output_ok_def start_output_def)

definition dashboard_bytes :: "pipe \<Rightarrow> nat" where
  "dashboard_bytes p = sum_list (map (\<lambda>x. case x of Dashboard_Frame f \<Rightarrow> length f | _ \<Rightarrow> 0) (pp_waiting p))"

lemma dashboard_bytes_bound: "pipe_ok n p \<Longrightarrow> dashboard_bytes p \<le> 2 * n"
proof -
  assume ok: "pipe_ok n p"
  have "list_all (whole n) xs \<Longrightarrow>
      sum_list (map (\<lambda>x. case x of Dashboard_Frame f \<Rightarrow> length f | _ \<Rightarrow> 0) xs) \<le> length xs * n" for xs
    by (induction xs) (auto split: piece.split)
  then have "dashboard_bytes p \<le> length (pp_waiting p) * n"
    using ok by (simp add: dashboard_bytes_def pipe_ok_def)
  also have "\<dots> \<le> 2 * n"
    using ok by (intro mult_le_mono1) (simp add: pipe_ok_def limits)
  finally show ?thesis .
qed

text \<open>
  Property C36. However the threads interleave, a stalled display holds at most two frames of the dashboard in a queue, so
  never more than eight bytes for each pixel; what reached a queue or a process are whole frames; and each stream finds at
  most one of them behind its start: the frame whose drawing had begun before.
\<close>

theorem late_frames_are_few:
  assumes "output_steps e w h (start_output engine now) s"
  shows "length (pp_waiting (ow_pipes s i)) \<le> 2 \<and> dashboard_bytes (ow_pipes s i) \<le> 2 * (4 * (w * h))
    \<and> (\<forall>f. Dashboard_Frame f \<in> set (pp_waiting (ow_pipes s i) @ pp_written (ow_pipes s i)) \<longrightarrow> length f = 4 * (w * h))
    \<and> ow_late s \<le> 1"
proof -
  have ok: "output_ok (4 * (w * h)) s"
    by (rule output_steps_ok [OF assms start_output_ok])
  then have pipe: "pipe_ok (4 * (w * h)) (ow_pipes s i)"
    by (simp add: output_ok_def)
  then have "length f = 4 * (w * h)" if "Dashboard_Frame f \<in> set (pp_waiting (ow_pipes s i) @ pp_written (ow_pipes s i))" for f
    using that unfolding pipe_ok_def list_all_iff by fastforce
  moreover have "length (pp_waiting (ow_pipes s i)) \<le> 2"
    using pipe unfolding pipe_ok_def limits by linarith
  moreover have "ow_late s \<le> 1"
    using ok by (simp add: output_ok_def)
  ultimately show ?thesis
    using dashboard_bytes_bound [OF pipe] by simp
qed

section \<open>The frame that comes late\<close>

lemma played_frame:
  assumes "\<not> rv_streaming_active r" and "rv_frames r = f # fs" and "vf_codec f = ''hevc''" and "vf_seq f \<le> 1"
    and "pe_current_codec (rv_engine r) = ''raw''" and r': "r' = receiver_step e (Take_Frame now True True) r"
  shows "rv_streaming_active r'" "rv_played r' = rv_played r @ [\<lparr>pb_bytes = vf_access_unit f, pb_timing = frame_timing f\<rparr>]"
    "pe_process (rv_engine r') = Suc (pe_process (rv_engine r))" "pe_current_codec (rv_engine r') = ''h265''"
    "pe_writer (rv_engine r') = Suc (pe_process (rv_engine r))"
    "pe_dashboard_writer (rv_engine r') = Suc (pe_process (rv_engine r))"
proof -
  have norm: "normalize_codec ''hevc'' = ''h265''" "normalize_codec ''h265'' = ''h265''"
    by code_simp+
  have seq: "\<not> vf_seq f > 1"
    using assms(4) by simp
  show "rv_streaming_active r'" "rv_played r' = rv_played r @ [\<lparr>pb_bytes = vf_access_unit f, pb_timing = frame_timing f\<rparr>]"
    "pe_process (rv_engine r') = Suc (pe_process (rv_engine r))" "pe_current_codec (rv_engine r') = ''h265''"
    "pe_writer (rv_engine r') = Suc (pe_process (rv_engine r))"
    "pe_dashboard_writer (rv_engine r') = Suc (pe_process (rv_engine r))"
    using assms(1-5) seq
    by (simp_all add: r' handle_frame_def prepare_frame_def auto_start_def play_frame_def send_telemetry_def Let_def
        ensure_configuration_def start_persistent_playback_def norm)
qed

text \<open>
  Property C37. The flag that should keep the dashboard out of a stream does not: a frame that the feeder began to draw when
  no stream was active is sent to whatever process the shared writer then leads to.  When the first access unit of a stream
  arrives meanwhile, the HEVC decoder of the stream is fed that access unit and behind it the raw pixels of the whole screen.
\<close>

theorem dashboard_frame_enters_stream:
  assumes "re_idle_codec e = ''raw''" and "\<not> rv_streaming_active (ow_receiver s)" and "ow_drawn s = None"
    and "rv_frames (ow_receiver s) = f # fs" and "vf_codec f = ''hevc''" and "vf_seq f \<le> 1"
    and "pe_current_codec (rv_engine (ow_receiver s)) = ''raw''"
  shows "\<exists>s'. output_steps e w h s s' \<and> rv_streaming_active (ow_receiver s')
    \<and> pe_current_codec (rv_engine (ow_receiver s')) = ''h265''
    \<and> pp_written (ow_pipes s' (pe_process (rv_engine (ow_receiver s')))) =
        [Access_Unit \<lparr>pb_bytes = vf_access_unit f, pb_timing = frame_timing f\<rparr>,
         Dashboard_Frame (dashboard_frame cloud now w h hz ips pairing shown)]"
proof -
  let ?i = "Suc (pe_process (rv_engine (ow_receiver s)))" and ?ev = "Take_Frame 0 True True"
  let ?f = "dashboard_frame cloud now w h hz ips pairing shown"
  let ?b = "Access_Unit \<lparr>pb_bytes = vf_access_unit f, pb_timing = frame_timing f\<rparr>"
  define a where "a = s\<lparr>ow_drawn := Some ?f\<rparr>"
  define b where "b = loop_step e ?ev a"
  define c where "c = send_drawn ?f (at_pipe ?i write_next b)"
  note frame = played_frame [OF assms(2,4-7) refl, of e 0]
  have a: "ow_receiver a = ow_receiver s" "ow_drawn a = Some ?f"
    by (simp_all add: a_def)
  have played: "loop_played e ?ev a = [\<lparr>pb_bytes = vf_access_unit f, pb_timing = frame_timing f\<rparr>]"
      and pipes: "loop_pipes e ?ev a ?i = new_pipe ''h265''"
    by (simp_all add: loop_played_def loop_pipes_def Let_def frame a del: receiver_step.simps)
  have new: "pp_open (new_pipe ''h265'')" "has_room (new_pipe ''h265'')" "pp_waiting (new_pipe ''h265'') = []"
      "pp_written (new_pipe ''h265'') = []" "pp_capacity (new_pipe ''h265'') = 1"
    by (simp_all add: new_pipe_def has_room_def queue_capacity_def limits)
  have b: "ow_pipes b ?i = (new_pipe ''h265'')\<lparr>pp_waiting := [?b]\<rparr>" "ow_drawn b = Some ?f"
      "rv_streaming_active (ow_receiver b)" "pe_process (rv_engine (ow_receiver b)) = ?i"
      "pe_current_codec (rv_engine (ow_receiver b)) = ''h265''" "pe_dashboard_writer (rv_engine (ow_receiver b)) = ?i"
    by (simp_all add: b_def loop_step_def Let_def played pipes frame a try_send_def new del: receiver_step.simps)
  have "output_step e w h s a"
    unfolding a_def by (rule draws [OF assms(1-3)])
  moreover have "output_step e w h a b"
    unfolding b_def
    by (intro loops) (simp add: loop_enabled_def played pipes frame a new Let_def del: receiver_step.simps)
  moreover have "output_step e w h b (at_pipe ?i write_next b)"
    by (rule writes) (simp add: b new)
  moreover have "output_step e w h (at_pipe ?i write_next b) c"
    unfolding c_def by (rule sends) (simp add: b)
  moreover have c: "ow_pipes c ?i = (new_pipe ''h265'')\<lparr>pp_waiting := [Dashboard_Frame ?f], pp_written := [?b]\<rparr>"
      "ow_receiver c = ow_receiver b"
    by (simp_all add: c_def send_drawn_def b try_send_def has_room_def write_next_def new)
  moreover have "output_step e w h c (at_pipe ?i write_next c)"
    by (rule writes) (simp add: c new)
  ultimately have "output_steps e w h s (at_pipe ?i write_next c)"
    by (meson converse_rtranclp_into_rtranclp rtranclp.rtrancl_refl)
  then show ?thesis
    by (intro exI [of _ "at_pipe ?i write_next c"]) (simp add: b c write_next_def)
qed

definition sample_output :: output_world where
  "sample_output = (start_output (sample_engine\<lparr>pe_current_codec := ''raw''\<rparr>) 0)
     \<lparr>ow_receiver := (initial_receiver (sample_engine\<lparr>pe_current_codec := ''raw''\<rparr>) 0)\<lparr>rv_frames := [sample_frame]\<rparr>\<rparr>"

theorem dashboard_frame_enters_stream_witness:
  "\<exists>s'. output_steps (sample_setup\<lparr>re_idle_codec := ''raw''\<rparr>) 2 1 sample_output s'
     \<and> rv_streaming_active (ow_receiver s')"
proof -
  have "re_idle_codec (sample_setup\<lparr>re_idle_codec := ''raw''\<rparr>) = ''raw''" "\<not> rv_streaming_active (ow_receiver sample_output)"
      "ow_drawn sample_output = None" "rv_frames (ow_receiver sample_output) = sample_frame # []" "vf_codec sample_frame = ''hevc''"
      "vf_seq sample_frame \<le> 1" "pe_current_codec (rv_engine (ow_receiver sample_output)) = ''raw''"
    by (simp_all add: sample_output_def start_output_def initial_receiver_def sample_frame_def stop_frame_def)
  from dashboard_frame_enters_stream [OF this, of 2 1] show ?thesis
    by blast
qed

theorem late_frames_are_few_witness:
  "\<forall>pairing. \<exists>s' :: output_world. ow_drawn s' = Some (dashboard_frame False None 2 1 60 [] pairing None)
     \<and> length (pp_waiting (ow_pipes s' 0)) \<le> 2 \<and> ow_late s' \<le> 1"
proof
  fix pairing
  let ?s = "start_output sample_engine 0" and ?e = "sample_setup\<lparr>re_idle_codec := ''raw''\<rparr>"
  let ?f = "dashboard_frame False None 2 1 60 [] pairing None"
  have "output_step ?e 2 1 ?s (?s\<lparr>ow_drawn := Some ?f\<rparr>)"
    by (rule draws) (simp_all add: start_output_def initial_receiver_def)
  then have "output_steps ?e 2 1 ?s (?s\<lparr>ow_drawn := Some ?f\<rparr>)"
    by (rule r_into_rtranclp)
  note late = late_frames_are_few [OF this, of 0]
  show "\<exists>s' :: output_world. ow_drawn s' = Some ?f \<and> length (pp_waiting (ow_pipes s' 0)) \<le> 2 \<and> ow_late s' \<le> 1"
    by (rule exI [of _ "?s\<lparr>ow_drawn := Some ?f\<rparr>"]) (use late in simp)
qed

end
