(* ===== verification/Portal_Server.thy ===== *)
theory Portal_Server
  imports Cert_Correct Admin
begin

text \<open>
  The loop of the management portal, \<open>run_server\<close> of \<open>src/admin.rs\<close>, beside the hourly rotation of the manager: each
  connection loads the certificate files anew, one after the other, and every error of the loop ends it and with it the
  process.  The TLS library's judgement on a certificate and a key is an argument.
\<close>

section \<open>The loop\<close>

text \<open>\<open>load_certs\<close> and \<open>load_key\<close>, two reads of the file system, and \<open>with_single_cert\<close> on what they returned.  A file that
  yields no certificate makes an error, at the latest in the last of the three.\<close>

definition load_certs :: "cert_store \<Rightarrow> string + cert_file" where
  "load_certs s = (case cf_cert s of None \<Rightarrow> Inl ''no certificate file'' | Some f \<Rightarrow> Inr f)"

definition load_key :: "cert_store \<Rightarrow> string + nat" where
  "load_key s = (case cf_key s of None \<Rightarrow> Inl ''no key file'' | Some k \<Rightarrow> Inr k)"

definition with_single_cert :: "(certificate \<Rightarrow> nat \<Rightarrow> bool) \<Rightarrow> cert_file \<Rightarrow> nat \<Rightarrow> string + certificate \<times> nat" where
  "with_single_cert single_cert f k =
     (case f of Unusable \<Rightarrow> Inl ''no certificate''
      | Holds c \<Rightarrow> if single_cert c k then Inr (c, k) else Inl ''inconsistent keys'')"

text \<open>What happens to the loop: a connection is accepted and the certificate read, then the key (and the handshake, with its
  outcome); \<open>accept\<close> fails; one file operation of a rotation, which runs in a task of its own, at any moment; and the
  interrupt of \<open>main\<close>, which the loop notices only where it waits.  \<open>ps_loading\<close> is the certificate of the connection that
  has no key yet.\<close>

datatype portal_event = Accepts | Reads_Key bool | Accept_Fails string | Rotates cert_op | Interrupted

record portal_server =
  ps_store :: cert_store
  ps_loading :: "cert_file option"
  ps_handled :: nat
  ps_ended :: "(string + unit) option"

fun portal_step :: "(certificate \<Rightarrow> nat \<Rightarrow> bool) \<Rightarrow> portal_event \<Rightarrow> portal_server \<Rightarrow> portal_server" where
  "portal_step single_cert Accepts s =
     (if ps_loading s \<noteq> None then s
      else case load_certs (ps_store s) of Inl e \<Rightarrow> s\<lparr>ps_ended := Some (Inl e)\<rparr> | Inr f \<Rightarrow> s\<lparr>ps_loading := Some f\<rparr>)"
| "portal_step single_cert (Reads_Key shakes) s =
     (case ps_loading s of None \<Rightarrow> s
      | Some f \<Rightarrow>
        (case load_key (ps_store s) of Inl e \<Rightarrow> s\<lparr>ps_ended := Some (Inl e)\<rparr>
         | Inr k \<Rightarrow>
           (case with_single_cert single_cert f k of Inl e \<Rightarrow> s\<lparr>ps_ended := Some (Inl e)\<rparr>
            | Inr _ \<Rightarrow> s\<lparr>ps_loading := None, ps_handled := (if shakes then ps_handled s + 1 else ps_handled s)\<rparr>)))"
| "portal_step single_cert (Accept_Fails e) s = (if ps_loading s \<noteq> None then s else s\<lparr>ps_ended := Some (Inl e)\<rparr>)"
| "portal_step single_cert (Rotates op) s = s\<lparr>ps_store := apply_op op (ps_store s)\<rparr>"
| "portal_step single_cert Interrupted s = (if ps_loading s \<noteq> None then s else s\<lparr>ps_ended := Some (Inr ())\<rparr>)"

definition portal_round :: "(certificate \<Rightarrow> nat \<Rightarrow> bool) \<Rightarrow> portal_event \<Rightarrow> portal_server \<Rightarrow> portal_server" where
  "portal_round single_cert ev s = (if ps_ended s \<noteq> None then s else portal_step single_cert ev s)"

definition new_portal :: "cert_store \<Rightarrow> portal_server" where
  "new_portal store = \<lparr>ps_store = store, ps_loading = None, ps_handled = 0, ps_ended = None\<rparr>"

text \<open>\<open>main\<close> makes the identity, \<open>run_server\<close> refuses to bind to every address, and then the loop runs.\<close>

definition run_portal ::
  "(certificate \<Rightarrow> nat \<Rightarrow> bool) \<Rightarrow> receiver_settings \<Rightarrow> cert_store \<Rightarrow> portal_event list \<Rightarrow> portal_server" where
  "run_portal single_cert settings store events =
     (case portal_bind settings of
        Inl e \<Rightarrow> (new_portal store)\<lparr>ps_ended := Some (Inl e)\<rparr>
      | Inr _ \<Rightarrow> fold (portal_round single_cert) events (new_portal store))"

section \<open>Rotation and connections\<close>

lemma rotates_run:
  "ps_ended s = None \<Longrightarrow> fold (portal_round single_cert) (map Rotates ops) s = s\<lparr>ps_store := fold apply_op ops (ps_store s)\<rparr>"
  by (induction ops arbitrary: s) (simp_all add: portal_round_def)

text \<open>A connection whose two reads fall before two operations of a rotation.\<close>

definition rotation_with_connection :: "cert_op list \<Rightarrow> nat \<Rightarrow> nat \<Rightarrow> portal_event list" where
  "rotation_with_connection ops i j =
     map Rotates (take i ops) @ [Accepts] @ map Rotates (drop i (take j ops)) @ [Reads_Key True]"

lemma take_then_drop:
  assumes "i \<le> j"
  shows "fold f (drop i (take j xs)) (fold f (take i xs) s) = fold f (take j xs) s"
proof -
  have "take i xs @ drop i (take j xs) = take j xs"
    using append_take_drop_id [of i "take j xs"] assms by (simp add: min_def)
  then have "fold f (take j xs) s = fold f (take i xs @ drop i (take j xs)) s"
    by (rule arg_cong [OF sym])
  then show ?thesis
    by (simp only: fold_append comp_apply)
qed

text \<open>The state after it: what was read of the certificate at the first moment and of the key at the second.\<close>

lemma connection_run:
  assumes "i \<le> j" and "cf_cert (fold apply_op (take i ops) s) = Some f"
  shows "fold (portal_round single_cert) (rotation_with_connection ops i j) (new_portal s)
    = portal_round single_cert (Reads_Key True)
        \<lparr>ps_store = fold apply_op (take j ops) s, ps_loading = Some f, ps_handled = 0, ps_ended = None\<rparr>"
  using assms
  by (simp add: rotation_with_connection_def rotates_run new_portal_def portal_round_def load_certs_def take_then_drop)

text \<open>
  Property C38. A connection at the wrong moment ends the manager: the rotation renames the key before the certificate,
  and the portal reads for each connection first the certificate and then the key, while the rotation goes on.  If the TLS
  library takes a certificate only with its own key, then a connection that reads the certificate after \<open>i\<close> and the key after
  \<open>j\<close> of the file operations of a rotation is answered, unless it has the old certificate and the new key, that is, unless
  the certificate was read before its rename, the eighth operation, and the key after its own, the seventh: then the
  connection ends the portal with an error, and the process and the watching of the receiver with it.
\<close>

theorem connection_during_rotation_ends_manager:
  assumes "matching s" and "cf_key s \<noteq> Some key" and "\<And>c k. single_cert c k \<longleftrightarrow> ct_key c = k"
    and "is_ok (portal_bind settings)" and "i \<le> j"
  shows "(ps_ended (run_portal single_cert settings s (rotation_with_connection (identity_ops now key) i j)) \<noteq> None
      \<longleftrightarrow> i \<le> 7 \<and> 7 \<le> j)
    \<and> (\<not> (i \<le> 7 \<and> 7 \<le> j) \<longrightarrow>
        ps_handled (run_portal single_cert settings s (rotation_with_connection (identity_ops now key) i j)) = 1)"
proof -
  obtain c where c: "cf_cert s = Some (Holds c)" "cf_key s = Some (ct_key c)"
    using assms(1) by (auto simp: matching_def)
  let ?f = "if i \<le> 7 then Holds c else Holds (fresh_certificate now key)"
  have "cf_cert (fold apply_op (take i (identity_ops now key)) s) = Some ?f"
    by (simp add: cert_after c)
  from connection_run [OF assms(5) this, of single_cert]
  have run: "run_portal single_cert settings s (rotation_with_connection (identity_ops now key) i j)
    = portal_round single_cert (Reads_Key True) \<lparr>ps_store = fold apply_op (take j (identity_ops now key)) s,
        ps_loading = Some ?f, ps_handled = 0, ps_ended = None\<rparr>"
    using assms(4) by (simp add: run_portal_def is_ok_def split: sum.splits)
  have "ct_key (fresh_certificate now key) = key" "ct_key c \<noteq> key"
    using assms(2) c(2) by (simp_all add: fresh_certificate_def)
  then show ?thesis
    unfolding run using assms(5)
    by (auto simp: portal_round_def load_key_def with_single_cert_def key_after c(2) assms(3))
qed

theorem connection_during_rotation_ends_manager_witness:
  "ps_ended (run_portal (\<lambda>c k. ct_key c = k) (default_settings\<lparr>admin_bind_address := ''tv''\<rparr>) expired_store
     (rotation_with_connection (identity_ops 1200000 2) 5 9)) \<noteq> None"
proof -
  have "trim ''tv'' \<noteq> []"
    by code_simp
  then show ?thesis
    using connection_during_rotation_ends_manager [of expired_store 2 "\<lambda>c k. ct_key c = k"
        "default_settings\<lparr>admin_bind_address := ''tv''\<rparr>" 5 9 1200000]
    by (simp add: expired_store_def matching_def portal_bind_def is_ok_def)
qed

text \<open>
  When a key was lost beside a valid certificate and a replacement broke off between the renames, each later start of the
  manager takes the two files as they are and is ended by the first connection, as long as that certificate is valid.
\<close>

lemma mismatch_ends_every_start:
  assumes "cf_cert s = Some (Holds c)" and "is_cert_valid now (cf_cert s)" and "cf_key s = None" and "key \<noteq> ct_key c"
    and "is_cert_valid later (cf_cert s)" and "\<And>c k. single_cert c k \<longleftrightarrow> ct_key c = k"
  shows "ps_ended (run_portal single_cert settings (get_or_create_identity later key' 9 (get_or_create_identity now key 7 s))
      (Accepts # Reads_Key shakes # events)) \<noteq> None
    \<and> ps_handled (run_portal single_cert settings (get_or_create_identity later key' 9 (get_or_create_identity now key 7 s))
      (Accepts # Reads_Key shakes # events)) = 0"
proof -
  let ?t = "get_or_create_identity now key 7 s"
  have t: "get_or_create_identity later key' 9 ?t = ?t"
    using lost_key_leaves_mismatch [OF assms(1-5)] by blast
  have ended: "ps_ended x \<noteq> None \<Longrightarrow> fold (portal_round single_cert) evs x = x" for evs x
    by (induction evs) (simp_all add: portal_round_def)
  have "load_certs ?t = Inr (Holds c)" "load_key ?t = Inr key" "with_single_cert single_cert (Holds c) key = Inl ''inconsistent keys''"
    using assms(1-4)
    by (simp_all add: load_certs_def load_key_def with_single_cert_def get_or_create_identity_def need_generate_def cert_after
        key_after assms(6))
  then have "fold (portal_round single_cert) (Accepts # Reads_Key shakes # events) (new_portal ?t)
      = (new_portal ?t)\<lparr>ps_loading := Some (Holds c), ps_ended := Some (Inl ''inconsistent keys'')\<rparr>"
    by (simp add: portal_round_def new_portal_def ended)
  then show ?thesis
    by (simp add: t run_portal_def new_portal_def split: sum.split)
qed

end
