(* ===== verification/Registration.thy ===== *)
theory Registration
  imports Discovery_Correct
begin

text \<open>
  \<open>src/cloud_discovery.rs\<close>: the registration request of \<open>spawn_registration\<close>, that is its body, what is signed, its
  headers, and how the answer of the worker becomes an outcome of the loop.  The JSON text of an object, HMAC-SHA256 and
  HTTP are arguments; texts are their bytes.
\<close>

section \<open>The request\<close>

definition registration_body :: "string \<Rightarrow> string \<Rightarrow> u16 \<Rightarrow> string \<Rightarrow> json" where
  "registration_body rid ip wt_port hash =
     Json_Object [(''receiver_id'', Json_String rid), (''ip_address'', Json_String ip),
       (''webtransport_port'', Json_Int (uint wt_port)), (''cert_hash_hex'', Json_String hash)]"

definition signed_message :: "u64 \<Rightarrow> string \<Rightarrow> string \<Rightarrow> string" where
  "signed_message timestamp nonce body =
     word_to_string timestamp @ [CHR 0x0A] @ nonce @ [CHR 0x0A] @ body"

record registration_request =
  rr_url :: string
  rr_headers :: "(string \<times> string) list"
  rr_body :: string

definition registration_request_of ::
  "(json \<Rightarrow> string) \<Rightarrow> (byte list \<Rightarrow> string \<Rightarrow> byte list) \<Rightarrow> string \<Rightarrow> byte list \<Rightarrow> u64 \<Rightarrow> byte list \<Rightarrow> json
   \<Rightarrow> registration_request" where
  "registration_request_of print_json hmac worker_url key timestamp drawn body_object =
     (let body = print_json body_object;
          nonce = random_nonce drawn;
          signature = concat (map hex_byte (hmac key (signed_message timestamp nonce body)))
      in \<lparr>rr_url = worker_url @ ''/api/receiver/register'',
          rr_headers = [(''content-type'', ''application/json''), (''x-receiver-timestamp'', word_to_string timestamp),
            (''x-receiver-nonce'', nonce), (''x-receiver-signature'', signature)],
          rr_body = body\<rparr>)"

section \<open>The answer\<close>

datatype worker_answer = Answered nat "json option" | No_Answer

definition read_registration :: "json \<Rightarrow> (string \<times> u64) option" where
  "read_registration j =
     (case j of
        Json_Object fs \<Rightarrow>
          (case (map_of fs ''pairing_code'', map_of fs ''code_expires_at'') of
             (Some (Json_String c), Some (Json_Int n)) \<Rightarrow> if 0 \<le> n \<and> n < 2 ^ 64 then Some (c, word_of_int n) else None
           | _ \<Rightarrow> None)
      | _ \<Rightarrow> None)"

definition outcome_of :: "string option \<Rightarrow> worker_answer \<Rightarrow> nat \<Rightarrow> instant \<Rightarrow> registration_outcome" where
  "outcome_of ip ans unix_now now =
     (case ip of None \<Rightarrow> No_Address
      | Some a \<Rightarrow>
        (case ans of
           No_Answer \<Rightarrow> Request_Failed
         | Answered st body \<Rightarrow>
           if 200 \<le> st \<and> st < 300 then
             (case body \<bind> read_registration of None \<Rightarrow> Unreadable_Answer
              | Some (c, e) \<Rightarrow> Registered a c (unat e) unix_now now)
           else Rejected))"

section \<open>What the signature covers\<close>

lemma hex_digits: "list_all (\<lambda>m. hex_digit m \<noteq> CHR 0x0A \<and> list_all (\<lambda>n. hex_digit m = hex_digit n \<longrightarrow> m = n) [0..<16]) [0..<16]"
  by code_simp

lemma hex_digit_inj: "m < 16 \<Longrightarrow> n < 16 \<Longrightarrow> hex_digit m = hex_digit n \<Longrightarrow> m = n"
  and hex_digit_solid: "m < 16 \<Longrightarrow> hex_digit m \<noteq> CHR 0x0A"
  using hex_digits by (simp_all add: list_all_iff)

lemma byte_digits: "unat (b :: byte) div 16 < 16" "unat b mod 16 < 16"
  using unat_below [of b] by simp_all

lemma hex_byte_inj: "hex_byte a = hex_byte b \<Longrightarrow> a = b"
proof -
  assume "hex_byte a = hex_byte b"
  then have "unat a div 16 = unat b div 16" "unat a mod 16 = unat b mod 16"
    using hex_digit_inj byte_digits by (simp_all add: hex_byte_def)
  then have "unat a = unat b"
    by (metis div_mult_mod_eq)
  then show "a = b"
    by (rule word_unat_eq_iff [THEN iffD2])
qed

lemma random_nonce_inj: "random_nonce xs = random_nonce ys \<Longrightarrow> xs = ys"
proof (induction xs arbitrary: ys)
  case Nil
  then show ?case
    by (cases ys) (simp_all add: random_nonce_def hex_byte_def)
next
  case (Cons x xs)
  show ?case
  proof (cases ys)
    case (Cons y zs)
    then have "hex_byte x @ random_nonce xs = hex_byte y @ random_nonce zs"
      using Cons.prems by (simp add: random_nonce_def)
    then have "hex_byte x = hex_byte y" "random_nonce xs = random_nonce zs"
      by (simp_all add: hex_byte_def)
    then show ?thesis
      using hex_byte_inj Cons.IH \<open>ys = y # zs\<close> by blast
  qed (use Cons.prems in \<open>simp add: random_nonce_def hex_byte_def\<close>)
qed

lemma nonce_solid: "CHR 0x0A \<notin> set (random_nonce xs)"
proof
  assume "CHR 0x0A \<in> set (random_nonce xs)"
  then obtain b where "CHR 0x0A \<in> set (hex_byte b)"
    by (auto simp: random_nonce_def)
  then show False
    using hex_digit_solid [OF byte_digits(1) [of b]] hex_digit_solid [OF byte_digits(2) [of b]] by (auto simp: hex_byte_def)
qed

lemma timestamp_solid: "CHR 0x0A \<notin> set (word_to_string w)"
proof -
  have "\<not> is_ascii_digit (CHR 0x0A)"
    by code_simp
  then show ?thesis
    using nat_to_string_digits [of "CHR 0x0A" "unat w"] by (auto simp: word_to_string_def)
qed

lemma first_line: "(x :: char) \<notin> set a \<Longrightarrow> x \<notin> set b \<Longrightarrow> a @ x # c = b @ x # d \<Longrightarrow> a = b \<and> c = d"
  using split_once_Some [of x "a @ x # c" a c] split_once_Some [of x "a @ x # c" b d] by simp

lemma signed_message_inj:
  "signed_message t (random_nonce xs) a = signed_message u (random_nonce ys) b \<Longrightarrow> t = u \<and> xs = ys \<and> a = b"
proof -
  assume "signed_message t (random_nonce xs) a = signed_message u (random_nonce ys) b"
  then have "word_to_string t = word_to_string u \<and>
      random_nonce xs @ CHR 0x0A # a = random_nonce ys @ CHR 0x0A # b"
    using first_line [OF timestamp_solid timestamp_solid] by (simp add: signed_message_def)
  then have "word_to_string t = word_to_string u" "random_nonce xs = random_nonce ys" "a = b"
    using first_line [OF nonce_solid nonce_solid] by blast+
  then show ?thesis
    using random_nonce_inj parse_word_to_string [of t] parse_word_to_string [of u] by (simp add: word_unat_eq_iff)
qed

text \<open>
  Property C39. The signature covers the request: two registration requests made with one key and carrying the same
  signature have the same headers and the same body, unless their own two signed texts are different and have the same
  HMAC.  No time, nonce and body can be cut differently to give the same signed text.
\<close>

theorem signature_covers_request:
  fixes print_json hmac key t xs a u ys b
  defines "m \<equiv> signed_message t (random_nonce xs) (print_json a)" and "m' \<equiv> signed_message u (random_nonce ys) (print_json b)"
  assumes "r = registration_request_of print_json hmac url key t xs a"
    and "r' = registration_request_of print_json hmac url' key u ys b"
    and "map_of (rr_headers r) ''x-receiver-signature'' = map_of (rr_headers r') ''x-receiver-signature''"
  shows "rr_headers r = rr_headers r' \<and> rr_body r = rr_body r' \<or> m \<noteq> m' \<and> hmac key m = hmac key m'"
proof -
  have "random_nonce (hmac key m) = random_nonce (hmac key m')"
    using assms(3-5) by (simp add: registration_request_of_def Let_def random_nonce_def m_def m'_def)
  then have "hmac key m = hmac key m'"
    by (rule random_nonce_inj)
  moreover have "rr_headers r = rr_headers r' \<and> rr_body r = rr_body r'" if "m = m'"
    using signed_message_inj [OF that [unfolded m_def m'_def]] assms(3,4) by (simp add: registration_request_of_def Let_def)
  ultimately show ?thesis
    by blast
qed

text \<open>An instance of the parameters whose result is injective, so that the signatures differ if anything does.\<close>

definition plain_sign :: "byte list \<Rightarrow> string \<Rightarrow> byte list" where
  "plain_sign key m = key @ map (\<lambda>c. word_of_nat (of_char c)) m"

lemma plain_sign_inj: "plain_sign key m = plain_sign key m' \<Longrightarrow> m = m'"
proof -
  have "inj (\<lambda>c. word_of_nat (of_char c) :: byte)"
  proof (rule injI)
    fix c d :: char
    assume "(word_of_nat (of_char c) :: byte) = word_of_nat (of_char d)"
    then have "unat (word_of_nat (of_char c) :: byte) = unat (word_of_nat (of_char d) :: byte)"
      by simp
    then show "c = d"
      by (simp add: unat_of_nat)
  qed
  then show "plain_sign key m = plain_sign key m' \<Longrightarrow> m = m'"
    by (simp add: plain_sign_def inj_map_eq_map)
qed

theorem signature_covers_request_witness:
  "let r = registration_request_of (\<lambda>_. ''b'') plain_sign ''https://a'' [] 7 [1] Json_Null;
       r' = registration_request_of (\<lambda>_. ''b'') plain_sign ''https://b'' [] 7 [1] Json_Null
   in rr_headers r = rr_headers r' \<and> rr_body r = rr_body r'"
proof -
  let ?r = "registration_request_of (\<lambda>_. ''b'') plain_sign ''https://a'' [] 7 [1] Json_Null"
  let ?r' = "registration_request_of (\<lambda>_. ''b'') plain_sign ''https://b'' [] 7 [1] Json_Null"
  have "map_of (rr_headers ?r) ''x-receiver-signature'' = map_of (rr_headers ?r') ''x-receiver-signature''"
    by (simp add: registration_request_of_def Let_def)
  from signature_covers_request [OF refl refl this] show ?thesis
    unfolding Let_def using plain_sign_inj by blast
qed

end
