(* ===== verification/Pairing_System.thy ===== *)
theory Pairing_System
  imports Admin_Cli Webtransport_Correct
begin

text \<open>
  Pairing from end to end: from the command line of the administrator, through the two Unix sockets and the pairing state
  that all transports share, to the admission of a browser that was given the code.
\<close>

section \<open>A code that stays\<close>

text \<open>What others do to the pairing state before the code ends, the attempts of one peer apart.\<close>

fun spares :: "string \<Rightarrow> pairing_event \<Rightarrow> bool" where
  "spares peer (Try_Code c p now) = (p \<noteq> peer)"
| "spares peer _ = True"

definition standing :: "string \<Rightarrow> instant \<Rightarrow> string \<Rightarrow> (u32 \<times> instant) option \<Rightarrow> pairing_data \<Rightarrow> bool" where
  "standing c until peer a d \<longleftrightarrow> live c until d \<and> failed_attempts d peer = a"

lemma standing_step:
  assumes "standing c until peer a d" and "before until e" and "spares peer e"
  shows "standing c until peer a (pairing_step e d)"
proof -
  have "failed_attempts (pairing_step e d) peer = failed_attempts d peer"
    using assms by (cases e) (auto simp: standing_def live_def ensure_fallback_code_def needs_code_def set_cloud_status_def
        set_cloud_ip_def snapshot_def other_peer Let_def)
  then show ?thesis
    using assms live_step by (auto simp: standing_def)
qed

interpretation standing_code: invariant_machine pairing_step "standing c until peer a" "\<lambda>e. before until e \<and> spares peer e"
  for c until peer a
  by unfold_locales (simp add: standing_step)

section \<open>Typing it\<close>

lemma alphanumeric_lower [simp]: "is_ascii_alphanumeric (ascii_lower c) = is_ascii_alphanumeric c"
  by (auto simp: is_ascii_alphanumeric_def is_ascii_alphabetic_def is_ascii_lowercase_def
      is_ascii_uppercase_def is_ascii_digit_def code_of_lower)

lemma valid_any_case:
  assumes "to_ascii_lowercase v = to_ascii_lowercase c" and "is_valid_pairing_code c"
  shows "is_valid_pairing_code v"
proof -
  have same: "length (to_ascii_lowercase s) = length s" "list_all is_ascii_alphanumeric (to_ascii_lowercase s)
      = list_all is_ascii_alphanumeric s" for s
    by (simp_all add: to_ascii_lowercase_def list_all_iff)
  show ?thesis
    using assms same [of v] same [of c] by (simp add: is_valid_pairing_code_def)
qed

lemma code_admitted:
  assumes "standing c until peer a d" and "now < until" and "is_valid_pairing_code v"
    and "to_ascii_lowercase v = to_ascii_lowercase c" and "\<forall>n since. a = Some (n, since) \<longrightarrow> n < word_of_nat PAIRING_ATTEMPT_LIMIT"
  shows "fst (validate_code v peer now d) = Inr ()"
proof -
  have "0 < (word_of_nat PAIRING_ATTEMPT_LIMIT :: u32)"
    by (simp add: limits)
  then have "fst (current_attempts peer now d) < word_of_nat PAIRING_ATTEMPT_LIMIT"
    using assms(1,5) by (auto simp: current_attempts_def standing_def Let_def split: option.split)
  moreover have "code_accepted v now d"
    using assms(1-4) by (simp add: code_accepted_def standing_def live_def eq_ignore_ascii_case_def)
  ultimately show ?thesis
    by (simp add: validate_code_def Let_def)
qed

section \<open>The whole way\<close>

text \<open>
  Property C34. The code the administrator reads lets a browser in: once \<open>llrdc-management admin pairing-code\<close> has printed a
  code, a browser that gives it in any case of its letters before it ends is admitted, whatever the timer, other readers and
  other peers did to the pairing state meanwhile, wrong guesses included, as long as the cloud published no other code and
  the browser's own wrong attempts were below the limit.
\<close>

theorem printed_code_admits:
  assumes "codec_ok codec" and "pairing_ok d" and "admin_pairing_code codec now ready m d = Inr c"
    and "expires_at d = Some until" and "list_all (\<lambda>e. before until e \<and> spares (normalize_peer_ip address) e) es"
    and "tp_pairing t = fold pairing_step es d" and "later < until"
    and "connection_query path = (Some v, None)" and "to_ascii_lowercase v = to_ascii_lowercase c"
    and "\<forall>n since. failed_attempts d (normalize_peer_ip address) = Some (n, since) \<longrightarrow> n < word_of_nat PAIRING_ATTEMPT_LIMIT"
  shows "fst (admit lib required later unix_sec path address True t)
    = Inr (''wt-'' @ word_to_string (tp_next_connection_id t), normalize_peer_ip address, ''lan_security_code'')"
proof -
  let ?peer = "normalize_peer_ip address"
  have printed: "code (fst (snapshot now d)) = Some c"
    using assms(3) unfolding admin_prints_published_code [OF assms(1,2)] by (simp split: option.splits)
  then have valid: "is_valid_pairing_code v"
    using valid_any_case [OF assms(9)] snapshot_code [OF assms(2)] by blast
  have "standing c until ?peer (failed_attempts d ?peer) d"
    using printed assms(4) by (auto simp: standing_def live_def snapshot_def Let_def split: if_splits)
  then have "standing c until ?peer (failed_attempts d ?peer) (tp_pairing t)"
    unfolding assms(6) by (rule standing_code.run_inv [OF _ assms(5)])
  then have "fst (validate_code v ?peer later (tp_pairing t)) = Inr ()"
    by (rule code_admitted [OF _ assms(7) valid assms(9,10)])
  then obtain d' where "validate_code v ?peer later (tp_pairing t) = (Inr (), d')"
    by (metis prod.collapse)
  then show ?thesis
    by (simp add: admit_def assms(8) pairing_admission_def admit_code_def admit_token_def authentication_label_def Let_def)
qed

theorem printed_code_admits_witness:
  "fst (admit sample_library True 60 0 ''/?code=ab12'' (V4 (192, 168, 1, 9)) True
     (sample_transport\<lparr>tp_pairing := fold pairing_step [Read_Snapshot 5, Try_Code ''zzzz'' ''10.0.0.7'' 6] sample_published\<rparr>))
   = Inr (''wt-1'', ''192.168.1.9'', ''lan_security_code'')"
proof -
  have peer: "normalize_peer_ip (V4 (192, 168, 1, 9)) = ''192.168.1.9''" and id: "word_to_string (1 :: u64) = ''1''"
      and query: "connection_query ''/?code=ab12'' = (Some ''ab12'', None)"
      and lower: "to_ascii_lowercase ''ab12'' = to_ascii_lowercase ''AB12''"
    by code_simp+
  have "expires_at sample_published = Some 100"
      "list_all (\<lambda>e. before 100 e \<and> spares (normalize_peer_ip (V4 (192, 168, 1, 9))) e)
        [Read_Snapshot 5, Try_Code ''zzzz'' ''10.0.0.7'' 6]"
      "\<forall>n since. failed_attempts sample_published (normalize_peer_ip (V4 (192, 168, 1, 9))) = Some (n, since)
        \<longrightarrow> n < word_of_nat PAIRING_ATTEMPT_LIMIT"
    by (simp_all add: sample_published_def peer)
  from printed_code_admits [OF sample_codec_ok sample_published_ok printed_sample this(1,2) _ _ query lower this(3),
      where t = "sample_transport\<lparr>tp_pairing := fold pairing_step [Read_Snapshot 5, Try_Code ''zzzz'' ''10.0.0.7'' 6]
        sample_published\<rparr>" and later = 60 and lib = sample_library and required = True and unix_sec = 0]
  show ?thesis
    by (simp add: peer id sample_transport_def)
qed

end
