(* ===== verification/Telemetry.thy ===== *)
theory Telemetry
  imports Webtransport_Correct "HOL-Library.Sublist"
begin

text \<open>
  \<open>src/control.rs\<close>, \<open>src/webtransport_server.rs\<close> and \<open>src/http_server.rs\<close>: how telemetry reaches a client.  Whatever part
  of the receiver calls \<open>send_telemetry\<close> puts a message into a broadcast channel; for each control stream one task
  forwards what it receives into a queue that one writer task empties into the stream, and answers to pings go
  into the same queue.  The tasks interleave freely, and a task that waits takes no step.
\<close>

definition DEFAULT_TELEMETRY_CHANNEL_CAPACITY :: nat where [limits]: "DEFAULT_TELEMETRY_CHANNEL_CAPACITY = 100"
definition OUTBOUND_CAPACITY :: nat where [limits]: "OUTBOUND_CAPACITY = 32"

section \<open>The broadcast channel\<close>

text \<open>The channel is the async library's, from the side of one receiver: \<open>bl_subscribe\<close> makes one for a channel of at
  least the capacity asked for, \<open>bl_send\<close> is a message being sent, and \<open>bl_recv\<close> what \<open>recv\<close> gives.\<close>

datatype 'm received = Received 'm | Lagged | Closed | Waiting

record ('m, 's) broadcast_library =
  bl_subscribe :: "nat \<Rightarrow> 's"
  bl_send :: "'m \<Rightarrow> 's \<Rightarrow> 's"
  bl_recv :: "'s \<Rightarrow> 'm received \<times> 's"

text \<open>What its documentation says, in terms of the messages a receiver has not seen and of whether it has missed any:
  the channel keeps the newest \<open>capacity c\<close>, and a receiver that missed one is told so once and goes on with the oldest kept.\<close>

definition documented_broadcast ::
  "('m, 's) broadcast_library \<Rightarrow> nat \<Rightarrow> ('s \<Rightarrow> 'm list) \<Rightarrow> ('s \<Rightarrow> bool) \<Rightarrow> bool" where
  "documented_broadcast lib capacity unread missed \<longleftrightarrow>
     DEFAULT_TELEMETRY_CHANNEL_CAPACITY \<le> capacity
     \<and> (let r = bl_subscribe lib DEFAULT_TELEMETRY_CHANNEL_CAPACITY in unread r = [] \<and> \<not> missed r)
     \<and> (\<forall>m r. unread (bl_send lib m r) = pop_front_over capacity (unread r @ [m])
          \<and> (missed (bl_send lib m r) \<longleftrightarrow> missed r \<or> capacity \<le> length (unread r)))
     \<and> (\<forall>r. let (x, r') = bl_recv lib r in
          if missed r then x = Lagged \<and> unread r' = unread r \<and> \<not> missed r'
          else \<not> missed r' \<and> unread r' = tl (unread r) \<and> x = (case unread r of [] \<Rightarrow> Waiting | m # ms \<Rightarrow> Received m))"

section \<open>The tasks of a control stream\<close>

text \<open>The receiver of the forwarding task, whether the task runs, the message it is sending to the queue, the queue, and
  whether the writer runs and what it has written.  The program does not keep the last two: what went into the queue from
  the broadcast and from the answers.\<close>

record 's control_tasks =
  ct_receiver :: 's
  ct_forwarding :: bool
  ct_pending :: "byte list option"
  ct_outbound :: "byte list list"
  ct_writer :: bool
  ct_stream :: "byte list"
  ct_forwarded :: "byte list list"
  ct_answered :: "byte list list"

text \<open>\<open>Writes\<close> is the writer's next message, of which the stream takes all bytes, or fails after so many.\<close>

datatype task_event = Broadcast telemetry_message | Forwards | Writes "nat option" | Answers "byte list"

text \<open>\<open>ControlChannel::new\<close> makes the channel that the stream subscribes to, \<open>send_telemetry\<close> sends into it.\<close>

definition new_telemetry :: "(telemetry_message, 's) broadcast_library \<Rightarrow> 's" where
  "new_telemetry lib = bl_subscribe lib DEFAULT_TELEMETRY_CHANNEL_CAPACITY"

definition broadcast_telemetry ::
  "(telemetry_message, 's) broadcast_library \<Rightarrow> telemetry_message \<Rightarrow> 's control_tasks \<Rightarrow> 's control_tasks" where
  "broadcast_telemetry lib m s = s\<lparr>ct_receiver := bl_send lib m (ct_receiver s)\<rparr>"

definition start_tasks :: "(telemetry_message, 's) broadcast_library \<Rightarrow> 's control_tasks" where
  "start_tasks lib = \<lparr>ct_receiver = new_telemetry lib, ct_forwarding = True,
     ct_pending = None, ct_outbound = [], ct_writer = True, ct_stream = [], ct_forwarded = [], ct_answered = []\<rparr>"

text \<open>\<open>while let Ok(message) = telemetry_rx.recv()\<close>: an error of any kind ends the task.\<close>

definition forward_next ::
  "(telemetry_message, 's) broadcast_library \<Rightarrow> (telemetry_message \<Rightarrow> byte list option) \<Rightarrow> 's control_tasks \<Rightarrow> 's control_tasks" where
  "forward_next lib encode s =
     (if \<not> ct_forwarding s then s
      else case ct_pending s of
        Some payload \<Rightarrow>
          if \<not> ct_writer s then s\<lparr>ct_forwarding := False, ct_pending := None\<rparr>
          else if length (ct_outbound s) < OUTBOUND_CAPACITY
          then s\<lparr>ct_pending := None, ct_outbound := ct_outbound s @ [payload], ct_forwarded := ct_forwarded s @ [payload]\<rparr>
          else s
      | None \<Rightarrow>
        (case bl_recv lib (ct_receiver s) of
           (Received message, r) \<Rightarrow> s\<lparr>ct_receiver := r, ct_pending := encode message\<rparr>
         | (Waiting, r) \<Rightarrow> s
         | (_, r) \<Rightarrow> s\<lparr>ct_receiver := r, ct_forwarding := False\<rparr>))"

definition write_outbound :: "nat option \<Rightarrow> 's control_tasks \<Rightarrow> 's control_tasks" where
  "write_outbound failure s =
     (if \<not> ct_writer s then s
      else case ct_outbound s of [] \<Rightarrow> s
      | payload # ps \<Rightarrow>
        (case (write_control_message payload, failure) of
           (Some bytes, None) \<Rightarrow> s\<lparr>ct_outbound := ps, ct_stream := ct_stream s @ bytes\<rparr>
         | (Some bytes, Some k) \<Rightarrow> s\<lparr>ct_outbound := [], ct_writer := False, ct_stream := ct_stream s @ take k bytes\<rparr>
         | (None, _) \<Rightarrow> s\<lparr>ct_outbound := [], ct_writer := False\<rparr>))"

text \<open>The send at the end of \<open>route_control_payload\<close>, whose error is ignored.\<close>

definition send_answer :: "byte list \<Rightarrow> 's control_tasks \<Rightarrow> 's control_tasks" where
  "send_answer response_payload s =
     (if ct_writer s \<and> length (ct_outbound s) < OUTBOUND_CAPACITY
      then s\<lparr>ct_outbound := ct_outbound s @ [response_payload], ct_answered := ct_answered s @ [response_payload]\<rparr> else s)"

fun task_step ::
  "(telemetry_message, 's) broadcast_library \<Rightarrow> (telemetry_message \<Rightarrow> byte list option) \<Rightarrow> task_event
   \<Rightarrow> 's control_tasks \<Rightarrow> 's control_tasks" where
  "task_step lib encode (Broadcast m) s = broadcast_telemetry lib m s"
| "task_step lib encode Forwards s = forward_next lib encode s"
| "task_step lib encode (Writes failure) s = write_outbound failure s"
| "task_step lib encode (Answers p) s = send_answer p s"

definition held_payload :: "'s control_tasks \<Rightarrow> byte list list" where
  "held_payload s = (case ct_pending s of None \<Rightarrow> [] | Some p \<Rightarrow> [p])"

declare broadcast_telemetry_def [simp]

section \<open>What the stream carries\<close>

lemma shuffles_append: "zs \<in> shuffles xs ys \<Longrightarrow> zs' \<in> shuffles xs' ys' \<Longrightarrow> zs @ zs' \<in> shuffles (xs @ xs') (ys @ ys')"
  by (induction zs arbitrary: xs ys) (auto simp: Cons_in_shuffles_iff)

lemma shuffles_snoc:
  "zs \<in> shuffles xs ys \<Longrightarrow> zs @ [p] \<in> shuffles (xs @ [p]) ys"
  "zs \<in> shuffles xs ys \<Longrightarrow> zs @ [p] \<in> shuffles xs (ys @ [p])"
  using shuffles_append [of zs xs ys "[p]" "[p]" "[]"] shuffles_append [of zs xs ys "[p]" "[]" "[p]"] by simp_all

interpretation stream_format: message_format framed "read_messages u32_max" "legal_message u32_max"
  by unfold_locales (simp_all add: format_laws read_nothing)

lemma written_framed: "p \<noteq> [] \<Longrightarrow> write_control_message p = Some bytes \<Longrightarrow> bytes = framed p \<and> legal_message u32_max p"
  by (auto simp: write_control_message_def framed_def legal_message_def split: if_splits)

text \<open>\<open>written\<close> are the messages in the stream, \<open>gone\<close> those a failed writer took with it.\<close>

definition stream_shape :: "byte list list \<Rightarrow> byte list list \<Rightarrow> byte list \<Rightarrow> 's control_tasks \<Rightarrow> bool" where
  "stream_shape written gone part s \<longleftrightarrow>
     ct_stream s = concat (map framed written) @ part \<and> read_messages u32_max part = []
     \<and> list_all (legal_message u32_max) written \<and> written @ gone @ ct_outbound s \<in> shuffles (ct_answered s) (ct_forwarded s)
     \<and> (ct_writer s \<longrightarrow> gone = [] \<and> part = []) \<and> (\<not> ct_writer s \<longrightarrow> ct_outbound s = [])
     \<and> [] \<notin> set (ct_outbound s) \<and> [] \<notin> set (held_payload s)"

definition stream_ok :: "'s control_tasks \<Rightarrow> bool" where
  "stream_ok s \<longleftrightarrow> (\<exists>written gone part. stream_shape written gone part s) \<and> length (ct_outbound s) \<le> OUTBOUND_CAPACITY"

definition payloads_nonempty :: "(telemetry_message \<Rightarrow> byte list option) \<Rightarrow> task_event list \<Rightarrow> bool" where
  "payloads_nonempty encode es \<longleftrightarrow> (\<forall>m. encode m \<noteq> Some []) \<and> Answers [] \<notin> set es"

lemma write_shape:
  assumes "stream_shape written gone part s"
  shows "\<exists>w g c. stream_shape w g c (write_outbound failure s)"
proof (cases "ct_writer s \<and> ct_outbound s \<noteq> []")
  case False
  then have "write_outbound failure s = s"
    by (auto simp: write_outbound_def split: list.split)
  then show ?thesis
    using assms by auto
next
  case True
  then obtain p ps where q: "ct_writer s" "ct_outbound s = p # ps"
    by (auto simp: neq_Nil_conv)
  note shape = assms [unfolded stream_shape_def]
  show ?thesis
  proof (cases "write_control_message p")
    case None
    then have "stream_shape written (p # ps) [] (write_outbound failure s)"
      using shape q by (auto simp: stream_shape_def write_outbound_def held_payload_def read_nothing)
    then show ?thesis by blast
  next
    case (Some bytes)
    then have b: "bytes = framed p" "legal_message u32_max p"
      using written_framed shape q by auto
    show ?thesis
    proof (cases failure)
      case None
      then have "stream_shape (written @ [p]) [] [] (write_outbound failure s)"
        using shape q Some b by (auto simp: stream_shape_def write_outbound_def held_payload_def read_nothing)
      then show ?thesis by blast
    next
      case (Some k)
      show ?thesis
      proof (cases "k < length (framed p)")
        case True
        then have "stream_shape written (p # ps) (take k (framed p)) (write_outbound failure s)"
          using shape q \<open>write_control_message p = _\<close> b Some stream_format.read_cut [of p k]
          by (auto simp: stream_shape_def write_outbound_def held_payload_def read_nothing)
        then show ?thesis by blast
      next
        case False
        then have "stream_shape (written @ [p]) ps [] (write_outbound failure s)"
          using shape q \<open>write_control_message p = _\<close> b Some
          by (auto simp: stream_shape_def write_outbound_def held_payload_def read_nothing)
        then show ?thesis by blast
      qed
    qed
  qed
qed

lemma answer_shape: "stream_shape w g c s \<Longrightarrow> p \<noteq> [] \<Longrightarrow> stream_shape w g c (send_answer p s)"
  using shuffles_snoc(1) [of "w @ ct_outbound s"] by (auto simp: send_answer_def stream_shape_def held_payload_def)

lemma forward_shape:
  assumes "stream_shape w g c s" and "\<forall>m. encode m \<noteq> Some []"
  shows "stream_shape w g c (forward_next lib encode s)"
proof (cases "ct_pending s")
  case None
  then show ?thesis
    using assms by (auto simp: forward_next_def stream_shape_def held_payload_def split: prod.split received.split option.split)
next
  case (Some p)
  then show ?thesis
    using assms shuffles_snoc(2) [of "w @ ct_outbound s"] by (auto simp: forward_next_def stream_shape_def held_payload_def)
qed

lemma outbound_bounded: "length (ct_outbound s) \<le> OUTBOUND_CAPACITY \<Longrightarrow> length (ct_outbound (task_step lib encode e s)) \<le> OUTBOUND_CAPACITY"
  by (cases e)
     (auto simp: forward_next_def write_outbound_def send_answer_def split: option.split prod.split received.split list.split)

lemma task_shape:
  "stream_shape w g c s \<Longrightarrow> \<forall>m. encode m \<noteq> Some [] \<Longrightarrow> e \<noteq> Answers [] \<Longrightarrow>
    \<exists>w g c. stream_shape w g c (task_step lib encode e s)"
proof (cases e)
  case (Broadcast m)
  moreover assume "stream_shape w g c s"
  ultimately have "stream_shape w g c (task_step lib encode e s)"
    by (simp add: stream_shape_def held_payload_def)
  then show ?thesis by blast
next
  case (Answers p)
  moreover assume "stream_shape w g c s" "e \<noteq> Answers []"
  ultimately have "stream_shape w g c (task_step lib encode e s)"
    by (auto intro: answer_shape)
  then show ?thesis by blast
next
  case Forwards
  moreover assume "stream_shape w g c s" "\<forall>m. encode m \<noteq> Some []"
  ultimately have "stream_shape w g c (task_step lib encode e s)"
    by (auto intro: forward_shape)
  then show ?thesis by blast
qed (simp add: write_shape)

lemma task_step_ok: "stream_ok s \<Longrightarrow> \<forall>m. encode m \<noteq> Some [] \<Longrightarrow> e \<noteq> Answers [] \<Longrightarrow> stream_ok (task_step lib encode e s)"
  using task_shape [of _ _ _ s encode e lib] outbound_bounded [of s lib encode e] unfolding stream_ok_def by blast

lemma start_tasks_ok: "stream_ok (start_tasks lib)"
  unfolding stream_ok_def stream_shape_def
  by (intro conjI exI [of _ "[]"]) (simp_all add: start_tasks_def held_payload_def read_nothing)

interpretation task_machine:
  invariant_machine "task_step lib encode" "\<lambda>s. stream_ok s \<and> (\<forall>m. encode m \<noteq> Some [])" "\<lambda>e. e \<noteq> Answers []" for lib encode
  by unfold_locales (simp add: task_step_ok)

section \<open>What the forwarding task lets through\<close>

definition encoded :: "(telemetry_message \<Rightarrow> byte list option) \<Rightarrow> telemetry_message list \<Rightarrow> byte list list" where
  "encoded encode ms = List.map_filter encode ms"

lemma encoded_simps [simp]:
  "encoded encode [] = []" "encoded encode (m # ms) = (case encode m of None \<Rightarrow> [] | Some p \<Rightarrow> [p]) @ encoded encode ms"
  "encoded encode (ms @ ns) = encoded encode ms @ encoded encode ns"
  by (simp_all add: encoded_def map_filter_def split: option.split)

definition accounted ::
  "('s \<Rightarrow> telemetry_message list) \<Rightarrow> ('s \<Rightarrow> bool) \<Rightarrow> (telemetry_message \<Rightarrow> byte list option)
   \<Rightarrow> telemetry_message list \<Rightarrow> 's control_tasks \<Rightarrow> bool" where
  "accounted unread missed encode sent s \<longleftrightarrow>
     prefix (ct_forwarded s @ held_payload s) (encoded encode sent)
     \<and> (ct_forwarding s \<and> \<not> missed (ct_receiver s) \<longrightarrow>
          ct_forwarded s @ held_payload s @ encoded encode (unread (ct_receiver s)) = encoded encode sent)"

lemma documented_send:
  assumes "documented_broadcast lib capacity unread missed"
  shows "missed (bl_send lib m r) \<longleftrightarrow> missed r \<or> capacity \<le> length (unread r)"
    and "unread (bl_send lib m r) = pop_front_over capacity (unread r @ [m])"
  using assms by (simp_all add: documented_broadcast_def)

lemma documented_recv:
  assumes "documented_broadcast lib capacity unread missed" and "bl_recv lib r = (x, r')"
  shows "if missed r then x = Lagged \<and> unread r' = unread r \<and> \<not> missed r'
    else \<not> missed r' \<and> unread r' = tl (unread r) \<and> x = (case unread r of [] \<Rightarrow> Waiting | m # ms \<Rightarrow> Received m)"
  using assms by (auto simp: documented_broadcast_def Let_def split: prod.splits dest: spec [of _ r])

lemma forward_accounted:
  assumes law: "documented_broadcast lib capacity unread missed" and "accounted unread missed encode sent s"
  shows "accounted unread missed encode sent (forward_next lib encode s)"
proof (cases "ct_pending s")
  case None
  obtain x r where r: "bl_recv lib (ct_receiver s) = (x, r)"
    by fastforce
  show ?thesis
    using documented_recv [OF law r] assms(2) None r
    by (auto simp: forward_next_def accounted_def held_payload_def split: if_splits received.split list.splits option.splits
        intro: prefixI [where zs = "encoded encode (unread r)"])
next
  case (Some p)
  then show ?thesis
    using assms(2) by (auto simp: forward_next_def accounted_def held_payload_def dest: append_prefixD)
qed

fun broadcast_of :: "task_event \<Rightarrow> telemetry_message list" where
  "broadcast_of (Broadcast m) = [m]"
| "broadcast_of _ = []"

lemma task_accounted:
  assumes law: "documented_broadcast lib capacity unread missed" and acc: "accounted unread missed encode sent s"
  shows "accounted unread missed encode (sent @ broadcast_of e) (task_step lib encode e s)"
proof (cases e)
  case (Broadcast m)
  then show ?thesis
    using acc documented_send [OF law, of m "ct_receiver s"]
    by (auto simp: accounted_def held_payload_def pop_front_over_id intro: prefix_prefix)
next
  case Forwards
  then show ?thesis
    using forward_accounted [OF assms] by simp
next
  case (Writes failure)
  then show ?thesis
    using acc by (auto simp: accounted_def held_payload_def write_outbound_def split: list.split option.split prod.split)
next
  case (Answers p)
  then show ?thesis
    using acc by (auto simp: accounted_def held_payload_def send_answer_def)
qed

lemma run_accounted:
  "documented_broadcast lib capacity unread missed \<Longrightarrow> accounted unread missed encode sent s \<Longrightarrow>
   accounted unread missed encode (sent @ concat (map broadcast_of es)) (fold (task_step lib encode) es s)"
proof (induction es arbitrary: s sent)
  case (Cons e es)
  then show ?case
    using Cons.IH [of "sent @ broadcast_of e" "task_step lib encode e s"] task_accounted by fastforce
qed simp

lemma start_accounted: "documented_broadcast lib capacity unread missed \<Longrightarrow> accounted unread missed encode [] (start_tasks lib)"
  by (simp add: documented_broadcast_def Let_def accounted_def start_tasks_def new_telemetry_def held_payload_def)

section \<open>Falling behind\<close>

definition ends_with :: "('s \<Rightarrow> bool) \<Rightarrow> byte list list \<Rightarrow> 's control_tasks \<Rightarrow> bool" where
  "ends_with missed ps s \<longleftrightarrow> (ct_forwarding s \<longrightarrow> missed (ct_receiver s)) \<and> prefix (ct_forwarded s @ held_payload s) ps"

lemma lag_kept:
  assumes law: "documented_broadcast lib capacity unread missed" and lag: "ends_with missed ps s"
  shows "ends_with missed ps (task_step lib encode e s)"
proof (cases e)
  case (Broadcast m)
  then show ?thesis
    using lag documented_send [OF law, of m "ct_receiver s"] by (simp add: ends_with_def held_payload_def)
next
  case Forwards
  obtain x r where r: "bl_recv lib (ct_receiver s) = (x, r)"
    by fastforce
  show ?thesis
    using documented_recv [OF law r] lag Forwards r
    by (auto simp: forward_next_def ends_with_def held_payload_def dest: append_prefixD split: option.splits)
next
  case (Writes failure)
  then show ?thesis
    using lag by (auto simp: ends_with_def held_payload_def write_outbound_def split: list.split option.split prod.split)
next
  case (Answers p)
  then show ?thesis
    using lag by (auto simp: ends_with_def held_payload_def send_answer_def)
qed

lemma lag_forever:
  "documented_broadcast lib capacity unread missed \<Longrightarrow> ends_with missed ps s \<Longrightarrow>
   ends_with missed ps (fold (task_step lib encode) es s)"
  by (induction es arbitrary: s) (simp_all add: lag_kept)

text \<open>While the client reads nothing, a full queue holds every task but the one that broadcasts.\<close>

definition stalled :: "'s control_tasks \<Rightarrow> bool" where
  "stalled s \<longleftrightarrow> ct_writer s \<and> ct_forwarding s \<and> ct_pending s \<noteq> None \<and> OUTBOUND_CAPACITY \<le> length (ct_outbound s)"

lemma stalled_step:
  assumes "stalled s" and "\<forall>k. e \<noteq> Writes k"
  shows "task_step lib encode e s = s\<lparr>ct_receiver := fold (bl_send lib) (broadcast_of e) (ct_receiver s)\<rparr>"
  using assms by (cases e) (auto simp: stalled_def forward_next_def send_answer_def)

lemma stalled_run:
  assumes "stalled s" and "\<forall>k. Writes k \<notin> set es"
  shows "fold (task_step lib encode) es s = s\<lparr>ct_receiver := fold (bl_send lib) (concat (map broadcast_of es)) (ct_receiver s)\<rparr>"
  using assms
proof (induction es arbitrary: s)
  case (Cons e es)
  let ?s = "s\<lparr>ct_receiver := fold (bl_send lib) (broadcast_of e) (ct_receiver s)\<rparr>"
  have "stalled ?s"
    using Cons.prems(1) by (simp add: stalled_def)
  moreover have "\<forall>k. e \<noteq> Writes k"
    using Cons.prems(2) by auto
  ultimately show ?case
    using Cons.IH [of ?s] Cons.prems stalled_step [of s e lib encode] by simp
qed simp

lemma missed_kept: "documented_broadcast lib capacity unread missed \<Longrightarrow> missed r \<Longrightarrow> missed (fold (bl_send lib) ms r)"
  by (induction ms arbitrary: r) (simp_all add: documented_send)

lemma overrun:
  assumes law: "documented_broadcast lib capacity unread missed"
  shows "capacity < length (unread r) + length ms \<Longrightarrow> ms \<noteq> [] \<Longrightarrow> missed (fold (bl_send lib) ms r)"
proof (induction ms arbitrary: r)
  case (Cons m ms)
  show ?case
  proof (cases "capacity \<le> length (unread r)")
    case True
    then show ?thesis
      by (simp add: missed_kept [OF law] documented_send [OF law])
  next
    case False
    then show ?thesis
      using Cons by (cases ms) (simp_all add: documented_send [OF law] pop_front_over_id)
  qed
qed simp

section \<open>The WebSocket\<close>

text \<open>The task of \<open>handle_websocket_connection\<close> sends each message itself, and waits while the socket does; \<open>sent\<close> says
  whether a text could be sent.\<close>

record 's websocket_task =
  wk_receiver :: 's
  wk_running :: bool
  wk_sent :: "string list"

definition websocket_forward ::
  "(telemetry_message, 's) broadcast_library \<Rightarrow> (telemetry_message \<Rightarrow> string option) \<Rightarrow> bool \<Rightarrow> 's websocket_task
   \<Rightarrow> 's websocket_task" where
  "websocket_forward lib to_text sent s =
     (if \<not> wk_running s then s
      else case bl_recv lib (wk_receiver s) of
        (Received msg, r) \<Rightarrow>
          (case to_text msg of None \<Rightarrow> s\<lparr>wk_receiver := r\<rparr>
           | Some t \<Rightarrow> if sent then s\<lparr>wk_receiver := r, wk_sent := wk_sent s @ [t]\<rparr>
                       else s\<lparr>wk_receiver := r, wk_running := False\<rparr>)
      | (Waiting, r) \<Rightarrow> s
      | (_, r) \<Rightarrow> s\<lparr>wk_receiver := r, wk_running := False\<rparr>)"

lemma websocket_lag:
  assumes law: "documented_broadcast lib capacity unread missed"
    and "capacity < length ms" and "wk_running s"
  shows "\<not> wk_running (websocket_forward lib to_text ok (s\<lparr>wk_receiver := fold (bl_send lib) ms (wk_receiver s)\<rparr>))
    \<and> wk_sent (websocket_forward lib to_text ok (s\<lparr>wk_receiver := fold (bl_send lib) ms (wk_receiver s)\<rparr>)) = wk_sent s"
proof -
  let ?r = "fold (bl_send lib) ms (wk_receiver s)"
  have m: "missed ?r"
    using overrun [OF law, of "wk_receiver s" ms] assms(2) by (cases ms) simp_all
  obtain x r where r: "bl_recv lib ?r = (x, r)"
    by fastforce
  then show ?thesis
    using documented_recv [OF law r] m assms(3) by (simp add: websocket_forward_def)
qed

section \<open>Properties\<close>

text \<open>A channel on which the documentation holds, for the witnesses.\<close>

definition list_broadcast :: "('m, 'm list \<times> bool) broadcast_library" where
  "list_broadcast = \<lparr>bl_subscribe = (\<lambda>c. ([], False)),
     bl_send = (\<lambda>m (ms, b). (pop_front_over 100 (ms @ [m]), b \<or> 100 \<le> length ms)),
     bl_recv = (\<lambda>(ms, b). if b then (Lagged, (ms, False))
       else case ms of [] \<Rightarrow> (Waiting, (ms, b)) | m # r \<Rightarrow> (Received m, (r, b)))\<rparr>"

lemma list_broadcast_documented: "documented_broadcast list_broadcast 100 fst snd"
  by (auto simp: documented_broadcast_def list_broadcast_def limits Let_def split: prod.splits list.splits if_splits)

text \<open>
  Property C16. However the tasks of a control stream interleave, the client reads whole messages: what it has read
  and what still waits are an interleaving of the answers to its pings and the telemetry forwarded, each in its
  order.  The telemetry forwarded is an initial part of what was broadcast since the stream opened, and all of it but what
  the task holds and what the channel keeps, as long as the task runs and the channel has dropped nothing.
\<close>

theorem telemetry_arrives_in_order:
  assumes "documented_broadcast lib capacity unread missed"
    and "\<forall>m. encode m \<noteq> Some []" and "Answers [] \<notin> set es"
    and "s = fold (task_step lib encode) es (start_tasks lib)" and "sent = concat (map broadcast_of es)"
  shows "(\<exists>rest. read_messages u32_max (ct_stream s) @ rest \<in> shuffles (ct_answered s) (ct_forwarded s)
      \<and> (ct_writer s \<longrightarrow> rest = ct_outbound s) \<and> length (ct_outbound s) \<le> OUTBOUND_CAPACITY)
    \<and> prefix (ct_forwarded s) (encoded encode sent)
    \<and> (ct_forwarding s \<and> \<not> missed (ct_receiver s) \<longrightarrow>
      ct_forwarded s @ held_payload s @ encoded encode (unread (ct_receiver s)) = encoded encode sent)"
proof (intro conjI)
  have "stream_ok s"
    using task_machine.run_inv [of "start_tasks lib" encode es lib] assms(2-4) start_tasks_ok by (auto simp: list_all_iff)
  then obtain written gone part where w: "stream_shape written gone part s" "length (ct_outbound s) \<le> OUTBOUND_CAPACITY"
    by (auto simp: stream_ok_def)
  then have "read_messages u32_max (ct_stream s) = written"
    by (simp add: stream_shape_def stream_format.read_written)
  then show "\<exists>rest. read_messages u32_max (ct_stream s) @ rest \<in> shuffles (ct_answered s) (ct_forwarded s)
      \<and> (ct_writer s \<longrightarrow> rest = ct_outbound s) \<and> length (ct_outbound s) \<le> OUTBOUND_CAPACITY"
    using w by (intro exI [of _ "gone @ ct_outbound s"]) (simp add: stream_shape_def)
  have "accounted unread missed encode sent s"
    using run_accounted [OF assms(1) start_accounted [OF assms(1)], of encode es] assms(4,5) by simp
  then show "prefix (ct_forwarded s) (encoded encode sent)"
    and "ct_forwarding s \<and> \<not> missed (ct_receiver s) \<longrightarrow>
      ct_forwarded s @ held_payload s @ encoded encode (unread (ct_receiver s)) = encoded encode sent"
    by (auto simp: accounted_def dest: append_prefixD)
qed

theorem telemetry_arrives_in_order_witness:
  "prefix (ct_forwarded (fold (task_step list_broadcast (\<lambda>_. Some [7 :: byte]))
      [Broadcast (Telemetry_Event [] []), Forwards, Answers [9], Forwards, Writes None] (start_tasks list_broadcast)))
    (encoded (\<lambda>_. Some [7]) [Telemetry_Event [] []])"
  using telemetry_arrives_in_order [OF list_broadcast_documented, of "\<lambda>_. Some [7 :: byte]"
      "[Broadcast (Telemetry_Event [] []), Forwards, Answers [9], Forwards, Writes None]", OF _ _ refl refl]
  by simp

text \<open>
  Property C17. A client that reads nothing for a moment gets no telemetry ever after: once the queue of its stream
  is full and more messages are broadcast than the channel keeps, the error that tells the forwarding task so ends it.
  Whatever happens then, at most the message it held is forwarded, while the stream stays open and answers to pings go
  into its queue as before.
\<close>

theorem slow_client_loses_telemetry:
  assumes law: "documented_broadcast lib capacity unread missed"
    and "stalled s" and "\<forall>k. Writes k \<notin> set es" and "capacity < length (concat (map broadcast_of es))"
    and "s' = fold (task_step lib encode) es s"
  shows "prefix (ct_forwarded (fold (task_step lib encode) later s')) (ct_forwarded s @ held_payload s)
    \<and> (length (ct_outbound s) = OUTBOUND_CAPACITY \<and> length (hd (ct_outbound s)) \<le> u32_max \<longrightarrow>
      (let t = fold (task_step lib encode) [Writes None, Answers q] s'
       in ct_writer t \<and> ct_outbound t = tl (ct_outbound s) @ [q]))"
proof (intro conjI)
  have s': "s' = s\<lparr>ct_receiver := fold (bl_send lib) (concat (map broadcast_of es)) (ct_receiver s)\<rparr>"
    using stalled_run [OF assms(2,3)] assms(5) by simp
  have "missed (ct_receiver s')"
    using overrun [OF law, of "ct_receiver s" "concat (map broadcast_of es)"] assms(4) s' by fastforce
  then have "ends_with missed (ct_forwarded s @ held_payload s) s'"
    by (simp add: ends_with_def s' held_payload_def)
  from lag_forever [OF law this, of encode later]
  show "prefix (ct_forwarded (fold (task_step lib encode) later s')) (ct_forwarded s @ held_payload s)"
    by (auto simp: ends_with_def dest: append_prefixD)
  show "length (ct_outbound s) = OUTBOUND_CAPACITY \<and> length (hd (ct_outbound s)) \<le> u32_max \<longrightarrow>
      (let t = fold (task_step lib encode) [Writes None, Answers q] s'
       in ct_writer t \<and> ct_outbound t = tl (ct_outbound s) @ [q])"
    using assms(2) by (cases "ct_outbound s")
      (auto simp: stalled_def s' limits write_outbound_def write_framed send_answer_def)
qed

definition stalled_client :: "(telemetry_message list \<times> bool) control_tasks" where
  "stalled_client = fold (task_step list_broadcast (\<lambda>_. Some [7]))
     (concat (replicate 33 [Broadcast (Telemetry_Event [] []), Forwards, Forwards])) (start_tasks list_broadcast)"

lemma stalled_client_stalled:
  "stalled stalled_client" "length (ct_outbound stalled_client) = OUTBOUND_CAPACITY"
  by code_simp+

theorem slow_client_loses_telemetry_witness:
  "prefix (ct_forwarded (fold (task_step list_broadcast (\<lambda>_. Some [7 :: byte])) [Writes None, Forwards, Forwards, Forwards]
      (fold (task_step list_broadcast (\<lambda>_. Some [7])) (replicate 101 (Broadcast (Telemetry_Event [] []))) stalled_client)))
    (ct_forwarded stalled_client @ held_payload stalled_client)"
proof -
  have sent: "concat (map broadcast_of (replicate n (Broadcast m))) = replicate n m" for n m
    by (induction n) simp_all
  show ?thesis
    by (rule conjunct1 [OF slow_client_loses_telemetry [OF list_broadcast_documented stalled_client_stalled(1) _ _ refl]])
       (simp_all only: sent, simp_all)
qed

end
