(* ===== verification/Udp_System.thy ===== *)
theory Udp_System
  imports Session
begin

text \<open>
  The companion UDP port of \<open>src/webtransport_server.rs\<close> and the receiver composed: what a host can do that only
  sends datagrams, which ask for neither a pairing code nor a token.
\<close>

section \<open>A datagram and the frame it makes\<close>

lemma stop_datagram:
  "fold (receiver_step e) (udp_listener [(t, clock, STOP_TAG)]) r
    = send_frame (stop_frame t) (r\<lparr>rv_reassembly := reset_decoder_pipeline (rv_reassembly r)\<rparr>)"
proof -
  have "take DATAGRAM_BUFFER_BYTES STOP_TAG = STOP_TAG"
    by (simp add: limits tag_defs code_of_def)
  then show ?thesis
    by (simp add: udp_listener_def process_udp_chunk_def)
qed

lemma one_chunk:
  assumes "reassembly_ok s" and "format_ok h" and "fm_total h = 1" and "last_completed_seq s < fm_seq h"
    and "assemblies s = []" and "p \<noteq> []" and "length p \<le> MAX_ACCESS_UNIT_BYTES"
  shows "\<exists>f. fst (process_udp_chunk now clock (chunk_packet h 0 p) s) = Some f \<and> vf_seq f = fm_seq h
    \<and> vf_codec f = format_codec h \<and> vf_access_unit f = p"
proof -
  let ?as = "[(0 :: nat, now, clock)]"
  have one: "unat (fm_total h) = 1" "{..<1::nat} = {0}"
    using assms(3) by auto
  have "fst (feed (arrivals_of h (\<lambda>_. p) ?as) s) =
      [Some (frame_of (entry_with h now {..<unat (fm_total h)} (\<lambda>_. p)) clock p)]"
    using feed_fresh [OF assms(1,2,4), of ?as "\<lambda>_. p"] assms(5-7) one by simp
  then show ?thesis
    by (auto simp: arrivals_of_def frame_of_def entry_with_def new_assembly_def format_chunk_def split: prod.splits)
qed

lemma hevc_played:
  assumes "vf_codec f = ''hevc'' \<or> vf_codec f = ''h264''" and "vf_seq f \<le> 1"
  shows "rv_streaming_active (handle_frame e now spawned True f r)"
    and "rv_played (handle_frame e now spawned True f r) = rv_played r @ [\<lparr>pb_bytes = vf_access_unit f, pb_timing = frame_timing f\<rparr>]"
    and "mg_stream (rv_management r) = None \<Longrightarrow> mg_stream (rv_management (handle_frame e now spawned True f r)) = None"
proof -
  have f: "vf_codec f \<noteq> ''stop''" "\<not> (vf_codec f \<noteq> ''hevc'' \<and> vf_codec f \<noteq> ''h264'')" "\<not> vf_seq f > 1"
    using assms by auto
  let ?p = "prepare_frame e spawned f r"
  have p: "rv_streaming_active ?p" "rv_played ?p = rv_played r" "rv_management ?p = rv_management r"
    using assms(2) by (simp_all add: prepare_frame_def auto_start_def Let_def send_telemetry_def)
  have h: "handle_frame e now spawned True f r = play_frame e now f ?p"
    using f p(1) by (auto simp: handle_frame_def Let_def)
  show "rv_streaming_active (handle_frame e now spawned True f r)"
    unfolding h using p by (simp add: play_frame_def Let_def send_telemetry_def)
  show "rv_played (handle_frame e now spawned True f r) = rv_played r @ [\<lparr>pb_bytes = vf_access_unit f, pb_timing = frame_timing f\<rparr>]"
    unfolding h using p by (simp add: play_frame_def Let_def send_telemetry_def)
  show "mg_stream (rv_management r) = None \<Longrightarrow> mg_stream (rv_management (handle_frame e now spawned True f r)) = None"
    unfolding h using p by (simp add: play_frame_def Let_def send_telemetry_def record_frame_def sender_id_def)
qed

lemma datagram_played:
  assumes "reassembly_ok (rv_reassembly r)" and "rv_frames r = []" and "rv_waiting r = []"
    and "last_completed_seq (rv_reassembly r) = 0" and "assemblies (rv_reassembly r) = []" and "mg_stream (rv_management r) = None"
    and h: "format_ok h" "fm_total h = 1" "fm_seq h = 1" and p: "p \<noteq> []" "length p \<le> MAX_ACCESS_UNIT_BYTES"
    and fits: "16 + timing_len (fm_tag h) + length p \<le> DATAGRAM_BUFFER_BYTES"
    and r': "r' = fold (receiver_step e) (udp_listener [(t, clock, chunk_packet h 0 p)] @ [Take_Frame t' spawned True]) r"
  shows "rv_streaming_active r' \<and> mg_stream (rv_management r') = None
    \<and> (\<exists>timing. rv_played r' = rv_played r @ [\<lparr>pb_bytes = p, pb_timing = timing\<rparr>])"
proof -
  obtain f s where f: "process_udp_chunk t clock (chunk_packet h 0 p) (rv_reassembly r) = (Some f, s)"
      and seq: "vf_seq f = 1" and codec: "vf_codec f = format_codec h" and bytes: "vf_access_unit f = p"
    using one_chunk [OF assms(1) h(1,2) _ assms(5) p, of t clock] assms(4) h(3)
    by (cases "process_udp_chunk t clock (chunk_packet h 0 p) (rv_reassembly r)") auto
  have "length (chunk_packet h 0 p) \<le> DATAGRAM_BUFFER_BYTES"
    using fits h(1) by (simp add: length_chunk_packet format_ok_def)
  then have ev: "udp_listener [(t, clock, chunk_packet h 0 p)] = [Packet t clock (chunk_packet h 0 p)]"
    by (simp add: udp_listener_def)
  let ?r = "r\<lparr>rv_reassembly := s, rv_frames := []\<rparr>"
  have r'': "r' = handle_frame e t' spawned True f ?r"
    unfolding r' ev using f assms(2,3) by (simp add: send_frame_def limits)
  have "format_codec h = ''hevc'' \<or> format_codec h = ''h264''"
    using h(1) by (auto simp: format_ok_def format_codec_def codec_of_tag_def split: option.splits if_splits)
  then have c: "vf_codec f = ''hevc'' \<or> vf_codec f = ''h264''"
    using codec by simp
  have q: "vf_seq f \<le> 1"
    using seq by simp
  show ?thesis
    unfolding r'' using hevc_played [OF c q, where e = e and now = t' and spawned = spawned and r = ?r] bytes assms(6) by simp
qed

section \<open>Frames before the stop frame\<close>

text \<open>The frames in the channel and those whose senders wait for a place, in the order in which the loop will take them.\<close>

definition queued :: "receiver \<Rightarrow> video_frame list" where
  "queued r = rv_frames r @ rv_waiting r"

text \<open>The loop takes a frame, and a sender that waits gets the place.\<close>

definition loop_rounds :: "(instant \<times> bool) list \<Rightarrow> receiver_event list" where
  "loop_rounds ts = concat (map (\<lambda>(t, taken). [Take_Frame t True taken, Sender_Resumes]) ts)"

definition stopped :: "receiver_setup \<Rightarrow> receiver \<Rightarrow> bool" where
  "stopped e r \<longleftrightarrow> queued r = [] \<and> back_to_idle r \<and> dashboard_configured e r
     \<and> assemblies (rv_reassembly r) = [] \<and> last_completed_seq (rv_reassembly r) = 0"

definition ends_in_stop :: "receiver \<Rightarrow> bool" where
  "ends_in_stop r \<longleftrightarrow> queued r \<noteq> [] \<and> vf_codec (last (queued r)) = ''stop''"

text \<open>The rounds it takes to empty the queue: one is lost when the channel is empty and a sender still waits.\<close>

definition rounds_left :: "receiver \<Rightarrow> nat" where
  "rounds_left r = length (queued r) + (if rv_frames r = [] \<and> rv_waiting r \<noteq> [] then 1 else 0)"

lemma queued_send [simp]: "queued (send_frame f r) = queued r @ [f]"
  by (auto simp: queued_def send_frame_def)

lemma queued_reassembly [simp]: "queued (r\<lparr>rv_reassembly := s\<rparr>) = queued r"
  by (simp add: queued_def)

lemma resume_keeps: "queued (resume_sender r) = queued r" "stopped e r \<Longrightarrow> resume_sender r = r"
  by (auto simp: queued_def resume_sender_def stopped_def split: list.split)

lemma resume_fills: "rv_frames (resume_sender r) = [] \<Longrightarrow> rv_waiting (resume_sender r) = []"
  by (auto simp: resume_sender_def limits split: list.splits if_splits)

lemma other_frame:
  assumes "vf_codec f \<noteq> ''stop''"
  shows "rv_frames (handle_frame e now spawned taken f r) = rv_frames r \<and> rv_waiting (handle_frame e now spawned taken f r) = rv_waiting r"
  using assms by (simp add: handle_frame_def prepare_frame_def play_frame_def auto_start_def send_telemetry_def Let_def)

lemma stop_frame_taken:
  "rv_frames (handle_stop_frame e now True r) = []" "rv_waiting (handle_stop_frame e now True r) = rv_waiting r"
  "rv_waiting r = [] \<Longrightarrow> stopped e (handle_stop_frame e now True r)"
proof -
  show k: "rv_frames (handle_stop_frame e now True r) = []" "rv_waiting (handle_stop_frame e now True r) = rv_waiting r"
    by (simp_all add: handle_stop_frame_def ending_defs Let_def send_telemetry_def)
  show "stopped e (handle_stop_frame e now True r)" if "rv_waiting r = []"
    using that k by (simp add: stopped_def queued_def stop_ends stop_shows stop_resets)
qed

lemma take_one:
  fixes e now taken
  assumes "ends_in_stop r"
  defines "r' \<equiv> receiver_step e (Take_Frame now True taken) r"
  shows "stopped e r' \<or> ends_in_stop r'" and "rv_frames r \<noteq> [] \<Longrightarrow> length (queued r') < length (queued r)"
    and "rv_frames r = [] \<Longrightarrow> r' = r"
proof -
  have "(stopped e r' \<or> ends_in_stop r') \<and> length (queued r') < length (queued r)" if f: "rv_frames r = f # fs" for f fs
  proof (cases "vf_codec f = ''stop''")
    case True
    let ?s = "handle_stop_frame e now True (r\<lparr>rv_frames := fs\<rparr>)"
    have r': "r' = ?s"
      by (simp add: r'_def f handle_frame_def True)
    have q: "queued ?s = rv_waiting r"
      by (simp add: queued_def stop_frame_taken)
    show ?thesis
    proof (cases "rv_waiting r = []")
      case True
      then show ?thesis
        using stop_frame_taken(3) [of "r\<lparr>rv_frames := fs\<rparr>" e now] by (simp add: r' q) (simp add: queued_def f)
    next
      case False
      then show ?thesis
        using assms(1) by (simp add: r' q ends_in_stop_def) (simp add: queued_def f)
    qed
  next
    case False
    then have "queued r' = fs @ rv_waiting r"
      by (simp add: r'_def f queued_def other_frame)
    then show ?thesis
      using assms(1) False by (auto simp: ends_in_stop_def queued_def f split: if_splits)
  qed
  then show "stopped e r' \<or> ends_in_stop r'" "rv_frames r \<noteq> [] \<Longrightarrow> length (queued r') < length (queued r)"
      "rv_frames r = [] \<Longrightarrow> r' = r"
    using assms(1) by (cases "rv_frames r"; simp add: r'_def)+
qed

lemma stopped_idle: "stopped e r \<Longrightarrow> receiver_step e (Take_Frame now True taken) r = r"
  by (simp add: stopped_def queued_def)

lemma one_round:
  fixes e now taken
  assumes "ends_in_stop r"
  defines "r' \<equiv> resume_sender (receiver_step e (Take_Frame now True taken) r)"
  shows "stopped e r' \<or> ends_in_stop r' \<and> rounds_left r' < rounds_left r"
proof -
  let ?t = "receiver_step e (Take_Frame now True taken) r"
  have left: "rounds_left r' = length (queued ?t)"
    using resume_fills [of ?t] by (auto simp: rounds_left_def r'_def resume_keeps)
  have "length (queued ?t) < rounds_left r"
  proof (cases "rv_frames r = []")
    case True
    then have "rv_waiting r \<noteq> []"
      using assms(1) by (simp add: ends_in_stop_def queued_def)
    then show ?thesis
      using take_one(3) [OF assms(1) True, of e now taken] by (simp add: rounds_left_def True)
  next
    case False
    then show ?thesis
      using take_one(2) [OF assms(1) False, of e now taken] by (simp add: rounds_left_def)
  qed
  then show ?thesis
    using take_one(1) [OF assms(1), of e now taken] left
    by (auto simp: r'_def resume_keeps ends_in_stop_def)
qed

lemma stop_reached:
  "stopped e r \<or> ends_in_stop r \<and> rounds_left r \<le> length ts \<Longrightarrow> stopped e (fold (receiver_step e) (loop_rounds ts) r)"
proof (induction ts arbitrary: r)
  case Nil
  then show ?case
    by (auto simp: loop_rounds_def rounds_left_def ends_in_stop_def)
next
  case (Cons x ts)
  obtain t taken where x: "x = (t, taken)"
    by (cases x) auto
  let ?r = "resume_sender (receiver_step e (Take_Frame t True taken) r)"
  have "stopped e ?r \<or> ends_in_stop ?r \<and> rounds_left ?r \<le> length ts"
  proof (cases "stopped e r")
    case True
    then show ?thesis
      unfolding stopped_idle [OF True] by (simp add: resume_keeps)
  next
    case False
    then have "ends_in_stop r" "rounds_left r \<le> Suc (length ts)"
      using Cons.prems by simp_all
    then show ?thesis
      using one_round [of r e t taken] by linarith
  qed
  from Cons.IH [OF this] show ?case
    by (simp add: loop_rounds_def x del: receiver_step.simps(4))
qed

section \<open>Properties\<close>

text \<open>
  Property C4. Two datagrams take over the display: whatever the receiver is doing, however many frames are in its channel and
  however many senders wait behind them, and whether pairing codes are required or not, four bytes sent to the UDP port by any
  host end the stream of whoever is casting as soon as the loop has come through what was queued before them, with no further
  frame arriving meanwhile; and one more datagram then puts its payload, as the first access unit of a new stream, into the
  decoder.  The management state shows no session for it.
\<close>

theorem two_datagrams_take_the_display:
  assumes "receiver_ok r"
    and "format_ok h" and "fm_total h = 1" and "fm_seq h = 1" and "p \<noteq> []" and "length p \<le> MAX_ACCESS_UNIT_BYTES"
    and "16 + timing_len (fm_tag h) + length p \<le> DATAGRAM_BUFFER_BYTES"
    and "length (rv_frames r) + length (rv_waiting r) + 1 < length ts"
    and "r1 = fold (receiver_step e) (udp_listener [(t1, clock1, STOP_TAG)] @ loop_rounds ts) r"
    and "r2 = fold (receiver_step e) (udp_listener [(t3, clock3, chunk_packet h 0 p)] @ [Take_Frame t4 spawned True]) r1"
  shows "back_to_idle r1 \<and> dashboard_configured e r1 \<and> rv_frames r1 = [] \<and> rv_waiting r1 = []
    \<and> rv_streaming_active r2 \<and> mg_stream (rv_management r2) = None
    \<and> (\<exists>timing. rv_played r2 = rv_played r1 @ [\<lparr>pb_bytes = p, pb_timing = timing\<rparr>])"
proof -
  let ?q = "send_frame (stop_frame t1) (r\<lparr>rv_reassembly := reset_decoder_pipeline (rv_reassembly r)\<rparr>)"
  have "ends_in_stop ?q"
    by (simp add: ends_in_stop_def stop_frame_def)
  moreover have "rounds_left ?q \<le> length ts"
    using assms(8) by (simp add: rounds_left_def) (simp add: queued_def)
  ultimately have "stopped e (fold (receiver_step e) (loop_rounds ts) ?q)"
    by (intro stop_reached) simp
  then have stopped: "stopped e r1"
    unfolding assms(9) fold_append comp_def stop_datagram .
  then have idle: "back_to_idle r1" "dashboard_configured e r1" "rv_frames r1 = []" "rv_waiting r1 = []"
      "assemblies (rv_reassembly r1) = []" "last_completed_seq (rv_reassembly r1) = 0"
    by (simp_all add: stopped_def queued_def)
  have "receiver_ok r1"
    unfolding assms(9) by (rule loop.run_inv [OF assms(1)]) (simp add: list_all_iff)
  then have "reassembly_ok (rv_reassembly r1)" and "mg_stream (rv_management r1) = None"
    using idle by (simp_all add: receiver_ok_def back_to_idle_def)
  from datagram_played [OF this(1) idle(3,4,6,5) this(2) assms(2-7,10)]
  show ?thesis
    using idle by simp
qed

definition one_chunk_format :: au_format where
  "one_chunk_format = \<lparr>fm_tag = H265_TAG, fm_seq = 1, fm_total = 1, fm_width = 3840, fm_height = 2160, fm_timing = []\<rparr>"

lemma one_chunk_format_ok: "format_ok one_chunk_format" "timing_len (fm_tag one_chunk_format) = 0"
  by (simp_all add: one_chunk_format_def format_ok_def format_timing_def timing_len_def is_synchronized_def
      is_timed_v1_def timing_ok_def dimensions_ok_def max_dimensions_def codec_of_tag_def limits
      tag_defs code_of_def format_codec_def)

definition sample_request :: start_request where
  "sample_request = \<lparr>sq_codec = None, sq_resolution = None, sq_fps = None, sq_bitrate_mbps = None, sq_latency_mode = None,
     sq_aspect_mode = None, sq_source_width = None, sq_source_height = None, sq_encoded_width = None, sq_encoded_height = None,
     sq_content_rect = None, sq_signal_content_rect = None, sq_panel_content_rect = None, sq_signal_width = None,
     sq_signal_height = None, sq_panel_width = None, sq_panel_height = None, sq_connection_id = None, sq_device_id = None\<rparr>"

text \<open>A stream is starting, its first frame is in the channel.\<close>

theorem two_datagrams_take_the_display_witness:
  "rv_streaming_active (fold (receiver_step sample_setup)
      (udp_listener [(3, NaN, chunk_packet one_chunk_format 0 [1, 2, 3])] @ [Take_Frame 4 True True])
      (fold (receiver_step sample_setup) (udp_listener [(1, NaN, STOP_TAG)] @ loop_rounds [(2, True), (2, True), (2, True)])
        (send_frame sample_frame (fold (receiver_step sample_setup) [Command 0 True (Start sample_request)]
          (initial_receiver sample_engine 0)))))"
proof -
  let ?r = "fold (receiver_step sample_setup) [Command 0 True (Start sample_request)] (initial_receiver sample_engine 0)"
  let ?q = "send_frame sample_frame ?r"
  have "receiver_ok ?r"
    by (rule loop.run_inv [OF initial_receiver_ok]) simp
  then have "receiver_ok ?q"
    by (rule send_frame_ok)
  moreover have "rv_frames ?r = []" "rv_waiting ?r = []"
    by (simp_all add: handle_start_def Let_def send_telemetry_def initial_receiver_def)
  then have "length (rv_frames ?q) + length (rv_waiting ?q) + 1 < length [(2 :: instant, True), (2, True), (2, True)]"
    by (simp add: send_frame_def limits)
  moreover have "fm_total one_chunk_format = 1" "fm_seq one_chunk_format = 1"
    by (simp_all add: one_chunk_format_def)
  ultimately show ?thesis
    using two_datagrams_take_the_display [OF _ one_chunk_format_ok(1) _ _ _ _ _ _ refl refl, of ?q "[1, 2, 3]"
        "[(2, True), (2, True), (2, True)]" sample_setup 1 NaN 3 NaN 4 True]
    by (simp add: one_chunk_format_ok(2) limits del: receiver_step.simps fold_simps)
qed

end
