(* ===== verification/Output_Order.thy ===== *)
theory Output_Order
  imports Dashboard_Output Udp_System "HOL-Library.Sublist"
begin

text \<open>
  The order of a stream on its way through the queues of \<open>Dashboard_Output\<close>: what the GStreamer processes are given of the
  access units that the event loop played, one process after the other.
\<close>

section \<open>Access units in a pipe\<close>

fun units :: "piece list \<Rightarrow> playback_buffer list" where
  "units [] = []"
| "units (Access_Unit b # xs) = b # units xs"
| "units (x # xs) = units xs"

lemma units_append [simp]: "units (xs @ ys) = units xs @ units ys"
  by (induction xs rule: units.induct) simp_all

definition carried :: "pipe \<Rightarrow> playback_buffer list" where
  "carried p = units (pp_written p @ pp_waiting p)"

definition of_processes :: "(pipe \<Rightarrow> playback_buffer list) \<Rightarrow> output_world \<Rightarrow> playback_buffer list" where
  "of_processes g s = concat (map (\<lambda>i. g (ow_pipes s i)) [0..<Suc (pe_process (rv_engine (ow_receiver s)))])"

lemma carried_ops [simp]:
  "carried (new_pipe c) = []"
  "carried (try_send (Dashboard_Frame f) p) = carried p"
  "carried (try_send (Encoder_Chunk bytes) p) = carried p"
  "pp_open p \<Longrightarrow> has_room p \<Longrightarrow> carried (try_send (Access_Unit b) p) = carried p @ [b]"
  "subseq (carried (write_fails p)) (carried p)"
  by (auto simp: carried_def new_pipe_def write_next_def try_send_def write_fails_def split: list.split piece.split)

lemma carried_write [simp]: "carried (write_next p) = carried p"
proof (cases "pp_waiting p")
  case (Cons x xs)
  then show ?thesis
    using units_append [of "[x]" xs] by (simp add: carried_def write_next_def del: units_append)
qed (simp add: write_next_def)

lemma open_ops [simp]:
  "pp_open (write_next p) = pp_open p" "pp_open (try_send x p) = pp_open p" "pp_open (new_pipe c)"
  by (auto simp: write_next_def try_send_def new_pipe_def split: list.split)

lemma concat_subseq: "(\<And>k. k \<in> set ks \<Longrightarrow> subseq (f k) (g k)) \<Longrightarrow> subseq (concat (map f ks)) (concat (map g ks))"
  by (induction ks) (auto intro: list_emb_append_mono)

section \<open>What a handler of the loop does to the engine\<close>

definition engine_next :: "playback_engine \<Rightarrow> playback_engine \<Rightarrow> bool" where
  "engine_next en en' \<longleftrightarrow> pe_process en' = pe_process en \<and> pe_writer en' = pe_writer en
     \<or> pe_process en' = Suc (pe_process en) \<and> pe_writer en' = Suc (pe_process en)"

lemma engine_next_refl [simp]: "engine_next en en"
  by (simp add: engine_next_def)

lemma ensure_next [simp]: "engine_next en (snd (ensure_configuration env spawned c connector rect a en))"
  by (auto simp: ensure_configuration_def start_persistent_playback_def engine_next_def Let_def split: option.splits)

lemma prepare_next [simp]: "engine_next (rv_engine r) (rv_engine (prepare_frame e sp f r))"
  by (simp add: prepare_frame_def auto_start_def Let_def send_telemetry_def)

definition loop_next :: "receiver \<Rightarrow> receiver \<Rightarrow> bool" where
  "loop_next r r' \<longleftrightarrow> engine_next (rv_engine r) (rv_engine r') \<and> (\<exists>bs. length bs \<le> 1 \<and> rv_played r' = rv_played r @ bs)"

lemma loop_nextI: "engine_next (rv_engine r) (rv_engine r') \<Longrightarrow> rv_played r' = rv_played r \<Longrightarrow> loop_next r r'"
  by (simp add: loop_next_def)

lemma stop_next:
  "loop_next r (handle_stop e now sp r)" "loop_next r (handle_admin_stop e now sp r)" "loop_next r (handle_stop_frame e now sp r)"
  by (rule loop_nextI; simp add: ending_defs Let_def send_telemetry_def)+

lemma command_next: "loop_next r (handle_command e now sp c r)"
  by (cases c) (simp_all add: stop_next, auto intro!: loop_nextI simp: handle_start_def handle_get_status_def stop_session_def
      Let_def send_telemetry_def)

lemma frame_next: "loop_next r (handle_frame e now sp ok f r)"
proof -
  have "loop_next r (play_frame e now f (prepare_frame e sp f r))"
    by (auto simp: loop_next_def play_frame_def Let_def send_telemetry_def)
  moreover have "loop_next r (prepare_frame e sp f r)"
    by (rule loop_nextI) simp_all
  moreover have "loop_next r r"
    by (rule loop_nextI) simp_all
  ultimately show ?thesis
    by (auto simp: handle_frame_def Let_def stop_next)
qed

lemma step_next: "loop_next r (receiver_step e ev r)"
proof (cases ev)
  case (Command now sp c)
  then show ?thesis
    by (simp add: command_next)
next
  case (Take_Frame now sp ok)
  have "loop_next r (handle_frame e now sp ok f (r\<lparr>rv_frames := fs\<rparr>))" for f fs
    using frame_next [of "r\<lparr>rv_frames := fs\<rparr>" e now sp ok f] by (simp add: loop_next_def)
  moreover have "loop_next r r"
    by (rule loop_nextI) simp_all
  ultimately show ?thesis
    by (simp add: Take_Frame split: list.split)
next
  case (Submitted now s)
  then show ?thesis
    by (intro loop_nextI) (auto simp: handle_submission_def Let_def send_telemetry_def split: prod.split option.split bool.split)
next
  case (Idle_Timeout now sp)
  then show ?thesis
    by (intro loop_nextI) (auto simp: handle_idle_timeout_def ending_defs Let_def send_telemetry_def)
qed (auto intro!: loop_nextI simp: send_frame_def resume_sender_def split: prod.split option.split list.split)

section \<open>The invariant\<close>

definition ordered :: "output_world \<Rightarrow> bool" where
  "ordered s \<longleftrightarrow>
     (let engine = rv_engine (ow_receiver s)
      in pe_writer engine = pe_process engine
         \<and> (\<forall>i > pe_process engine. carried (ow_pipes s i) = [])
         \<and> subseq (of_processes carried s) (rv_played (ow_receiver s))
         \<and> ((\<forall>i \<le> pe_process engine. pp_open (ow_pipes s i)) \<longrightarrow> of_processes carried s = rv_played (ow_receiver s)))"

lemma of_processes_cong:
  "(\<And>i. carried (ow_pipes s' i) = carried (ow_pipes s i)) \<Longrightarrow> ow_receiver s' = ow_receiver s \<Longrightarrow>
   of_processes carried s' = of_processes carried s"
  by (simp add: of_processes_def)

lemma ordered_same:
  assumes "ordered s" and "\<And>i. carried (ow_pipes s' i) = carried (ow_pipes s i)"
    and "\<And>i. pp_open (ow_pipes s' i) = pp_open (ow_pipes s i)" and "ow_receiver s' = ow_receiver s"
  shows "ordered s'"
  using assms(1) of_processes_cong [OF assms(2,4)] by (simp add: ordered_def Let_def assms)

lemma ordered_breaks:
  assumes "ordered s"
  shows "ordered (at_pipe i write_fails s)"
proof -
  let ?s = "at_pipe i write_fails s" and ?k = "pe_process (rv_engine (ow_receiver s))"
  have less: "subseq (carried (ow_pipes ?s j)) (carried (ow_pipes s j))" for j
    by simp
  then have sub: "subseq (of_processes carried ?s) (of_processes carried s)"
    unfolding of_processes_def at_pipe_fields(1) by (intro concat_subseq)
  have none: "\<forall>j > ?k. carried (ow_pipes ?s j) = []"
    using assms less by (metis list_emb_Nil2 ordered_def)
  show ?thesis
  proof (cases "pp_waiting (ow_pipes s i) = []")
    case True
    then have "write_fails (ow_pipes s i) = ow_pipes s i"
      by (simp add: write_fails_def)
    then show ?thesis
      using assms by - (rule ordered_same [OF assms], simp_all)
  next
    case False
    then have closed: "\<not> pp_open (ow_pipes ?s i)"
      by (simp add: write_fails_def)
    show ?thesis
    proof (cases "i \<le> ?k")
      case True
      then show ?thesis
        using assms sub none closed unfolding ordered_def Let_def at_pipe_fields(1)
        by (meson subseq_order.order_trans)
    next
      case False
      have same: "carried (ow_pipes ?s j) = carried (ow_pipes s j) \<and> pp_open (ow_pipes ?s j) = pp_open (ow_pipes s j)" if "j \<le> ?k" for j
        using False that by simp
      then have "of_processes carried ?s = of_processes carried s"
        unfolding of_processes_def at_pipe_fields(1) using same by (intro arg_cong [where f = concat] map_cong) (auto simp del: at_pipe_fields)
      then show ?thesis
        using assms same none unfolding ordered_def Let_def at_pipe_fields(1) by simp
    qed
  qed
qed

lemma playing_appends:
  assumes "length bs \<le> 1" and "bs \<noteq> [] \<Longrightarrow> pp_open (ow_pipes s i) \<and> has_room (ow_pipes s i)"
  shows "fold (\<lambda>b. at_pipe i (try_send (Access_Unit b))) bs s
      = (if bs = [] then s else at_pipe i (try_send (Access_Unit (hd bs))) s)"
    and "carried (ow_pipes (fold (\<lambda>b. at_pipe i (try_send (Access_Unit b))) bs s) j)
      = carried (ow_pipes s j) @ (if j = i then bs else [])"
    and "pp_open (ow_pipes (fold (\<lambda>b. at_pipe i (try_send (Access_Unit b))) bs s) j) = pp_open (ow_pipes s j)"
  using assms by (cases bs; simp)+

lemma concat_nothing: "concat (map (\<lambda>k. []) ks) = []"
  by (induction ks) simp_all

lemma playing_receiver: "ow_receiver (fold (\<lambda>b. at_pipe i (try_send (Access_Unit b))) bs s) = ow_receiver s"
  by (induction bs arbitrary: s) simp_all

lemma of_processes_snoc:
  "of_processes g s = concat (map (\<lambda>i. g (ow_pipes s i)) [0..<pe_process (rv_engine (ow_receiver s))])
     @ g (ow_pipes s (pe_process (rv_engine (ow_receiver s))))"
  by (simp add: of_processes_def)

lemma of_processes_append:
  assumes "ow_receiver s' = ow_receiver s"
    and "\<And>j. carried (ow_pipes s' j) = carried (ow_pipes s j) @ (if j = pe_process (rv_engine (ow_receiver s)) then bs else [])"
  shows "of_processes carried s' = of_processes carried s @ bs"
proof -
  have m: "map (\<lambda>i. carried (ow_pipes s' i)) [0..<pe_process (rv_engine (ow_receiver s))]
      = map (\<lambda>i. carried (ow_pipes s i)) [0..<pe_process (rv_engine (ow_receiver s))]"
    by (intro map_cong [OF refl]) (simp add: assms(2))
  show ?thesis
    unfolding of_processes_snoc assms(1) m by (simp add: assms(2) [of "pe_process (rv_engine (ow_receiver s))"])
qed

text \<open>The new queue of a reconfiguration, before the frame is in it.\<close>

lemma of_processes_grow:
  assumes "engine_next (rv_engine (ow_receiver s)) (rv_engine (ow_receiver s'))"
    and "\<And>j. j \<le> pe_process (rv_engine (ow_receiver s)) \<Longrightarrow> carried (ow_pipes s' j) = carried (ow_pipes s j)"
    and "pe_process (rv_engine (ow_receiver s')) \<noteq> pe_process (rv_engine (ow_receiver s))
      \<Longrightarrow> carried (ow_pipes s' (Suc (pe_process (rv_engine (ow_receiver s))))) = []"
  shows "of_processes carried s' = of_processes carried s"
proof -
  let ?k = "pe_process (rv_engine (ow_receiver s))"
  have m: "map (\<lambda>i. carried (ow_pipes s' i)) [0..<Suc ?k] = map (\<lambda>i. carried (ow_pipes s i)) [0..<Suc ?k]"
    by (intro map_cong [OF refl]) (simp add: assms(2) del: upt_Suc)
  have u: "[0..<Suc (Suc ?k)] = [0..<Suc ?k] @ [Suc ?k]"
    by simp
  consider "pe_process (rv_engine (ow_receiver s')) = ?k" | "pe_process (rv_engine (ow_receiver s')) = Suc ?k"
    using assms(1) by (auto simp: engine_next_def)
  then show ?thesis
  proof cases
    case 1
    then show ?thesis
      unfolding of_processes_def 1 m by simp
  next
    case 2
    then have "carried (ow_pipes s' (Suc ?k)) = []"
      using assms(3) by simp
    then show ?thesis
      unfolding of_processes_def 2 u map_append concat_append m by (simp del: upt_Suc)
  qed
qed

lemma ordered_loop:
  assumes ord: "ordered s" and enabled: "loop_enabled e ev s"
  shows "ordered (loop_step e ev s)"
proof -
  define r' where "r' = receiver_step e ev (ow_receiver s)"
  define w where "w = s\<lparr>ow_receiver := r', ow_pipes := loop_pipes e ev s,
    ow_late := (if \<not> rv_streaming_active (ow_receiver s) \<and> rv_streaming_active r' then 0 else ow_late s)\<rparr>"
  define t where "t = loop_step e ev s"
  let ?k = "pe_process (rv_engine (ow_receiver s))" and ?k' = "pe_process (rv_engine r')"
  obtain bs where bs: "length bs \<le> 1" "rv_played r' = rv_played (ow_receiver s) @ bs"
      and next': "engine_next (rv_engine (ow_receiver s)) (rv_engine r')"
    using step_next [of "ow_receiver s" e ev] unfolding r'_def loop_next_def by blast
  then have played: "loop_played e ev s = bs"
    by (simp add: loop_played_def r'_def)
  note old = ord [unfolded ordered_def Let_def]
  then have writer: "pe_writer (rv_engine r') = ?k'"
    using next' by (auto simp: engine_next_def)
  have t: "t = fold (\<lambda>b. at_pipe ?k' (try_send (Access_Unit b))) bs w"
    unfolding t_def loop_step_def Let_def played w_def r'_def [symmetric] writer by (rule refl)
  have pipes: "ow_pipes w = (if ?k' = ?k then ow_pipes s else (ow_pipes s)(?k' := new_pipe (pe_current_codec (rv_engine r'))))"
    by (simp add: w_def loop_pipes_def Let_def r'_def)
  have w: "ow_receiver w = r'"
    by (simp add: w_def)
  have room: "bs \<noteq> [] \<Longrightarrow> pp_open (ow_pipes w ?k') \<and> has_room (ow_pipes w ?k')"
    using enabled unfolding loop_enabled_def played r'_def [symmetric] writer by (simp add: Let_def w_def)
  have carries: "carried (ow_pipes t j) = carried (ow_pipes w j) @ (if j = ?k' then bs else [])"
      and opens: "pp_open (ow_pipes t j) = pp_open (ow_pipes w j)" for j
    unfolding t using playing_appends(2,3) [OF bs(1) room] by auto
  have recv: "ow_receiver t = r'"
    unfolding t playing_receiver by (rule w)
  have "of_processes carried w = of_processes carried s"
    by (rule of_processes_grow) (use next' in \<open>auto simp: w pipes engine_next_def\<close>)
  then have now: "of_processes carried t = of_processes carried s @ bs"
    using of_processes_append [of t w bs] carries w recv by simp
  have none: "\<forall>j > ?k'. carried (ow_pipes t j) = []"
    using old next' by (auto simp: carries pipes engine_next_def)
  have openness: "pp_open (ow_pipes s j)" if "\<forall>j \<le> ?k'. pp_open (ow_pipes t j)" "j \<le> ?k" for j
    using that(1) [rule_format, of j] that(2) next' by (auto simp: opens pipes engine_next_def split: if_splits)
  have sub: "subseq (of_processes carried s @ bs) (rv_played (ow_receiver s) @ bs)"
    using old by (intro list_emb_append_mono) simp_all
  have all: "of_processes carried s @ bs = rv_played (ow_receiver s) @ bs" if "\<forall>j \<le> ?k'. pp_open (ow_pipes t j)"
    using old openness [OF that] by simp
  show ?thesis
    unfolding t_def [symmetric] ordered_def Let_def recv now bs(2)
  proof (intro conjI)
    show "pe_writer (rv_engine r') = ?k'"
      by (rule writer)
    show "\<forall>j > ?k'. carried (ow_pipes t j) = []"
      by (rule none)
    show "subseq (of_processes carried s @ bs) (rv_played (ow_receiver s) @ bs)"
      by (rule sub)
    show "(\<forall>j \<le> ?k'. pp_open (ow_pipes t j)) \<longrightarrow> of_processes carried s @ bs = rv_played (ow_receiver s) @ bs"
      by (rule impI) (rule all)
  qed
qed

lemma output_step_ordered: "output_step e w h s s' \<Longrightarrow> ordered s \<Longrightarrow> ordered s'"
proof (induction rule: output_step.induct)
  case (draws s cloud now hz ips pairing shown)
  then show ?case
    by - (rule ordered_same [of s], simp_all)
next
  case (sends s f)
  then show ?case
    by - (rule ordered_same [of s], simp_all add: send_drawn_def)
next
  case (forwards c s)
  then show ?case
    by - (rule ordered_same [of s], simp_all)
next
  case (loops s ev)
  then show ?case
    by (intro ordered_loop)
next
  case (writes s i)
  then show ?case
    by - (rule ordered_same [of s], simp_all)
next
  case (breaks s i)
  then show ?case
    by (intro ordered_breaks)
qed

lemma output_steps_ordered: "output_steps e w h s s' \<Longrightarrow> ordered s \<Longrightarrow> ordered s'"
  by (induction rule: rtranclp_induct) (auto intro: output_step_ordered)

lemma start_ordered: "pe_writer engine = pe_process engine \<Longrightarrow> ordered (start_output engine now)"
  by (simp add: ordered_def Let_def start_output_def of_processes_def initial_receiver_def concat_nothing)

section \<open>Properties\<close>

text \<open>
  Property C6. Access units reach the decoders in order and at most once: however the feeder, the event loop and the writers
  interleave, what the GStreamer processes were given of the stream, one process after the other, is a subsequence of what
  the loop played.  As long as no process has stopped reading, nothing is missing but what still waits in a queue.
\<close>

theorem decoders_get_stream_in_order:
  assumes "output_steps e w h (start_output engine now) s" and "pe_writer engine = pe_process engine"
  shows "subseq (of_processes (\<lambda>p. units (pp_written p)) s) (rv_played (ow_receiver s))
    \<and> ((\<forall>i \<le> pe_process (rv_engine (ow_receiver s)). pp_open (ow_pipes s i)) \<longrightarrow>
        of_processes (\<lambda>p. units (pp_written p @ pp_waiting p)) s = rv_played (ow_receiver s))"
proof -
  have ord: "ordered s"
    by (rule output_steps_ordered [OF assms(1) start_ordered [OF assms(2)]])
  have "subseq (of_processes (\<lambda>p. units (pp_written p)) s) (of_processes carried s)"
    unfolding of_processes_def by (intro concat_subseq) (simp add: carried_def prefix_imp_subseq)
  moreover have "carried = (\<lambda>p. units (pp_written p @ pp_waiting p))"
    by (simp add: carried_def fun_eq_iff)
  ultimately show ?thesis
    using ord unfolding ordered_def Let_def by (metis subseq_order.order_trans)
qed

theorem decoders_get_stream_in_order_witness:
  "\<exists>s b. output_steps sample_setup 2 1 (start_output sample_engine 0) s \<and> pb_bytes b = [1, 2, 3]
     \<and> of_processes (\<lambda>p. units (pp_written p @ pp_waiting p)) s = [b]"
proof -
  let ?s = "start_output sample_engine 0" and ?e = sample_setup
  let ?ev = "Packet 3 NaN (chunk_packet one_chunk_format 0 [1, 2, 3])" and ?take = "Take_Frame 4 True True"
  have r: "ow_receiver ?s = initial_receiver sample_engine 0"
    by (simp add: start_output_def)
  have "fm_total one_chunk_format = 1" "last_completed_seq initial_reassembly < fm_seq one_chunk_format"
      "assemblies initial_reassembly = []" "length [1, 2, 3 :: byte] \<le> MAX_ACCESS_UNIT_BYTES"
    by (simp_all add: one_chunk_format_def initial_reassembly_def limits)
  then obtain f q where f: "process_udp_chunk 3 NaN (chunk_packet one_chunk_format 0 [1, 2, 3]) initial_reassembly = (Some f, q)"
      "vf_seq f = 1" "vf_codec f = ''hevc''" "vf_access_unit f = [1, 2, 3]"
    using one_chunk [OF initial_ok one_chunk_format_ok(1), of "[1, 2, 3]" 3 NaN]
    by (cases "process_udp_chunk 3 NaN (chunk_packet one_chunk_format 0 [1, 2, 3]) initial_reassembly")
       (auto simp: one_chunk_format_def format_codec_def codec_of_tag_def tag_defs code_of_def)
  define a where "a = loop_step ?e ?ev ?s"
  have quiet: "rv_played (receiver_step ?e ?ev (ow_receiver ?s)) = []"
      "rv_engine (receiver_step ?e ?ev (ow_receiver ?s)) = sample_engine"
      "rv_frames (receiver_step ?e ?ev (ow_receiver ?s)) = [f]"
      "rv_streaming_active (receiver_step ?e ?ev (ow_receiver ?s)) = False"
    using f(1) by (simp_all add: r initial_receiver_def send_frame_def limits)
  have none: "loop_played ?e ?ev ?s = []"
    by (simp add: loop_played_def quiet del: receiver_step.simps)
  have a: "ow_receiver a = receiver_step ?e ?ev (ow_receiver ?s)" "ow_pipes a = ow_pipes ?s"
    unfolding a_def loop_step_def Let_def none loop_pipes_def
    by (simp_all add: quiet del: receiver_step.simps) (simp_all add: start_output_def initial_receiver_def)
  have raw: "pe_current_codec (rv_engine (ow_receiver a)) = ''raw''"
    unfolding a quiet by (simp add: sample_engine_def)
  have "vf_seq f \<le> 1"
    using f(2) by simp
  then have "\<not> rv_streaming_active (ow_receiver a)" "rv_frames (ow_receiver a) = f # []" "vf_seq f \<le> 1"
    unfolding a quiet by simp_all
  note frame = played_frame [OF this(1,2) f(3) this(3) raw refl, of ?e 4]
  let ?b = "\<lparr>pb_bytes = vf_access_unit f, pb_timing = frame_timing f\<rparr>"
  define b where "b = loop_step ?e ?take a"
  have old: "rv_played (ow_receiver a) = []" "pe_process (rv_engine (ow_receiver a)) = 0"
    unfolding a quiet by (simp_all add: sample_engine_def)
  have played: "loop_played ?e ?take a = [?b]"
    unfolding loop_played_def frame(2) by (simp add: old)
  have pipes: "loop_pipes ?e ?take a = (ow_pipes a)(1 := new_pipe ''h265'')"
    unfolding loop_pipes_def Let_def frame by (simp add: old)
  have new: "pp_open (new_pipe ''h265'')" "has_room (new_pipe ''h265'')"
    by (simp_all add: new_pipe_def has_room_def queue_capacity_def limits)
  have b: "ow_receiver b = receiver_step ?e ?take (ow_receiver a)" "pp_open (ow_pipes b i)" for i
    unfolding b_def loop_step_def Let_def played pipes frame
    by (simp_all add: a(2) start_output_def new del: receiver_step.simps)
  have "output_step ?e 2 1 ?s a"
    unfolding a_def by (rule loops) (simp add: loop_enabled_def none)
  moreover have "output_step ?e 2 1 a b"
    unfolding b_def by (rule loops) (simp add: loop_enabled_def played pipes frame old new Let_def del: receiver_step.simps)
  ultimately have steps: "output_steps ?e 2 1 ?s b"
    by (meson converse_rtranclp_into_rtranclp rtranclp.rtrancl_refl)
  have "pe_writer sample_engine = pe_process sample_engine"
    by (simp add: sample_engine_def)
  from decoders_get_stream_in_order [OF steps this]
  have "of_processes (\<lambda>p. units (pp_written p @ pp_waiting p)) b = rv_played (ow_receiver b)"
    using b(2) by blast
  also have "\<dots> = [?b]"
    unfolding b(1) frame(2) old by simp
  finally show ?thesis
    using steps f(4) by auto
qed

end
