(* ===== verification/Oplog_Journal.thy ===== *)
theory Oplog_Journal
  imports Oplog_Correct Config_Correct
begin

text \<open>
  The journal of \<open>src/operational_log.rs\<close> across a restart: what is read back from its segments is what it held in
  memory, and what a line cut off by a power failure does to the event behind it.
\<close>

section \<open>Lines\<close>

definition complete_lines :: "string \<Rightarrow> bool" where
  "complete_lines t \<longleftrightarrow> t = [] \<or> last t = CHR 0x0A"

lemma split_on_join: "split_on d (a @ d # t) = split_on d a @ split_on d t"
  by (induction a) (auto split: list.split)

lemma lines_append:
  assumes "complete_lines a"
  shows "str_lines (a @ t) = str_lines a @ str_lines t"
proof (cases "a = []")
  case True
  then show ?thesis
    by (simp add: str_lines_def)
next
  case False
  then obtain b where b: "a = b @ [CHR 0x0A]"
    using assms by (metis append_butlast_last_id complete_lines_def)
  show ?thesis
    using split_on_join [of "CHR 0x0A" b t] split_on_join [of "CHR 0x0A" b "[]"]
    by (simp add: b str_lines_def Let_def butlast_append)
qed

lemma one_line: "is_single_line l \<Longrightarrow> str_lines (l @ [CHR 0x0A]) = [l]"
  using str_lines_concat [of "[l]"] by simp

section \<open>What is read back\<close>

definition lawful_codec :: "event_codec \<Rightarrow> bool" where
  "lawful_codec codec \<longleftrightarrow> (\<forall>x. ec_decode codec (ec_encode codec x) = Some x \<and> is_single_line (ec_encode codec x))"

definition event_line :: "event_codec \<Rightarrow> operational_event \<Rightarrow> string" where
  "event_line codec x = ec_encode codec x @ [CHR 0x0A]"

definition text_of :: "string option \<Rightarrow> string" where
  "text_of seg = (case seg of None \<Rightarrow> [] | Some t \<Rightarrow> t)"

definition events_in :: "event_codec \<Rightarrow> string \<Rightarrow> operational_event list" where
  "events_in codec t = map the (filter (\<lambda>x. x \<noteq> None) (map (ec_decode codec) (str_lines t)))"

lemma recovered_segments:
  "recovered_events codec (seg # segs) = fold (push_bounded RECENT_LIMIT) (events_in codec (text_of seg)) (recovered_events codec segs)"
proof -
  have "(case g of None \<Rightarrow> [] | Some text \<Rightarrow> map the (filter (\<lambda>x. x \<noteq> None) (map (ec_decode codec) (str_lines text))))
      = events_in codec (text_of g)" for g
    by (cases g) (simp_all add: events_in_def text_of_def str_lines_def del: not_None_eq)
  from this [abs_def] show ?thesis
    unfolding recovered_events_def by (simp del: not_None_eq)
qed

lemma recovered_line:
  assumes "lawful_codec codec" and "complete_lines t"
  shows "recovered_events codec (Some (t @ event_line codec x) # segs)
    = push_bounded RECENT_LIMIT x (recovered_events codec (Some t # segs))"
  using assms by (simp add: recovered_segments text_of_def events_in_def lines_append event_line_def one_line lawful_codec_def)

lemma complete_event: "complete_lines t \<Longrightarrow> complete_lines (t @ event_line codec x)"
  by (simp add: complete_lines_def event_line_def)

section \<open>The journal in step with its files\<close>

definition journal_text :: "oplog \<Rightarrow> string" where
  "journal_text s = text_of (ol_segments s ! 0) @ concat (ol_pending s)"

definition in_step :: "event_codec \<Rightarrow> oplog \<Rightarrow> bool" where
  "in_step codec s \<longleftrightarrow> ol_disk s = [] \<and> ol_segments s \<noteq> [] \<and> complete_lines (journal_text s)
     \<and> ol_recent s = recovered_events codec (Some (journal_text s) # tl (ol_segments s))"

lemma in_step_first: "in_step codec s \<Longrightarrow> \<exists>seg segs. ol_segments s = seg # segs"
  by (cases "ol_segments s") (simp_all add: in_step_def)

lemma flush_in_step:
  assumes "in_step codec s" and "length (journal_text s) < SEGMENT_BYTES"
  shows "flush_pending codec now s = (True, if ol_pending s = [] then s
      else s\<lparr>ol_segments := Some (journal_text s) # tl (ol_segments s), ol_pending := []\<rparr>)"
proof -
  obtain seg segs where s: "ol_segments s = seg # segs"
    using in_step_first [OF assms(1)] by blast
  have d: "ol_disk s = []"
    using assms(1) by (simp add: in_step_def)
  have "rotate_if_needed codec now (ol_segments s) = ol_segments s"
    using assms(2) by (auto simp: rotate_if_needed_def s journal_text_def text_of_def split: option.splits)
  then show ?thesis
    by (simp add: flush_pending_def next_io_def d Let_def write_lines_def io_well_def append_journal_def s
        journal_text_def text_of_def split: option.split)
qed

lemma flushed_in_step:
  assumes "in_step codec s" and "length (journal_text s) < SEGMENT_BYTES"
  shows "journal_text (snd (flush_pending codec now s)) = journal_text s"
    and "in_step codec (snd (flush_pending codec now s))"
    and "ol_recent (snd (flush_pending codec now s)) = ol_recent s"
  using assms by (simp_all add: flush_in_step) (auto simp: in_step_def journal_text_def text_of_def)

lemma append_in_step:
  assumes law: "lawful_codec codec" and step: "in_step codec s" and fits: "length (journal_text s) < SEGMENT_BYTES"
  shows "in_step codec (append_event codec now critical x s)
    \<and> journal_text (append_event codec now critical x s) = journal_text s @ event_line codec x
    \<and> (critical \<longrightarrow> ol_pending (append_event codec now critical x s) = [])
    \<and> ol_healthy (append_event codec now critical x s)"
proof -
  obtain seg segs where s: "ol_segments s = seg # segs"
    using in_step_first [OF step] by blast
  note facts = step [unfolded in_step_def]
  note line = recovered_line [OF law, of "journal_text s" x segs] complete_event [of "journal_text s" codec x]
  show ?thesis
  proof (cases critical)
    case False
    then show ?thesis
      using facts line by (simp add: append_event_def push_recent_def Let_def in_step_def journal_text_def s event_line_def)
  next
    case True
    define t where "t = snd (flush_pending codec now s)"
    have f: "flush_pending codec now s = (True, t)"
      using flush_in_step [OF step fits] by (simp add: t_def)
    have t: "in_step codec t" "journal_text t = journal_text s" "ol_recent t = ol_recent s" "ol_pending t = []" "ol_disk t = []"
        "text_of (ol_segments t ! 0) = journal_text s" "\<exists>seg'. ol_segments t = seg' # segs"
      using flushed_in_step [OF step fits, of now] facts
      by (auto simp: t_def flush_in_step [OF step fits] s text_of_def journal_text_def)
    then obtain seg' where seg': "ol_segments t = seg' # segs"
      by blast
    have "rotate_if_needed codec now (ol_segments t) = ol_segments t"
      using fits t(6) by (auto simp: rotate_if_needed_def seg' text_of_def split: option.splits)
    then have "append_event codec now critical x s
        = push_recent x (t\<lparr>ol_segments := Some (journal_text s @ event_line codec x) # segs, ol_healthy := True\<rparr>)"
      using t(5,6) True by (simp add: append_event_def write_critical_def f next_io_def Let_def write_lines_def io_well_def
          append_journal_def seg' event_line_def text_of_def)
    then show ?thesis
      using facts line t(3,4,5) True
      by (simp add: in_step_def push_recent_def journal_text_def [of "_\<lparr>ol_recent := _\<rparr>"] s text_of_def)
  qed
qed

section \<open>Operations\<close>

datatype journal_op =
    Log_Event nat string string string nat bool
  | Sync_Log nat
  | Flush_Log nat

fun journal_step :: "event_codec \<Rightarrow> environment \<Rightarrow> journal_op \<Rightarrow> oplog \<Rightarrow> oplog" where
  "journal_step codec env (Log_Event now sev cat msg g critical) s = log_event codec env now sev cat msg g critical s"
| "journal_step codec env (Sync_Log now) s = sync_log codec now s"
| "journal_step codec env (Flush_Log now) s = flush_log codec now s"

text \<open>The events that one operation writes: the summaries that are due, and its own unless it is only counted.\<close>

fun written_events :: "environment \<Rightarrow> journal_op \<Rightarrow> oplog \<Rightarrow> operational_event list" where
  "written_events env (Log_Event now sev cat msg g critical) s =
     (let x = entry_of env now sev cat msg g; kept = filter (\<lambda>a. \<not> is_expired now a) (ol_aggregates s)
      in expired_summaries now g (ol_aggregates s)
         @ (if is_aggregated sev cat \<and> (case map_of kept (event_key x) of None \<Rightarrow> False | Some (started, count) \<Rightarrow> now - started < AGGREGATE_WINDOW_MS)
            then [] else [x]))"
| "written_events env _ s = []"

text \<open>No write finds a full segment, so none rotates.\<close>

fun fits_segment :: "event_codec \<Rightarrow> environment \<Rightarrow> journal_op list \<Rightarrow> oplog \<Rightarrow> bool" where
  "fits_segment codec env [] s \<longleftrightarrow> length (journal_text s) < SEGMENT_BYTES"
| "fits_segment codec env (op # ops) s \<longleftrightarrow>
     length (journal_text s) + length (concat (map (event_line codec) (written_events env op s))) < SEGMENT_BYTES
     \<and> fits_segment codec env ops (journal_step codec env op s)"

lemma appends_in_step:
  assumes law: "lawful_codec codec" and "in_step codec s"
    and "length (journal_text s) + length (concat (map (event_line codec) xs)) < SEGMENT_BYTES"
  shows "in_step codec (fold (append_event codec now critical) xs s)"
  using assms(2,3)
proof (induction xs arbitrary: s)
  case (Cons x xs)
  have "length (journal_text s) < SEGMENT_BYTES"
    using Cons.prems(2) by simp
  from append_in_step [OF law Cons.prems(1) this, of now critical x]
  show ?case
    using Cons.IH [of "append_event codec now critical x s"] Cons.prems(2) by simp
qed simp

lemma in_step_aggregates: "in_step codec (s\<lparr>ol_aggregates := a\<rparr>) = in_step codec s"
  "journal_text (s\<lparr>ol_aggregates := a\<rparr>) = journal_text s"
  by (simp_all add: in_step_def journal_text_def)

lemma log_event_appends:
  "\<exists>a c. log_event codec env now sev cat msg g critical s
    = fold (append_event codec now c) (written_events env (Log_Event now sev cat msg g critical) s) (s\<lparr>ol_aggregates := a\<rparr>)"
  by (auto simp: log_event_def Let_def entry_of_def split: option.split)

lemma sync_in_step:
  assumes "in_step codec s" and "length (journal_text s) < SEGMENT_BYTES"
  shows "in_step codec (sync_log codec now s)" and "in_step codec (flush_log codec now s)"
proof -
  obtain t where f: "flush_pending codec now s = (True, t)"
    using flush_in_step [OF assms, of now] by simp
  have t: "in_step codec t" "ol_disk t = []"
    using flushed_in_step(2) [OF assms, of now] f by (simp_all add: in_step_def)
  then show "in_step codec (flush_log codec now s)"
    by (simp add: flush_log_def f)
  show "in_step codec (sync_log codec now s)"
    using t by (simp add: sync_log_def f next_io_def io_well_def in_step_def journal_text_def Let_def)
qed

lemma journal_step_in_step:
  assumes "lawful_codec codec" and "in_step codec s"
    and "length (journal_text s) + length (concat (map (event_line codec) (written_events env op s))) < SEGMENT_BYTES"
  shows "in_step codec (journal_step codec env op s)"
proof (cases op)
  case (Log_Event now sev cat msg g critical)
  obtain a c where "journal_step codec env op s
      = fold (append_event codec now c) (written_events env op s) (s\<lparr>ol_aggregates := a\<rparr>)"
    using log_event_appends [of codec env now sev cat msg g critical s] by (auto simp: Log_Event simp del: written_events.simps)
  moreover have "in_step codec (fold (append_event codec now c) (written_events env op s) (s\<lparr>ol_aggregates := a\<rparr>))"
    using assms by (intro appends_in_step) (simp_all add: in_step_aggregates)
  ultimately show ?thesis
    by simp
qed (use assms in \<open>simp_all add: sync_in_step\<close>)

lemma journal_run_in_step:
  assumes "lawful_codec codec"
  shows "in_step codec s \<Longrightarrow> fits_segment codec env ops s \<Longrightarrow>
    in_step codec (fold (journal_step codec env) ops s)
    \<and> length (journal_text (fold (journal_step codec env) ops s)) < SEGMENT_BYTES"
proof (induction ops arbitrary: s)
  case (Cons op ops)
  have "in_step codec (journal_step codec env op s)"
    using Cons.prems by (intro journal_step_in_step [OF assms]) simp_all
  then show ?case
    using Cons.IH Cons.prems(2) by simp
qed simp

lemma in_step_recovered: "in_step codec s \<Longrightarrow> ol_pending s = [] \<Longrightarrow> recovered_events codec (ol_segments s) = ol_recent s"
  using in_step_first [of codec s] by (auto simp: in_step_def journal_text_def recovered_segments text_of_def)

text \<open>Opening a journal with no event to add leaves it in step.\<close>

lemma opened_in_step:
  assumes "segs \<noteq> []" and "complete_lines (text_of (hd segs))" and "recovered_generation (recovered_events codec segs) = None"
  shows "in_step codec (open_log codec env now segs incidents [])"
  using assms by (cases segs) (simp_all add: open_log_def in_step_def journal_text_def recovered_segments text_of_def)

lemma reopened_recent:
  "ol_recent (open_log codec env now segs incidents disk) =
     (case recovered_generation (recovered_events codec segs) of None \<Rightarrow> recovered_events codec segs
      | Some g \<Rightarrow> push_bounded RECENT_LIMIT (entry_of env now ''error'' ''stream_stop'' ''unclean_shutdown'' g)
          (recovered_events codec segs))"
proof -
  have "\<not> is_aggregated ''error'' ''stream_stop''"
    by code_simp
  then show ?thesis
    by (simp add: open_log_def log_event_def Let_def expired_summaries_def append_events_fields entry_of_def split: option.split)
qed

section \<open>Properties\<close>

text \<open>
  Property C9. Closing and opening the journal loses nothing: from a journal that agrees with its files, such as one just
  opened, and with a disk that works, after any events, flushes and syncs that do not fill the segment, a last flush leaves
  files from which exactly the events shown before are read back, in order, and no more than an event for an unclean shutdown
  is added to them.
\<close>

theorem journal_survives_restart:
  assumes "lawful_codec codec" and "in_step codec s" and "fits_segment codec env ops s"
    and "s' = fold (journal_step codec env) ops s"
    and "reopened = open_log codec env' later (ol_segments (flush_log codec now s')) incidents disk"
  shows "ol_recent reopened = (case recovered_generation (ol_recent s') of None \<Rightarrow> ol_recent s'
      | Some g \<Rightarrow> push_bounded RECENT_LIMIT (entry_of env' later ''error'' ''stream_stop'' ''unclean_shutdown'' g) (ol_recent s'))
    \<and> (ol_pending s' = [] \<longrightarrow> recovered_events codec (ol_segments s') = ol_recent s')"
proof -
  note run = journal_run_in_step [OF assms(1-3), folded assms(4)]
  have f: "flush_log codec now s' = snd (flush_pending codec now s')" and "ol_pending (flush_log codec now s') = []"
    using flush_in_step [of codec s' now] run by (simp_all add: flush_log_def)
  then have reread: "recovered_events codec (ol_segments (flush_log codec now s')) = ol_recent s'"
    using flushed_in_step(2,3) [of codec s' now] run in_step_recovered [of codec "flush_log codec now s'"] by simp
  then show ?thesis
    using in_step_recovered [of codec s'] run unfolding assms(5) reopened_recent reread by simp
qed

text \<open>A codec with the law, for the witness: numbers in unary, characters by their codes.\<close>

definition unary :: "nat \<Rightarrow> string" where
  "unary n = replicate n CHR ''x''"

definition unary_text :: "string \<Rightarrow> string" where
  "unary_text t = concat (map (\<lambda>l. l @ ''.'') (map (\<lambda>c. unary (of_char c)) t))"

definition text_of_unary :: "string \<Rightarrow> string" where
  "text_of_unary u = map (\<lambda>l. char_of (length l)) (butlast (split_on CHR ''.'' u))"

definition unary_codec :: event_codec where
  "unary_codec = \<lparr>ec_encode = (\<lambda>x. unary (oe_timestamp_unix_ms x) @ '','' @ unary_text (oe_severity x) @ '',''
       @ unary_text (oe_category x) @ '','' @ unary_text (oe_message x) @ '','' @ unary (oe_receiver_generation x)),
     ec_decode = (\<lambda>l. case split_on CHR '','' l of
         [a, b, c, d, e] \<Rightarrow> Some \<lparr>oe_timestamp_unix_ms = length a, oe_severity = text_of_unary b, oe_category = text_of_unary c,
           oe_message = text_of_unary d, oe_receiver_generation = length e\<rparr>
       | _ \<Rightarrow> None)\<rparr>"

lemma unary_chars: "set (unary n) \<subseteq> {CHR ''x''}" "set (unary_text t) \<subseteq> {CHR ''x'', CHR ''.''}"
  by (auto simp: unary_def unary_text_def)

lemma unary_back: "text_of_unary (unary_text t) = t"
proof -
  have "split_on CHR ''.'' (unary_text t) = map (\<lambda>c. unary (of_char c)) t @ [[]]"
    unfolding unary_text_def by (rule split_on_lines) (auto simp: unary_def)
  then show ?thesis
    by (simp add: text_of_unary_def unary_def comp_def)
qed

lemma unary_lawful: "lawful_codec unary_codec"
proof -
  have a: "CHR '','' \<notin> set (unary n)" "CHR '','' \<notin> set (unary_text t)" "CHR 0x0A \<notin> set (unary n)" "CHR 0x0D \<notin> set (unary n)"
      "CHR 0x0A \<notin> set (unary_text t)" "CHR 0x0D \<notin> set (unary_text t)" for n t
    using unary_chars(1) [of n] unary_chars(2) [of t] by auto
  have l: "length (unary n) = n" for n
    by (simp add: unary_def)
  show ?thesis
    by (simp add: lawful_codec_def unary_codec_def split_on_append split_on_no_sep a unary_back l is_single_line_def)
qed

lemma redact_nothing: "redact (\<lambda>_. None) [] = []"
  by code_simp

definition sample_event :: operational_event where
  "sample_event = \<lparr>oe_timestamp_unix_ms = 1, oe_severity = [], oe_category = ''a'', oe_message = [], oe_receiver_generation = 0\<rparr>"

theorem journal_survives_restart_witness:
  "ol_recent (open_log unary_codec (\<lambda>_. None) 9 (ol_segments (flush_log unary_codec 8
      (fold (journal_step unary_codec (\<lambda>_. None)) [Log_Event 1 [] ''a'' [] 0 False, Flush_Log 2] empty_log))) [] [])
   = [sample_event]"
proof -
  let ?op = "Log_Event 1 [] ''a'' [] 0 False" and ?e = "\<lambda>_. None"
  let ?s = "journal_step unary_codec ?e ?op empty_log"
  have plain: "\<not> is_aggregated [] ''a''"
    by code_simp
  have step: "in_step unary_codec empty_log" "journal_text empty_log = []"
    by (simp_all add: in_step_def empty_log_def journal_text_def text_of_def complete_lines_def recovered_events_def str_lines_def)
  have empty: "ol_aggregates empty_log = []" "ol_recent empty_log = []"
    by (simp_all add: empty_log_def)
  have w: "written_events ?e ?op empty_log = [sample_event]"
    using plain by (simp add: expired_summaries_def empty entry_of_def redact_nothing sample_event_def Let_def)
  have l: "length (event_line unary_codec sample_event) = 104"
    by (simp add: event_line_def unary_codec_def sample_event_def unary_text_def unary_def)
  have fits: "length (journal_text empty_log) + length (concat (map (event_line unary_codec) (written_events ?e ?op empty_log))) < SEGMENT_BYTES"
    unfolding w step by (simp add: l limits)
  have s: "?s = append_event unary_codec 1 False sample_event (empty_log\<lparr>ol_aggregates := []\<rparr>)"
    using plain by (simp add: log_event_def Let_def expired_summaries_def redact_nothing sample_event_def empty)
  have "in_step unary_codec (empty_log\<lparr>ol_aggregates := []\<rparr>)" "journal_text (empty_log\<lparr>ol_aggregates := []\<rparr>) = []"
    using step by (simp_all add: in_step_aggregates)
  then have t: "in_step unary_codec ?s" "journal_text ?s = event_line unary_codec sample_event" "ol_recent ?s = [sample_event]"
    using append_in_step [OF unary_lawful, of "empty_log\<lparr>ol_aggregates := []\<rparr>" 1 False sample_event]
    unfolding s by (simp_all add: limits empty push_bounded_fits)
  then have room: "length (journal_text ?s) < SEGMENT_BYTES"
    by (simp add: l limits)
  note flushed = flushed_in_step [OF t(1) room, of 2] flush_in_step [OF t(1) room, of 2]
  let ?t = "flush_log unary_codec 2 ?s"
  have f: "?t = snd (flush_pending unary_codec 2 ?s)"
    using flushed(4) by (simp add: flush_log_def)
  have "length (journal_text ?t) < SEGMENT_BYTES"
    unfolding f flushed(1) by (rule room)
  then have "fits_segment unary_codec ?e [?op, Flush_Log 2] empty_log"
    using fits room by (simp only: fits_segment.simps journal_step.simps(3) written_events.simps(3) list.map concat.simps list.size add_0_right simp_thms)
  moreover have "ol_recent ?t = [sample_event]"
    unfolding f flushed(3) by (rule t(3))
  moreover have "recovered_generation [sample_event] = None"
    by (simp add: recovered_generation_def rposition_def sample_event_def)
  ultimately show ?thesis
    using journal_survives_restart [OF unary_lawful step(1) _ refl refl, of ?e "[?op, Flush_Log 2]" ?e 9 8 "[]" "[]"] by simp
qed

section \<open>A line that was cut off\<close>

text \<open>
  An event behind a torn line is lost: when power failed while a line was written, the journal is opened without a word, and
  the next event is appended to the rest of that line.  It is synced and reported as written, but what is read back
  of the two together is nothing.
\<close>

theorem torn_line_swallows_event:
  assumes "lawful_codec codec" and "complete_lines t" and "is_single_line torn"
    and "ec_decode codec (torn @ ec_encode codec x) = None" and "ec_decode codec torn = None"
    and "ol_segments s = Some (t @ torn) # segs" and "ol_pending s = []" and "ol_disk s = []"
    and "length (t @ torn) < SEGMENT_BYTES" and "s' = append_event codec now True x s"
  shows "ol_healthy s' \<and> ol_recent s' = push_bounded RECENT_LIMIT x (ol_recent s)
    \<and> recovered_events codec (ol_segments s') = recovered_events codec (ol_segments s)"
proof -
  have "rotate_if_needed codec now (ol_segments s) = ol_segments s"
    using assms(6,9) by (simp add: rotate_if_needed_def)
  then have s': "s' = push_recent x (s\<lparr>ol_segments := Some (t @ torn @ event_line codec x) # segs, ol_healthy := True\<rparr>)"
    using assms(6-8) by (simp add: assms(10) append_event_def write_critical_def flush_pending_def next_io_def Let_def
        write_lines_def io_well_def append_journal_def event_line_def)
  have e: "is_single_line (torn @ ec_encode codec x)"
    using assms(1,3) by (simp add: lawful_codec_def is_single_line_def)
  have "str_lines (torn @ event_line codec x) = [torn @ ec_encode codec x]"
    using one_line [OF e] by (simp add: event_line_def)
  moreover have "str_lines torn = (if torn = [] then [] else [torn])"
    using assms(3) by (simp add: str_lines_def split_on_no_sep is_single_line_def)
  ultimately show ?thesis
    using assms(4,5) by (simp add: s' assms(6) push_recent_def recovered_segments text_of_def events_in_def
        lines_append [OF assms(2)])
qed

end
