(* ===== verification/Reassembly_Memory.thy ===== *)
theory Reassembly_Memory
  imports Reassembly_Correct
begin

text \<open>
  What the partial access units of \<open>src/v4l2_decoder.rs\<close> hold: the limit on the size of an access unit is applied to each
  chunk and to the finished unit, not to what has been collected in between.
\<close>

definition held_by :: "assembly \<Rightarrow> nat" where
  "held_by a = sum_list (map chunk_len (as_chunks a))"

definition held_bytes :: "reassembly \<Rightarrow> nat" where
  "held_bytes s = sum_list (map held_by (assemblies s))"

lemma held_by_entry:
  assumes "D \<subseteq> {..<unat (fm_total h)}"
  shows "held_by (entry_with h t0 D pl) = (\<Sum>i \<in> D. length (pl i))"
proof -
  let ?n = "unat (fm_total h)"
  have "held_by (entry_with h t0 D pl) = sum_list (map (\<lambda>i. if i \<in> D then length (pl i) else 0) [0..<?n])"
    unfolding held_by_def entry_with_simps slots_def map_map
    by (intro arg_cong [where f = sum_list] map_cong [OF refl]) (simp add: chunk_len_def)
  also have "\<dots> = (\<Sum>i \<in> {..<?n}. if i \<in> D then length (pl i) else 0)"
    by (simp add: sum_list_distinct_conv_sum_set atLeast0LessThan)
  also have "\<dots> = (\<Sum>i \<in> D. length (pl i))"
    using assms by (simp add: sum.inter_restrict [symmetric] Int_absorb1)
  finally show ?thesis .
qed

lemma holds_part_bytes:
  assumes "holds_part h t0 D pl s" and "D \<subseteq> {..<unat (fm_total h)}"
  shows "(\<Sum>i \<in> D. length (pl i)) \<le> held_bytes s"
proof -
  have "held_by (entry_with h t0 D pl) \<in> set (map held_by (assemblies s))"
    using assms(1) by (auto simp: holds_part_def)
  from member_le_sum_list [OF this] show ?thesis
    using held_by_entry [OF assms(2), of t0 pl] by (simp add: held_bytes_def)
qed

text \<open>An incomplete set of chunks is only collected.\<close>

lemma feed_partial:
  assumes h: "format_ok h" and payloads: "\<forall>i \<in> set (map fst as). payload_ok (pl i)"
    and s: "awaiting h t0 D pl s" "last_completed_seq s < fm_seq h"
    and inds: "distinct (map fst as)" "D \<inter> set (map fst as) = {}" "D \<union> set (map fst as) \<subset> {..<unat (fm_total h)}"
    and times: "\<forall>(i, now, clock) \<in> set as. now - t0 \<le> ASSEMBLY_TTL" "D = {} \<Longrightarrow> as \<noteq> [] \<Longrightarrow> t0 = fst (snd (hd as))"
  shows "fst (feed (arrivals_of h pl as) s) = replicate (length as) None
    \<and> awaiting h t0 (D \<union> set (map fst as)) pl (snd (feed (arrivals_of h pl as) s))"
  using payloads s inds times
proof (induction as arbitrary: s D)
  case (Cons a as)
  let ?n = "unat (fm_total h)"
  obtain i now clock where a: "a = (i, now, clock)" by (cases a) auto
  have D: "finite D" "i \<notin> D" and i: "i < ?n"
    using Cons.prems(4,5,6) by (auto simp: a intro: finite_subset [of D "{..<?n}"])
  let ?s1 = "s\<lparr>stats_chunks := stats_chunks s + 1\<rparr>"
  obtain s2 where s2: "accept_chunk now clock (last_completed_seq s) (format_chunk h i (pl i)) ?s1 = complete clock (fm_seq h) s2"
    "holds_part h t0 (insert i D) pl s2" "last_completed_seq s2 = last_completed_seq ?s1"
    by (rule accept_arrival [of h t0 D pl ?s1 i now "last_completed_seq s" clock])
      (use Cons.prems D i h in \<open>auto simp: a\<close>)
  have "payload_ok (pl i)"
    using Cons.prems(1) by (simp add: a)
  then have proc: "process_udp_chunk now clock (chunk_packet h i (pl i)) s = complete clock (fm_seq h) s2"
    using process_packet [OF h i _ Cons.prems(3)] s2(1) by simp
  have part: "insert i D \<subset> {..<?n}"
    using Cons.prems(6) by (auto simp: a)
  then have "card (insert i D) < ?n"
    using psubset_card_mono [of "{..<?n}" "insert i D"] by simp
  then have wait: "complete clock (fm_seq h) s2 = (None, s2)"
    by (intro complete_waits [OF s2(2)]) simp
  have IH: "fst (feed (arrivals_of h pl as) s2) = replicate (length as) None
      \<and> awaiting h t0 (insert i D \<union> set (map fst as)) pl (snd (feed (arrivals_of h pl as) s2))"
    by (rule Cons.IH) (use Cons.prems s2 in \<open>auto simp: a awaiting_def\<close>)
  have "arrivals_of h pl (a # as) = (now, clock, chunk_packet h i (pl i)) # arrivals_of h pl as"
    by (simp add: arrivals_of_def a)
  then show ?case
    using IH by (simp add: feed_Cons proc wait a del: feed.simps(2))
qed (simp add: arrivals_of_def)

text \<open>
  Property C40. Partial access units are not limited: any chunks of an access unit short of all of them, each within the
  limit on the size of a whole unit, are accepted and kept together without an error, however large they are in sum; only
  a later packet, no sooner than the assembly lifetime after the first, removes them.
\<close>

theorem partial_units_are_unlimited:
  assumes "reassembly_ok s" and "format_ok h" and "last_completed_seq s < fm_seq h"
    and "\<forall>e \<in> set (assemblies s). as_seq e \<noteq> fm_seq h"
    and "distinct (map fst as)" and "set (map fst as) \<subset> {..<unat (fm_total h)}" and "as \<noteq> []"
    and "\<forall>i \<in> set (map fst as). pl i \<noteq> [] \<and> length (pl i) \<le> MAX_ACCESS_UNIT_BYTES"
    and "\<forall>(i, now, clock) \<in> set as. now - fst (snd (hd as)) \<le> ASSEMBLY_TTL"
  shows "fst (feed (arrivals_of h pl as) s) = replicate (length as) None
    \<and> (\<Sum>i \<leftarrow> map fst as. length (pl i)) \<le> held_bytes (snd (feed (arrivals_of h pl as) s))"
proof -
  have "awaiting h (fst (snd (hd as))) {} pl s"
    using assms(1,4) by (simp add: awaiting_def reassembly_ok_def)
  then have r: "fst (feed (arrivals_of h pl as) s) = replicate (length as) None
      \<and> awaiting h (fst (snd (hd as))) (set (map fst as)) pl (snd (feed (arrivals_of h pl as) s))"
    using feed_partial [OF assms(2), of as pl "fst (snd (hd as))" "{}" s] assms by (simp add: payload_ok_def)
  then have "holds_part h (fst (snd (hd as))) (set (map fst as)) pl (snd (feed (arrivals_of h pl as) s))"
    using assms(7) by (simp add: awaiting_def)
  then have "(\<Sum>i \<in> set (map fst as). length (pl i)) \<le> held_bytes (snd (feed (arrivals_of h pl as) s))"
    by (rule holds_part_bytes) (use assms(6) in blast)
  then show ?thesis
    using r assms(5) by (simp add: sum_list_distinct_conv_sum_set del: map_map)
qed

theorem partial_units_are_unlimited_witness:
  "MAX_ACCESS_UNIT_BYTES < held_bytes (snd (feed (arrivals_of (sample_format\<lparr>fm_total := 3\<rparr>)
      (\<lambda>i. replicate MAX_ACCESS_UNIT_BYTES 0) [(0, 5, NaN), (2, 6, NaN)]) initial_reassembly))"
proof -
  let ?h = "sample_format\<lparr>fm_total := 3\<rparr>"
  have h: "format_ok ?h"
    by (simp add: sample_format_def format_ok_def format_timing_def timing_len_def is_synchronized_def is_timed_v1_def
        timing_ok_def dimensions_ok_def max_dimensions_def codec_of_tag_def limits tag_defs code_of_def format_codec_def)
  have t: "unat (fm_total ?h) = 3" "fm_seq ?h = 7"
    by (simp_all add: sample_format_def)
  have part: "{0, 2} \<subset> {..<3 :: nat}"
  proof (rule psubsetI)
    have "1 \<in> {..<3 :: nat}" "1 \<notin> {0, 2 :: nat}"
      by simp_all
    then show "{0, 2} \<noteq> {..<3 :: nat}"
      by metis
  qed simp
  have pos: "0 < MAX_ACCESS_UNIT_BYTES"
    by (simp add: limits)
  have "last_completed_seq initial_reassembly < fm_seq ?h" "\<forall>e \<in> set (assemblies initial_reassembly). as_seq e \<noteq> fm_seq ?h"
    unfolding t by (simp_all add: initial_reassembly_def)
  from partial_units_are_unlimited [OF initial_ok h this, of "[(0, 5, NaN), (2, 6, NaN)]" "\<lambda>i. replicate MAX_ACCESS_UNIT_BYTES 0"]
  have "(\<Sum>i \<leftarrow> [0, 2 :: nat]. length (replicate MAX_ACCESS_UNIT_BYTES (0 :: byte))) \<le>
      held_bytes (snd (feed (arrivals_of ?h (\<lambda>i. replicate MAX_ACCESS_UNIT_BYTES 0) [(0, 5, NaN), (2, 6, NaN)]) initial_reassembly))"
    unfolding t using pos part by (auto simp: limits from_millis_def)
  then show ?thesis
    using pos by simp
qed

end
