(* ===== verification/Sockets.thy ===== *)
theory Sockets
  imports Prelude
begin

text \<open>
  The Unix sockets of \<open>src/receiver_ipc.rs\<close> and \<open>src/admin.rs\<close>: how both servers set up the path they listen on, and who is
  reached through it.  What the kernel answers is an argument.
\<close>

section \<open>Setting up the path\<close>

text \<open>What is at the path: a socket file leads to the process that bound it, whether or not that still runs.\<close>

datatype path_node = Absent | Other_Node | Listener nat nat

definition PRIVATE_MODE :: nat where
  "PRIVATE_MODE = 6 * 8 * 8"

text \<open>\<open>so_removed\<close> is about a node that is there; \<open>so_mode\<close> is the mode a new socket file has from the kernel.\<close>

record socket_outcome =
  so_parent :: bool
  so_removed :: bool
  so_bound :: bool
  so_mode :: nat
  so_chmod :: bool

definition set_up_socket :: "nat \<Rightarrow> socket_outcome \<Rightarrow> path_node \<Rightarrow> (string + unit) \<times> path_node" where
  "set_up_socket process io n =
     (if \<not> so_parent io then (Inl ''create_dir_all'', n)
      else if n \<noteq> Absent \<and> \<not> so_removed io then (Inl ''remove_file'', n)
      else if \<not> so_bound io then (Inl ''bind'', Absent)
      else if \<not> so_chmod io then (Inl ''set_permissions'', Listener process (so_mode io))
      else (Inr (), Listener process PRIVATE_MODE))"

text \<open>The accepting loop runs one task for each connection and ends with the first error of \<open>accept\<close>.\<close>

fun accept_connections :: "('c option) list \<Rightarrow> 'c list \<times> bool" where
  "accept_connections [] = ([], True)"
| "accept_connections (None # rs) = ([], False)"
| "accept_connections (Some c # rs) = (case accept_connections rs of (cs, running) \<Rightarrow> (c # cs, running))"

lemma accepted_before_error: "fst (accept_connections rs) = map the (takeWhile (\<lambda>r. r \<noteq> None) rs)
  \<and> (snd (accept_connections rs) \<longleftrightarrow> None \<notin> set rs)"
proof (induction rs)
  case (Cons r rs)
  then show ?case
    by (cases r) (simp_all add: split_beta)
qed simp

lemma set_up_private:
  "set_up_socket process io n = (Inr (), n') \<Longrightarrow> n' = Listener process PRIVATE_MODE"
  by (simp add: set_up_socket_def split: if_splits)

section \<open>Two managers\<close>

text \<open>\<open>run_server\<close> of the manager spawns the task of its socket and goes on to bind the portal; if that fails the process
  ends, with its listener.  Which of the two happens first is open.\<close>

record socket_world =
  sw_node :: path_node
  sw_running :: "nat set"

datatype start_step = Socket_Task socket_outcome | Portal_Bind bool

fun start_manager_step :: "nat \<Rightarrow> start_step \<Rightarrow> socket_world \<Rightarrow> socket_world" where
  "start_manager_step process (Socket_Task io) w =
     (if process \<in> sw_running w then w\<lparr>sw_node := snd (set_up_socket process io (sw_node w))\<rparr> else w)"
| "start_manager_step process (Portal_Bind ok) w =
     (if ok then w else w\<lparr>sw_running := sw_running w - {process}\<rparr>)"

definition reached :: "socket_world \<Rightarrow> nat option" where
  "reached w = (case sw_node w of Listener p m \<Rightarrow> if p \<in> sw_running w then Some p else None | _ \<Rightarrow> None)"

text \<open>
  A second manager that cannot start cuts off the first: when its socket task runs before it finds the
  portal's port taken, the path leads to the process that then ends, and the running manager is not reached through it again.
  In the other order nothing happens.
\<close>

theorem second_manager_takes_socket:
  assumes "reached w = Some a" and "b \<noteq> a" and "so_parent io" and "so_removed io" and "so_bound io" and "so_chmod io"
    and "w' = w\<lparr>sw_running := insert b (sw_running w)\<rparr>"
  shows "let t = fold (start_manager_step b) [Socket_Task io, Portal_Bind False] w' in a \<in> sw_running t \<and> reached t = None"
    and "reached (fold (start_manager_step b) [Portal_Bind False, Socket_Task io] w') = Some a"
  using assms by (auto simp: reached_def set_up_socket_def split: path_node.splits if_splits)

end
