(* ===== verification/Dashboard_Encoder.thy ===== *)
theory Dashboard_Encoder
  imports Dashboard_Output
begin

text \<open>
  \<open>PersistentDashboardEncoder\<close> of \<open>src/dashboard.rs\<close>: the feeding thread with the ffmpeg process it keeps for an HEVC
  dashboard, as a refinement of the rounds of \<open>Dashboard\<close>.
\<close>

section \<open>The process\<close>

text \<open>What ffmpeg was started with and what it was given; a process that has ended takes nothing.\<close>

record encoder_process =
  ep_args :: "string list"
  ep_alive :: bool
  ep_given :: "byte list"

definition spawn_encoder :: "u32 \<Rightarrow> u32 \<Rightarrow> encoder_process" where
  "spawn_encoder width height = \<lparr>ep_args = encoder_args width height, ep_alive = True, ep_given = []\<rparr>"

text \<open>A failing write is only printed.\<close>

definition push_encoded_frame :: "byte list \<Rightarrow> encoder_process \<Rightarrow> encoder_process" where
  "push_encoded_frame raw_bytes p = (if ep_alive p then p\<lparr>ep_given := ep_given p @ raw_bytes\<rparr> else p)"

definition push_encoder ::
  "bool \<Rightarrow> nat option \<Rightarrow> nat \<Rightarrow> nat \<Rightarrow> nat \<Rightarrow> (string \<times> string) list \<Rightarrow> pairing_snapshot \<Rightarrow> string option
   \<Rightarrow> encoder_process \<Rightarrow> encoder_process" where
  "push_encoder cloud_enabled now width height vrefresh ips pairing code_shown p =
     push_encoded_frame (dashboard_frame cloud_enabled now width height vrefresh ips pairing code_shown) p"

lemma encoder_gets_whole_frame:
  "ep_alive p \<Longrightarrow> length (ep_given (push_encoder cloud now w h hz ips pairing shown p)) = length (ep_given p) + 4 * (w * h)"
  by (simp add: push_encoder_def push_encoded_frame_def frame_length)

section \<open>The thread\<close>

text \<open>The rounds of \<open>feeder\<close> with the process and the raw frames.\<close>

record idle_thread = feeder +
  it_encoder :: "encoder_process option"
  it_raw :: "byte list list"

definition initial_idle_thread :: idle_thread where
  "initial_idle_thread = feeder.extend initial_feeder \<lparr>it_encoder = None, it_raw = []\<rparr>"

text \<open>Between two rounds ffmpeg may end by itself.\<close>

definition encoder_dies :: "idle_thread \<Rightarrow> idle_thread" where
  "encoder_dies s = s\<lparr>it_encoder := map_option (\<lambda>p. p\<lparr>ep_alive := False\<rparr>) (it_encoder s)\<rparr>"

definition ensure_encoder :: "string \<Rightarrow> u32 \<Rightarrow> u32 \<Rightarrow> bool \<Rightarrow> idle_thread \<Rightarrow> idle_thread" where
  "ensure_encoder codec width height spawns s =
     (if codec = ''hevc'' \<and> it_encoder s = None \<and> spawns
      then s\<lparr>fd_encoder := True, fd_spawned := fd_spawned s + 1, it_encoder := Some (spawn_encoder width height)\<rparr> else s)"

definition push_idle_frame :: "string \<Rightarrow> byte list \<Rightarrow> idle_thread \<Rightarrow> idle_thread" where
  "push_idle_frame codec frame s =
     (if codec = ''raw'' then s\<lparr>fd_raw_frames := fd_raw_frames s + 1, it_raw := it_raw s @ [frame]\<rparr>
      else case it_encoder s of None \<Rightarrow> s
      | Some p \<Rightarrow> s\<lparr>fd_encoded_frames := fd_encoded_frames s + 1, it_encoder := Some (push_encoded_frame frame p)\<rparr>)"

definition idle_round ::
  "string \<Rightarrow> u32 \<Rightarrow> u32 \<Rightarrow> bool \<times> nat \<times> bool \<Rightarrow> byte list \<Rightarrow> idle_thread \<Rightarrow> idle_thread" where
  "idle_round codec width height view frame s =
     (case view of (active, now_secs, spawns) \<Rightarrow>
        if \<not> active then
          let s = ensure_encoder codec width height spawns s
          in if now_secs \<noteq> fd_last_secs s then push_idle_frame codec frame (s\<lparr>fd_last_secs := now_secs\<rparr>) else s
        else case it_encoder s of None \<Rightarrow> s
          | Some p \<Rightarrow> s\<lparr>fd_encoder := False, fd_dropped := fd_dropped s + 1, it_encoder := None\<rparr>)"

datatype idle_event = Encoder_Dies | Round "bool \<times> nat \<times> bool" "byte list"

fun idle_step :: "string \<Rightarrow> u32 \<Rightarrow> u32 \<Rightarrow> idle_event \<Rightarrow> idle_thread \<Rightarrow> idle_thread" where
  "idle_step codec width height Encoder_Dies s = encoder_dies s"
| "idle_step codec width height (Round view frame) s = idle_round codec width height view frame s"

fun round_view :: "idle_event \<Rightarrow> (bool \<times> nat \<times> bool) list" where
  "round_view Encoder_Dies = []"
| "round_view (Round view frame) = [view]"

section \<open>Refinement\<close>

definition idle_ok :: "idle_thread \<Rightarrow> bool" where
  "idle_ok s \<longleftrightarrow> (fd_encoder s \<longleftrightarrow> it_encoder s \<noteq> None)"

lemmas idle_defs = idle_ok_def idle_round_def feeder_round_def ensure_encoder_def push_idle_frame_def encoder_dies_def
  feeder.truncate_def Let_def

lemma idle_step_ok: "idle_ok s \<Longrightarrow> idle_ok (idle_step codec width height ev s)"
  by (cases ev) (auto simp: idle_defs split: option.split prod.split)

interpretation idle: invariant_machine "idle_step codec width height" idle_ok "\<lambda>_. True" for codec width height
  by unfold_locales (rule idle_step_ok)

lemma idle_step_refines:
  "idle_ok s \<Longrightarrow> feeder.truncate (idle_step codec width height ev s) = fold (feeder_round codec) (round_view ev) (feeder.truncate s)"
  by (cases ev) (auto simp: idle_defs split: option.split prod.split)

text \<open>
  The thread with its process does what its rounds say: forgetting the process and the frames, any run is the run of
  \<open>feeder_round\<close> over what its rounds saw, whenever ffmpeg ends in between.
\<close>

theorem idle_thread_refines_feeder:
  "feeder.truncate (fold (idle_step codec width height) evs initial_idle_thread)
    = fold (feeder_round codec) (concat (map round_view evs)) initial_feeder"
proof -
  have "idle_ok s \<Longrightarrow> feeder.truncate (fold (idle_step codec width height) evs s)
      = fold (feeder_round codec) (concat (map round_view evs)) (feeder.truncate s)" for s
  proof (induction evs arbitrary: s)
    case (Cons ev evs)
    then show ?case
      using idle_step_refines [OF Cons.prems, of codec width height ev] idle_step_ok [OF Cons.prems, of codec width height ev]
      by simp
  qed simp
  moreover have "idle_ok initial_idle_thread" "feeder.truncate initial_idle_thread = initial_feeder"
    by (simp_all add: idle_ok_def initial_idle_thread_def initial_feeder_def feeder.defs)
  ultimately show ?thesis
    by metis
qed

section \<open>An encoder that has ended\<close>

definition is_idle_round :: "idle_event \<Rightarrow> bool" where
  "is_idle_round ev \<longleftrightarrow> (case ev of Encoder_Dies \<Rightarrow> True | Round view frame \<Rightarrow> \<not> fst view)"

text \<open>
  An encoder that ends is not replaced: the thread asks only whether it has one.  After ffmpeg has ended, the
  dashboard is not fed again, however many rounds follow, until a stream has come and gone.
\<close>

theorem dead_encoder_is_kept:
  assumes "codec \<noteq> ''raw''" and "it_encoder s = Some p" and "\<not> ep_alive p" and "\<forall>ev \<in> set evs. is_idle_round ev"
  shows "it_encoder (fold (idle_step codec width height) evs s) = Some p"
  using assms(2,4)
proof (induction evs arbitrary: s)
  case (Cons ev evs)
  have "p\<lparr>ep_alive := False\<rparr> = p"
    using assms(3) by simp
  then have "it_encoder (idle_step codec width height ev s) = Some p"
    using Cons.prems assms(1,3)
    by (cases ev) (auto simp: idle_defs is_idle_round_def push_encoded_frame_def split: prod.splits)
  then show ?case
    using Cons.IH Cons.prems(2) by simp
qed simp

end
