(* ===== verification/Casting_Output.thy ===== *)
theory Casting_Output
  imports Output_Order
begin

text \<open>
  The whole way of an access unit: from the chunks that a client writes on a media stream, through the reassembly, the event
  loop and the queue of the engine, into the GStreamer process.
\<close>

section \<open>Packets in the world of the queues\<close>

definition with_receiver :: "receiver \<Rightarrow> output_world \<Rightarrow> output_world" where
  "with_receiver r s = s\<lparr>ow_receiver := r\<rparr>"

lemma with_receiver_fields [simp]:
  "ow_receiver (with_receiver r s) = r" "ow_pipes (with_receiver r s) = ow_pipes s"
  "with_receiver r' (with_receiver r s) = with_receiver r' s" "with_receiver (ow_receiver s) s = s"
  by (simp_all add: with_receiver_def)

lemma packet_quiet:
  "rv_played (receiver_step e (Packet now clock p) r) = rv_played r"
  "rv_engine (receiver_step e (Packet now clock p) r) = rv_engine r"
  "rv_streaming_active (receiver_step e (Packet now clock p) r) = rv_streaming_active r"
  by (auto simp: send_frame_def split: prod.split option.split)

lemma packet_loops:
  "loop_played e (Packet now clock p) s = []"
  "loop_step e (Packet now clock p) s = with_receiver (receiver_step e (Packet now clock p) (ow_receiver s)) s"
  by (simp_all add: loop_step_def loop_played_def loop_pipes_def packet_quiet with_receiver_def Let_def del: receiver_step.simps)

lemma packets_loop:
  "output_steps e w h s (with_receiver (fold (receiver_step e) (map packet_event ps) (ow_receiver s)) s)"
proof (induction ps arbitrary: s)
  case (Cons a ps)
  obtain now clock p where a: "packet_event a = Packet now clock p"
    by (cases a) (simp add: packet_event_def)
  let ?t = "with_receiver (receiver_step e (Packet now clock p) (ow_receiver s)) s"
  have "output_step e w h s (loop_step e (Packet now clock p) s)"
    by (rule loops) (simp add: loop_enabled_def packet_loops(1))
  then have "output_step e w h s ?t"
    unfolding packet_loops(2) .
  moreover have "output_steps e w h ?t (with_receiver (fold (receiver_step e) (map packet_event ps) (ow_receiver ?t)) ?t)"
    by (rule Cons.IH)
  ultimately show ?case
    by (simp add: a del: receiver_step.simps)
qed simp

lemma packets_keep:
  "rv_engine (fold (receiver_step e) (map packet_event ps) r) = rv_engine r"
  "rv_played (fold (receiver_step e) (map packet_event ps) r) = rv_played r"
  "rv_streaming_active (fold (receiver_step e) (map packet_event ps) r) = rv_streaming_active r"
proof (induction ps arbitrary: r)
  case (Cons a ps)
  obtain now clock p where a: "packet_event a = Packet now clock p"
    by (cases a) (simp add: packet_event_def)
  {
    case 1
    then show ?case using Cons(1) by (simp add: a packet_quiet del: receiver_step.simps)
  next
    case 2
    then show ?case using Cons(2) by (simp add: a packet_quiet del: receiver_step.simps)
  next
    case 3
    then show ?case using Cons(3) by (simp add: a packet_quiet del: receiver_step.simps)
  }
qed simp_all

section \<open>Emptying a queue\<close>

lemma drain:
  assumes "pp_open (ow_pipes s i)"
  shows "\<exists>t. output_steps e w h s t \<and> ow_receiver t = ow_receiver s \<and> pp_waiting (ow_pipes t i) = []
    \<and> pp_open (ow_pipes t i) \<and> pp_capacity (ow_pipes t i) = pp_capacity (ow_pipes s i)"
  using assms
proof (induction "length (pp_waiting (ow_pipes s i))" arbitrary: s)
  case 0
  then show ?case
    by (intro exI [of _ s]) simp
next
  case (Suc n)
  let ?t = "at_pipe i write_next s"
  have t: "n = length (pp_waiting (ow_pipes ?t i))" "pp_open (ow_pipes ?t i)" "ow_receiver ?t = ow_receiver s"
      "pp_capacity (ow_pipes ?t i) = pp_capacity (ow_pipes s i)"
    using Suc(2,3) by (auto simp: write_next_def split: list.splits)
  have "output_step e w h s ?t"
    by (rule writes [OF Suc(3)])
  with Suc(1) [OF t(1,2)] show ?case
    unfolding t(3,4) by (meson converse_rtranclp_into_rtranclp)
qed

section \<open>Every reachable world\<close>

definition world_ok :: "output_world \<Rightarrow> bool" where
  "world_ok s \<longleftrightarrow> receiver_ok (ow_receiver s) \<and> (\<forall>i. 0 < pp_capacity (ow_pipes s i))"

lemma capacity_ops [simp]:
  "0 < pp_capacity (new_pipe c)" "pp_capacity (write_next p) = pp_capacity p" "pp_capacity (write_fails p) = pp_capacity p"
  "pp_capacity (try_send x p) = pp_capacity p"
  by (auto simp: new_pipe_def queue_capacity_def write_next_def write_fails_def try_send_def limits split: list.split)

lemma loop_world_ok:
  assumes "world_ok s"
  shows "world_ok (loop_step e ev s)"
proof -
  have sends: "pp_capacity (ow_pipes (fold (\<lambda>b. at_pipe i (try_send (Access_Unit b))) bs t) j) = pp_capacity (ow_pipes t j)" for i bs t j
    by (induction bs arbitrary: t) simp_all
  show ?thesis
    using assms receiver_step_ok [of "ow_receiver s" e ev]
    unfolding world_ok_def loop_step_def Let_def playing_receiver sends by (auto simp: loop_pipes_def Let_def)
qed

lemma output_step_world_ok: "output_step e w h s s' \<Longrightarrow> world_ok s \<Longrightarrow> world_ok s'"
proof (induction rule: output_step.induct)
  case (loops s ev)
  then show ?case
    by (intro loop_world_ok)
qed (simp_all add: world_ok_def send_drawn_def)

lemma output_steps_world_ok: "output_steps e w h s s' \<Longrightarrow> world_ok s \<Longrightarrow> world_ok s'"
  by (induction rule: rtranclp_induct) (auto intro: output_step_world_ok)

lemma start_world_ok: "world_ok (start_output engine now)"
  by (simp add: world_ok_def start_output_def initial_receiver_ok)

section \<open>The frame at the head of the channel\<close>

lemma frame_taken:
  assumes "rv_frames r = [f]" and "vf_codec f = ''hevc'' \<or> vf_codec f = ''h264''" and "rv_streaming_active r \<or> vf_seq f \<le> 1"
    and r': "r' = receiver_step e (Take_Frame now True True) r"
  shows "rv_streaming_active r'"
    and "rv_played r' = rv_played r @ [\<lparr>pb_bytes = vf_access_unit f, pb_timing = frame_timing f\<rparr>]"
    and "rv_engine r' = snd (ensure_configuration (re_env e) True (vf_codec f) (re_connector e) (re_render_rect e) ''composed'' (rv_engine r))"
proof -
  let ?q = "r\<lparr>rv_frames := []\<rparr>"
  let ?p = "prepare_frame e True f ?q"
  have p: "rv_streaming_active ?p" "rv_played ?p = rv_played r"
      "rv_engine ?p = snd (ensure_configuration (re_env e) True (vf_codec f) (re_connector e) (re_render_rect e) ''composed'' (rv_engine r))"
    using assms(3) by (auto simp: prepare_frame_def Let_def)
  have h: "r' = play_frame e now f ?p"
    using assms(1-3) p(1) by (auto simp: r' handle_frame_def Let_def)
  show "rv_streaming_active r'"
    and "rv_played r' = rv_played r @ [\<lparr>pb_bytes = vf_access_unit f, pb_timing = frame_timing f\<rparr>]"
    and "rv_engine r' = snd (ensure_configuration (re_env e) True (vf_codec f) (re_connector e) (re_render_rect e) ''composed'' (rv_engine r))"
    unfolding h using p by (simp_all add: play_frame_def Let_def send_telemetry_def)
qed

lemma frame_into_decoder:
  assumes frame: "rv_frames (ow_receiver s) = [f]" "vf_codec f = ''hevc'' \<or> vf_codec f = ''h264''"
      "rv_streaming_active (ow_receiver s) \<or> vf_seq f \<le> 1"
    and ok: "ordered s" "world_ok s" and open_pipe: "pp_open (ow_pipes s (pe_process (rv_engine (ow_receiver s))))"
  shows "\<exists>s' us. output_steps e w h s s' \<and> rv_streaming_active (ow_receiver s')
    \<and> pe_current_codec (rv_engine (ow_receiver s')) = normalize_codec (vf_codec f)
    \<and> pp_written (ow_pipes s' (pe_process (rv_engine (ow_receiver s')))) =
        us @ [Access_Unit \<lparr>pb_bytes = vf_access_unit f, pb_timing = frame_timing f\<rparr>]"
proof -
  let ?k = "pe_process (rv_engine (ow_receiver s))" and ?ev = "Take_Frame 0 True True"
  let ?b = "\<lparr>pb_bytes = vf_access_unit f, pb_timing = frame_timing f\<rparr>"
  obtain t where t: "output_steps e w h s t" "ow_receiver t = ow_receiver s" "pp_waiting (ow_pipes t ?k) = []"
      "pp_open (ow_pipes t ?k)" "pp_capacity (ow_pipes t ?k) = pp_capacity (ow_pipes s ?k)"
    using drain [OF open_pipe] by blast
  have cap: "0 < pp_capacity (ow_pipes t ?k)"
    using ok(2) t(5) by (simp add: world_ok_def)
  define r' where "r' = receiver_step e ?ev (ow_receiver t)"
  have frame': "rv_frames (ow_receiver t) = [f]" "rv_streaming_active (ow_receiver t) \<or> vf_seq f \<le> 1"
    using frame t(2) by simp_all
  note taken = frame_taken [OF frame'(1) frame(2) frame'(2) r'_def]
  let ?k' = "pe_process (rv_engine r')"
  have next': "engine_next (rv_engine (ow_receiver t)) (rv_engine r')"
    unfolding taken(3) by simp
  moreover have "pe_writer (rv_engine (ow_receiver s)) = ?k"
    using ok(1) by (simp add: ordered_def Let_def)
  ultimately have writer: "pe_writer (rv_engine r') = ?k'"
    using t(2) by (auto simp: engine_next_def)
  have codec: "pe_current_codec (rv_engine r') = normalize_codec (vf_codec f)"
    using dashboard_reached [of "vf_codec f" "re_render_rect e" "''composed''" "re_env e" "re_connector e" "rv_engine (ow_receiver t)"]
    unfolding taken(3) by (simp add: is_configured_def)
  have played: "loop_played e ?ev t = [?b]"
    unfolding loop_played_def r'_def [symmetric] taken(2) by (simp del: receiver_step.simps)
  define p where "p = loop_pipes e ?ev t ?k'"
  have p_is: "p = (if ?k' = ?k then ow_pipes t ?k else new_pipe (pe_current_codec (rv_engine r')))"
    unfolding p_def loop_pipes_def Let_def r'_def [symmetric] by (simp add: t(2))
  have room: "has_room (ow_pipes t ?k)"
    using cap t(3) by (simp add: has_room_def)
  have p: "pp_open p" "has_room p" "pp_waiting p = []"
    unfolding p_is using t(3,4) room by (simp_all add: new_pipe_def has_room_def queue_capacity_def limits)
  define u where "u = loop_step e ?ev t"
  have u: "ow_receiver u = r'" "ow_pipes u ?k' = p\<lparr>pp_waiting := [Access_Unit ?b]\<rparr>"
    unfolding u_def loop_step_def Let_def played r'_def [symmetric] writer
    using p by (simp_all add: p_def try_send_def)
  have "output_step e w h t u"
    unfolding u_def by (rule loops) (simp add: loop_enabled_def played r'_def [symmetric] writer Let_def p [unfolded p_def] del: receiver_step.simps)
  moreover have "output_step e w h u (at_pipe ?k' write_next u)"
    by (rule writes) (simp add: u p)
  ultimately have "output_steps e w h s (at_pipe ?k' write_next u)"
    using t(1) by (meson rtranclp.rtrancl_into_rtrancl)
  moreover have "pp_written (ow_pipes (at_pipe ?k' write_next u) ?k') = pp_written p @ [Access_Unit ?b]"
    by (simp add: u write_next_def)
  ultimately show ?thesis
    using taken(1) codec u(1) by (intro exI [of _ "at_pipe ?k' write_next u"] exI [of _ "pp_written p"]) simp
qed

lemma format_codec_named: "format_ok h \<Longrightarrow> format_codec h = ''hevc'' \<or> format_codec h = ''h264''"
  by (auto simp: format_ok_def format_codec_def codec_of_tag_def split: if_splits)

section \<open>Properties\<close>

text \<open>
  Property C3. The whole way of a picture.  Take a world that the threads of the receiver reach, in which no frame is queued
  or waiting for a place in the queue, the process of the engine still reads, and either a stream is active or the access
  unit is the first of one (sequence number at most 1: the idle loop drops later ones).  When a client writes
  the chunks of an access unit that is new (above the last one completed, and not begun), in any order and in time, as
  messages of a media stream, the loop and the writer have a run after which the stream is active, the engine is configured
  for the codec of the chunks, and the last thing that its process was given is the access unit: the payloads in index
  order, nothing else.
\<close>

theorem cast_reaches_decoder:
  assumes "output_steps e w ht (start_output engine now) s" and "pe_writer engine = pe_process engine"
    and "pp_open (ow_pipes s (pe_process (rv_engine (ow_receiver s))))"
    and "rv_frames (ow_receiver s) = []" and "rv_waiting (ow_receiver s) = []"
    and "rv_streaming_active (ow_receiver s) \<or> fm_seq h \<le> 1"
    and "format_ok h" and "last_completed_seq (rv_reassembly (ow_receiver s)) < fm_seq h"
    and "\<forall>a \<in> set (assemblies (rv_reassembly (ow_receiver s))). as_seq a \<noteq> fm_seq h"
    and "distinct (map fst as)" and "set (map fst as) = {..<unat (fm_total h)}"
    and "\<forall>i < unat (fm_total h). pl i \<noteq> []"
    and "length (concat (map pl [0..<unat (fm_total h)])) \<le> MAX_ACCESS_UNIT_BYTES"
    and "\<forall>(i, now, clock) \<in> set as. now - fst (snd (hd as)) \<le> ASSEMBLY_TTL"
    and "bs = concat (map (\<lambda>a. framed (chunk_packet h (fst a) (pl (fst a)))) as)"
    and "\<forall>j < length as. readings j = snd (as ! j)"
  shows "\<exists>s' us b. output_steps e w ht (with_receiver (fold (receiver_step e) (uni_stream readings bs) (ow_receiver s)) s) s'
    \<and> output_steps e w ht s s' \<and> rv_streaming_active (ow_receiver s')
    \<and> pe_current_codec (rv_engine (ow_receiver s')) = normalize_codec (format_codec h)
    \<and> pp_written (ow_pipes s' (pe_process (rv_engine (ow_receiver s')))) = us @ [Access_Unit b]
    \<and> pb_bytes b = concat (map pl [0..<unat (fm_total h)])"
proof -
  define r where "r = fold (receiver_step e) (uni_stream readings bs) (ow_receiver s)"
  define t where "t = with_receiver r s"
  have ok: "ordered s" "world_ok s"
    using output_steps_ordered [OF assms(1) start_ordered [OF assms(2)]] output_steps_world_ok [OF assms(1) start_world_ok]
    by simp_all
  then have "reassembly_ok (rv_reassembly (ow_receiver s))"
    by (simp add: world_ok_def receiver_ok_def)
  from media_stream_is_queued_whole [where e = e, OF this assms(4,5,7-16)]
  obtain f where f: "rv_frames r = [f]" "vf_access_unit f = concat (map pl [0..<unat (fm_total h)])" "vf_seq f = fm_seq h"
      "vf_codec f = format_codec h"
    unfolding r_def by blast
  obtain ps where ps: "uni_stream readings bs = map packet_event ps"
    unfolding uni_stream_def enumerated_readings by blast
  have t: "output_steps e w ht s t" "ow_receiver t = r" "ow_pipes t = ow_pipes s"
    using packets_loop [of e w ht s ps] by (simp_all add: t_def r_def ps)
  have keep: "rv_engine r = rv_engine (ow_receiver s)" "rv_streaming_active r = rv_streaming_active (ow_receiver s)"
    unfolding r_def ps by (rule packets_keep)+
  have at_head: "rv_frames (ow_receiver t) = [f]" "vf_codec f = ''hevc'' \<or> vf_codec f = ''h264''"
      "rv_streaming_active (ow_receiver t) \<or> vf_seq f \<le> 1" "pp_open (ow_pipes t (pe_process (rv_engine (ow_receiver t))))"
    unfolding t(2,3) keep f(3,4) using f(1) assms(3,6) format_codec_named [OF assms(7)] by simp_all
  have "ordered t" "world_ok t"
    using output_steps_ordered [OF t(1)] output_steps_world_ok [OF t(1)] ok by simp_all
  from frame_into_decoder [where e = e and w = w and h = ht, OF at_head(1-3) this at_head(4)]
  obtain s' us where s': "output_steps e w ht t s'" "rv_streaming_active (ow_receiver s')"
      "pe_current_codec (rv_engine (ow_receiver s')) = normalize_codec (vf_codec f)"
      "pp_written (ow_pipes s' (pe_process (rv_engine (ow_receiver s')))) =
        us @ [Access_Unit \<lparr>pb_bytes = vf_access_unit f, pb_timing = frame_timing f\<rparr>]"
    by blast
  moreover have "output_steps e w ht s s'"
    using t(1) s'(1) by (rule rtranclp_trans)
  ultimately show ?thesis
    using f(2,4) unfolding t_def r_def by (metis playback_buffer.select_convs(1))
qed

theorem cast_reaches_decoder_witness:
  "\<exists>s' us b. output_steps sample_setup 2 1 (start_output sample_engine 0) s' \<and> rv_streaming_active (ow_receiver s')
    \<and> pp_written (ow_pipes s' (pe_process (rv_engine (ow_receiver s')))) = us @ [Access_Unit b] \<and> pb_bytes b = [1, 2, 3]"
proof -
  define s where "s = start_output sample_engine 0"
  have t: "unat (fm_total one_chunk_format) = 1" "fm_seq one_chunk_format = 1"
    by (simp_all add: one_chunk_format_def)
  have r: "ow_receiver s = initial_receiver sample_engine 0" "pp_open (ow_pipes s i)" for i
    by (simp_all add: s_def start_output_def)
  have start: "output_steps sample_setup 2 1 (start_output sample_engine 0) s"
    by (simp add: s_def)
  have "\<exists>s' us b. output_steps sample_setup 2 1 (with_receiver (fold (receiver_step sample_setup)
        (uni_stream (\<lambda>_. (3, NaN)) (framed (chunk_packet one_chunk_format 0 [1, 2, 3]))) (ow_receiver s)) s) s'
    \<and> output_steps sample_setup 2 1 s s' \<and> rv_streaming_active (ow_receiver s')
    \<and> pe_current_codec (rv_engine (ow_receiver s')) = normalize_codec (format_codec one_chunk_format)
    \<and> pp_written (ow_pipes s' (pe_process (rv_engine (ow_receiver s')))) = us @ [Access_Unit b]
    \<and> pb_bytes b = concat (map (\<lambda>_. [1, 2, 3]) [0..<unat (fm_total one_chunk_format)])"
    by (rule cast_reaches_decoder [where as = "[(0, 3, NaN)]", OF start])
       (auto simp: r initial_receiver_def initial_reassembly_def one_chunk_format_ok t limits sample_engine_def)
  then show ?thesis
    by (auto simp: t s_def)
qed

end
