(* ===== verification/Spec2Isabelle.thy ===== *)
theory Spec2Isabelle
  imports Reassembly_Correct Config_Correct Pairing_Correct Net Discovery_Correct Management_Correct Casting_System Supervisor_Lifecycle Admin_Correct Http_Correct Drm_Correct Dashboard_Correct Cert_Correct Bitstream Session Updater Drm_Card Admin_Cli Diagnostics Startup Dashboard_Output Portal_Server Registration Pairing_System
    Telemetry Udp_System Output_Order Oplog_Journal Reassembly_Memory Sockets Dashboard_Encoder
    Casting_Output
begin

text \<open>
  A verification library of the LLrdc casting receiver, the Rust program under \<open>src/src\<close>.

  \<^bold>\<open>The program.\<close>  Two processes run on a board behind a display.  The receiver (\<open>main.rs\<close>) accepts browsers over
  WebTransport (\<open>webtransport_server.rs\<close>), checks their pairing code (\<open>local_pairing.rs\<close>) or cloud token
  (\<open>cloud_discovery.rs\<close>), reassembles the access units they send in chunks (\<open>v4l2_decoder.rs\<close>) and feeds them to a
  GStreamer process (\<open>playback.rs\<close>); without a stream it draws a dashboard (\<open>text.rs\<close>, \<open>dashboard.rs\<close>) for the mode it
  found (\<open>drm_kms.rs\<close>).  It serves the browser's page (\<open>http_server.rs\<close>, \<open>ui_delivery.rs\<close>) and answers the manager on a
  Unix socket (\<open>receiver_ipc.rs\<close>, \<open>admin_protocol.rs\<close>).  The manager (\<open>bin/llrdc-management.rs\<close>, \<open>supervisor.rs\<close>) starts,
  watches and restarts the receiver, keeps a journal (\<open>operational_log.rs\<close>), rotates the certificate (\<open>cert.rs\<close>) and serves
  the portal (\<open>admin.rs\<close>), from which settings (\<open>config.rs\<close>) are changed and updates (\<open>update.rs\<close>) asked for.

  \<^bold>\<open>Theories and sources.\<close>  Below everything are \<open>Prelude\<close> (machine types, the four interfaces, generic lemmas), \<open>Rust_Std\<close>
  (strings as UTF-8 bytes, integer parsing and printing), \<open>Rust_Float\<close> (IEEE arithmetic of \<open>f64\<close> and \<open>f32\<close>) and
  \<open>Config_Limits\<close> (the constants of \<open>config.rs\<close>, under their own names).  A theory of operations is followed by one or more
  of what they promise:
  \<^item> \<open>Config\<close>, \<open>Config_Correct\<close>: settings, validation, the YAML document, saving.
  \<^item> \<open>Pairing\<close>, \<open>Pairing_Correct\<close>: the code, its expiry and the attempt limits of \<open>local_pairing.rs\<close>.
  \<^item> \<open>Net\<close>, \<open>Discovery\<close>, \<open>Discovery_Correct\<close>, \<open>Registration\<close>: local addresses; tokens, the replay cache and the registration
    loop; the request it sends and what its signature covers.
  \<^item> \<open>Reassembly\<close>, \<open>Reassembly_Invariant\<close>, \<open>Reassembly_Correct\<close>, \<open>Reassembly_Memory\<close>, \<open>Bitstream\<close>: \<open>process_udp_chunk\<close>, what its
    partial units hold, and the diagnostics behind it.
  \<^item> \<open>Management\<close>, \<open>Management_Correct\<close>: connections, the active stream, its samples and the session history of
    \<open>management.rs\<close>.
  \<^item> \<open>Control\<close>, \<open>Playback\<close>, \<open>Receiver\<close>, \<open>Receiver_Correct\<close>, \<open>Receiver_Timing\<close>: commands and telemetry, the engine, the
    event loop of \<open>main.rs\<close>, one \<open>receiver_step\<close> for each arm, and when an arm can be taken.
  \<^item> \<open>Webtransport\<close>, \<open>Webtransport_Correct\<close>, \<open>Session\<close>, \<open>Casting_System\<close>: admission, framing and control messages, the rounds
    of a session, and sessions composed with the receiver.  \<open>Pairing_System\<close> follows a code from the command line to admission,
    \<open>Udp_System\<close> a datagram that comes without one to the decoder, and \<open>Telemetry\<close> a message of the receiver to its clients.
  \<^item> \<open>Text_Draw\<close>, \<open>Text_Correct\<close>, \<open>Dashboard\<close>, \<open>Dashboard_Correct\<close>, \<open>Dashboard_Output\<close>: glyphs and text, the layout, the
    feeding thread, and the queues between it, the event loop and the GStreamer processes; \<open>Dashboard_Encoder\<close>: the ffmpeg
    process of the feeding thread; \<open>Output_Order\<close>: the order of a stream through the queues;
    \<open>Casting_Output\<close>: the way of an access unit from the media stream into the GStreamer process.
  \<^item> \<open>Drm_Kms\<close>, \<open>Drm_Correct\<close>, \<open>Drm_Card\<close>: EDID and modes; opening the card.
  \<^item> \<open>Cert\<close>, \<open>Cert_Correct\<close>, \<open>Portal_Server\<close>: the certificate files, and the portal's loop beside their rotation.
  \<^item> \<open>Http_Server\<close>, \<open>Http_Correct\<close>: the page server and its redirect.
  \<^item> \<open>Oplog\<close>, \<open>Oplog_Correct\<close>, \<open>Oplog_Journal\<close>, \<open>Redact\<close>: the journal, its files across a restart, and what is removed
    from its texts.  \<open>Sockets\<close>: the paths of the two Unix sockets.
  \<^item> \<open>Receiver_Ipc\<close>, \<open>Supervisor\<close>, \<open>Supervisor_Correct\<close>, \<open>Supervisor_Lifecycle\<close>: the socket of the receiver, the loop of the
    manager, and the five-phase machine it refines.
  \<^item> \<open>Admin\<close>, \<open>Admin_Correct\<close>, \<open>Admin_Cli\<close>, \<open>Updater\<close>, \<open>Diagnostics\<close>: requests of the portal, the command line through both
    sockets, requests to the host updater, and the portal's view with its diagnostics archive.
  \<^item> \<open>Startup\<close>: both \<open>main\<close> functions, and which settings reach which part.
\<close>

text \<open>
  \<^bold>\<open>Representation.\<close>  The state of a component is a record with the fields of the code's struct, statics or local variables;
  an operation is a function from the state to the state and its result, in the order the code has its checks.  What an
  operation reads from its surroundings (an instant, random bytes, whether a process could be spawned, what the kernel
  reports) is an argument, so that a property holds for every behaviour of them.  Instants and durations are natural numbers of
  nanoseconds.  Integers keep their width, with saturation and wrapping where the code has them.  Errors are \<open>Inl\<close> or
  \<open>None\<close>.  Concurrent tasks are sequences of steps (\<open>receiver_event\<close>, \<open>manager_event\<close>, \<open>session_arm\<close>, \<open>portal_event\<close>,
  \<open>task_event\<close>, \<open>idle_event\<close>, \<open>journal_op\<close>) or a
  step relation (\<open>output_step\<close>, \<open>loop_run\<close>, \<open>life_step\<close>): a section under one lock, or the body of one arm, is one step.

  \<^bold>\<open>Interfaces.\<close>  \<open>bounded_log\<close> is the contract of every ring (events, sessions, samples and latencies of the management state,
  replay cache, journal); \<open>invariant_machine\<close> of every state with steps that keep an invariant (reassembly, pairing and a
  code that stays, management, event loop, sessions, tasks of a control stream, feeding thread, manager), which \<open>refined_machine\<close> extends by an abstract machine (manager); \<open>message_format\<close> of the
  framings of the transport; \<open>byte_source\<close> of the two prefix streams; \<open>atomic_publish\<close> of files that are written aside and
  renamed (configuration, update requests).  Each is interpreted on the model in the theory of its provider.

  \<^bold>\<open>What is shown.\<close>  Invariants of every reachable state (reassembly, pairing, management, receiver, manager);
  functional correctness (reassembly in any order, accounting of frames, the picture determines the code, the code the
  command line prints admits a browser, a receiver runs with its settings, telemetry and access units arrive in order); safety (guessing limits, tokens used once, credentials checked, confirmed
  commands only, redaction, atomic replacement of files); equivalences and refinement (bitstream scan, EDID maximum, prefix
  streams, lifecycle of the manager); round trips (settings, messages, status, the journal across a restart); bounds (queues, columns of text, partial units);
  termination and liveness (reading of requests, restart of the receiver).  Where the code does not do what it means to, the
  theorem states what it does: the text before it says so.

  \<^bold>\<open>Bounds and fuel.\<close>  No model runs on fuel: every loop of the code over data is a structural recursion or a \<open>function\<close> with a
  measure (the rest of the buffer for the bitstream scan and for the framing of messages), and endless loops are folds over an
  arbitrary list of steps, so their properties hold after any number of rounds.

  \<^bold>\<open>Not modelled.\<close>  The QUIC, TLS, HTTP and WebSocket libraries, sockets behind their paths, processes and signals, ffmpeg
  and GStreamer, DRM system calls, X.509, RSA-PSS, HMAC, base64, JSON texts (JSON values are modelled; their printed form is a
  parameter), ZIP, the broadcast channel of the async library: they are arguments of the definitions that use them, with what the code relies on as named hypotheses.
  Lines printed to the console are left out where nothing depends on them.  Poisoned locks are left out: a panic under a lock
  ends the thread.  The client (\<open>client\<close>), the Cloudflare worker (\<open>cloudflare\<close>) and the scripts are other languages.
\<close>

end
